(* ===== verification/Go_Prelude.thy ===== *)
theory Go_Prelude
  imports Complex_Main "HOL-Library.Signed_Division" "HOL-Library.Sublist" "HOL-Library.Code_Target_Nat"
begin

text \<open>
  The part of the Go language and of its standard library that the driver uses, shared by all the
  components: 64-bit and 32-bit signed integers (\<^verbatim>\<open>int64\<close>, \<^verbatim>\<open>int32\<close>, as \<open>int\<close> with the wrap-around
  written out), the functions of package \<^verbatim>\<open>strings\<close> and the base-10 conversions of package
  \<^verbatim>\<open>strconv\<close>.

  A Go string is a sequence of bytes, here \<^typ>\<open>string\<close>. The case mapping of \<^verbatim>\<open>strings.ToLower\<close> and the
  white space of \<^verbatim>\<open>strings.TrimSpace\<close> are those of ASCII, which is what the names and the command
  output the driver handles consist of (Kubernetes names are DNS labels, LVM names are restricted to
  \<^verbatim>\<open>[a-zA-Z0-9+_.-]\<close>); bytes above 127 are left as they are.
\<close>

named_theorems go_arith \<open>wrap-around and truncated division on 64-bit integers\<close>
named_theorems go_str \<open>facts on the string functions\<close>


section \<open>Machine integers\<close>

definition max_int64 :: int where
  "max_int64 = 2 ^ 63 - 1"

definition min_int64 :: int where
  "min_int64 = - (2 ^ 63)"

definition in_int64 :: "int \<Rightarrow> bool" where
  "in_int64 x \<longleftrightarrow> min_int64 \<le> x \<and> x \<le> max_int64"

text \<open>Two's complement: the value an \<^verbatim>\<open>int64\<close> (\<^verbatim>\<open>int32\<close>) variable holds after the operation whose
  exact result is \<open>x\<close>.\<close>

definition wrap64 :: "int \<Rightarrow> int" where
  "wrap64 x = (x + 2 ^ 63) mod 2 ^ 64 - 2 ^ 63"

definition wrap32 :: "int \<Rightarrow> int" where
  "wrap32 x = (x + 2 ^ 31) mod 2 ^ 32 - 2 ^ 31"

definition add64 :: "int \<Rightarrow> int \<Rightarrow> int" where
  "add64 a b = wrap64 (a + b)"

definition sub64 :: "int \<Rightarrow> int \<Rightarrow> int" where
  "sub64 a b = wrap64 (a - b)"

definition mul64 :: "int \<Rightarrow> int \<Rightarrow> int" where
  "mul64 a b = wrap64 (a * b)"

text \<open>Go's \<^verbatim>\<open>/\<close> truncates towards zero; the divisor is a nonzero constant in every use here.\<close>

definition quot64 :: "int \<Rightarrow> int \<Rightarrow> int" where
  "quot64 a b = wrap64 (a sdiv b)"

lemma wrap64_id [go_arith]: "in_int64 x \<Longrightarrow> wrap64 x = x"
  by (simp add: wrap64_def in_int64_def min_int64_def max_int64_def)

lemma wrap64_range [simp]: "in_int64 (wrap64 x)"
  using pos_mod_bound [of "2 ^ 64" "x + 2 ^ 63"] pos_mod_sign [of "2 ^ 64" "x + 2 ^ 63"]
  by (simp add: wrap64_def in_int64_def min_int64_def max_int64_def)

lemma wrap64_idem [simp]: "wrap64 (wrap64 x) = wrap64 x"
  by (rule wrap64_id) simp

lemma wrap64_add_left [simp]: "wrap64 (wrap64 x + y) = wrap64 (x + y)"
proof -
  have "wrap64 x + y + 2 ^ 63 = (x + 2 ^ 63) mod 2 ^ 64 + y"
    by (simp add: wrap64_def)
  then have "(wrap64 x + y + 2 ^ 63) mod 2 ^ 64 = (x + y + 2 ^ 63) mod 2 ^ 64"
    by (metis mod_add_left_eq add.commute add.left_commute)
  then show ?thesis
    unfolding wrap64_def [of "x + y"] wrap64_def [of "wrap64 x + y"] by (rule arg_cong)
qed

lemma sdiv_nonneg [go_arith]: "0 \<le> (a :: int) \<Longrightarrow> 0 < b \<Longrightarrow> a sdiv b = a div b"
  by (simp add: signed_divide_int_def sgn_if)

text \<open>\<^verbatim>\<open>int32(count)\<close> of a value that fits is that value.\<close>

lemma wrap32_id [go_arith]: "- (2 ^ 31) \<le> x \<Longrightarrow> x < 2 ^ 31 \<Longrightarrow> wrap32 x = x"
  by (simp add: wrap32_def)


section \<open>Package \<^verbatim>\<open>strings\<close>\<close>

definition lower_char :: "char \<Rightarrow> char" where
  "lower_char c = (let n = (of_char c :: nat) in if 65 \<le> n \<and> n \<le> 90 then char_of (n + 32) else c)"

definition ToLower :: "string \<Rightarrow> string" where
  "ToLower s = map lower_char s"

definition is_space :: "char \<Rightarrow> bool" where
  "is_space c = (let n = (of_char c :: nat) in n = 32 \<or> 9 \<le> n \<and> n \<le> 13)"

definition TrimSpace :: "string \<Rightarrow> string" where
  "TrimSpace s = rev (dropWhile is_space (rev (dropWhile is_space s)))"

definition HasPrefix :: "string \<Rightarrow> string \<Rightarrow> bool" where
  "HasPrefix s p \<longleftrightarrow> take (length p) s = p"

definition HasSuffix :: "string \<Rightarrow> string \<Rightarrow> bool" where
  "HasSuffix s p \<longleftrightarrow> HasPrefix (rev s) (rev p)"

definition TrimPrefix :: "string \<Rightarrow> string \<Rightarrow> string" where
  "TrimPrefix s p = (if HasPrefix s p then drop (length p) s else s)"

definition TrimSuffix :: "string \<Rightarrow> string \<Rightarrow> string" where
  "TrimSuffix s p = (if HasSuffix s p then take (length s - length p) s else s)"

fun Contains :: "string \<Rightarrow> string \<Rightarrow> bool" where
  "Contains [] p = (p = [])"
| "Contains (c # s) p = (HasPrefix (c # s) p \<or> Contains s p)"

text \<open>\<^verbatim>\<open>strings.Split\<close> for a separator of one byte, the only kind the driver uses with it.\<close>

fun Split :: "char \<Rightarrow> string \<Rightarrow> string list" where
  "Split sep [] = [[]]"
| "Split sep (c # s) =
     (if c = sep then [] # Split sep s
      else (case Split sep s of [] \<Rightarrow> [[c]] | w # ws \<Rightarrow> (c # w) # ws))"

text \<open>\<^verbatim>\<open>strings.SplitN(s, sep, 2)\<close>: the text before the first occurrence of \<open>sep\<close> and the rest, or
  the whole text when \<open>sep\<close> does not occur.\<close>

fun SplitN2 :: "string \<Rightarrow> string \<Rightarrow> string list" where
  "SplitN2 sep [] = [[]]"
| "SplitN2 sep (c # s) =
     (if HasPrefix (c # s) sep then [[], drop (length sep) (c # s)]
      else (case SplitN2 sep s of [] \<Rightarrow> [[c]] | w # ws \<Rightarrow> (c # w) # ws))"

text \<open>\<^verbatim>\<open>strings.Replace(s, old, new, -1)\<close> for an \<open>old\<close> of one byte.\<close>

definition ReplaceAll :: "char \<Rightarrow> string \<Rightarrow> string \<Rightarrow> string" where
  "ReplaceAll c new s = concat (map (\<lambda>x. if x = c then new else [x]) s)"

fun Join :: "string \<Rightarrow> string list \<Rightarrow> string" where
  "Join sep [] = []"
| "Join sep [w] = w"
| "Join sep (w # v # ws) = w @ sep @ Join sep (v # ws)"

lemma HasPrefix_append [simp]: "HasPrefix (p @ s) p"
  by (simp add: HasPrefix_def)

lemma HasPrefix_iff [go_str]: "HasPrefix s p \<longleftrightarrow> (\<exists>t. s = p @ t)"
  by (metis HasPrefix_append HasPrefix_def append_take_drop_id)

lemma HasSuffix_iff [go_str]: "HasSuffix s p \<longleftrightarrow> (\<exists>t. s = t @ p)"
  by (auto simp: HasSuffix_def HasPrefix_iff) (metis rev_append rev_rev_ident)

lemma TrimPrefix_append [simp]: "TrimPrefix (p @ s) p = s"
  by (simp add: TrimPrefix_def)

lemma TrimSuffix_append [simp]: "TrimSuffix (s @ p) p = s"
  by (simp add: TrimSuffix_def HasSuffix_def)

lemma lower_char_idem [simp]: "lower_char (lower_char c) = lower_char c"
proof -
  define n where "n = (of_char c :: nat)"
  have "of_char (char_of (n + 32) :: char) = n + 32" if "n \<le> 90"
    using that by (simp add: take_bit_eq_mod)
  then show ?thesis
    by (simp add: lower_char_def n_def [symmetric] Let_def)
qed

lemma ToLower_idem [simp]: "ToLower (ToLower s) = ToLower s"
  by (simp add: ToLower_def)

lemma ToLower_Nil [simp]: "ToLower [] = []"
  by (simp add: ToLower_def)

lemma ToLower_eq_Nil [simp]: "ToLower s = [] \<longleftrightarrow> s = []"
  by (simp add: ToLower_def)

lemma length_Split [go_str]: "length (Split sep s) = Suc (count_list s sep)"
  by (induction s) (auto split: list.splits)

lemma Split_not_Nil [simp]: "Split sep s \<noteq> []"
  by (cases s) (auto split: list.splits)

lemma Split_no_sep [go_str]: "sep \<notin> set s \<Longrightarrow> Split sep s = [s]"
  by (induction s) auto

lemma Split_append_sep [go_str]:
  "sep \<notin> set s \<Longrightarrow> Split sep (s @ sep # t) = s # Split sep t"
  by (induction s) auto

lemma Join_Cons [simp]: "ws \<noteq> [] \<Longrightarrow> Join sep (w # ws) = w @ sep @ Join sep ws"
  by (cases ws) auto

lemma Join_Split: "Join [sep] (Split sep s) = s"
proof (induction s)
  case Nil
  then show ?case by simp
next
  case (Cons c s)
  obtain w ws where "Split sep s = w # ws"
    by (cases "Split sep s") auto
  with Cons show ?case
    by (cases ws) auto
qed

lemma dropWhile_no_space: "\<forall>c \<in> set s. \<not> is_space c \<Longrightarrow> dropWhile is_space s = s"
  by (cases s) auto

lemma TrimSpace_id [go_str]: "\<forall>c \<in> set s. \<not> is_space c \<Longrightarrow> TrimSpace s = s"
  using dropWhile_no_space [of s] dropWhile_no_space [of "rev s"] by (simp add: TrimSpace_def)

lemma TrimSpace_idem [simp]: "TrimSpace (TrimSpace s) = TrimSpace s"
proof -
  define t where "t = dropWhile is_space s"
  define u where "u = rev (dropWhile is_space (rev t))"
  have "rev t = takeWhile is_space (rev t) @ dropWhile is_space (rev t)" by simp
  then have t: "t = u @ rev (takeWhile is_space (rev t))"
    unfolding u_def by (metis rev_append rev_rev_ident)
  have "dropWhile is_space u = u"
  proof (cases u)
    case (Cons c cs)
    then have "t = c # (cs @ rev (takeWhile is_space (rev t)))" using t by simp
    then have "\<not> is_space c" unfolding t_def by (metis hd_dropWhile list.sel(1) neq_Nil_conv)
    then show ?thesis using Cons by simp
  qed simp
  moreover have "dropWhile is_space (rev u) = rev u"
    by (simp add: u_def)
  ultimately show ?thesis
    by (simp add: TrimSpace_def flip: t_def u_def)
qed


section \<open>Package \<^verbatim>\<open>strconv\<close>, base 10\<close>

text \<open>The reason a conversion fails. The Go functions return a value beside the error
  (\<open>0\<close> for a syntax error, the nearest bound for a range error), and
  \<^verbatim>\<open>parseVolumeGroup\<close> uses it, so the model returns both.\<close>

datatype num_error = ErrSyntax | ErrRange

definition digit_char :: "nat \<Rightarrow> char" where
  "digit_char d = char_of (48 + d)"

definition digit_val :: "char \<Rightarrow> nat option" where
  "digit_val c = (let n = (of_char c :: nat) in if 48 \<le> n \<and> n \<le> 57 then Some (n - 48) else None)"

fun format_nat :: "nat \<Rightarrow> string" where
  "format_nat n = (if n < 10 then [digit_char n] else format_nat (n div 10) @ [digit_char (n mod 10)])"

declare format_nat.simps [simp del]

definition FormatInt :: "int \<Rightarrow> string" where
  "FormatInt i = (if i < 0 then CHR ''-'' # format_nat (nat (- i)) else format_nat (nat i))"

text \<open>The loop of \<^verbatim>\<open>strconv.ParseUint(s, 10, 64)\<close>: the first byte that is not a digit, or the first
  digit that takes the value above \<open>2^64 - 1\<close>, ends it.\<close>

fun parse_digits :: "nat \<Rightarrow> string \<Rightarrow> nat \<times> num_error option" where
  "parse_digits n [] = (n, None)"
| "parse_digits n (c # s) =
     (case digit_val c of
        None \<Rightarrow> (0, Some ErrSyntax)
      | Some d \<Rightarrow> if 2 ^ 64 \<le> n * 10 + d then (2 ^ 64 - 1, Some ErrRange) else parse_digits (n * 10 + d) s)"

definition ParseUint :: "string \<Rightarrow> nat \<times> num_error option" where
  "ParseUint s = (if s = [] then (0, Some ErrSyntax) else parse_digits 0 s)"

definition ParseInt :: "string \<Rightarrow> int \<times> num_error option" where
  "ParseInt s =
     (let neg = HasPrefix s ''-'';
          digits = (if HasPrefix s ''+'' \<or> neg then drop 1 s else s)
      in case ParseUint digits of
           (un, Some ErrSyntax) \<Rightarrow> (0, Some ErrSyntax)
         | (un, _) \<Rightarrow>
             if \<not> neg \<and> 2 ^ 63 \<le> un then (max_int64, Some ErrRange)
             else if neg \<and> 2 ^ 63 < un then (min_int64, Some ErrRange)
             else (if neg then - int un else int un, None))"

text \<open>\<^verbatim>\<open>strconv.Atoi\<close> is \<^verbatim>\<open>ParseInt(s, 10, 0)\<close>, and \<^verbatim>\<open>int\<close> has 64 bits on the supported platforms.\<close>

definition Atoi :: "string \<Rightarrow> int \<times> num_error option" where
  "Atoi s = ParseInt s"

lemma digit_val_digit_char [simp]: "d < 10 \<Longrightarrow> digit_val (digit_char d) = Some d"
  by (simp add: digit_val_def digit_char_def take_bit_eq_mod)

lemma digit_char_no_sign [simp]: "d < 10 \<Longrightarrow> digit_char d \<noteq> CHR ''-'' \<and> digit_char d \<noteq> CHR ''+''"
proof (rule ccontr)
  assume d: "d < 10" and "\<not> (digit_char d \<noteq> CHR ''-'' \<and> digit_char d \<noteq> CHR ''+'')"
  then have "digit_val (digit_char d) = None"
    by (auto simp: digit_val_def)
  with d show False by simp
qed

lemma format_nat_not_Nil [simp]: "format_nat n \<noteq> []"
  by (subst format_nat.simps) simp

lemma parse_digits_append:
  "parse_digits n (s @ [digit_char d]) =
     (case parse_digits n s of
        (m, None) \<Rightarrow> if 2 ^ 64 \<le> m * 10 + d then (2 ^ 64 - 1, Some ErrRange) else (m * 10 + d, None)
      | r \<Rightarrow> r)" if "d < 10"
  using that by (induction s arbitrary: n) (auto split: option.splits prod.splits)

lemma parse_format_nat: "n < 2 ^ 64 \<Longrightarrow> parse_digits 0 (format_nat n) = (n, None)"
proof (induction n rule: format_nat.induct)
  case (1 n)
  show ?case
  proof (cases "n < 10")
    case True
    then show ?thesis by (simp add: format_nat.simps [of n])
  next
    case False
    with 1 have "parse_digits 0 (format_nat (n div 10)) = (n div 10, None)" by simp
    with False "1.prems" show ?thesis
      by (simp add: format_nat.simps [of n] parse_digits_append)
  qed
qed

lemma hd_format_nat: "\<exists>d s. d < 10 \<and> format_nat n = digit_char d # s"
proof (induction n rule: format_nat.induct)
  case (1 n)
  then show ?case
    by (cases "n < 10") (auto simp: format_nat.simps [of n])
qed

lemma ParseUint_format_nat [simp]: "n < 2 ^ 64 \<Longrightarrow> ParseUint (format_nat n) = (n, None)"
  by (simp add: ParseUint_def parse_format_nat)

lemma ParseInt_FormatInt [simp]:
  assumes "in_int64 i"
  shows "ParseInt (FormatInt i) = (i, None)"
proof -
  have neg: "nat (- i) \<le> 2 ^ 63" and pos: "nat i < 2 ^ 63"
    using assms by (auto simp: in_int64_def min_int64_def max_int64_def)
  obtain d s where "d < 10" "format_nat (nat i) = digit_char d # s"
    using hd_format_nat by blast
  then have "\<not> HasPrefix (format_nat (nat i)) ''-''" "\<not> HasPrefix (format_nat (nat i)) ''+''"
    by (auto simp: HasPrefix_def)
  with neg pos show ?thesis
    by (cases "i < 0") (simp_all add: ParseInt_def FormatInt_def HasPrefix_def Let_def)
qed

lemma FormatInt_not_Nil [simp]: "FormatInt i \<noteq> []"
  by (simp add: FormatInt_def)

lemma FormatInt_inj: "in_int64 i \<Longrightarrow> in_int64 j \<Longrightarrow> FormatInt i = FormatInt j \<Longrightarrow> i = j"
  by (metis ParseInt_FormatInt fst_conv)

lemma digit_char_no_space: "d < 10 \<Longrightarrow> \<not> is_space (digit_char d)"
  by (simp add: is_space_def digit_char_def of_char_of Let_def)

lemma format_nat_no_space: "\<forall>c \<in> set (format_nat n). \<not> is_space c"
proof (induction n rule: format_nat.induct)
  case (1 n)
  then show ?case
    by (subst format_nat.simps) (auto simp: digit_char_no_space)
qed

lemma TrimSpace_FormatInt [simp]: "TrimSpace (FormatInt i) = FormatInt i"
  using format_nat_no_space by (intro TrimSpace_id) (auto simp: FormatInt_def is_space_def)

lemma ParseInt_range: "ParseInt s = (i, e) \<Longrightarrow> in_int64 i"
  by (auto simp: ParseInt_def in_int64_def min_int64_def max_int64_def Let_def
      split: prod.splits option.splits num_error.splits if_splits)

end
