(* ===== verification/Api_Types.thy ===== *)
theory Api_Types
  imports Go_Prelude
begin

text \<open>
  The custom resources of the driver (\<^verbatim>\<open>src/pkg/apis/openebs.io/lvm/v1alpha1\<close>), the structures the
  LVM reports are decoded into (\<^verbatim>\<open>LogicalVolume\<close> and \<^verbatim>\<open>PhysicalVolume\<close> of
  \<^verbatim>\<open>src/pkg/lvm/lvm_util.go\<close>) and the error values that the components exchange.

  A Go struct is a record. The metadata that Go embeds (\<^verbatim>\<open>metav1.ObjectMeta\<close>) is the parent record of
  the three resources, so that \<open>Name vol\<close> reads as the Go text does; of its fields those are kept that
  the driver reads or writes. \<^verbatim>\<open>Finalizers\<close> is a slice whose being \<^verbatim>\<open>nil\<close> is observed by the code,
  hence an option. A \<^verbatim>\<open>resource.Quantity\<close> is the integer it denotes: the driver only builds it from an
  \<^verbatim>\<open>int64\<close> and only reads it with \<^verbatim>\<open>Value\<close> and \<^verbatim>\<open>Cmp\<close>.
\<close>

section \<open>Errors\<close>

text \<open>gRPC status codes used by the driver.\<close>

datatype code =
    InvalidArgument | Internal | NotFound | AlreadyExists | Aborted | ResourceExhausted
  | Unimplemented | Unavailable | DeadlineExceeded | Canceled

text \<open>The reason of an error that the Kubernetes API reports.\<close>

datatype api_reason = ReasonNotFound | ReasonAlreadyExists | ReasonConflict | ReasonOther

text \<open>
  An error keeps the structure the code gives it: a gRPC status, an error of the API server, an
  \<^verbatim>\<open>ExecError\<close> with the output of the command, an error that wraps another
  (\<^verbatim>\<open>errors.Wrapf\<close>), a new error (\<^verbatim>\<open>errors.New\<close>, \<^verbatim>\<open>fmt.Errorf\<close>) or an error of the operating
  system or of a library. A message is the list of its literal parts, with an embedded error where the
  code formats one, since the rendering of library errors is not part of the driver.
\<close>

datatype gerr =
    StatusErr code "mpart list"
  | ApiErr api_reason string
  | ExecErr string gerr
  | WrapErr gerr "mpart list"
  | NewErr "mpart list"
  | NumErr num_error string
  | ExternErr string
and mpart = MStr string | MErr gerr

type_synonym msg = "mpart list"

text \<open>\<^verbatim>\<open>k8serror.IsNotFound\<close>: looks through wrapping errors for an API status of that reason.\<close>

fun IsNotFound :: "gerr \<Rightarrow> bool" where
  "IsNotFound (ApiErr r _) = (r = ReasonNotFound)"
| "IsNotFound (WrapErr e _) = IsNotFound e"
| "IsNotFound _ = False"

fun status_code :: "gerr \<Rightarrow> code option" where
  "status_code (StatusErr c _) = Some c"
| "status_code _ = None"


section \<open>Custom resources\<close>

record OwnerReference =
  or_APIVersion :: string
  or_Kind :: string
  or_Name :: string
  or_UID :: string
  or_Controller :: "bool option"

record ObjectMeta =
  Name :: string
  Namespace :: string
  Labels :: "string \<rightharpoonup> string"
  Finalizers :: "string list option"
  DeletionTimestamp :: "int option"
  OwnerReferences :: "OwnerReference list"

datatype VolumeErrorCode = VolErrInternal | InsufficientCapacity

record VolumeError =
  ve_Code :: VolumeErrorCode
  ve_Message :: msg

record VolumeInfo =
  OwnerNodeID :: string
  VolGroup :: string
  VgPattern :: string
  Capacity :: string
  Shared :: string
  ThinProvision :: string

record VolStatus =
  State :: string
  StatusError :: "VolumeError option"

record LVMVolume = ObjectMeta +
  Spec :: VolumeInfo
  Status :: VolStatus

record LVMSnapshotSpec =
  snap_OwnerNodeID :: string
  snap_VolGroup :: string
  SnapSize :: string

record SnapStatus =
  snap_State :: string

record LVMSnapshot = ObjectMeta +
  snap_Spec :: LVMSnapshotSpec
  snap_Status :: SnapStatus

record VolumeGroup =
  vg_Name :: string
  vg_UUID :: string
  vg_Size :: int
  vg_Free :: int
  vg_LVCount :: int
  vg_PVCount :: int
  vg_MaxLV :: int
  vg_MaxPV :: int
  vg_SnapCount :: int
  vg_MissingPVCount :: int
  vg_MetadataCount :: int
  vg_MetadataUsedCount :: int
  vg_MetadataFree :: int
  vg_MetadataSize :: int
  vg_Permission :: int
  vg_AllocationPolicy :: int

record LVMNode = ObjectMeta +
  VolumeGroups :: "VolumeGroup list"

text \<open>The zero values that \<^verbatim>\<open>&apis.LVMVolume{}\<close> and its siblings denote.\<close>

definition zero_LVMVolume :: LVMVolume where
  "zero_LVMVolume =
     \<lparr>Name = [], Namespace = [], Labels = Map.empty, Finalizers = None, DeletionTimestamp = None,
      OwnerReferences = [],
      Spec = \<lparr>OwnerNodeID = [], VolGroup = [], VgPattern = [], Capacity = [], Shared = [],
              ThinProvision = []\<rparr>,
      Status = \<lparr>State = [], StatusError = None\<rparr>\<rparr>"

definition zero_LVMSnapshot :: LVMSnapshot where
  "zero_LVMSnapshot =
     \<lparr>Name = [], Namespace = [], Labels = Map.empty, Finalizers = None, DeletionTimestamp = None,
      OwnerReferences = [],
      snap_Spec = \<lparr>snap_OwnerNodeID = [], snap_VolGroup = [], SnapSize = []\<rparr>,
      snap_Status = \<lparr>snap_State = []\<rparr>\<rparr>"

definition zero_LVMNode :: LVMNode where
  "zero_LVMNode =
     \<lparr>Name = [], Namespace = [], Labels = Map.empty, Finalizers = None, DeletionTimestamp = None,
      OwnerReferences = [], VolumeGroups = []\<rparr>"

definition zero_VolumeGroup :: VolumeGroup where
  "zero_VolumeGroup =
     \<lparr>vg_Name = [], vg_UUID = [], vg_Size = 0, vg_Free = 0, vg_LVCount = 0, vg_PVCount = 0,
      vg_MaxLV = 0, vg_MaxPV = 0, vg_SnapCount = 0, vg_MissingPVCount = 0, vg_MetadataCount = 0,
      vg_MetadataUsedCount = 0, vg_MetadataFree = 0, vg_MetadataSize = 0, vg_Permission = 0,
      vg_AllocationPolicy = 0\<rparr>"


section \<open>Package-level variables and constants\<close>

text \<open>The variables that \<^verbatim>\<open>init\<close> of \<^verbatim>\<open>src/pkg/lvm/volume.go\<close> sets once from the environment.\<close>

record globals =
  LvmNamespace :: string
  NodeID :: string
  GoogleAnalyticsEnabled :: string

abbreviation "LVMFinalizer \<equiv> ''lvm.openebs.io/finalizer''"
abbreviation "VolGroupKey \<equiv> ''openebs.io/volgroup''"
abbreviation "LVMVolKey \<equiv> ''openebs.io/persistent-volume''"
abbreviation "LVMNodeKey \<equiv> ''kubernetes.io/nodename''"
abbreviation "LVMTopologyKey \<equiv> ''openebs.io/nodename''"
abbreviation "LVMStatusPending \<equiv> ''Pending''"
abbreviation "LVMStatusFailed \<equiv> ''Failed''"
abbreviation "LVMStatusReady \<equiv> ''Ready''"
abbreviation "OpenEBSCasTypeKey \<equiv> ''openebs.io/cas-type''"
abbreviation "LVMCasTypeName \<equiv> ''localpv-lvm''"
abbreviation "YES \<equiv> ''yes''"

text \<open>Concrete package variables, used where a property is instantiated.\<close>

definition ex_G :: globals where
  "ex_G = \<lparr>LvmNamespace = ''openebs'', NodeID = ''node-1'', GoogleAnalyticsEnabled = []\<rparr>"

lemma ex_G_simps [simp]:
  "LvmNamespace ex_G = ''openebs''" "NodeID ex_G = ''node-1''" "GoogleAnalyticsEnabled ex_G = []"
  by (simp_all add: ex_G_def)

text \<open>\<^verbatim>\<open>append\<close> on a slice that may be \<^verbatim>\<open>nil\<close>: appending nothing leaves it \<^verbatim>\<open>nil\<close>.\<close>

fun append_slice :: "'a list option \<Rightarrow> 'a list \<Rightarrow> 'a list option" where
  "append_slice None [] = None"
| "append_slice None ys = Some ys"
| "append_slice (Some xs) ys = Some (xs @ ys)"

lemma append_slice_None_iff [simp]: "append_slice f xs = None \<longleftrightarrow> f = None \<and> xs = []"
  by (cases f; cases xs) auto

end
