(* ===== verification/Csi_Types.thy ===== *)
theory Csi_Types
  imports Api_Types
begin

text \<open>
  The messages of the Container Storage Interface that the handlers of \<^verbatim>\<open>src/pkg/driver\<close> receive and
  return, with the fields they read or set. A message field that may be absent (a Go pointer) is an
  option; a protobuf map is a partial function.
\<close>

section \<open>Volume capabilities and topology\<close>

datatype AccessMode =
    MODE_UNKNOWN | SINGLE_NODE_WRITER | SINGLE_NODE_READER_ONLY | MULTI_NODE_READER_ONLY
  | MULTI_NODE_SINGLE_WRITER | MULTI_NODE_MULTI_WRITER | SINGLE_NODE_SINGLE_WRITER
  | SINGLE_NODE_MULTI_WRITER

datatype AccessType = AccessBlock | AccessMount string "string list"

record VolumeCapability =
  vc_AccessMode :: "AccessMode option"
  vc_AccessType :: "AccessType option"

type_synonym segments = "string \<rightharpoonup> string"

record TopologyRequirement =
  tr_Requisite :: "segments list"
  tr_Preferred :: "segments list"

datatype VolumeContentSource = SourceSnapshot string | SourceVolume string | SourceNone

text \<open>\<^verbatim>\<open>GetMode\<close> on an absent access mode is the zero value of the enumeration.\<close>

definition GetMode :: "VolumeCapability \<Rightarrow> AccessMode" where
  "GetMode c = (case vc_AccessMode c of None \<Rightarrow> MODE_UNKNOWN | Some m \<Rightarrow> m)"

definition GetFsType :: "VolumeCapability option \<Rightarrow> string" where
  "GetFsType c = (case c of None \<Rightarrow> [] | Some c \<Rightarrow>
     (case vc_AccessType c of Some (AccessMount f _) \<Rightarrow> f | _ \<Rightarrow> []))"

definition GetMountFlags :: "VolumeCapability option \<Rightarrow> string list" where
  "GetMountFlags c = (case c of None \<Rightarrow> [] | Some c \<Rightarrow>
     (case vc_AccessType c of Some (AccessMount _ fs) \<Rightarrow> fs | _ \<Rightarrow> []))"


section \<open>Controller requests\<close>

record CreateVolumeRequest =
  cv_Name :: string
  cv_RequiredBytes :: "int option"
  cv_Capabilities :: "VolumeCapability list option"
  cv_Parameters :: "string \<rightharpoonup> string"
  cv_ContentSource :: "VolumeContentSource option"
  cv_Accessibility :: "TopologyRequirement option"

record CreateVolumeResponse =
  VolumeId :: string
  CapacityBytes :: int
  VolumeContext :: "string \<rightharpoonup> string"
  ContentSource :: "VolumeContentSource option"
  AccessibleTopology :: "segments list"

record ExpandVolumeResponse =
  ev_CapacityBytes :: int
  NodeExpansionRequired :: bool

record CreateSnapshotRequest =
  sr_Name :: string
  sr_SourceVolumeId :: string
  sr_Parameters :: "string \<rightharpoonup> string"

record SnapshotResponse =
  SizeBytes :: int
  SnapshotId :: string
  SourceVolumeId :: string
  CreationTime :: "(int \<times> int) option"
  ReadyToUse :: bool

text \<open>The types of RPC a controller may announce.\<close>

datatype RpcType =
    RPC_UNKNOWN | RPC_CREATE_DELETE_VOLUME | RPC_PUBLISH_UNPUBLISH_VOLUME | RPC_LIST_VOLUMES
  | RPC_GET_CAPACITY | RPC_CREATE_DELETE_SNAPSHOT | RPC_LIST_SNAPSHOTS | RPC_CLONE_VOLUME
  | RPC_EXPAND_VOLUME


section \<open>Node requests\<close>

record NodePublishRequest =
  np_VolumeId :: string
  np_TargetPath :: string
  np_Capability :: "VolumeCapability option"
  np_Readonly :: bool
  np_VolumeContext :: "string \<rightharpoonup> string"

record NodeExpandRequest =
  ne_VolumeId :: string
  ne_VolumePath :: string
  ne_Capability :: "VolumeCapability option"
  ne_RequiredBytes :: "int option"

text \<open>\<^verbatim>\<open>unix.Statfs_t\<close>: the counters are \<^verbatim>\<open>uint64\<close>, the block size is \<^verbatim>\<open>int64\<close>; all as the integers
  they hold.\<close>

record Statfs_t =
  Blocks :: int
  Bfree :: int
  Bavail :: int
  Files :: int
  Ffree :: int
  Bsize :: int

text \<open>The request to \<^verbatim>\<open>iolimit.SetIOLimits\<close> of \<^verbatim>\<open>lib-csi\<close>; the limits are \<^verbatim>\<open>uint64\<close>.\<close>

record IOLimitRequest =
  io_DeviceName :: string
  io_PodUid :: string
  io_ContainerRuntime :: string
  io_Riops :: nat
  io_Wiops :: nat
  io_Rbps :: nat
  io_Wbps :: nat

end
