(* ===== verification/Effects.thy ===== *)
theory Effects
  imports Csi_Types
begin

text \<open>
  How the driver talks to the world. Everything that is not computed by the driver itself - the
  Kubernetes API server, the informer caches and work queues of \<^verbatim>\<open>client-go\<close>, the LVM commands, the
  mount table and the file system, the clock, the scheduler of \<^verbatim>\<open>lib-csi\<close> - is reached by an
  operation whose answer the model leaves open. A function of the driver that performs such
  operations is a value of type \<open>'a prog\<close>: it returns, crashes (a Go panic or \<^verbatim>\<open>klog.Fatal\<close>), or
  performs one operation and continues with a function of the answer.

  \<^item> \<open>runs p tr r\<close>: the program \<open>p\<close> can perform exactly the operations of the trace \<open>tr\<close>, receiving the
    answers recorded there, and end with the outcome \<open>r\<close>. Theorems about all runs therefore hold for
    every behaviour of the environment.
  \<^item> \<open>wp p Q tr\<close>: started after the trace \<open>tr\<close>, every run of \<open>p\<close> ends with an outcome and a trace
    that satisfy \<open>Q\<close>. This is the calculus the proofs use; \<open>wp_iff_runs\<close> relates the two.
  \<^item> \<open>exec_env E p w\<close>: the run of \<open>p\<close> against an environment \<open>E\<close> with states of type \<open>'w\<close>, one
    function per kind of operation; \<open>exec_env_runs\<close> shows that it is one of the runs.
\<close>

section \<open>Operations and answers\<close>

datatype stat_result = StatOk | StatNotExist | StatErr gerr

text \<open>
  How a context ends. Where the code polls in a loop until its context is done, the environment says how
  many times the \<^verbatim>\<open>select\<close> takes the timer before it takes \<^verbatim>\<open>ctx.Done()\<close>, and with which error the
  context ends; a request to the driver always carries a context that ends.
\<close>

datatype ctx_err = CtxDeadlineExceeded | CtxCanceled

text \<open>
  The order in which Go ranges over maps is not determined. A function that depends on it asks the
  environment for an order: for the \<open>i\<close>-th map it ranges over, a list of keys that come first. \<open>map_order\<close>
  completes it to a permutation of the keys of the map, and every permutation is reached.
\<close>

definition map_order :: "string list \<Rightarrow> string list \<Rightarrow> string list" where
  "map_order pref keys = filter (\<lambda>k. k \<in> set keys) (remdups pref) @ filter (\<lambda>k. k \<notin> set pref) keys"

text \<open>An item of a work queue is an \<^verbatim>\<open>interface{}\<close>: a string key, or something else.\<close>

datatype wq_item = WqKey string | WqOther

text \<open>Operations that answer with an error or with nothing.\<close>

datatype err_op =
    GetClientset string
  | VolDelete string string
  | SnapDelete string string
  | NodeDelete string string
  | FormatAndMount string string string "string list"
  | BindMount string string string "string list"
  | Unmount string
  | RemovePath string
  | MkdirAll string
  | OpenCreate string
  | SetIOLimits IOLimitRequest
  | ResizeBTRFS string
  | BeginCreateVolume string string string

text \<open>Operations without an answer.\<close>

datatype unit_op =
    WqAdd string
  | WqAddRateLimited string
  | WqForget wq_item
  | WqDone wq_item
  | FinishCreateVolume string
  | SendEvent string string string string

text \<open>\<^verbatim>\<open>RunCommandSplit\<close> answers with the standard output; the standard error is only logged by it and
  dropped by all its callers. \<^verbatim>\<open>CombinedOutput\<close> answers with both.\<close>

datatype exec_op = RunSplit string "string list" | RunCombined string "string list"

datatype str_op = EvalSymlinks string | ReadFile string | GitRevParse
datatype strs_op = GetMounts string
datatype bool_op = PathExists string | IsMountPath string

text \<open>The cache of Kubernetes nodes: all of them, or those an index has under a value. An object whose
  metadata cannot be accessed is an error.\<close>

datatype k8s_op = ListK8sNodes | K8sNodesByIndex string string

datatype vol_op =
    VolGet string string
  | VolCreate string LVMVolume
  | VolUpdate string LVMVolume

datatype snap_op =
    SnapGet string string
  | SnapCreate string LVMSnapshot
  | SnapUpdate string LVMSnapshot

datatype node_op =
    NodeGet string string
  | NodeCreate string LVMNode
  | NodeUpdate string LVMNode

section \<open>Programs\<close>

datatype 'a outcome = Val 'a | Crash string

datatype event =
    EvErr err_op "gerr option"
  | EvUnit unit_op unit
  | EvExec exec_op "string \<times> gerr option"
  | EvStat string stat_result
  | EvStr str_op "gerr + string"
  | EvStrs strs_op "gerr + string list"
  | EvBool bool_op "gerr + bool"
  | EvDev string "gerr + string \<times> int"
  | EvStatfs string "gerr + Statfs_t"
  | EvNow unit int
  | EvCtx unit "nat \<times> ctx_err"
  | EvOrder unit "nat \<Rightarrow> string list"
  | EvSched "TopologyRequirement option \<times> (string \<rightharpoonup> int)" "string list"
  | EvLabels string "gerr + (string \<rightharpoonup> string)"
  | EvWq unit "wq_item option"
  | EvVol vol_op "gerr + LVMVolume"
  | EvVols string "gerr + LVMVolume list"
  | EvVolCache "string \<times> string" "gerr + LVMVolume \<times> gerr option"
  | EvSnap snap_op "gerr + LVMSnapshot"
  | EvSnaps "string \<times> string \<times> string" "gerr + LVMSnapshot list"
  | EvSnapCache "string \<times> string" "gerr + LVMSnapshot \<times> gerr option"
  | EvNode node_op "gerr + LVMNode"
  | EvNodes string "gerr + LVMNode list"
  | EvNodeCache "string \<times> string" "gerr + LVMNode \<times> gerr option"
  | EvNodeKey string "gerr + LVMNode option"
  | EvK8sKeys unit "string list"
  | EvK8sNodes k8s_op "gerr + (gerr + string \<times> (string \<rightharpoonup> string)) list"

datatype 'a prog =
    Ret 'a
  | Panic string
  | OpErr err_op "(gerr option) \<Rightarrow> 'a prog"
  | OpUnit unit_op "unit \<Rightarrow> 'a prog"
  | OpExec exec_op "(string \<times> gerr option) \<Rightarrow> 'a prog"
  | OpStat string "stat_result \<Rightarrow> 'a prog"
  | OpStr str_op "(gerr + string) \<Rightarrow> 'a prog"
  | OpStrs strs_op "(gerr + string list) \<Rightarrow> 'a prog"
  | OpBool bool_op "(gerr + bool) \<Rightarrow> 'a prog"
  | OpDev string "(gerr + string \<times> int) \<Rightarrow> 'a prog"
  | OpStatfs string "(gerr + Statfs_t) \<Rightarrow> 'a prog"
  | OpNow unit "int \<Rightarrow> 'a prog"
  | OpCtx unit "(nat \<times> ctx_err) \<Rightarrow> 'a prog"
  | OpOrder unit "(nat \<Rightarrow> string list) \<Rightarrow> 'a prog"
  | OpSched "TopologyRequirement option \<times> (string \<rightharpoonup> int)" "(string list) \<Rightarrow> 'a prog"
  | OpLabels string "(gerr + (string \<rightharpoonup> string)) \<Rightarrow> 'a prog"
  | OpWq unit "(wq_item option) \<Rightarrow> 'a prog"
  | OpVol vol_op "(gerr + LVMVolume) \<Rightarrow> 'a prog"
  | OpVols string "(gerr + LVMVolume list) \<Rightarrow> 'a prog"
  | OpVolCache "string \<times> string" "(gerr + LVMVolume \<times> gerr option) \<Rightarrow> 'a prog"
  | OpSnap snap_op "(gerr + LVMSnapshot) \<Rightarrow> 'a prog"
  | OpSnaps "string \<times> string \<times> string" "(gerr + LVMSnapshot list) \<Rightarrow> 'a prog"
  | OpSnapCache "string \<times> string" "(gerr + LVMSnapshot \<times> gerr option) \<Rightarrow> 'a prog"
  | OpNode node_op "(gerr + LVMNode) \<Rightarrow> 'a prog"
  | OpNodes string "(gerr + LVMNode list) \<Rightarrow> 'a prog"
  | OpNodeCache "string \<times> string" "(gerr + LVMNode \<times> gerr option) \<Rightarrow> 'a prog"
  | OpNodeKey string "(gerr + LVMNode option) \<Rightarrow> 'a prog"
  | OpK8sKeys unit "(string list) \<Rightarrow> 'a prog"
  | OpK8sNodes k8s_op "(gerr + (gerr + string \<times> (string \<rightharpoonup> string)) list) \<Rightarrow> 'a prog"

primrec bindP :: "'a prog \<Rightarrow> ('a \<Rightarrow> 'b prog) \<Rightarrow> 'b prog" where
  "bindP (Ret a) f = f a"
| "bindP (Panic s) f = Panic s"
| "bindP (OpErr x k) f = OpErr x (\<lambda>r. bindP (k r) f)"
| "bindP (OpUnit x k) f = OpUnit x (\<lambda>r. bindP (k r) f)"
| "bindP (OpExec x k) f = OpExec x (\<lambda>r. bindP (k r) f)"
| "bindP (OpStat x k) f = OpStat x (\<lambda>r. bindP (k r) f)"
| "bindP (OpStr x k) f = OpStr x (\<lambda>r. bindP (k r) f)"
| "bindP (OpStrs x k) f = OpStrs x (\<lambda>r. bindP (k r) f)"
| "bindP (OpBool x k) f = OpBool x (\<lambda>r. bindP (k r) f)"
| "bindP (OpDev x k) f = OpDev x (\<lambda>r. bindP (k r) f)"
| "bindP (OpStatfs x k) f = OpStatfs x (\<lambda>r. bindP (k r) f)"
| "bindP (OpNow x k) f = OpNow x (\<lambda>r. bindP (k r) f)"
| "bindP (OpCtx x k) f = OpCtx x (\<lambda>r. bindP (k r) f)"
| "bindP (OpOrder x k) f = OpOrder x (\<lambda>r. bindP (k r) f)"
| "bindP (OpSched x k) f = OpSched x (\<lambda>r. bindP (k r) f)"
| "bindP (OpLabels x k) f = OpLabels x (\<lambda>r. bindP (k r) f)"
| "bindP (OpWq x k) f = OpWq x (\<lambda>r. bindP (k r) f)"
| "bindP (OpVol x k) f = OpVol x (\<lambda>r. bindP (k r) f)"
| "bindP (OpVols x k) f = OpVols x (\<lambda>r. bindP (k r) f)"
| "bindP (OpVolCache x k) f = OpVolCache x (\<lambda>r. bindP (k r) f)"
| "bindP (OpSnap x k) f = OpSnap x (\<lambda>r. bindP (k r) f)"
| "bindP (OpSnaps x k) f = OpSnaps x (\<lambda>r. bindP (k r) f)"
| "bindP (OpSnapCache x k) f = OpSnapCache x (\<lambda>r. bindP (k r) f)"
| "bindP (OpNode x k) f = OpNode x (\<lambda>r. bindP (k r) f)"
| "bindP (OpNodes x k) f = OpNodes x (\<lambda>r. bindP (k r) f)"
| "bindP (OpNodeCache x k) f = OpNodeCache x (\<lambda>r. bindP (k r) f)"
| "bindP (OpNodeKey x k) f = OpNodeKey x (\<lambda>r. bindP (k r) f)"
| "bindP (OpK8sKeys x k) f = OpK8sKeys x (\<lambda>r. bindP (k r) f)"
| "bindP (OpK8sNodes x k) f = OpK8sNodes x (\<lambda>r. bindP (k r) f)"

text \<open>A deferred operation: it runs when the function returns and when it panics.\<close>

primrec finallyP :: "'a prog \<Rightarrow> unit_op \<Rightarrow> 'a prog" where
  "finallyP (Ret a) u = OpUnit u (\<lambda>_. Ret a)"
| "finallyP (Panic s) u = OpUnit u (\<lambda>_. Panic s)"
| "finallyP (OpErr x k) u = OpErr x (\<lambda>r. finallyP (k r) u)"
| "finallyP (OpUnit x k) u = OpUnit x (\<lambda>r. finallyP (k r) u)"
| "finallyP (OpExec x k) u = OpExec x (\<lambda>r. finallyP (k r) u)"
| "finallyP (OpStat x k) u = OpStat x (\<lambda>r. finallyP (k r) u)"
| "finallyP (OpStr x k) u = OpStr x (\<lambda>r. finallyP (k r) u)"
| "finallyP (OpStrs x k) u = OpStrs x (\<lambda>r. finallyP (k r) u)"
| "finallyP (OpBool x k) u = OpBool x (\<lambda>r. finallyP (k r) u)"
| "finallyP (OpDev x k) u = OpDev x (\<lambda>r. finallyP (k r) u)"
| "finallyP (OpStatfs x k) u = OpStatfs x (\<lambda>r. finallyP (k r) u)"
| "finallyP (OpNow x k) u = OpNow x (\<lambda>r. finallyP (k r) u)"
| "finallyP (OpCtx x k) u = OpCtx x (\<lambda>r. finallyP (k r) u)"
| "finallyP (OpOrder x k) u = OpOrder x (\<lambda>r. finallyP (k r) u)"
| "finallyP (OpSched x k) u = OpSched x (\<lambda>r. finallyP (k r) u)"
| "finallyP (OpLabels x k) u = OpLabels x (\<lambda>r. finallyP (k r) u)"
| "finallyP (OpWq x k) u = OpWq x (\<lambda>r. finallyP (k r) u)"
| "finallyP (OpVol x k) u = OpVol x (\<lambda>r. finallyP (k r) u)"
| "finallyP (OpVols x k) u = OpVols x (\<lambda>r. finallyP (k r) u)"
| "finallyP (OpVolCache x k) u = OpVolCache x (\<lambda>r. finallyP (k r) u)"
| "finallyP (OpSnap x k) u = OpSnap x (\<lambda>r. finallyP (k r) u)"
| "finallyP (OpSnaps x k) u = OpSnaps x (\<lambda>r. finallyP (k r) u)"
| "finallyP (OpSnapCache x k) u = OpSnapCache x (\<lambda>r. finallyP (k r) u)"
| "finallyP (OpNode x k) u = OpNode x (\<lambda>r. finallyP (k r) u)"
| "finallyP (OpNodes x k) u = OpNodes x (\<lambda>r. finallyP (k r) u)"
| "finallyP (OpNodeCache x k) u = OpNodeCache x (\<lambda>r. finallyP (k r) u)"
| "finallyP (OpNodeKey x k) u = OpNodeKey x (\<lambda>r. finallyP (k r) u)"
| "finallyP (OpK8sKeys x k) u = OpK8sKeys x (\<lambda>r. finallyP (k r) u)"
| "finallyP (OpK8sNodes x k) u = OpK8sNodes x (\<lambda>r. finallyP (k r) u)"

text \<open>The pattern \<^verbatim>\<open>x, err := m; if err != nil { return err }\<close>.\<close>

definition tryP :: "(gerr + 'a) prog \<Rightarrow> ('a \<Rightarrow> (gerr + 'b) prog) \<Rightarrow> (gerr + 'b) prog" where
  "tryP m f = bindP m (\<lambda>r. case r of Inl e \<Rightarrow> Ret (Inl e) | Inr a \<Rightarrow> f a)"

text \<open>The single operations, and operations whose only answer is an error.\<close>

definition callErr :: "err_op \<Rightarrow> (gerr + unit) prog" where
  "callErr x = OpErr x (\<lambda>r. Ret (case r of None \<Rightarrow> Inr () | Some e \<Rightarrow> Inl e))"

definition callUnit :: "unit_op \<Rightarrow> unit prog" where
  "callUnit x = OpUnit x Ret"

section \<open>Runs\<close>

primrec runs :: "'a prog \<Rightarrow> event list \<Rightarrow> 'a outcome \<Rightarrow> bool" where
  "runs (Ret a) tr r = (tr = [] \<and> r = Val a)"
| "runs (Panic s) tr r = (tr = [] \<and> r = Crash s)"
| "runs (OpErr x k) tr r = (\<exists>y tr'. tr = EvErr x y # tr' \<and> runs (k y) tr' r)"
| "runs (OpUnit x k) tr r = (\<exists>y tr'. tr = EvUnit x y # tr' \<and> runs (k y) tr' r)"
| "runs (OpExec x k) tr r = (\<exists>y tr'. tr = EvExec x y # tr' \<and> runs (k y) tr' r)"
| "runs (OpStat x k) tr r = (\<exists>y tr'. tr = EvStat x y # tr' \<and> runs (k y) tr' r)"
| "runs (OpStr x k) tr r = (\<exists>y tr'. tr = EvStr x y # tr' \<and> runs (k y) tr' r)"
| "runs (OpStrs x k) tr r = (\<exists>y tr'. tr = EvStrs x y # tr' \<and> runs (k y) tr' r)"
| "runs (OpBool x k) tr r = (\<exists>y tr'. tr = EvBool x y # tr' \<and> runs (k y) tr' r)"
| "runs (OpDev x k) tr r = (\<exists>y tr'. tr = EvDev x y # tr' \<and> runs (k y) tr' r)"
| "runs (OpStatfs x k) tr r = (\<exists>y tr'. tr = EvStatfs x y # tr' \<and> runs (k y) tr' r)"
| "runs (OpNow x k) tr r = (\<exists>y tr'. tr = EvNow x y # tr' \<and> runs (k y) tr' r)"
| "runs (OpCtx x k) tr r = (\<exists>y tr'. tr = EvCtx x y # tr' \<and> runs (k y) tr' r)"
| "runs (OpOrder x k) tr r = (\<exists>y tr'. tr = EvOrder x y # tr' \<and> runs (k y) tr' r)"
| "runs (OpSched x k) tr r = (\<exists>y tr'. tr = EvSched x y # tr' \<and> runs (k y) tr' r)"
| "runs (OpLabels x k) tr r = (\<exists>y tr'. tr = EvLabels x y # tr' \<and> runs (k y) tr' r)"
| "runs (OpWq x k) tr r = (\<exists>y tr'. tr = EvWq x y # tr' \<and> runs (k y) tr' r)"
| "runs (OpVol x k) tr r = (\<exists>y tr'. tr = EvVol x y # tr' \<and> runs (k y) tr' r)"
| "runs (OpVols x k) tr r = (\<exists>y tr'. tr = EvVols x y # tr' \<and> runs (k y) tr' r)"
| "runs (OpVolCache x k) tr r = (\<exists>y tr'. tr = EvVolCache x y # tr' \<and> runs (k y) tr' r)"
| "runs (OpSnap x k) tr r = (\<exists>y tr'. tr = EvSnap x y # tr' \<and> runs (k y) tr' r)"
| "runs (OpSnaps x k) tr r = (\<exists>y tr'. tr = EvSnaps x y # tr' \<and> runs (k y) tr' r)"
| "runs (OpSnapCache x k) tr r = (\<exists>y tr'. tr = EvSnapCache x y # tr' \<and> runs (k y) tr' r)"
| "runs (OpNode x k) tr r = (\<exists>y tr'. tr = EvNode x y # tr' \<and> runs (k y) tr' r)"
| "runs (OpNodes x k) tr r = (\<exists>y tr'. tr = EvNodes x y # tr' \<and> runs (k y) tr' r)"
| "runs (OpNodeCache x k) tr r = (\<exists>y tr'. tr = EvNodeCache x y # tr' \<and> runs (k y) tr' r)"
| "runs (OpNodeKey x k) tr r = (\<exists>y tr'. tr = EvNodeKey x y # tr' \<and> runs (k y) tr' r)"
| "runs (OpK8sKeys x k) tr r = (\<exists>y tr'. tr = EvK8sKeys x y # tr' \<and> runs (k y) tr' r)"
| "runs (OpK8sNodes x k) tr r = (\<exists>y tr'. tr = EvK8sNodes x y # tr' \<and> runs (k y) tr' r)"

primrec wp :: "'a prog \<Rightarrow> ('a outcome \<Rightarrow> event list \<Rightarrow> bool) \<Rightarrow> event list \<Rightarrow> bool" where
  "wp (Ret a) Q tr = Q (Val a) tr"
| "wp (Panic s) Q tr = Q (Crash s) tr"
| "wp (OpErr x k) Q tr = (\<forall>y. wp (k y) Q (tr @ [EvErr x y]))"
| "wp (OpUnit x k) Q tr = (\<forall>y. wp (k y) Q (tr @ [EvUnit x y]))"
| "wp (OpExec x k) Q tr = (\<forall>y. wp (k y) Q (tr @ [EvExec x y]))"
| "wp (OpStat x k) Q tr = (\<forall>y. wp (k y) Q (tr @ [EvStat x y]))"
| "wp (OpStr x k) Q tr = (\<forall>y. wp (k y) Q (tr @ [EvStr x y]))"
| "wp (OpStrs x k) Q tr = (\<forall>y. wp (k y) Q (tr @ [EvStrs x y]))"
| "wp (OpBool x k) Q tr = (\<forall>y. wp (k y) Q (tr @ [EvBool x y]))"
| "wp (OpDev x k) Q tr = (\<forall>y. wp (k y) Q (tr @ [EvDev x y]))"
| "wp (OpStatfs x k) Q tr = (\<forall>y. wp (k y) Q (tr @ [EvStatfs x y]))"
| "wp (OpNow x k) Q tr = (\<forall>y. wp (k y) Q (tr @ [EvNow x y]))"
| "wp (OpCtx x k) Q tr = (\<forall>y. wp (k y) Q (tr @ [EvCtx x y]))"
| "wp (OpOrder x k) Q tr = (\<forall>y. wp (k y) Q (tr @ [EvOrder x y]))"
| "wp (OpSched x k) Q tr = (\<forall>y. wp (k y) Q (tr @ [EvSched x y]))"
| "wp (OpLabels x k) Q tr = (\<forall>y. wp (k y) Q (tr @ [EvLabels x y]))"
| "wp (OpWq x k) Q tr = (\<forall>y. wp (k y) Q (tr @ [EvWq x y]))"
| "wp (OpVol x k) Q tr = (\<forall>y. wp (k y) Q (tr @ [EvVol x y]))"
| "wp (OpVols x k) Q tr = (\<forall>y. wp (k y) Q (tr @ [EvVols x y]))"
| "wp (OpVolCache x k) Q tr = (\<forall>y. wp (k y) Q (tr @ [EvVolCache x y]))"
| "wp (OpSnap x k) Q tr = (\<forall>y. wp (k y) Q (tr @ [EvSnap x y]))"
| "wp (OpSnaps x k) Q tr = (\<forall>y. wp (k y) Q (tr @ [EvSnaps x y]))"
| "wp (OpSnapCache x k) Q tr = (\<forall>y. wp (k y) Q (tr @ [EvSnapCache x y]))"
| "wp (OpNode x k) Q tr = (\<forall>y. wp (k y) Q (tr @ [EvNode x y]))"
| "wp (OpNodes x k) Q tr = (\<forall>y. wp (k y) Q (tr @ [EvNodes x y]))"
| "wp (OpNodeCache x k) Q tr = (\<forall>y. wp (k y) Q (tr @ [EvNodeCache x y]))"
| "wp (OpNodeKey x k) Q tr = (\<forall>y. wp (k y) Q (tr @ [EvNodeKey x y]))"
| "wp (OpK8sKeys x k) Q tr = (\<forall>y. wp (k y) Q (tr @ [EvK8sKeys x y]))"
| "wp (OpK8sNodes x k) Q tr = (\<forall>y. wp (k y) Q (tr @ [EvK8sNodes x y]))"

text \<open>An environment: for every kind of operation a function of the operation and of the state of the
  world.\<close>

record 'w env =
  env_Err :: "err_op \<Rightarrow> 'w \<Rightarrow> (gerr option) \<times> 'w"
  env_Unit :: "unit_op \<Rightarrow> 'w \<Rightarrow> (unit) \<times> 'w"
  env_Exec :: "exec_op \<Rightarrow> 'w \<Rightarrow> (string \<times> gerr option) \<times> 'w"
  env_Stat :: "string \<Rightarrow> 'w \<Rightarrow> (stat_result) \<times> 'w"
  env_Str :: "str_op \<Rightarrow> 'w \<Rightarrow> (gerr + string) \<times> 'w"
  env_Strs :: "strs_op \<Rightarrow> 'w \<Rightarrow> (gerr + string list) \<times> 'w"
  env_Bool :: "bool_op \<Rightarrow> 'w \<Rightarrow> (gerr + bool) \<times> 'w"
  env_Dev :: "string \<Rightarrow> 'w \<Rightarrow> (gerr + string \<times> int) \<times> 'w"
  env_Statfs :: "string \<Rightarrow> 'w \<Rightarrow> (gerr + Statfs_t) \<times> 'w"
  env_Now :: "unit \<Rightarrow> 'w \<Rightarrow> (int) \<times> 'w"
  env_Ctx :: "unit \<Rightarrow> 'w \<Rightarrow> (nat \<times> ctx_err) \<times> 'w"
  env_Order :: "unit \<Rightarrow> 'w \<Rightarrow> (nat \<Rightarrow> string list) \<times> 'w"
  env_Sched :: "(TopologyRequirement option \<times> (string \<rightharpoonup> int)) \<Rightarrow> 'w \<Rightarrow> (string list) \<times> 'w"
  env_Labels :: "string \<Rightarrow> 'w \<Rightarrow> (gerr + (string \<rightharpoonup> string)) \<times> 'w"
  env_Wq :: "unit \<Rightarrow> 'w \<Rightarrow> (wq_item option) \<times> 'w"
  env_Vol :: "vol_op \<Rightarrow> 'w \<Rightarrow> (gerr + LVMVolume) \<times> 'w"
  env_Vols :: "string \<Rightarrow> 'w \<Rightarrow> (gerr + LVMVolume list) \<times> 'w"
  env_VolCache :: "(string \<times> string) \<Rightarrow> 'w \<Rightarrow> (gerr + LVMVolume \<times> gerr option) \<times> 'w"
  env_Snap :: "snap_op \<Rightarrow> 'w \<Rightarrow> (gerr + LVMSnapshot) \<times> 'w"
  env_Snaps :: "(string \<times> string \<times> string) \<Rightarrow> 'w \<Rightarrow> (gerr + LVMSnapshot list) \<times> 'w"
  env_SnapCache :: "(string \<times> string) \<Rightarrow> 'w \<Rightarrow> (gerr + LVMSnapshot \<times> gerr option) \<times> 'w"
  env_Node :: "node_op \<Rightarrow> 'w \<Rightarrow> (gerr + LVMNode) \<times> 'w"
  env_Nodes :: "string \<Rightarrow> 'w \<Rightarrow> (gerr + LVMNode list) \<times> 'w"
  env_NodeCache :: "(string \<times> string) \<Rightarrow> 'w \<Rightarrow> (gerr + LVMNode \<times> gerr option) \<times> 'w"
  env_NodeKey :: "string \<Rightarrow> 'w \<Rightarrow> (gerr + LVMNode option) \<times> 'w"
  env_K8sKeys :: "unit \<Rightarrow> 'w \<Rightarrow> (string list) \<times> 'w"
  env_K8sNodes :: "k8s_op \<Rightarrow> 'w \<Rightarrow> (gerr + (gerr + string \<times> (string \<rightharpoonup> string)) list) \<times> 'w"

primrec exec_env :: "'a prog \<Rightarrow> 'w env \<Rightarrow> 'w \<Rightarrow> 'a outcome \<times> event list \<times> 'w" where
  "exec_env (Ret a) E w = (Val a, [], w)"
| "exec_env (Panic s) E w = (Crash s, [], w)"
| "exec_env (OpErr x k) E w =
     (case env_Err E x w of (y, w1) \<Rightarrow>
       (case exec_env (k y) E w1 of (r, tr, w2) \<Rightarrow> (r, EvErr x y # tr, w2)))"
| "exec_env (OpUnit x k) E w =
     (case env_Unit E x w of (y, w1) \<Rightarrow>
       (case exec_env (k y) E w1 of (r, tr, w2) \<Rightarrow> (r, EvUnit x y # tr, w2)))"
| "exec_env (OpExec x k) E w =
     (case env_Exec E x w of (y, w1) \<Rightarrow>
       (case exec_env (k y) E w1 of (r, tr, w2) \<Rightarrow> (r, EvExec x y # tr, w2)))"
| "exec_env (OpStat x k) E w =
     (case env_Stat E x w of (y, w1) \<Rightarrow>
       (case exec_env (k y) E w1 of (r, tr, w2) \<Rightarrow> (r, EvStat x y # tr, w2)))"
| "exec_env (OpStr x k) E w =
     (case env_Str E x w of (y, w1) \<Rightarrow>
       (case exec_env (k y) E w1 of (r, tr, w2) \<Rightarrow> (r, EvStr x y # tr, w2)))"
| "exec_env (OpStrs x k) E w =
     (case env_Strs E x w of (y, w1) \<Rightarrow>
       (case exec_env (k y) E w1 of (r, tr, w2) \<Rightarrow> (r, EvStrs x y # tr, w2)))"
| "exec_env (OpBool x k) E w =
     (case env_Bool E x w of (y, w1) \<Rightarrow>
       (case exec_env (k y) E w1 of (r, tr, w2) \<Rightarrow> (r, EvBool x y # tr, w2)))"
| "exec_env (OpDev x k) E w =
     (case env_Dev E x w of (y, w1) \<Rightarrow>
       (case exec_env (k y) E w1 of (r, tr, w2) \<Rightarrow> (r, EvDev x y # tr, w2)))"
| "exec_env (OpStatfs x k) E w =
     (case env_Statfs E x w of (y, w1) \<Rightarrow>
       (case exec_env (k y) E w1 of (r, tr, w2) \<Rightarrow> (r, EvStatfs x y # tr, w2)))"
| "exec_env (OpNow x k) E w =
     (case env_Now E x w of (y, w1) \<Rightarrow>
       (case exec_env (k y) E w1 of (r, tr, w2) \<Rightarrow> (r, EvNow x y # tr, w2)))"
| "exec_env (OpCtx x k) E w =
     (case env_Ctx E x w of (y, w1) \<Rightarrow>
       (case exec_env (k y) E w1 of (r, tr, w2) \<Rightarrow> (r, EvCtx x y # tr, w2)))"
| "exec_env (OpOrder x k) E w =
     (case env_Order E x w of (y, w1) \<Rightarrow>
       (case exec_env (k y) E w1 of (r, tr, w2) \<Rightarrow> (r, EvOrder x y # tr, w2)))"
| "exec_env (OpSched x k) E w =
     (case env_Sched E x w of (y, w1) \<Rightarrow>
       (case exec_env (k y) E w1 of (r, tr, w2) \<Rightarrow> (r, EvSched x y # tr, w2)))"
| "exec_env (OpLabels x k) E w =
     (case env_Labels E x w of (y, w1) \<Rightarrow>
       (case exec_env (k y) E w1 of (r, tr, w2) \<Rightarrow> (r, EvLabels x y # tr, w2)))"
| "exec_env (OpWq x k) E w =
     (case env_Wq E x w of (y, w1) \<Rightarrow>
       (case exec_env (k y) E w1 of (r, tr, w2) \<Rightarrow> (r, EvWq x y # tr, w2)))"
| "exec_env (OpVol x k) E w =
     (case env_Vol E x w of (y, w1) \<Rightarrow>
       (case exec_env (k y) E w1 of (r, tr, w2) \<Rightarrow> (r, EvVol x y # tr, w2)))"
| "exec_env (OpVols x k) E w =
     (case env_Vols E x w of (y, w1) \<Rightarrow>
       (case exec_env (k y) E w1 of (r, tr, w2) \<Rightarrow> (r, EvVols x y # tr, w2)))"
| "exec_env (OpVolCache x k) E w =
     (case env_VolCache E x w of (y, w1) \<Rightarrow>
       (case exec_env (k y) E w1 of (r, tr, w2) \<Rightarrow> (r, EvVolCache x y # tr, w2)))"
| "exec_env (OpSnap x k) E w =
     (case env_Snap E x w of (y, w1) \<Rightarrow>
       (case exec_env (k y) E w1 of (r, tr, w2) \<Rightarrow> (r, EvSnap x y # tr, w2)))"
| "exec_env (OpSnaps x k) E w =
     (case env_Snaps E x w of (y, w1) \<Rightarrow>
       (case exec_env (k y) E w1 of (r, tr, w2) \<Rightarrow> (r, EvSnaps x y # tr, w2)))"
| "exec_env (OpSnapCache x k) E w =
     (case env_SnapCache E x w of (y, w1) \<Rightarrow>
       (case exec_env (k y) E w1 of (r, tr, w2) \<Rightarrow> (r, EvSnapCache x y # tr, w2)))"
| "exec_env (OpNode x k) E w =
     (case env_Node E x w of (y, w1) \<Rightarrow>
       (case exec_env (k y) E w1 of (r, tr, w2) \<Rightarrow> (r, EvNode x y # tr, w2)))"
| "exec_env (OpNodes x k) E w =
     (case env_Nodes E x w of (y, w1) \<Rightarrow>
       (case exec_env (k y) E w1 of (r, tr, w2) \<Rightarrow> (r, EvNodes x y # tr, w2)))"
| "exec_env (OpNodeCache x k) E w =
     (case env_NodeCache E x w of (y, w1) \<Rightarrow>
       (case exec_env (k y) E w1 of (r, tr, w2) \<Rightarrow> (r, EvNodeCache x y # tr, w2)))"
| "exec_env (OpNodeKey x k) E w =
     (case env_NodeKey E x w of (y, w1) \<Rightarrow>
       (case exec_env (k y) E w1 of (r, tr, w2) \<Rightarrow> (r, EvNodeKey x y # tr, w2)))"
| "exec_env (OpK8sKeys x k) E w =
     (case env_K8sKeys E x w of (y, w1) \<Rightarrow>
       (case exec_env (k y) E w1 of (r, tr, w2) \<Rightarrow> (r, EvK8sKeys x y # tr, w2)))"
| "exec_env (OpK8sNodes x k) E w =
     (case env_K8sNodes E x w of (y, w1) \<Rightarrow>
       (case exec_env (k y) E w1 of (r, tr, w2) \<Rightarrow> (r, EvK8sNodes x y # tr, w2)))"

section \<open>Laws\<close>

lemma set_map_order [simp]: "set (map_order pref keys) = set keys"
  by (auto simp: map_order_def)

lemma distinct_map_order [simp]: "distinct keys \<Longrightarrow> distinct (map_order pref keys)"
  by (auto simp: map_order_def)

lemma map_order_perm: "distinct pref \<Longrightarrow> set pref = set keys \<Longrightarrow> map_order pref keys = pref"
  by (simp add: map_order_def remdups_id_iff_distinct filter_empty_conv)

named_theorems wp_simps \<open>rewriting of weakest preconditions\<close>

lemma bindP_assoc [simp]: "bindP (bindP m f) g = bindP m (\<lambda>x. bindP (f x) g)"
  by (induction m) (auto simp: fun_eq_iff)

lemma bindP_Ret [simp]: "bindP m Ret = m"
  by (induction m) auto

lemma runs_bindP_step:
  assumes "\<And>m tr. m \<in> range k \<Longrightarrow> runs (bindP m f) tr r \<longleftrightarrow>
     (\<exists>tr1 tr2 a. tr = tr1 @ tr2 \<and> runs m tr1 (Val a) \<and> runs (f a) tr2 r) \<or>
     (\<exists>s. runs m tr (Crash s) \<and> r = Crash s)"
  shows "(\<exists>y tr'. tr = E y # tr' \<and> runs (bindP (k y) f) tr' r) \<longleftrightarrow>
     (\<exists>tr1 tr2 a. tr = tr1 @ tr2 \<and> (\<exists>y tr'. tr1 = E y # tr' \<and> runs (k y) tr' (Val a)) \<and> runs (f a) tr2 r) \<or>
     (\<exists>s. (\<exists>y tr'. tr = E y # tr' \<and> runs (k y) tr' (Crash s)) \<and> r = Crash s)"
  (is "?L \<longleftrightarrow> ?A \<or> ?B")
proof
  assume ?L
  then obtain y tr' where tr: "tr = E y # tr'" and run: "runs (bindP (k y) f) tr' r" by blast
  from run assms [of "k y" tr'] consider
      tr1 tr2 a where "tr' = tr1 @ tr2" "runs (k y) tr1 (Val a)" "runs (f a) tr2 r"
    | s where "runs (k y) tr' (Crash s)" "r = Crash s" by blast
  then show "?A \<or> ?B"
  proof cases
    case 1
    with tr have "tr = (E y # tr1) @ tr2" by simp
    with 1 show ?thesis by blast
  next
    case 2
    with tr show ?thesis by blast
  qed
next
  assume "?A \<or> ?B"
  then show ?L
    using assms by (metis append_Cons rangeI)
qed

lemma runs_bindP:
  "runs (bindP m f) tr r \<longleftrightarrow>
     (\<exists>tr1 tr2 a. tr = tr1 @ tr2 \<and> runs m tr1 (Val a) \<and> runs (f a) tr2 r) \<or>
     (\<exists>s. runs m tr (Crash s) \<and> r = Crash s)"
proof (induction m arbitrary: tr)
  case (Ret a)
  then show ?case by simp
next
  case (Panic s)
  then show ?case by auto
qed (unfold runs.simps bindP.simps, (rule runs_bindP_step, assumption)+)

lemma wp_bindP [wp_simps]:
  "wp (bindP m f) Q tr \<longleftrightarrow>
     wp m (\<lambda>r tr'. case r of Val a \<Rightarrow> wp (f a) Q tr' | Crash s \<Rightarrow> Q (Crash s) tr') tr"
  by (induction m arbitrary: tr) auto

lemma wp_finallyP [wp_simps]: "wp (finallyP m u) Q tr \<longleftrightarrow> wp m (\<lambda>r t. Q r (t @ [EvUnit u ()])) tr"
  by (induction m arbitrary: tr) auto

lemma wp_mono: "wp m Q tr \<Longrightarrow> (\<And>r tr'. Q r tr' \<Longrightarrow> R r tr') \<Longrightarrow> wp m R tr"
  by (induction m arbitrary: tr) auto

lemma wp_runs_step:
  assumes "\<And>m tr. m \<in> range k \<Longrightarrow> wp m Q tr \<longleftrightarrow> (\<forall>tr' r. runs m tr' r \<longrightarrow> Q r (tr @ tr'))"
  shows "(\<forall>y. wp (k y) Q (tr @ [E y])) \<longleftrightarrow>
    (\<forall>tr' r. (\<exists>y t. tr' = E y # t \<and> runs (k y) t r) \<longrightarrow> Q r (tr @ tr'))"
  by (auto simp: assms)

lemma wp_iff_runs: "wp m Q tr \<longleftrightarrow> (\<forall>tr' r. runs m tr' r \<longrightarrow> Q r (tr @ tr'))"
proof (induction m arbitrary: tr)
  case (Ret a)
  then show ?case by simp
next
  case (Panic s)
  then show ?case by simp
qed (unfold wp.simps runs.simps, (rule wp_runs_step, assumption)+)

lemma exec_env_step:
  assumes "\<And>m w r tr w'. m \<in> range k \<Longrightarrow> exec_env m E w = (r, tr, w') \<Longrightarrow> runs m tr r"
    and "(case p of (y, w1) \<Rightarrow> (case exec_env (k y) E w1 of (r, tr, w2) \<Rightarrow> (r, F y # tr, w2))) = (r, tr, w')"
  shows "\<exists>y tr'. tr = F y # tr' \<and> runs (k y) tr' r"
  using assms by (auto split: prod.splits) blast

lemma exec_env_runs: "exec_env m E w = (r, tr, w') \<Longrightarrow> runs m tr r"
proof (induction m arbitrary: w r tr w')
  case (Ret a)
  then show ?case by simp
next
  case (Panic s)
  then show ?case by simp
qed (unfold exec_env.simps runs.simps, (rule exec_env_step, assumption, assumption)+)

text \<open>A fact about all runs from the empty trace, in the form the properties use, and its reuse after
  an arbitrary trace.\<close>

lemma wp_runs: "wp m Q [] \<Longrightarrow> runs m tr r \<Longrightarrow> Q r tr"
  by (simp add: wp_iff_runs)

lemma wp_frame: "wp m Q [] \<Longrightarrow> (\<And>r tr'. Q r tr' \<Longrightarrow> R r (tr @ tr')) \<Longrightarrow> wp m R tr"
  by (simp add: wp_iff_runs)

lemma wp_conj: "wp m (\<lambda>r t. Q r t \<and> R r t) tr \<longleftrightarrow> wp m Q tr \<and> wp m R tr"
  by (auto simp: wp_iff_runs)

lemma wp_True [simp]: "wp m (\<lambda>r t. True) tr"
  by (simp add: wp_iff_runs)

lemma wp_if [wp_simps]: "wp (if b then m else n) Q tr = (if b then wp m Q tr else wp n Q tr)"
  by simp

lemma wp_case_sum [wp_simps]:
  "wp (case x of Inl a \<Rightarrow> f a | Inr b \<Rightarrow> g b) Q tr =
     (case x of Inl a \<Rightarrow> wp (f a) Q tr | Inr b \<Rightarrow> wp (g b) Q tr)"
  by (simp split: sum.splits)

lemma wp_case_option [wp_simps]:
  "wp (case x of None \<Rightarrow> f | Some b \<Rightarrow> g b) Q tr =
     (case x of None \<Rightarrow> wp f Q tr | Some b \<Rightarrow> wp (g b) Q tr)"
  by (simp split: option.splits)

lemma wp_case_prod [wp_simps]:
  "wp (case x of (a, b) \<Rightarrow> f a b) Q tr = (case x of (a, b) \<Rightarrow> wp (f a b) Q tr)"
  by (simp split: prod.splits)

lemma wp_case_list [wp_simps]:
  "wp (case x of [] \<Rightarrow> f | a # b \<Rightarrow> g a b) Q tr =
     (case x of [] \<Rightarrow> wp f Q tr | a # b \<Rightarrow> wp (g a b) Q tr)"
  by (simp split: list.splits)

lemma wp_let [wp_simps]: "wp (let x = a in f x) Q tr = (let x = a in wp (f x) Q tr)"
  by simp

lemma wp_tryP [wp_simps]:
  "wp (tryP m f) Q tr \<longleftrightarrow>
     wp m (\<lambda>r tr'. case r of Val (Inl e) \<Rightarrow> Q (Val (Inl e)) tr' | Val (Inr a) \<Rightarrow> wp (f a) Q tr'
                   | Crash s \<Rightarrow> Q (Crash s) tr') tr"
  by (auto simp: tryP_def wp_bindP wp_case_sum intro!: arg_cong [where f = "\<lambda>Q. wp m Q tr"] ext
      split: outcome.splits sum.splits)

lemma wp_callErr [wp_simps]:
  "wp (callErr x) Q tr \<longleftrightarrow>
     Q (Val (Inr ())) (tr @ [EvErr x None]) \<and> (\<forall>e. Q (Val (Inl e)) (tr @ [EvErr x (Some e)]))"
  by (auto simp: callErr_def split: option.splits)

lemma wp_callUnit [wp_simps]: "wp (callUnit x) Q tr \<longleftrightarrow> Q (Val ()) (tr @ [EvUnit x ()])"
  by (simp add: callUnit_def)

section \<open>Justified events\<close>

text \<open>Every event of a trace satisfies \<open>P\<close> together with what precedes it: the form of the ordering
  properties of the controllers.\<close>

definition each_event :: "(event list \<Rightarrow> event \<Rightarrow> bool) \<Rightarrow> event list \<Rightarrow> bool" where
  "each_event P tr = (\<forall>i < length tr. P (take i tr) (tr ! i))"

lemma each_event_Nil [simp]: "each_event P []"
  by (simp add: each_event_def)

lemma each_event_snoc: "each_event P (tr @ [ev]) \<longleftrightarrow> each_event P tr \<and> P tr ev"
  by (auto simp: each_event_def less_Suc_eq nth_append)

lemma each_event_append:
  "each_event P (tr @ tr') \<longleftrightarrow> each_event P tr \<and> each_event (\<lambda>pre. P (tr @ pre)) tr'"
  by (induction tr' rule: rev_induct) (auto simp: each_event_snoc append_assoc [symmetric] simp del: append_assoc)

lemma each_event_Cons [simp]:
  "each_event P (ev # tr) \<longleftrightarrow> P [] ev \<and> each_event (\<lambda>pre. P (ev # pre)) tr"
  using each_event_append [of P "[ev]" tr] each_event_snoc [of P "[]" ev] by simp

lemma each_event_iff:
  "each_event P tr \<longleftrightarrow> (\<forall>pre ev post. tr = pre @ ev # post \<longrightarrow> P pre ev)"
proof
  assume "each_event P tr"
  then show "\<forall>pre ev post. tr = pre @ ev # post \<longrightarrow> P pre ev"
    by (auto simp: each_event_append)
next
  assume "\<forall>pre ev post. tr = pre @ ev # post \<longrightarrow> P pre ev"
  then show "each_event P tr"
    by (simp add: each_event_def) (metis id_take_nth_drop)
qed

lemma each_event_trivial: "list_all (\<lambda>ev. \<forall>pre. P pre ev) tr \<Longrightarrow> each_event P tr"
  by (auto simp: each_event_def list_all_length)

end
