(* ===== verification/Builders.thy ===== *)
theory Builders
  imports Effects
begin

text \<open>
  The builders of the custom resources: \<^verbatim>\<open>src/pkg/builder/volbuilder/volume.go\<close>,
  \<^verbatim>\<open>src/pkg/builder/snapbuilder/build.go\<close> and \<^verbatim>\<open>src/pkg/builder/nodebuilder/node.go\<close>. A builder holds
  the object under construction and the errors recorded so far; a \<^verbatim>\<open>With...\<close> method either sets a field
  or records an error, and \<^verbatim>\<open>Build\<close> returns the object only when no error was recorded.

  The locale \<open>object_builder\<close> states that contract and derives what the callers rely on: an error
  recorded by any step of a chain makes \<^verbatim>\<open>Build\<close> fail. It is interpreted for the three builders.
\<close>

record 'a Builder =
  Object :: 'a
  errs :: "gerr list"

text \<open>A chain of method calls, in the order of the source.\<close>

definition chain :: "'b \<Rightarrow> ('b \<Rightarrow> 'b) list \<Rightarrow> 'b" where
  "chain b fs = fold (\<lambda>f x. f x) fs b"

definition add_err :: "string \<Rightarrow> 'a Builder \<Rightarrow> 'a Builder" where
  "add_err m b = b\<lparr>errs := errs b @ [NewErr [MStr m]]\<rparr>"

definition on_object :: "('a \<Rightarrow> 'a) \<Rightarrow> 'a Builder \<Rightarrow> 'a Builder" where
  "on_object f b = b\<lparr>Object := f (Object b)\<rparr>"

lemma chain_Nil [simp]: "chain b [] = b"
  by (simp add: chain_def)

lemma chain_Cons [simp]: "chain b (f # fs) = chain (f b) fs"
  by (simp add: chain_def)

lemma chain_append [simp]: "chain b (fs @ gs) = chain (chain b fs) gs"
  by (simp add: chain_def)

lemma errs_add_err [simp]: "errs (add_err m b) = errs b @ [NewErr [MStr m]]"
  by (simp add: add_err_def)

lemma Object_add_err [simp]: "Object (add_err m b) = Object b"
  by (simp add: add_err_def)

lemma errs_on_object [simp]: "errs (on_object f b) = errs b"
  by (simp add: on_object_def)

lemma Object_on_object [simp]: "Object (on_object f b) = f (Object b)"
  by (simp add: on_object_def)


section \<open>The contract of a builder\<close>

locale object_builder =
  fixes steps :: "('a Builder \<Rightarrow> 'a Builder) set"
    and Build :: "'a Builder \<Rightarrow> gerr + 'a"
  assumes Build_ok: "Build b = Inr x \<longleftrightarrow> errs b = [] \<and> x = Object b"
    and step_errs: "f \<in> steps \<Longrightarrow> \<exists>es. errs (f b) = errs b @ es"
    and step_failed: "f \<in> steps \<Longrightarrow> errs (f b) \<noteq> errs b \<Longrightarrow> Object (f b) = Object b"
begin

lemma chain_errs: "set fs \<subseteq> steps \<Longrightarrow> \<exists>es. errs (chain b fs) = errs b @ es"
proof (induction fs arbitrary: b)
  case Nil
  then show ?case by simp
next
  case (Cons f fs)
  then obtain es where "errs (f b) = errs b @ es"
    using step_errs [of f b] by auto
  moreover obtain es' where "errs (chain (f b) fs) = errs (f b) @ es'"
    using Cons by (auto dest: Cons.IH [of "f b"])
  ultimately show ?case by simp
qed

text \<open>No recorded error is lost: a chain builds only if no prefix of it has recorded an error.\<close>

lemma Build_chain_no_error:
  assumes "set (fs @ gs) \<subseteq> steps" and "Build (chain b (fs @ gs)) = Inr x"
  shows "errs (chain b fs) = []"
proof -
  have "errs (chain (chain b fs) gs) = []"
    using assms(2) by (simp add: Build_ok)
  then show ?thesis
    using chain_errs [of gs "chain b fs"] assms(1) by auto
qed

text \<open>A step that records an error makes the whole chain fail, whatever follows it.\<close>

lemma Build_failing_step:
  assumes "set fs \<subseteq> steps" "f \<in> steps" "set gs \<subseteq> steps" and "errs (f (chain b fs)) \<noteq> errs (chain b fs)"
  shows "\<exists>e. Build (chain b (fs @ f # gs)) = Inl e"
proof (cases "Build (chain b (fs @ f # gs))")
  case (Inr x)
  then have "errs (chain b (fs @ [f])) = []"
    using assms(1-3) Build_chain_no_error [of "fs @ [f]" gs b x] by simp
  moreover have "errs (chain b fs) = []"
    using calculation step_errs [OF assms(2), of "chain b fs"] by auto
  ultimately show ?thesis using assms(4) by simp
qed simp

end


section \<open>Volumes: \<^verbatim>\<open>volbuilder\<close>\<close>

definition vol_NewBuilder :: "LVMVolume Builder" where
  "vol_NewBuilder = \<lparr>Object = zero_LVMVolume, errs = []\<rparr>"

definition vol_BuildFrom :: "LVMVolume option \<Rightarrow> LVMVolume Builder" where
  "vol_BuildFrom volume =
     (case volume of
        None \<Rightarrow> add_err ''failed to build volume object: nil volume'' vol_NewBuilder
      | Some v \<Rightarrow> \<lparr>Object = v, errs = []\<rparr>)"

definition vol_WithNamespace :: "string \<Rightarrow> LVMVolume Builder \<Rightarrow> LVMVolume Builder" where
  "vol_WithNamespace namespace b =
     (if namespace = [] then add_err ''failed to build lvm volume object: missing namespace'' b
      else on_object (\<lambda>v. v\<lparr>Namespace := namespace\<rparr>) b)"

definition vol_WithName :: "string \<Rightarrow> LVMVolume Builder \<Rightarrow> LVMVolume Builder" where
  "vol_WithName name b =
     (if name = [] then add_err ''failed to build lvm volume object: missing name'' b
      else on_object (\<lambda>v. v\<lparr>Name := name\<rparr>) b)"

definition vol_WithCapacity :: "string \<Rightarrow> LVMVolume Builder \<Rightarrow> LVMVolume Builder" where
  "vol_WithCapacity capacity b =
     (if capacity = [] then add_err ''failed to build lvm volume object: missing capacity'' b
      else on_object (\<lambda>v. v\<lparr>Spec := (Spec v)\<lparr>Capacity := capacity\<rparr>\<rparr>) b)"

definition vol_WithOwnerNode :: "string \<Rightarrow> LVMVolume Builder \<Rightarrow> LVMVolume Builder" where
  "vol_WithOwnerNode host = on_object (\<lambda>v. v\<lparr>Spec := (Spec v)\<lparr>OwnerNodeID := host\<rparr>\<rparr>)"

definition vol_WithVolumeStatus :: "string \<Rightarrow> LVMVolume Builder \<Rightarrow> LVMVolume Builder" where
  "vol_WithVolumeStatus status = on_object (\<lambda>v. v\<lparr>Status := (Status v)\<lparr>State := status\<rparr>\<rparr>)"

definition vol_WithShared :: "string \<Rightarrow> LVMVolume Builder \<Rightarrow> LVMVolume Builder" where
  "vol_WithShared shared = on_object (\<lambda>v. v\<lparr>Spec := (Spec v)\<lparr>Shared := shared\<rparr>\<rparr>)"

definition vol_WithThinProvision :: "string \<Rightarrow> LVMVolume Builder \<Rightarrow> LVMVolume Builder" where
  "vol_WithThinProvision tp = on_object (\<lambda>v. v\<lparr>Spec := (Spec v)\<lparr>ThinProvision := tp\<rparr>\<rparr>)"

definition vol_WithVolGroup :: "string \<Rightarrow> LVMVolume Builder \<Rightarrow> LVMVolume Builder" where
  "vol_WithVolGroup vg b =
     (if vg = [] then add_err ''failed to build lvm volume object: missing vg name'' b
      else on_object (\<lambda>v. v\<lparr>Spec := (Spec v)\<lparr>VolGroup := vg\<rparr>\<rparr>) b)"

definition vol_WithVgPattern :: "string \<Rightarrow> LVMVolume Builder \<Rightarrow> LVMVolume Builder" where
  "vol_WithVgPattern pattern b =
     (if pattern = [] then add_err ''failed to build lvm volume object: missing vg name'' b
      else on_object (\<lambda>v. v\<lparr>Spec := (Spec v)\<lparr>VgPattern := pattern\<rparr>\<rparr>) b)"

definition vol_WithNodeName :: "string \<Rightarrow> LVMVolume Builder \<Rightarrow> LVMVolume Builder" where
  "vol_WithNodeName name b =
     (if name = [] then add_err ''failed to build lvm volume object: missing node name'' b
      else on_object (\<lambda>v. v\<lparr>Spec := (Spec v)\<lparr>OwnerNodeID := name\<rparr>\<rparr>) b)"

text \<open>\<^verbatim>\<open>for key, value := range labels { ...Labels[key] = value }\<close>\<close>

definition merge_labels :: "(string \<times> string) list \<Rightarrow> (string \<rightharpoonup> string) \<Rightarrow> (string \<rightharpoonup> string)" where
  "merge_labels labels m = fold (\<lambda>(k, v) m. m(k \<mapsto> v)) labels m"

definition vol_WithLabels :: "(string \<times> string) list \<Rightarrow> LVMVolume Builder \<Rightarrow> LVMVolume Builder" where
  "vol_WithLabels labels b =
     (if labels = [] then b else on_object (\<lambda>v. v\<lparr>Labels := merge_labels labels (Labels v)\<rparr>) b)"

definition vol_WithFinalizer :: "string list \<Rightarrow> LVMVolume Builder \<Rightarrow> LVMVolume Builder" where
  "vol_WithFinalizer fin = on_object (\<lambda>v. v\<lparr>Finalizers := append_slice (Finalizers v) fin\<rparr>)"

definition vol_Build :: "LVMVolume Builder \<Rightarrow> gerr + LVMVolume" where
  "vol_Build b = (if errs b \<noteq> [] then Inl (NewErr (map MErr (errs b))) else Inr (Object b))"

lemmas vol_builder_defs =
  vol_WithNamespace_def vol_WithName_def vol_WithCapacity_def vol_WithOwnerNode_def
  vol_WithVolumeStatus_def vol_WithShared_def vol_WithThinProvision_def vol_WithVolGroup_def
  vol_WithVgPattern_def vol_WithNodeName_def vol_WithLabels_def vol_WithFinalizer_def

definition vol_steps :: "(LVMVolume Builder \<Rightarrow> LVMVolume Builder) set" where
  "vol_steps = range vol_WithNamespace \<union> range vol_WithName \<union> range vol_WithCapacity \<union>
     range vol_WithOwnerNode \<union> range vol_WithVolumeStatus \<union> range vol_WithShared \<union>
     range vol_WithThinProvision \<union> range vol_WithVolGroup \<union> range vol_WithVgPattern \<union>
     range vol_WithNodeName \<union> range vol_WithLabels \<union> range vol_WithFinalizer"

interpretation volb: object_builder vol_steps vol_Build
  by unfold_locales (auto simp: vol_Build_def vol_steps_def vol_builder_defs split: if_splits)


section \<open>Snapshots: \<^verbatim>\<open>snapbuilder\<close>\<close>

definition snap_NewBuilder :: "LVMSnapshot Builder" where
  "snap_NewBuilder = \<lparr>Object = zero_LVMSnapshot, errs = []\<rparr>"

definition snap_BuildFrom :: "LVMSnapshot option \<Rightarrow> LVMSnapshot Builder" where
  "snap_BuildFrom snap =
     (case snap of
        None \<Rightarrow> add_err ''failed to build snap object: nil snap'' snap_NewBuilder
      | Some s \<Rightarrow> \<lparr>Object = s, errs = []\<rparr>)"

definition snap_WithNamespace :: "string \<Rightarrow> LVMSnapshot Builder \<Rightarrow> LVMSnapshot Builder" where
  "snap_WithNamespace namespace b =
     (if namespace = [] then add_err ''failed to build csi snap object: missing namespace'' b
      else on_object (\<lambda>s. s\<lparr>Namespace := namespace\<rparr>) b)"

definition snap_WithName :: "string \<Rightarrow> LVMSnapshot Builder \<Rightarrow> LVMSnapshot Builder" where
  "snap_WithName name b =
     (if name = [] then add_err ''failed to build csi snap object: missing name'' b
      else on_object (\<lambda>s. s\<lparr>Name := name\<rparr>) b)"

definition snap_WithLabels :: "(string \<times> string) list \<Rightarrow> LVMSnapshot Builder \<Rightarrow> LVMSnapshot Builder" where
  "snap_WithLabels labels b =
     (if labels = [] then b else on_object (\<lambda>s. s\<lparr>Labels := merge_labels labels (Labels s)\<rparr>) b)"

definition snap_WithFinalizer :: "string list \<Rightarrow> LVMSnapshot Builder \<Rightarrow> LVMSnapshot Builder" where
  "snap_WithFinalizer fin = on_object (\<lambda>s. s\<lparr>Finalizers := append_slice (Finalizers s) fin\<rparr>)"

definition snap_WithSnapSize :: "string \<Rightarrow> LVMSnapshot Builder \<Rightarrow> LVMSnapshot Builder" where
  "snap_WithSnapSize capacity b =
     (if capacity = [] then add_err ''failed to build lvm snap object: missing snapshotSize'' b
      else on_object (\<lambda>s. s\<lparr>snap_Spec := (snap_Spec s)\<lparr>SnapSize := capacity\<rparr>\<rparr>) b)"

definition snap_WithOwnerNode :: "string \<Rightarrow> LVMSnapshot Builder \<Rightarrow> LVMSnapshot Builder" where
  "snap_WithOwnerNode host =
     on_object (\<lambda>s. s\<lparr>snap_Spec := (snap_Spec s)\<lparr>snap_OwnerNodeID := host\<rparr>\<rparr>)"

definition snap_WithVolGroup :: "string \<Rightarrow> LVMSnapshot Builder \<Rightarrow> LVMSnapshot Builder" where
  "snap_WithVolGroup vg b =
     (if vg = [] then add_err ''failed to build lvm snap object: missing vg name'' b
      else on_object (\<lambda>s. s\<lparr>snap_Spec := (snap_Spec s)\<lparr>snap_VolGroup := vg\<rparr>\<rparr>) b)"

definition snap_Build :: "LVMSnapshot Builder \<Rightarrow> gerr + LVMSnapshot" where
  "snap_Build b = (if errs b \<noteq> [] then Inl (NewErr (map MErr (errs b))) else Inr (Object b))"

lemmas snap_builder_defs =
  snap_WithNamespace_def snap_WithName_def snap_WithLabels_def snap_WithFinalizer_def
  snap_WithSnapSize_def snap_WithOwnerNode_def snap_WithVolGroup_def

definition snap_steps :: "(LVMSnapshot Builder \<Rightarrow> LVMSnapshot Builder) set" where
  "snap_steps = range snap_WithNamespace \<union> range snap_WithName \<union> range snap_WithLabels \<union>
     range snap_WithFinalizer \<union> range snap_WithSnapSize \<union> range snap_WithOwnerNode \<union>
     range snap_WithVolGroup"

interpretation snapb: object_builder snap_steps snap_Build
  by unfold_locales (auto simp: snap_Build_def snap_steps_def snap_builder_defs split: if_splits)


section \<open>Nodes: \<^verbatim>\<open>nodebuilder\<close>\<close>

definition node_NewBuilder :: "LVMNode Builder" where
  "node_NewBuilder = \<lparr>Object = zero_LVMNode, errs = []\<rparr>"

definition node_BuildFrom :: "LVMNode option \<Rightarrow> LVMNode Builder" where
  "node_BuildFrom node =
     (case node of
        None \<Rightarrow> add_err ''failed to build lvm node object: nil node'' node_NewBuilder
      | Some n \<Rightarrow> \<lparr>Object = n, errs = []\<rparr>)"

definition node_WithNamespace :: "string \<Rightarrow> LVMNode Builder \<Rightarrow> LVMNode Builder" where
  "node_WithNamespace namespace b =
     (if namespace = [] then add_err ''failed to build lvm node object: missing namespace'' b
      else on_object (\<lambda>n. n\<lparr>Namespace := namespace\<rparr>) b)"

definition node_WithName :: "string \<Rightarrow> LVMNode Builder \<Rightarrow> LVMNode Builder" where
  "node_WithName name b =
     (if name = [] then add_err ''failed to build lvm node object: missing name'' b
      else on_object (\<lambda>n. n\<lparr>Name := name\<rparr>) b)"

definition node_WithVolumeGroups :: "VolumeGroup list \<Rightarrow> LVMNode Builder \<Rightarrow> LVMNode Builder" where
  "node_WithVolumeGroups vgs = on_object (\<lambda>n. n\<lparr>VolumeGroups := vgs\<rparr>)"

definition node_WithOwnerReferences :: "OwnerReference list \<Rightarrow> LVMNode Builder \<Rightarrow> LVMNode Builder" where
  "node_WithOwnerReferences ownerRefs = on_object (\<lambda>n. n\<lparr>OwnerReferences := ownerRefs\<rparr>)"

definition node_Build :: "LVMNode Builder \<Rightarrow> gerr + LVMNode" where
  "node_Build b = (if errs b \<noteq> [] then Inl (NewErr (map MErr (errs b))) else Inr (Object b))"

lemmas node_builder_defs =
  node_WithNamespace_def node_WithName_def node_WithVolumeGroups_def node_WithOwnerReferences_def

definition node_steps :: "(LVMNode Builder \<Rightarrow> LVMNode Builder) set" where
  "node_steps = range node_WithNamespace \<union> range node_WithName \<union> range node_WithVolumeGroups \<union>
     range node_WithOwnerReferences"

interpretation nodeb: object_builder node_steps node_Build
  by unfold_locales (auto simp: node_Build_def node_steps_def node_builder_defs split: if_splits)

end
