(* ===== verification/Kubeclient.thy ===== *)
theory Kubeclient
  imports Builders
begin

text \<open>
  The typed clients of the three custom resources (\<^verbatim>\<open>kubernetes.go\<close> under
  \<^verbatim>\<open>src/pkg/builder/volbuilder\<close>, \<^verbatim>\<open>snapbuilder\<close> and \<^verbatim>\<open>nodebuilder\<close>). A client holds whether it already
  has a clientset, the path of a kube config and the namespace it works in. Building the clientset and
  the REST request itself are operations of the environment. The methods guard against nil objects and
  empty names and wrap a failure to build the clientset; the three packages have the same
  \<^verbatim>\<open>NewKubeclient\<close> and \<^verbatim>\<open>getClientOrCached\<close>, which are modelled once.

  The function fields that tests replace (\<^verbatim>\<open>getFn\<close> and so on) always hold the defaults that
  \<^verbatim>\<open>withDefaults\<close> sets.

  The locale \<open>kube_client\<close> states the contract of such a client: what it sends, and that it sends
  nothing when its guards refuse. It is interpreted for the three clients.
\<close>

record Kubeclient =
  kc_clientset :: bool
  kubeConfigPath :: string
  kc_namespace :: string

definition NewKubeclient :: "(Kubeclient \<Rightarrow> Kubeclient) list \<Rightarrow> Kubeclient" where
  "NewKubeclient opts = chain \<lparr>kc_clientset = False, kubeConfigPath = [], kc_namespace = []\<rparr> opts"

definition kc_WithClientSet :: "bool \<Rightarrow> Kubeclient \<Rightarrow> Kubeclient" where
  "kc_WithClientSet c k = k\<lparr>kc_clientset := c\<rparr>"

definition kc_WithNamespace :: "string \<Rightarrow> Kubeclient \<Rightarrow> Kubeclient" where
  "kc_WithNamespace namespace k = k\<lparr>kc_namespace := namespace\<rparr>"

definition kc_WithKubeConfigPath :: "string \<Rightarrow> Kubeclient \<Rightarrow> Kubeclient" where
  "kc_WithKubeConfigPath path k = k\<lparr>kubeConfigPath := path\<rparr>"

text \<open>The clientset is built from the given path, or from the defaults for the empty path.\<close>

definition getClientsetForPathOrDirect :: "Kubeclient \<Rightarrow> (gerr + unit) prog" where
  "getClientsetForPathOrDirect k =
     (if kubeConfigPath k \<noteq> [] then callErr (GetClientset (kubeConfigPath k))
      else callErr (GetClientset []))"

definition getClientOrCached :: "Kubeclient \<Rightarrow> (gerr + Kubeclient) prog" where
  "getClientOrCached k =
     (if kc_clientset k then Ret (Inr k)
      else bindP (getClientsetForPathOrDirect k) (\<lambda>r. case r of
             Inl e \<Rightarrow> Ret (Inl (WrapErr e [MStr ''failed to get clientset'']))
           | Inr _ \<Rightarrow> Ret (Inr (k\<lparr>kc_clientset := True\<rparr>))))"

text \<open>The shape of every method: get the clientset or fail with a wrapped error, then send the request.\<close>

definition with_client :: "Kubeclient \<Rightarrow> msg \<Rightarrow> (gerr + 'a) prog \<Rightarrow> (gerr + 'a) prog" where
  "with_client k m req =
     bindP (getClientOrCached k) (\<lambda>r. case r of
         Inl e \<Rightarrow> Ret (Inl (WrapErr e m))
       | Inr _ \<Rightarrow> req)"

text \<open>
  The pair of a pointer and an error that \<^verbatim>\<open>Get\<close> returns. The generated REST client returns a pointer
  to an empty object together with an error of the API server, the guards of \<^verbatim>\<open>Get\<close> return nil.
\<close>

datatype 'a got = Got 'a | GetErr gerr "'a option"

definition getP :: "'a got prog \<Rightarrow> (gerr + 'a) prog" where
  "getP m = bindP m (\<lambda>r. case r of Got x \<Rightarrow> Ret (Inr x) | GetErr e _ \<Rightarrow> Ret (Inl e))"

lemma wp_case_got [wp_simps]:
  "wp (case x of Got a \<Rightarrow> f a | GetErr e p \<Rightarrow> g e p) Q tr =
     (case x of Got a \<Rightarrow> wp (f a) Q tr | GetErr e p \<Rightarrow> wp (g e p) Q tr)"
  by (simp split: got.splits)

lemma wp_getP [wp_simps]:
  "wp (getP m) Q tr \<longleftrightarrow>
     wp m (\<lambda>r tr'. case r of Val (Got a) \<Rightarrow> Q (Val (Inr a)) tr' | Val (GetErr e _) \<Rightarrow> Q (Val (Inl e)) tr'
                   | Crash s \<Rightarrow> Q (Crash s) tr') tr"
  by (auto simp: getP_def wp_simps intro!: arg_cong [where f = "\<lambda>Q. wp m Q tr"] ext
      split: outcome.splits got.splits)


section \<open>Volumes: \<^verbatim>\<open>volbuilder/kubernetes.go\<close>\<close>

definition vol_defaultGet :: "string \<Rightarrow> string \<Rightarrow> (gerr + LVMVolume) prog" where
  "vol_defaultGet name namespace = OpVol (VolGet namespace name) Ret"

definition vol_defaultDel :: "string \<Rightarrow> string \<Rightarrow> (gerr + unit) prog" where
  "vol_defaultDel name namespace = callErr (VolDelete namespace name)"

definition vol_defaultCreate :: "LVMVolume \<Rightarrow> string \<Rightarrow> (gerr + LVMVolume) prog" where
  "vol_defaultCreate vol namespace = OpVol (VolCreate namespace vol) Ret"

definition vol_defaultUpdate :: "LVMVolume \<Rightarrow> string \<Rightarrow> (gerr + LVMVolume) prog" where
  "vol_defaultUpdate vol namespace = OpVol (VolUpdate namespace vol) Ret"

definition vol_defaultList :: "string \<Rightarrow> (gerr + LVMVolume list) prog" where
  "vol_defaultList namespace = OpVols namespace Ret"

definition vol_kc_Create :: "Kubeclient \<Rightarrow> LVMVolume option \<Rightarrow> (gerr + LVMVolume) prog" where
  "vol_kc_Create k obj = (case obj of
       None \<Rightarrow> Ret (Inl (NewErr [MStr ''failed to create csivolume: nil vol object'']))
     | Some vol \<Rightarrow>
         with_client k [MStr ''failed to create lvm volume {'', MStr (Name vol), MStr ''} in namespace {'', MStr (kc_namespace k), MStr ''}'']
           (vol_defaultCreate vol (kc_namespace k)))"

definition vol_kc_Get :: "Kubeclient \<Rightarrow> string \<Rightarrow> LVMVolume got prog" where
  "vol_kc_Get k name =
     (if name = [] then Ret (GetErr (NewErr [MStr ''failed to get lvm volume: missing lvm volume name'']) None)
      else bindP (getClientOrCached k) (\<lambda>r. case r of
          Inl e \<Rightarrow> Ret (GetErr (WrapErr e
            [MStr ''failed to get lvm volume {'', MStr name, MStr ''} in namespace {'', MStr (kc_namespace k), MStr ''}'']) None)
        | Inr _ \<Rightarrow> bindP (vol_defaultGet name (kc_namespace k)) (\<lambda>r. case r of
            Inl e \<Rightarrow> Ret (GetErr e (Some zero_LVMVolume))
          | Inr vol \<Rightarrow> Ret (Got vol))))"

text \<open>\<^verbatim>\<open>json.Marshal\<close> is a parameter.\<close>

definition vol_kc_GetRaw :: "(LVMVolume \<Rightarrow> gerr + string) \<Rightarrow> Kubeclient \<Rightarrow> string \<Rightarrow> (gerr + string) prog" where
  "vol_kc_GetRaw marshal k name =
     (if name = [] then Ret (Inl (NewErr [MStr ''failed to get raw lvm volume: missing vol name'']))
      else bindP (vol_kc_Get k name) (\<lambda>r. case r of
          GetErr e _ \<Rightarrow> Ret (Inl (WrapErr e
            [MStr ''failed to get lvm volume {'', MStr name, MStr ''} in namespace {'', MStr (kc_namespace k), MStr ''}'']))
        | Got vol \<Rightarrow> Ret (marshal vol)))"

definition vol_kc_List :: "Kubeclient \<Rightarrow> (gerr + LVMVolume list) prog" where
  "vol_kc_List k =
     with_client k [MStr ''failed to list lvm volumes in namespace {'', MStr (kc_namespace k), MStr ''}'']
       (vol_defaultList (kc_namespace k))"

definition vol_kc_Delete :: "Kubeclient \<Rightarrow> string \<Rightarrow> (gerr + unit) prog" where
  "vol_kc_Delete k name =
     (if name = [] then Ret (Inl (NewErr [MStr ''failed to delete csivolume: missing vol name'']))
      else with_client k [MStr ''failed to delete csivolume {'', MStr name, MStr ''} in namespace {'', MStr (kc_namespace k), MStr ''}'']
             (vol_defaultDel name (kc_namespace k)))"

definition vol_kc_Update :: "Kubeclient \<Rightarrow> LVMVolume option \<Rightarrow> (gerr + LVMVolume) prog" where
  "vol_kc_Update k obj = (case obj of
       None \<Rightarrow> Ret (Inl (NewErr [MStr ''failed to update csivolume: nil vol object'']))
     | Some vol \<Rightarrow>
         with_client k [MStr ''failed to update csivolume {'', MStr (Name vol), MStr ''} in namespace {'', MStr (Namespace vol), MStr ''}'']
           (vol_defaultUpdate vol (kc_namespace k)))"

lemmas vol_kc_defs =
  vol_kc_Create_def vol_kc_Get_def vol_kc_Delete_def vol_kc_Update_def
  vol_defaultGet_def vol_defaultDel_def vol_defaultCreate_def vol_defaultUpdate_def


section \<open>Snapshots: \<^verbatim>\<open>snapbuilder/kubernetes.go\<close>\<close>

definition snap_defaultGet :: "string \<Rightarrow> string \<Rightarrow> (gerr + LVMSnapshot) prog" where
  "snap_defaultGet name namespace = OpSnap (SnapGet namespace name) Ret"

definition snap_defaultDel :: "string \<Rightarrow> string \<Rightarrow> (gerr + unit) prog" where
  "snap_defaultDel name namespace = callErr (SnapDelete namespace name)"

definition snap_defaultCreate :: "LVMSnapshot \<Rightarrow> string \<Rightarrow> (gerr + LVMSnapshot) prog" where
  "snap_defaultCreate vol namespace = OpSnap (SnapCreate namespace vol) Ret"

definition snap_defaultUpdate :: "LVMSnapshot \<Rightarrow> string \<Rightarrow> (gerr + LVMSnapshot) prog" where
  "snap_defaultUpdate vol namespace = OpSnap (SnapUpdate namespace vol) Ret"

text \<open>The options of the only caller are a label selector with one key and its value.\<close>

definition snap_defaultList :: "string \<Rightarrow> string \<times> string \<Rightarrow> (gerr + LVMSnapshot list) prog" where
  "snap_defaultList namespace opts = OpSnaps (namespace, opts) Ret"

definition snap_kc_Create :: "Kubeclient \<Rightarrow> LVMSnapshot option \<Rightarrow> (gerr + LVMSnapshot) prog" where
  "snap_kc_Create k obj = (case obj of
       None \<Rightarrow> Ret (Inl (NewErr [MStr ''failed to create csivolume: nil vol object'']))
     | Some vol \<Rightarrow>
         with_client k [MStr ''failed to create lvm volume {'', MStr (Name vol), MStr ''} in namespace {'', MStr (kc_namespace k), MStr ''}'']
           (snap_defaultCreate vol (kc_namespace k)))"

definition snap_kc_Get :: "Kubeclient \<Rightarrow> string \<Rightarrow> LVMSnapshot got prog" where
  "snap_kc_Get k name =
     (if name = [] then Ret (GetErr (NewErr [MStr ''failed to get lvm volume: missing lvm volume name'']) None)
      else bindP (getClientOrCached k) (\<lambda>r. case r of
          Inl e \<Rightarrow> Ret (GetErr (WrapErr e
            [MStr ''failed to get lvm volume {'', MStr name, MStr ''} in namespace {'', MStr (kc_namespace k), MStr ''}'']) None)
        | Inr _ \<Rightarrow> bindP (snap_defaultGet name (kc_namespace k)) (\<lambda>r. case r of
            Inl e \<Rightarrow> Ret (GetErr e (Some zero_LVMSnapshot))
          | Inr vol \<Rightarrow> Ret (Got vol))))"

text \<open>\<^verbatim>\<open>json.Marshal\<close> is a parameter.\<close>

definition snap_kc_GetRaw :: "(LVMSnapshot \<Rightarrow> gerr + string) \<Rightarrow> Kubeclient \<Rightarrow> string \<Rightarrow> (gerr + string) prog" where
  "snap_kc_GetRaw marshal k name =
     (if name = [] then Ret (Inl (NewErr [MStr ''failed to get raw lvm volume: missing vol name'']))
      else bindP (snap_kc_Get k name) (\<lambda>r. case r of
          GetErr e _ \<Rightarrow> Ret (Inl (WrapErr e
            [MStr ''failed to get lvm volume {'', MStr name, MStr ''} in namespace {'', MStr (kc_namespace k), MStr ''}'']))
        | Got vol \<Rightarrow> Ret (marshal vol)))"

definition snap_kc_List :: "Kubeclient \<Rightarrow> string \<times> string \<Rightarrow> (gerr + LVMSnapshot list) prog" where
  "snap_kc_List k opts =
     with_client k [MStr ''failed to list lvm volumes in namespace {'', MStr (kc_namespace k), MStr ''}'']
       (snap_defaultList (kc_namespace k) opts)"

definition snap_kc_Delete :: "Kubeclient \<Rightarrow> string \<Rightarrow> (gerr + unit) prog" where
  "snap_kc_Delete k name =
     (if name = [] then Ret (Inl (NewErr [MStr ''failed to delete csivolume: missing vol name'']))
      else with_client k [MStr ''failed to delete csivolume {'', MStr name, MStr ''} in namespace {'', MStr (kc_namespace k), MStr ''}'']
             (snap_defaultDel name (kc_namespace k)))"

definition snap_kc_Update :: "Kubeclient \<Rightarrow> LVMSnapshot option \<Rightarrow> (gerr + LVMSnapshot) prog" where
  "snap_kc_Update k obj = (case obj of
       None \<Rightarrow> Ret (Inl (NewErr [MStr ''failed to update csivolume: nil vol object'']))
     | Some vol \<Rightarrow>
         with_client k [MStr ''failed to update csivolume {'', MStr (Name vol), MStr ''} in namespace {'', MStr (Namespace vol), MStr ''}'']
           (snap_defaultUpdate vol (kc_namespace k)))"

lemmas snap_kc_defs =
  snap_kc_Create_def snap_kc_Get_def snap_kc_Delete_def snap_kc_Update_def
  snap_defaultGet_def snap_defaultDel_def snap_defaultCreate_def snap_defaultUpdate_def


section \<open>Nodes: \<^verbatim>\<open>nodebuilder/kubernetes.go\<close>\<close>

definition node_defaultGet :: "string \<Rightarrow> string \<Rightarrow> (gerr + LVMNode) prog" where
  "node_defaultGet name namespace = OpNode (NodeGet namespace name) Ret"

definition node_defaultDel :: "string \<Rightarrow> string \<Rightarrow> (gerr + unit) prog" where
  "node_defaultDel name namespace = callErr (NodeDelete namespace name)"

definition node_defaultCreate :: "LVMNode \<Rightarrow> string \<Rightarrow> (gerr + LVMNode) prog" where
  "node_defaultCreate node namespace = OpNode (NodeCreate namespace node) Ret"

definition node_defaultUpdate :: "LVMNode \<Rightarrow> string \<Rightarrow> (gerr + LVMNode) prog" where
  "node_defaultUpdate node namespace = OpNode (NodeUpdate namespace node) Ret"

definition node_defaultList :: "string \<Rightarrow> (gerr + LVMNode list) prog" where
  "node_defaultList namespace = OpNodes namespace Ret"

definition node_kc_Create :: "Kubeclient \<Rightarrow> LVMNode option \<Rightarrow> (gerr + LVMNode) prog" where
  "node_kc_Create k obj = (case obj of
       None \<Rightarrow> Ret (Inl (NewErr [MStr ''failed to create lvm node: nil node object'']))
     | Some node \<Rightarrow>
         with_client k [MStr ''failed to create lvm node {'', MStr (Name node), MStr ''} in namespace {'', MStr (kc_namespace k), MStr ''}'']
           (node_defaultCreate node (kc_namespace k)))"

definition node_kc_Get :: "Kubeclient \<Rightarrow> string \<Rightarrow> LVMNode got prog" where
  "node_kc_Get k name =
     (if name = [] then Ret (GetErr (NewErr [MStr ''failed to get lvm node: missing lvm node name'']) None)
      else bindP (getClientOrCached k) (\<lambda>r. case r of
          Inl e \<Rightarrow> Ret (GetErr (WrapErr e
            [MStr ''failed to get lvm node {'', MStr name, MStr ''} in namespace {'', MStr (kc_namespace k), MStr ''}'']) None)
        | Inr _ \<Rightarrow> bindP (node_defaultGet name (kc_namespace k)) (\<lambda>r. case r of
            Inl e \<Rightarrow> Ret (GetErr e (Some zero_LVMNode))
          | Inr node \<Rightarrow> Ret (Got node))))"

text \<open>\<^verbatim>\<open>json.Marshal\<close> is a parameter.\<close>

definition node_kc_GetRaw :: "(LVMNode \<Rightarrow> gerr + string) \<Rightarrow> Kubeclient \<Rightarrow> string \<Rightarrow> (gerr + string) prog" where
  "node_kc_GetRaw marshal k name =
     (if name = [] then Ret (Inl (NewErr [MStr ''failed to get raw lvm node: missing node name'']))
      else bindP (node_kc_Get k name) (\<lambda>r. case r of
          GetErr e _ \<Rightarrow> Ret (Inl (WrapErr e
            [MStr ''failed to get lvm node {'', MStr name, MStr ''} in namespace {'', MStr (kc_namespace k), MStr ''}'']))
        | Got node \<Rightarrow> Ret (marshal node)))"

definition node_kc_List :: "Kubeclient \<Rightarrow> (gerr + LVMNode list) prog" where
  "node_kc_List k =
     with_client k [MStr ''failed to list lvm nodes in namespace {'', MStr (kc_namespace k), MStr ''}'']
       (node_defaultList (kc_namespace k))"

definition node_kc_Delete :: "Kubeclient \<Rightarrow> string \<Rightarrow> (gerr + unit) prog" where
  "node_kc_Delete k name =
     (if name = [] then Ret (Inl (NewErr [MStr ''failed to delete lvmnode: missing node name'']))
      else with_client k [MStr ''failed to delete lvmnode {'', MStr name, MStr ''} in namespace {'', MStr (kc_namespace k), MStr ''}'']
             (node_defaultDel name (kc_namespace k)))"

definition node_kc_Update :: "Kubeclient \<Rightarrow> LVMNode option \<Rightarrow> (gerr + LVMNode) prog" where
  "node_kc_Update k obj = (case obj of
       None \<Rightarrow> Ret (Inl (NewErr [MStr ''failed to update lvmnode: nil node object'']))
     | Some node \<Rightarrow>
         with_client k [MStr ''failed to update lvmnode {'', MStr (Name node), MStr ''} in namespace {'', MStr (Namespace node), MStr ''}'']
           (node_defaultUpdate node (kc_namespace k)))"

lemmas node_kc_defs =
  node_kc_Create_def node_kc_Get_def node_kc_Delete_def node_kc_Update_def
  node_defaultGet_def node_defaultDel_def node_defaultCreate_def node_defaultUpdate_def

section \<open>The contract of a client\<close>

text \<open>The client every caller in \<^verbatim>\<open>src/pkg/lvm\<close> uses: \<^verbatim>\<open>NewKubeclient().WithNamespace(namespace)\<close>.\<close>

definition kc_for :: "string \<Rightarrow> Kubeclient" where
  "kc_for namespace = kc_WithNamespace namespace (NewKubeclient [])"

lemma kc_for_simps [simp]:
  "kc_namespace (kc_for ns) = ns" "\<not> kc_clientset (kc_for ns)" "kubeConfigPath (kc_for ns) = []"
  by (simp_all add: kc_for_def kc_WithNamespace_def NewKubeclient_def)

lemma wp_with_client [wp_simps]:
  "wp (with_client (kc_for ns) m req) Q tr \<longleftrightarrow>
     (\<forall>e. Q (Val (Inl (WrapErr (WrapErr e [MStr ''failed to get clientset'']) m)))
            (tr @ [EvErr (GetClientset []) (Some e)])) \<and>
     wp req Q (tr @ [EvErr (GetClientset []) None])"
  by (auto simp: with_client_def getClientOrCached_def getClientsetForPathOrDirect_def wp_simps)

definition is_clientset_event :: "event \<Rightarrow> bool" where
  "is_clientset_event ev = (case ev of EvErr (GetClientset _) _ \<Rightarrow> True | _ \<Rightarrow> False)"

text \<open>
  What a client promises of a call with the request \<open>mk\<close>: apart from building a clientset it sends at
  most that request; a success is the answer of the API server to it.
\<close>

definition request_shape :: "((gerr + 'a) \<Rightarrow> event) \<Rightarrow> (gerr + 'a) outcome \<Rightarrow> event list \<Rightarrow> bool" where
  "request_shape mk r tr = (case r of
       Crash _ \<Rightarrow> False
     | Val y \<Rightarrow> (\<not> isl y \<longrightarrow> tr \<noteq> []) \<and>
         (list_all is_clientset_event tr \<and> isl y \<or>
          tr \<noteq> [] \<and> list_all is_clientset_event (butlast tr) \<and> last tr = mk y))"

locale kube_client =
  fixes get :: "string \<Rightarrow> string \<Rightarrow> (gerr + 'a) prog"
    and update :: "string \<Rightarrow> 'a \<Rightarrow> (gerr + 'a) prog"
    and evGet :: "string \<Rightarrow> string \<Rightarrow> (gerr + 'a) \<Rightarrow> event"
    and evUpdate :: "string \<Rightarrow> 'a \<Rightarrow> (gerr + 'a) \<Rightarrow> event"
  assumes get_runs: "runs (get ns name) tr r \<Longrightarrow> request_shape (evGet ns name) r tr"
    and update_runs: "runs (update ns x) tr r \<Longrightarrow> request_shape (evUpdate ns x) r tr"
    and evGet_request: "\<not> is_clientset_event (evGet ns name y)"
    and evUpdate_request: "\<not> is_clientset_event (evUpdate ns x y)"
begin

lemma shape_ok:
  assumes "request_shape mk (Val (Inr y)) tr" and "\<not> is_clientset_event (mk (Inr y))"
  shows "filter (Not \<circ> is_clientset_event) tr = [mk (Inr y)]"
proof -
  have "list_all is_clientset_event t \<Longrightarrow> filter (Not \<circ> is_clientset_event) t = []" for t
    by (induction t) auto
  moreover obtain t where "tr = t @ [mk (Inr y)]" "list_all is_clientset_event t"
    using assms(1) by (cases tr rule: rev_cases) (auto simp: request_shape_def)
  ultimately show ?thesis
    using assms(2) by simp
qed

text \<open>Reading an object, changing it and writing it back never crashes, and when it succeeds, the two
  requests sent are the read and the write of the changed object.\<close>

lemma read_modify_write_ok:
  assumes "runs (tryP (get ns name) (\<lambda>x. update ns (f x))) tr r"
  shows "(\<exists>e. r = Val (Inl e)) \<or>
    (\<exists>x y. r = Val (Inr y) \<and>
       filter (Not \<circ> is_clientset_event) tr = [evGet ns name (Inr x), evUpdate ns (f x) (Inr y)])"
proof -
  from assms consider (crash) s where "runs (get ns name) tr (Crash s)"
    | (fail) e where "r = Val (Inl e)"
    | (ok) tr1 tr2 x where "tr = tr1 @ tr2" "runs (get ns name) tr1 (Val (Inr x))"
        "runs (update ns (f x)) tr2 r"
    unfolding tryP_def runs_bindP by (auto split: sum.splits) (metis sum.exhaust)
  then show ?thesis
  proof cases
    case crash
    then show ?thesis by (auto dest!: get_runs simp: request_shape_def)
  next
    case ok
    from update_runs [OF ok(3)] consider e where "r = Val (Inl e)" | y where "r = Val (Inr y)"
      by (cases r rule: outcome.exhaust [case_product sum.exhaust [of "case r of Val y \<Rightarrow> y"]])
        (auto simp: request_shape_def)
    then show ?thesis
    proof cases
      case (2 y)
      then show ?thesis
        using ok(1) shape_ok [OF get_runs [OF ok(2)] evGet_request]
          shape_ok [OF update_runs [OF ok(3) [unfolded 2]] evUpdate_request] by auto
    qed auto
  qed auto
qed

end

lemma vol_kc_shapes:
  "wp (getP (vol_kc_Get (kc_for ns) name)) (request_shape (EvVol (VolGet ns name))) []"
  "wp (vol_kc_Update (kc_for ns) (Some x)) (request_shape (EvVol (VolUpdate ns x))) []"
  by (auto simp: vol_kc_defs wp_simps getClientOrCached_def getClientsetForPathOrDirect_def
      request_shape_def is_clientset_event_def split: sum.splits)

interpretation volc: kube_client
  "\<lambda>ns name. getP (vol_kc_Get (kc_for ns) name)" "\<lambda>ns x. vol_kc_Update (kc_for ns) (Some x)"
  "\<lambda>ns name. EvVol (VolGet ns name)" "\<lambda>ns x. EvVol (VolUpdate ns x)"
  by unfold_locales
    (auto simp: is_clientset_event_def intro: wp_runs [OF vol_kc_shapes(1)] wp_runs [OF vol_kc_shapes(2)])

lemma snap_kc_shapes:
  "wp (getP (snap_kc_Get (kc_for ns) name)) (request_shape (EvSnap (SnapGet ns name))) []"
  "wp (snap_kc_Update (kc_for ns) (Some x)) (request_shape (EvSnap (SnapUpdate ns x))) []"
  by (auto simp: snap_kc_defs wp_simps getClientOrCached_def getClientsetForPathOrDirect_def
      request_shape_def is_clientset_event_def split: sum.splits)

interpretation snapc: kube_client
  "\<lambda>ns name. getP (snap_kc_Get (kc_for ns) name)" "\<lambda>ns x. snap_kc_Update (kc_for ns) (Some x)"
  "\<lambda>ns name. EvSnap (SnapGet ns name)" "\<lambda>ns x. EvSnap (SnapUpdate ns x)"
  by unfold_locales
    (auto simp: is_clientset_event_def intro: wp_runs [OF snap_kc_shapes(1)] wp_runs [OF snap_kc_shapes(2)])

lemma node_kc_shapes:
  "wp (getP (node_kc_Get (kc_for ns) name)) (request_shape (EvNode (NodeGet ns name))) []"
  "wp (node_kc_Update (kc_for ns) (Some x)) (request_shape (EvNode (NodeUpdate ns x))) []"
  by (auto simp: node_kc_defs wp_simps getClientOrCached_def getClientsetForPathOrDirect_def
      request_shape_def is_clientset_event_def split: sum.splits)

interpretation nodec: kube_client
  "\<lambda>ns name. getP (node_kc_Get (kc_for ns) name)" "\<lambda>ns x. node_kc_Update (kc_for ns) (Some x)"
  "\<lambda>ns name. EvNode (NodeGet ns name)" "\<lambda>ns x. EvNode (NodeUpdate ns x)"
  by unfold_locales
    (auto simp: is_clientset_event_def intro: wp_runs [OF node_kc_shapes(1)] wp_runs [OF node_kc_shapes(2)])

end
