(* ===== verification/Lvm_Volume.thy ===== *)
theory Lvm_Volume
  imports Kubeclient
begin

text \<open>
  \<^verbatim>\<open>src/pkg/lvm/volume.go\<close>: the operations of the driver on its custom resources. Every function builds a
  fresh client for the namespace of the driver and sends one request; \<open>G\<close> holds the package variables.
  A pointer whose object the function changes before it sends it (\<^verbatim>\<open>BuildFrom(vol)\<close> keeps the pointer) is
  not used by any caller after the call, so that the functions take and send values.

  The two waiting loops poll until the context ends. \<open>processed_loop\<close> and \<open>destroy_loop\<close> recurse over the
  number of polls before that, which the environment chooses.
\<close>

section \<open>Definitions\<close>

text \<open>\<^verbatim>\<open>init\<close>: \<open>getenv\<close> is the environment of the process; \<^verbatim>\<open>klog.Fatalf\<close> ends it.\<close>

definition lvm_init :: "(string \<Rightarrow> string) \<Rightarrow> globals outcome" where
  "lvm_init getenv =
     (let ns = getenv ''LVM_NAMESPACE''; nodeID = getenv ''OPENEBS_NODE_ID'' in
      if ns = [] \<and> getenv ''OPENEBS_NODE_DRIVER'' \<noteq> []
        then Crash ''LVM_NAMESPACE environment variable not set''
      else if nodeID = [] \<and> getenv ''OPENEBS_NODE_DRIVER'' \<noteq> []
        then Crash ''NodeID environment variable not set''
      else Val \<lparr>LvmNamespace = ns, NodeID = nodeID,
                GoogleAnalyticsEnabled = getenv ''OPENEBS_IO_ENABLE_ANALYTICS''\<rparr>)"

definition ProvisionVolume :: "globals \<Rightarrow> LVMVolume \<Rightarrow> (gerr + LVMVolume) prog" where
  "ProvisionVolume G vol = vol_kc_Create (kc_for (LvmNamespace G)) (Some vol)"

definition lvm_DeleteVolume :: "globals \<Rightarrow> string \<Rightarrow> (gerr + unit) prog" where
  "lvm_DeleteVolume G volumeID = vol_kc_Delete (kc_for (LvmNamespace G)) volumeID"

definition GetLVMVolume :: "globals \<Rightarrow> string \<Rightarrow> (gerr + LVMVolume) prog" where
  "GetLVMVolume G volumeID = getP (vol_kc_Get (kc_for (LvmNamespace G)) volumeID)"

fun FromContextError :: "ctx_err \<Rightarrow> gerr" where
  "FromContextError CtxDeadlineExceeded = StatusErr DeadlineExceeded [MStr ''context deadline exceeded'']"
| "FromContextError CtxCanceled = StatusErr Canceled [MStr ''context canceled'']"

primrec processed_loop :: "globals \<Rightarrow> ctx_err \<Rightarrow> string \<Rightarrow> nat \<Rightarrow> (gerr + LVMVolume) prog" where
  "processed_loop G ce volumeID 0 = Ret (Inl (FromContextError ce))"
| "processed_loop G ce volumeID (Suc n) =
     bindP (GetLVMVolume G volumeID) (\<lambda>r. case r of
         Inl e \<Rightarrow> Ret (Inl (StatusErr Aborted
           [MStr ''lvm: wait failed, not able to get the volume '', MStr volumeID, MStr '' '', MErr e]))
       | Inr vol \<Rightarrow>
           if State (Status vol) = LVMStatusReady \<or> State (Status vol) = LVMStatusFailed
           then Ret (Inr vol)
           else processed_loop G ce volumeID n)"

definition WaitForLVMVolumeProcessed :: "globals \<Rightarrow> string \<Rightarrow> (gerr + LVMVolume) prog" where
  "WaitForLVMVolumeProcessed G volumeID = OpCtx () (\<lambda>(n, ce). processed_loop G ce volumeID n)"

primrec destroy_loop :: "globals \<Rightarrow> ctx_err \<Rightarrow> string \<Rightarrow> nat \<Rightarrow> (gerr + unit) prog" where
  "destroy_loop G ce volumeID 0 = Ret (Inl (FromContextError ce))"
| "destroy_loop G ce volumeID (Suc n) =
     bindP (GetLVMVolume G volumeID) (\<lambda>r. case r of
         Inl e \<Rightarrow>
           if IsNotFound e then Ret (Inr ())
           else Ret (Inl (StatusErr Aborted
             [MStr ''lvm: destroy wait failed, not able to get the volume '', MStr volumeID, MStr '' '', MErr e]))
       | Inr _ \<Rightarrow> destroy_loop G ce volumeID n)"

definition WaitForLVMVolumeDestroy :: "globals \<Rightarrow> string \<Rightarrow> (gerr + unit) prog" where
  "WaitForLVMVolumeDestroy G volumeID = OpCtx () (\<lambda>(n, ce). destroy_loop G ce volumeID n)"

definition GetLVMVolumeState :: "globals \<Rightarrow> string \<Rightarrow> (gerr + string \<times> string) prog" where
  "GetLVMVolumeState G volID =
     tryP (getP (vol_kc_Get (kc_for (LvmNamespace G)) volID)) (\<lambda>vol.
       Ret (Inr (OwnerNodeID (Spec vol), State (Status vol))))"

definition UpdateVolInfo :: "globals \<Rightarrow> LVMVolume \<Rightarrow> string \<Rightarrow> (gerr + unit) prog" where
  "UpdateVolInfo G vol state =
     (if Finalizers vol \<noteq> None then Ret (Inr ())
      else
        let finalizers = (if state = LVMStatusReady then [LVMFinalizer] else []);
            labels = [(LVMNodeKey, NodeID G)]
        in case vol_Build (chain (vol_BuildFrom (Some vol))
                  [vol_WithFinalizer finalizers, vol_WithVolumeStatus state, vol_WithLabels labels]) of
             Inl e \<Rightarrow> Ret (Inl e)
           | Inr newVol \<Rightarrow>
               tryP (vol_kc_Update (kc_for (LvmNamespace G)) (Some newVol)) (\<lambda>_. Ret (Inr ())))"

definition UpdateVolGroup :: "globals \<Rightarrow> LVMVolume \<Rightarrow> string \<Rightarrow> (gerr + LVMVolume) prog" where
  "UpdateVolGroup G vol vgName =
     (case vol_Build (chain (vol_BuildFrom (Some vol)) [vol_WithVolGroup vgName]) of
        Inl e \<Rightarrow> Ret (Inl e)
      | Inr newVol \<Rightarrow> vol_kc_Update (kc_for (LvmNamespace G)) (Some newVol))"

definition RemoveVolFinalizer :: "globals \<Rightarrow> LVMVolume \<Rightarrow> (gerr + unit) prog" where
  "RemoveVolFinalizer G vol =
     tryP (vol_kc_Update (kc_for (LvmNamespace G)) (Some (vol\<lparr>Finalizers := None\<rparr>))) (\<lambda>_. Ret (Inr ()))"

definition ResizeVolume :: "globals \<Rightarrow> LVMVolume \<Rightarrow> int \<Rightarrow> (gerr + unit) prog" where
  "ResizeVolume G vol newSize =
     tryP (vol_kc_Update (kc_for (LvmNamespace G))
             (Some (vol\<lparr>Spec := (Spec vol)\<lparr>Capacity := FormatInt newSize\<rparr>\<rparr>))) (\<lambda>_. Ret (Inr ()))"

definition ProvisionSnapshot :: "globals \<Rightarrow> LVMSnapshot \<Rightarrow> (gerr + unit) prog" where
  "ProvisionSnapshot G snap =
     tryP (snap_kc_Create (kc_for (LvmNamespace G)) (Some snap)) (\<lambda>_. Ret (Inr ()))"

definition lvm_DeleteSnapshot :: "globals \<Rightarrow> string \<Rightarrow> (gerr + unit) prog" where
  "lvm_DeleteSnapshot G snapName = snap_kc_Delete (kc_for (LvmNamespace G)) snapName"

definition GetLVMSnapshot :: "globals \<Rightarrow> string \<Rightarrow> (gerr + LVMSnapshot) prog" where
  "GetLVMSnapshot G snapID = getP (snap_kc_Get (kc_for (LvmNamespace G)) snapID)"

definition GetSnapshotForVolume :: "globals \<Rightarrow> string \<Rightarrow> (gerr + LVMSnapshot list) prog" where
  "GetSnapshotForVolume G volumeID = snap_kc_List (kc_for (LvmNamespace G)) (LVMVolKey, volumeID)"

text \<open>On an error the code reads \<^verbatim>\<open>snap.Name\<close> for its log message, also when \<^verbatim>\<open>snap\<close> is nil.\<close>

definition GetLVMSnapshotStatus :: "globals \<Rightarrow> string \<Rightarrow> (gerr + string) prog" where
  "GetLVMSnapshotStatus G snapID =
     bindP (snap_kc_Get (kc_for (LvmNamespace G)) snapID) (\<lambda>r. case r of
         GetErr e p \<Rightarrow>
           (case p of None \<Rightarrow> Panic ''nil pointer dereference'' | Some _ \<Rightarrow> Ret (Inl e))
       | Got snap \<Rightarrow> Ret (Inr (snap_State (snap_Status snap))))"

text \<open>The status of the built object is set before the error of \<^verbatim>\<open>Build\<close> is looked at.\<close>

definition UpdateSnapInfo :: "globals \<Rightarrow> LVMSnapshot \<Rightarrow> (gerr + unit) prog" where
  "UpdateSnapInfo G snap =
     (let finalizers = [LVMFinalizer]; labels = [(LVMNodeKey, NodeID G)] in
      if Finalizers snap \<noteq> None then Ret (Inr ())
      else case snap_Build (chain (snap_BuildFrom (Some snap))
                  [snap_WithFinalizer finalizers, snap_WithLabels labels]) of
             Inl e \<Rightarrow> Panic ''nil pointer dereference''
           | Inr newSnap \<Rightarrow>
               tryP (snap_kc_Update (kc_for (LvmNamespace G))
                       (Some (newSnap\<lparr>snap_Status := (snap_Status newSnap)\<lparr>snap_State := LVMStatusReady\<rparr>\<rparr>)))
                 (\<lambda>_. Ret (Inr ())))"

definition RemoveSnapFinalizer :: "globals \<Rightarrow> LVMSnapshot \<Rightarrow> (gerr + unit) prog" where
  "RemoveSnapFinalizer G snap =
     tryP (snap_kc_Update (kc_for (LvmNamespace G)) (Some (snap\<lparr>Finalizers := None\<rparr>))) (\<lambda>_. Ret (Inr ()))"


section \<open>Rules for the callers\<close>

abbreviation "cs_fail e \<equiv> EvErr (GetClientset []) (Some e)"
abbreviation "cs_ok \<equiv> EvErr (GetClientset []) None"

definition cs_wrap :: "gerr \<Rightarrow> msg \<Rightarrow> gerr" where
  "cs_wrap e m = WrapErr (WrapErr e [MStr ''failed to get clientset'']) m"

lemma IsNotFound_cs_wrap [simp]: "IsNotFound (cs_wrap e m) = IsNotFound e"
  by (simp add: cs_wrap_def)

lemma status_code_cs_wrap [simp]: "status_code (cs_wrap e m) = None"
  by (simp add: cs_wrap_def)

text \<open>The runs of the calls: a missing name is refused, the clientset may fail to be built, or the request
  is sent and its answer returned.\<close>

lemma wp_GetLVMVolume [wp_simps]:
  "wp (GetLVMVolume G vid) Q tr \<longleftrightarrow>
     (if vid = [] then Q (Val (Inl (NewErr [MStr ''failed to get lvm volume: missing lvm volume name'']))) tr
      else (\<forall>e. Q (Val (Inl (cs_wrap e [MStr ''failed to get lvm volume {'', MStr vid, MStr ''} in namespace {'', MStr (LvmNamespace G), MStr ''}'']))) (tr @ [cs_fail e])) \<and>
           (\<forall>y. Q (Val y) (tr @ [cs_ok, EvVol (VolGet (LvmNamespace G) vid) y])))"
  by (auto simp: GetLVMVolume_def vol_kc_defs wp_simps getClientOrCached_def cs_wrap_def
      getClientsetForPathOrDirect_def split_sum_all)

lemma wp_GetLVMSnapshot [wp_simps]:
  "wp (GetLVMSnapshot G sid) Q tr \<longleftrightarrow>
     (if sid = [] then Q (Val (Inl (NewErr [MStr ''failed to get lvm volume: missing lvm volume name'']))) tr
      else (\<forall>e. Q (Val (Inl (cs_wrap e [MStr ''failed to get lvm volume {'', MStr sid, MStr ''} in namespace {'', MStr (LvmNamespace G), MStr ''}'']))) (tr @ [cs_fail e])) \<and>
           (\<forall>y. Q (Val y) (tr @ [cs_ok, EvSnap (SnapGet (LvmNamespace G) sid) y])))"
  by (auto simp: GetLVMSnapshot_def snap_kc_defs wp_simps getClientOrCached_def cs_wrap_def
      getClientsetForPathOrDirect_def split_sum_all)

lemma wp_vol_kc_Update [wp_simps]:
  "wp (vol_kc_Update (kc_for ns) (Some vol)) Q tr \<longleftrightarrow>
     (\<forall>e. Q (Val (Inl (cs_wrap e [MStr ''failed to update csivolume {'', MStr (Name vol), MStr ''} in namespace {'', MStr (Namespace vol), MStr ''}'']))) (tr @ [cs_fail e])) \<and>
     (\<forall>y. Q (Val y) (tr @ [cs_ok, EvVol (VolUpdate ns vol) y]))"
  by (auto simp: vol_kc_Update_def vol_defaultUpdate_def wp_simps cs_wrap_def)

lemma wp_snap_kc_Update [wp_simps]:
  "wp (snap_kc_Update (kc_for ns) (Some vol)) Q tr \<longleftrightarrow>
     (\<forall>e. Q (Val (Inl (cs_wrap e [MStr ''failed to update csivolume {'', MStr (Name vol), MStr ''} in namespace {'', MStr (Namespace vol), MStr ''}'']))) (tr @ [cs_fail e])) \<and>
     (\<forall>y. Q (Val y) (tr @ [cs_ok, EvSnap (SnapUpdate ns vol) y]))"
  by (auto simp: snap_kc_Update_def snap_defaultUpdate_def wp_simps cs_wrap_def)

lemma wp_ProvisionVolume [wp_simps]:
  "wp (ProvisionVolume G vol) Q tr \<longleftrightarrow>
     (\<forall>e. Q (Val (Inl (cs_wrap e [MStr ''failed to create lvm volume {'', MStr (Name vol), MStr ''} in namespace {'', MStr (LvmNamespace G), MStr ''}'']))) (tr @ [cs_fail e])) \<and>
     (\<forall>y. Q (Val y) (tr @ [cs_ok, EvVol (VolCreate (LvmNamespace G) vol) y]))"
  by (auto simp: ProvisionVolume_def vol_kc_Create_def vol_defaultCreate_def wp_simps cs_wrap_def)

lemma wp_lvm_DeleteVolume [wp_simps]:
  "wp (lvm_DeleteVolume G vid) Q tr \<longleftrightarrow>
     (if vid = [] then Q (Val (Inl (NewErr [MStr ''failed to delete csivolume: missing vol name'']))) tr
      else (\<forall>e. Q (Val (Inl (cs_wrap e [MStr ''failed to delete csivolume {'', MStr vid, MStr ''} in namespace {'', MStr (LvmNamespace G), MStr ''}'']))) (tr @ [cs_fail e])) \<and>
           Q (Val (Inr ())) (tr @ [cs_ok, EvErr (VolDelete (LvmNamespace G) vid) None]) \<and>
           (\<forall>e. Q (Val (Inl e)) (tr @ [cs_ok, EvErr (VolDelete (LvmNamespace G) vid) (Some e)])))"
  by (auto simp: lvm_DeleteVolume_def vol_kc_Delete_def vol_defaultDel_def wp_simps cs_wrap_def)

lemma wp_lvm_DeleteSnapshot [wp_simps]:
  "wp (lvm_DeleteSnapshot G sid) Q tr \<longleftrightarrow>
     (if sid = [] then Q (Val (Inl (NewErr [MStr ''failed to delete csivolume: missing vol name'']))) tr
      else (\<forall>e. Q (Val (Inl (cs_wrap e [MStr ''failed to delete csivolume {'', MStr sid, MStr ''} in namespace {'', MStr (LvmNamespace G), MStr ''}'']))) (tr @ [cs_fail e])) \<and>
           Q (Val (Inr ())) (tr @ [cs_ok, EvErr (SnapDelete (LvmNamespace G) sid) None]) \<and>
           (\<forall>e. Q (Val (Inl e)) (tr @ [cs_ok, EvErr (SnapDelete (LvmNamespace G) sid) (Some e)])))"
  by (auto simp: lvm_DeleteSnapshot_def snap_kc_Delete_def snap_defaultDel_def wp_simps cs_wrap_def)

lemma wp_ProvisionSnapshot [wp_simps]:
  "wp (ProvisionSnapshot G snap) Q tr \<longleftrightarrow>
     (\<forall>e. Q (Val (Inl (cs_wrap e [MStr ''failed to create lvm volume {'', MStr (Name snap), MStr ''} in namespace {'', MStr (LvmNamespace G), MStr ''}'']))) (tr @ [cs_fail e])) \<and>
     (\<forall>e. Q (Val (Inl e)) (tr @ [cs_ok, EvSnap (SnapCreate (LvmNamespace G) snap) (Inl e)])) \<and>
     (\<forall>s. Q (Val (Inr ())) (tr @ [cs_ok, EvSnap (SnapCreate (LvmNamespace G) snap) (Inr s)]))"
  by (auto simp: ProvisionSnapshot_def snap_kc_Create_def snap_defaultCreate_def wp_simps cs_wrap_def
      split: sum.splits)

lemma wp_GetSnapshotForVolume [wp_simps]:
  "wp (GetSnapshotForVolume G vid) Q tr \<longleftrightarrow>
     (\<forall>e. Q (Val (Inl (cs_wrap e [MStr ''failed to list lvm volumes in namespace {'', MStr (LvmNamespace G), MStr ''}'']))) (tr @ [cs_fail e])) \<and>
     (\<forall>y. Q (Val y) (tr @ [cs_ok, EvSnaps (LvmNamespace G, LVMVolKey, vid) y]))"
  by (auto simp: GetSnapshotForVolume_def snap_kc_List_def snap_defaultList_def wp_simps cs_wrap_def)

text \<open>Writes of a resource with its answer reduced to an error.\<close>

lemma wp_RemoveVolFinalizer [wp_simps]:
  "wp (RemoveVolFinalizer G vol) Q tr \<longleftrightarrow>
     (\<forall>e. Q (Val (Inl (cs_wrap e [MStr ''failed to update csivolume {'', MStr (Name vol), MStr ''} in namespace {'', MStr (Namespace vol), MStr ''}'']))) (tr @ [cs_fail e])) \<and>
     (\<forall>e. Q (Val (Inl e)) (tr @ [cs_ok, EvVol (VolUpdate (LvmNamespace G) (vol\<lparr>Finalizers := None\<rparr>)) (Inl e)])) \<and>
     (\<forall>v. Q (Val (Inr ())) (tr @ [cs_ok, EvVol (VolUpdate (LvmNamespace G) (vol\<lparr>Finalizers := None\<rparr>)) (Inr v)]))"
  by (auto simp: RemoveVolFinalizer_def wp_simps split: sum.splits)

lemma wp_RemoveSnapFinalizer [wp_simps]:
  "wp (RemoveSnapFinalizer G snap) Q tr \<longleftrightarrow>
     (\<forall>e. Q (Val (Inl (cs_wrap e [MStr ''failed to update csivolume {'', MStr (Name snap), MStr ''} in namespace {'', MStr (Namespace snap), MStr ''}'']))) (tr @ [cs_fail e])) \<and>
     (\<forall>e. Q (Val (Inl e)) (tr @ [cs_ok, EvSnap (SnapUpdate (LvmNamespace G) (snap\<lparr>Finalizers := None\<rparr>)) (Inl e)])) \<and>
     (\<forall>v. Q (Val (Inr ())) (tr @ [cs_ok, EvSnap (SnapUpdate (LvmNamespace G) (snap\<lparr>Finalizers := None\<rparr>)) (Inr v)]))"
  by (auto simp: RemoveSnapFinalizer_def wp_simps split: sum.splits)

lemma wp_ResizeVolume [wp_simps]:
  "wp (ResizeVolume G vol n) Q tr \<longleftrightarrow>
     (let vol' = vol\<lparr>Spec := (Spec vol)\<lparr>Capacity := FormatInt n\<rparr>\<rparr> in
      (\<forall>e. Q (Val (Inl (cs_wrap e [MStr ''failed to update csivolume {'', MStr (Name vol), MStr ''} in namespace {'', MStr (Namespace vol), MStr ''}'']))) (tr @ [cs_fail e])) \<and>
      (\<forall>e. Q (Val (Inl e)) (tr @ [cs_ok, EvVol (VolUpdate (LvmNamespace G) vol') (Inl e)])) \<and>
      (\<forall>v. Q (Val (Inr ())) (tr @ [cs_ok, EvVol (VolUpdate (LvmNamespace G) vol') (Inr v)])))"
  by (auto simp: ResizeVolume_def wp_simps Let_def split: sum.splits)

text \<open>The object that \<^verbatim>\<open>UpdateVolInfo\<close> writes.\<close>

definition vol_info :: "globals \<Rightarrow> LVMVolume \<Rightarrow> string \<Rightarrow> LVMVolume" where
  "vol_info G vol state =
     vol\<lparr>Finalizers := (if state = LVMStatusReady then Some [LVMFinalizer] else None),
         Status := (Status vol)\<lparr>State := state\<rparr>, Labels := (Labels vol)(LVMNodeKey \<mapsto> NodeID G)\<rparr>"

lemma wp_UpdateVolInfo [wp_simps]:
  "wp (UpdateVolInfo G vol state) Q tr \<longleftrightarrow>
     (if Finalizers vol \<noteq> None then Q (Val (Inr ())) tr
      else
      (\<forall>e. Q (Val (Inl (cs_wrap e [MStr ''failed to update csivolume {'', MStr (Name vol), MStr ''} in namespace {'', MStr (Namespace vol), MStr ''}'']))) (tr @ [cs_fail e])) \<and>
      (\<forall>e. Q (Val (Inl e)) (tr @ [cs_ok, EvVol (VolUpdate (LvmNamespace G) (vol_info G vol state)) (Inl e)])) \<and>
      (\<forall>v. Q (Val (Inr ())) (tr @ [cs_ok, EvVol (VolUpdate (LvmNamespace G) (vol_info G vol state)) (Inr v)])))"
  by (auto simp: UpdateVolInfo_def wp_simps vol_BuildFrom_def vol_builder_defs vol_Build_def vol_info_def
      merge_labels_def Let_def on_object_def split_sum_all)

lemma wp_UpdateVolGroup [wp_simps]:
  "wp (UpdateVolGroup G vol vg) Q tr \<longleftrightarrow>
     (if vg = [] then Q (Val (Inl (NewErr [MErr (NewErr [MStr ''failed to build lvm volume object: missing vg name''])]))) tr
      else
      (\<forall>e. Q (Val (Inl (cs_wrap e [MStr ''failed to update csivolume {'', MStr (Name vol), MStr ''} in namespace {'', MStr (Namespace vol), MStr ''}'']))) (tr @ [cs_fail e])) \<and>
      (\<forall>y. Q (Val y) (tr @ [cs_ok, EvVol (VolUpdate (LvmNamespace G) (vol\<lparr>Spec := (Spec vol)\<lparr>VolGroup := vg\<rparr>\<rparr>)) y])))"
  by (auto simp: UpdateVolGroup_def wp_simps vol_BuildFrom_def vol_builder_defs vol_Build_def on_object_def)

definition snap_info :: "globals \<Rightarrow> LVMSnapshot \<Rightarrow> LVMSnapshot" where
  "snap_info G snap =
     snap\<lparr>Finalizers := Some [LVMFinalizer], Labels := (Labels snap)(LVMNodeKey \<mapsto> NodeID G),
          snap_Status := (snap_Status snap)\<lparr>snap_State := LVMStatusReady\<rparr>\<rparr>"

lemma wp_UpdateSnapInfo [wp_simps]:
  "wp (UpdateSnapInfo G snap) Q tr \<longleftrightarrow>
     (if Finalizers snap \<noteq> None then Q (Val (Inr ())) tr
      else
      (\<forall>e. Q (Val (Inl (cs_wrap e [MStr ''failed to update csivolume {'', MStr (Name snap), MStr ''} in namespace {'', MStr (Namespace snap), MStr ''}'']))) (tr @ [cs_fail e])) \<and>
      (\<forall>e. Q (Val (Inl e)) (tr @ [cs_ok, EvSnap (SnapUpdate (LvmNamespace G) (snap_info G snap)) (Inl e)])) \<and>
      (\<forall>v. Q (Val (Inr ())) (tr @ [cs_ok, EvSnap (SnapUpdate (LvmNamespace G) (snap_info G snap)) (Inr v)])))"
  by (auto simp: UpdateSnapInfo_def wp_simps snap_BuildFrom_def snap_builder_defs snap_Build_def snap_info_def
      merge_labels_def Let_def on_object_def split_sum_all)


section \<open>The waiting loops\<close>

definition is_terminal :: "LVMVolume \<Rightarrow> bool" where
  "is_terminal vol = (State (Status vol) = LVMStatusReady \<or> State (Status vol) = LVMStatusFailed)"

definition is_vol_read :: "event \<Rightarrow> bool" where
  "is_vol_read ev = (case ev of EvVol (VolGet _ _) _ \<Rightarrow> True | _ \<Rightarrow> False)"

lemma is_vol_read_simps [simp]:
  "is_vol_read (EvVol (VolGet ns vid) y)" "\<not> is_vol_read (EvErr x z)" "\<not> is_vol_read (EvCtx u c)"
  by (simp_all add: is_vol_read_def)

abbreviation "read_only_event ev \<equiv> is_vol_read ev \<or> is_clientset_event ev"

lemma cs_events [simp]: "is_clientset_event (EvErr (GetClientset p) y)"
  by (simp add: is_clientset_event_def)

text \<open>The answers of a loop that polls at most \<open>n\<close> times, after the trace \<open>tr0\<close>.\<close>

definition poll_result :: "nat \<Rightarrow> event list \<Rightarrow> ('a \<Rightarrow> event \<Rightarrow> bool) \<Rightarrow> (gerr + 'a) outcome \<Rightarrow> event list \<Rightarrow> bool" where
  "poll_result n tr0 ok r tr = (\<exists>tr'. tr = tr0 @ tr' \<and> list_all read_only_event tr' \<and>
     length (filter is_vol_read tr') \<le> n \<and>
     (case r of Crash _ \<Rightarrow> False | Val (Inl _) \<Rightarrow> True | Val (Inr a) \<Rightarrow> tr' \<noteq> [] \<and> ok a (last tr')))"

lemma poll_result_step:
  assumes "poll_result n (tr0 @ [cs_ok, EvVol (VolGet ns vid) y]) ok r tr"
  shows "poll_result (Suc n) tr0 ok r tr"
proof -
  from assms obtain tr' where "tr = tr0 @ ([cs_ok, EvVol (VolGet ns vid) y] @ tr')"
    "list_all read_only_event tr'" "length (filter is_vol_read tr') \<le> n"
    "case r of Crash _ \<Rightarrow> False | Val (Inl _) \<Rightarrow> True | Val (Inr a) \<Rightarrow> tr' \<noteq> [] \<and> ok a (last tr')"
    by (auto simp: poll_result_def)
  then show ?thesis
    unfolding poll_result_def
    by (intro exI [of _ "[cs_ok, EvVol (VolGet ns vid) y] @ tr'"])
      (auto split: outcome.splits sum.splits)
qed

lemma poll_result_now [simp]:
  "poll_result (Suc n) tr ok (Val (Inl e)) (tr @ [cs_ok, EvVol (VolGet ns vid) y])"
  "poll_result n tr ok (Val (Inl e)) (tr @ [cs_fail e'])"
  "poll_result n tr ok (Val (Inl e)) tr"
  "poll_result (Suc n) tr ok (Val (Inr a)) (tr @ [cs_ok, EvVol (VolGet ns vid) y]) \<longleftrightarrow>
     ok a (EvVol (VolGet ns vid) y)"
  "poll_result n tr ok (Val (Inr a)) (tr @ [cs_fail e']) \<longleftrightarrow> ok a (cs_fail e')"
  by (auto simp: poll_result_def)

lemma processed_loop_wp:
  assumes "vid \<noteq> []"
  shows "wp (processed_loop G ce vid n)
    (poll_result n tr (\<lambda>v ev. ev = EvVol (VolGet (LvmNamespace G) vid) (Inr v) \<and> is_terminal v)) tr"
proof (induction n arbitrary: tr)
  case (Suc n)
  show ?case
    using assms by (auto simp: wp_simps split_sum_all is_terminal_def [symmetric]
        intro!: wp_mono [OF Suc] poll_result_step)
qed (simp)

lemma destroy_loop_wp:
  assumes "vid \<noteq> []"
  shows "wp (destroy_loop G ce vid n)
    (poll_result n tr (\<lambda>_ ev. \<exists>e. IsNotFound e \<and> (ev = EvVol (VolGet (LvmNamespace G) vid) (Inl e) \<or> ev = cs_fail e))) tr"
proof (induction n arbitrary: tr)
  case (Suc n)
  show ?case
    using assms by (auto simp: wp_simps split_sum_all
        intro!: wp_mono [OF Suc] poll_result_step)
qed (simp)

section \<open>Properties\<close>

text \<open>(C17) Waiting for a volume to be processed ends within the number of polls that the context allows,
  changes nothing, never crashes, and when it returns a volume this volume is the last answer of the API
  server and is in one of the terminal states \<^verbatim>\<open>Ready\<close> and \<^verbatim>\<open>Failed\<close>.\<close>

theorem wait_processed_terminal:
  assumes "runs (WaitForLVMVolumeProcessed G vid) tr r" and "vid \<noteq> []"
  shows "\<exists>n ce tr' x. tr = EvCtx () (n, ce) # tr' \<and> r = Val x \<and>
    list_all (\<lambda>ev. is_vol_read ev \<or> is_clientset_event ev) tr' \<and> length (filter is_vol_read tr') \<le> n \<and>
    (\<forall>v. x = Inr v \<longrightarrow> tr' \<noteq> [] \<and> last tr' = EvVol (VolGet (LvmNamespace G) vid) (Inr v) \<and>
       State (Status v) \<in> {LVMStatusReady, LVMStatusFailed})"
proof -
  from assms obtain n ce tr' where tr: "tr = EvCtx () (n, ce) # tr'"
    and run: "runs (processed_loop G ce vid n) tr' r"
    by (auto simp: WaitForLVMVolumeProcessed_def)
  from wp_runs [OF processed_loop_wp [OF assms(2)] run] tr show ?thesis
    by (cases r) (auto simp: poll_result_def is_terminal_def split: sum.splits)
qed

definition ex_ready_vol :: LVMVolume where
  "ex_ready_vol = zero_LVMVolume\<lparr>Name := ''pvc-1'', Finalizers := Some [LVMFinalizer],
     Spec := \<lparr>OwnerNodeID = ''node-1'', VolGroup = ''lvmvg'', VgPattern = ''^lvmvg$'', Capacity = ''1073741824'',
             Shared = ''no'', ThinProvision = ''no''\<rparr>,
     Status := \<lparr>State = LVMStatusReady, StatusError = None\<rparr>\<rparr>"

theorem wait_processed_terminal_witness:
  "State (Status ex_ready_vol) \<in> {LVMStatusReady, LVMStatusFailed}"
proof -
  have "runs (WaitForLVMVolumeProcessed ex_G ''pvc-1'')
      [EvCtx () (1, CtxCanceled), cs_ok, EvVol (VolGet ''openebs'' ''pvc-1'') (Inr ex_ready_vol)]
      (Val (Inr ex_ready_vol))"
    by (simp add: WaitForLVMVolumeProcessed_def GetLVMVolume_def vol_kc_defs getP_def getClientOrCached_def
        getClientsetForPathOrDirect_def callErr_def ex_ready_vol_def)
  from wait_processed_terminal [OF this] show ?thesis by auto
qed

text \<open>Waiting for a volume to be deleted reports success only when the last thing it saw was an answer
  that the volume does not exist; it ends within the number of polls that the context allows, changes
  nothing and never crashes.\<close>

theorem wait_destroy_not_found:
  assumes "runs (WaitForLVMVolumeDestroy G vid) tr r" and "vid \<noteq> []"
  shows "\<exists>n ce tr' x. tr = EvCtx () (n, ce) # tr' \<and> r = Val x \<and>
    list_all (\<lambda>ev. is_vol_read ev \<or> is_clientset_event ev) tr' \<and> length (filter is_vol_read tr') \<le> n \<and>
    (x = Inr () \<longrightarrow> tr' \<noteq> [] \<and> (\<exists>e. IsNotFound e \<and>
       last tr' \<in> {EvVol (VolGet (LvmNamespace G) vid) (Inl e), EvErr (GetClientset []) (Some e)}))"
proof -
  from assms obtain n ce tr' where tr: "tr = EvCtx () (n, ce) # tr'"
    and run: "runs (destroy_loop G ce vid n) tr' r"
    by (auto simp: WaitForLVMVolumeDestroy_def)
  from wp_runs [OF destroy_loop_wp [OF assms(2)] run] tr show ?thesis
    by (cases r) (auto simp: poll_result_def split: sum.splits)
qed

theorem wait_destroy_not_found_witness:
  "\<exists>e. IsNotFound e \<and>
    last [cs_ok, EvVol (VolGet ''openebs'' ''pvc-1'') (Inl (ApiErr ReasonNotFound ''gone''))]
      \<in> {EvVol (VolGet (LvmNamespace ex_G) ''pvc-1'') (Inl e), EvErr (GetClientset []) (Some e)}"
proof -
  have "runs (WaitForLVMVolumeDestroy ex_G ''pvc-1'')
      [EvCtx () (1, CtxCanceled), cs_ok,
       EvVol (VolGet ''openebs'' ''pvc-1'') (Inl (ApiErr ReasonNotFound ''gone''))] (Val (Inr ()))"
    by (simp add: WaitForLVMVolumeDestroy_def GetLVMVolume_def vol_kc_defs getP_def getClientOrCached_def
        getClientsetForPathOrDirect_def callErr_def)
  from wait_destroy_not_found [OF this] show ?thesis by auto
qed

end
