(* ===== verification/Lvm_Command.thy ===== *)
theory Lvm_Command
  imports Lvm_Volume
begin

text \<open>
  The part of \<^verbatim>\<open>src/pkg/lvm/lvm_util.go\<close> that runs LVM commands: creation, removal, resizing and
  snapshots of logical volumes, with the argument lists they build. A command is an operation of the
  environment that answers with its standard output and an error; the code only logs the standard error.
  The existence of a device is an \<^verbatim>\<open>os.Stat\<close> of its device mapper path.
\<close>

section \<open>Definitions\<close>

abbreviation "DevPath \<equiv> ''/dev/''"
abbreviation "DevMapperPath \<equiv> ''/dev/mapper/''"
abbreviation "MinExtentRoundOffSize \<equiv> (268435456 :: int)"
abbreviation "BlockCleanerCommand \<equiv> ''wipefs''"
abbreviation "VGList \<equiv> ''vgs''"
abbreviation "LVCreate \<equiv> ''lvcreate''"
abbreviation "LVRemove \<equiv> ''lvremove''"
abbreviation "LVExtend \<equiv> ''lvextend''"
abbreviation "LVList \<equiv> ''lvs''"
abbreviation "PVList \<equiv> ''pvs''"
abbreviation "PVScan \<equiv> ''pvscan''"

definition newExecError :: "string \<Rightarrow> gerr option \<Rightarrow> gerr option" where
  "newExecError output err = (case err of None \<Rightarrow> None | Some e \<Rightarrow> Some (ExecErr output e))"

definition RunCommandSplit :: "string \<Rightarrow> string list \<Rightarrow> (string \<times> gerr option) prog" where
  "RunCommandSplit command args = OpExec (RunSplit command args) Ret"

text \<open>\<^verbatim>\<open>lvThinExists\<close>: an error of the command counts as absence.\<close>

definition lvThinExists :: "string \<Rightarrow> string \<Rightarrow> bool prog" where
  "lvThinExists vg name =
     bindP (RunCommandSplit ''lvs'' [vg @ ''/'' @ name, ''--noheadings'', ''-o'', ''lv_name'']) (\<lambda>(out, err).
       case err of Some _ \<Rightarrow> Ret False | None \<Rightarrow> Ret (name = TrimSpace out))"

definition isSnapshotExists :: "string \<Rightarrow> string \<Rightarrow> (bool \<times> gerr option) prog" where
  "isSnapshotExists vg snapVolumeName =
     bindP (RunCommandSplit ''lvs'' [vg @ ''/'' @ snapVolumeName, ''--noheadings'', ''-o'', ''lv_name'']) (\<lambda>(out, err).
       case err of Some e \<Rightarrow> Ret (False, Some e) | None \<Rightarrow> Ret (snapVolumeName = TrimSpace out, None))"

definition getVGSize :: "string \<Rightarrow> string prog" where
  "getVGSize vgname =
     bindP (RunCommandSplit ''vgs''
              [vgname, ''--noheadings'', ''-o'', ''vg_free'', ''--units'', ''b'', ''--nosuffix'']) (\<lambda>(out, err).
       case err of Some _ \<Rightarrow> Ret [] | None \<Rightarrow> Ret (TrimSpace out))"

definition getThinPoolSize :: "string \<Rightarrow> string \<Rightarrow> string prog" where
  "getThinPoolSize vgname volsize =
     bindP (getVGSize vgname) (\<lambda>outStr.
       case ParseInt (TrimSpace outStr) of
         (_, Some _) \<Rightarrow> Ret []
       | (vgFreeSize, None) \<Rightarrow>
           (case ParseInt (TrimSpace volsize) of
              (_, Some _) \<Rightarrow> Ret []
            | (volSize, None) \<Rightarrow>
                if vgFreeSize < volSize
                then Ret (FormatInt (sub64 vgFreeSize MinExtentRoundOffSize) @ ''b'')
                else Ret (volsize @ ''b'')))"

definition buildLVMCreateArgs :: "LVMVolume \<Rightarrow> string list prog" where
  "buildLVMCreateArgs vol =
     (let volume = Name vol;
          size = Capacity (Spec vol) @ ''b'';
          vg = VolGroup (Spec vol);
          pool = vg @ ''_thinpool'';
          thin = (TrimSpace (ThinProvision (Spec vol)) = YES)
      in bindP
           (if Capacity (Spec vol) \<noteq> [] then
              if \<not> thin then Ret [''-L'', size]
              else bindP (lvThinExists vg pool) (\<lambda>ex.
                if \<not> ex then
                  bindP (getThinPoolSize vg (Capacity (Spec vol))) (\<lambda>poolsize. Ret [''-L'', poolsize])
                else Ret [])
            else Ret [])
           (\<lambda>sizeArgs. Ret (sizeArgs
              @ (if thin then [''-T'', vg @ ''/'' @ pool, ''-V'', size] else [])
              @ (if vg \<noteq> [] then [''-n'', volume] else [])
              @ (if \<not> thin then [vg] else [])
              @ [''-y''])))"

definition buildLVMDestroyArgs :: "LVMVolume \<Rightarrow> string list" where
  "buildLVMDestroyArgs vol = [''-y'', DevPath @ VolGroup (Spec vol) @ ''/'' @ Name vol]"

definition GetVolumeDevPath :: "LVMVolume \<Rightarrow> gerr + string" where
  "GetVolumeDevPath vol =
     (let vg = ReplaceAll CHR ''-'' ''--'' (VolGroup (Spec vol));
          lv = ReplaceAll CHR ''-'' ''--'' (Name vol)
      in Inr (DevMapperPath @ vg @ ''-'' @ lv))"

definition CheckVolumeExists :: "LVMVolume \<Rightarrow> (gerr + bool) prog" where
  "CheckVolumeExists vol =
     (case GetVolumeDevPath vol of
        Inl e \<Rightarrow> Ret (Inl e)
      | Inr devPath \<Rightarrow> OpStat devPath (\<lambda>st. case st of
            StatOk \<Rightarrow> Ret (Inr True)
          | StatNotExist \<Rightarrow> Ret (Inr False)
          | StatErr e \<Rightarrow> Ret (Inl e)))"

text \<open>\<^verbatim>\<open>filepath.Join\<close> for a rooted first element: empty elements are left out and the result is cleaned,
  that is, empty and \<^verbatim>\<open>.\<close> components are dropped and \<^verbatim>\<open>..\<close> removes its predecessor.\<close>

fun clean_step :: "string list \<Rightarrow> string \<Rightarrow> string list" where
  "clean_step stack c =
     (if c = [] \<or> c = ''.'' then stack
      else if c = ''..'' then butlast stack
      else stack @ [c])"

definition clean_rooted :: "string \<Rightarrow> string" where
  "clean_rooted p = CHR ''/'' # Join ''/'' (foldl clean_step [] (Split CHR ''/'' p))"

definition join_rooted :: "string list \<Rightarrow> string" where
  "join_rooted elems = clean_rooted (Join ''/'' (filter (\<lambda>e. e \<noteq> []) elems))"

definition removeVolumeFilesystem :: "LVMVolume \<Rightarrow> (gerr + unit) prog" where
  "removeVolumeFilesystem lvmVolume =
     (let devicePath = join_rooted [DevPath, VolGroup (Spec lvmVolume), Name lvmVolume] in
      OpExec (RunCombined BlockCleanerCommand [''-af'', devicePath]) (\<lambda>(output, err). case err of
          Some e \<Rightarrow> Ret (Inl (WrapErr e
            [MStr ''failed to wipe filesystem on device path: '', MStr devicePath, MStr '' resp: '', MStr output]))
        | None \<Rightarrow> Ret (Inr ())))"

definition lvm_CreateVolume :: "LVMVolume \<Rightarrow> (gerr + unit) prog" where
  "lvm_CreateVolume vol =
     tryP (CheckVolumeExists vol) (\<lambda>volExists.
       if volExists then Ret (Inr ())
       else bindP (buildLVMCreateArgs vol) (\<lambda>args.
         bindP (RunCommandSplit LVCreate args) (\<lambda>(out, err).
           case newExecError out err of Some e \<Rightarrow> Ret (Inl e) | None \<Rightarrow> Ret (Inr ()))))"

definition DestroyVolume :: "LVMVolume \<Rightarrow> (gerr + unit) prog" where
  "DestroyVolume vol =
     (if VolGroup (Spec vol) = [] then Ret (Inr ())
      else tryP (CheckVolumeExists vol) (\<lambda>volExists.
        if \<not> volExists then Ret (Inr ())
        else tryP (removeVolumeFilesystem vol) (\<lambda>_.
          bindP (RunCommandSplit LVRemove (buildLVMDestroyArgs vol)) (\<lambda>(out, err).
            case err of Some e \<Rightarrow> Ret (Inl e) | None \<Rightarrow> Ret (Inr ())))))"

definition buildVolumeResizeArgs :: "LVMVolume \<Rightarrow> bool \<Rightarrow> string list" where
  "buildVolumeResizeArgs vol resizefs =
     [DevPath @ VolGroup (Spec vol) @ ''/'' @ Name vol, ''-L'', Capacity (Spec vol) @ ''b'']
     @ (if resizefs then [''-r''] else [])"

text \<open>Unsigned 64 bit sizes are natural numbers in the range of \<^verbatim>\<open>ParseUint\<close>.\<close>

definition getLVSize :: "LVMVolume \<Rightarrow> (gerr + nat) prog" where
  "getLVSize vol =
     (let lvmVolumeName = VolGroup (Spec vol) @ ''/'' @ Name vol in
      bindP (RunCommandSplit LVList
               [lvmVolumeName, ''--noheadings'', ''-o'', ''lv_size'', ''--units'', ''b'', ''--nosuffix'']) (\<lambda>(raw, err).
        case err of
          Some e \<Rightarrow> Ret (Inl (WrapErr e
            [MStr ''could not get size of volume '', MStr lvmVolumeName, MStr '' output: '', MStr raw]))
        | None \<Rightarrow>
            (case ParseUint (TrimSpace raw) of
               (_, Some ne) \<Rightarrow> Ret (Inl (NumErr ne (TrimSpace raw)))
             | (volSize, None) \<Rightarrow> Ret (Inr volSize))))"

definition ResizeLVMVolume :: "LVMVolume \<Rightarrow> bool \<Rightarrow> (gerr + unit) prog" where
  "ResizeLVMVolume vol resizefs =
     (let extend =
        bindP (RunCommandSplit LVExtend (buildVolumeResizeArgs vol resizefs)) (\<lambda>(out, err).
          case err of Some e \<Rightarrow> Ret (Inl e) | None \<Rightarrow> Ret (Inr ()))
      in if \<not> resizefs then
           (case ParseUint (Capacity (Spec vol)) of
              (_, Some ne) \<Rightarrow> Ret (Inl (NumErr ne (Capacity (Spec vol))))
            | (desiredVolSize, None) \<Rightarrow>
                tryP (getLVSize vol) (\<lambda>curVolSize.
                  if desiredVolSize \<le> curVolSize then Ret (Inr ()) else extend))
         else extend)"

definition getLVMSnapName :: "string \<Rightarrow> string" where
  "getLVMSnapName snapName = TrimPrefix snapName ''snapshot-''"

text \<open>A missing key of a Go map reads as the empty string.\<close>

definition go_lookup :: "(string \<rightharpoonup> string) \<Rightarrow> string \<Rightarrow> string" where
  "go_lookup m k = (case m k of None \<Rightarrow> [] | Some v \<Rightarrow> v)"

definition buildLVMSnapCreateArgs :: "LVMSnapshot \<Rightarrow> string list" where
  "buildLVMSnapCreateArgs snap =
     (let volName = go_lookup (Labels snap) LVMVolKey;
          volPath = DevPath @ snap_VolGroup (snap_Spec snap) @ ''/'' @ volName;
          size = SnapSize (snap_Spec snap) @ ''b''
      in [''--snapshot'', ''--name'', getLVMSnapName (Name snap), ''--permission'', ''r'', volPath]
         @ (if SnapSize (snap_Spec snap) \<noteq> [] then [''--size'', size] else []))"

definition buildLVMSnapDestroyArgs :: "LVMSnapshot \<Rightarrow> string list" where
  "buildLVMSnapDestroyArgs snap =
     [''-y'', DevPath @ snap_VolGroup (snap_Spec snap) @ ''/'' @ getLVMSnapName (Name snap)]"

definition lvm_CreateSnapshot :: "LVMSnapshot \<Rightarrow> (gerr + unit) prog" where
  "lvm_CreateSnapshot snap =
     bindP (RunCommandSplit LVCreate (buildLVMSnapCreateArgs snap)) (\<lambda>(out, err).
       case err of Some e \<Rightarrow> Ret (Inl e) | None \<Rightarrow> Ret (Inr ()))"

text \<open>The existence is looked at before the error of the check, as in the source.\<close>

definition DestroySnapshot :: "LVMSnapshot \<Rightarrow> (gerr + unit) prog" where
  "DestroySnapshot snap =
     bindP (isSnapshotExists (snap_VolGroup (snap_Spec snap)) (getLVMSnapName (Name snap))) (\<lambda>(ok, err).
       if \<not> ok then Ret (Inr ())
       else case err of
           Some e \<Rightarrow> Ret (Inl e)
         | None \<Rightarrow>
             bindP (RunCommandSplit LVRemove (buildLVMSnapDestroyArgs snap)) (\<lambda>(out, err).
               case err of Some e \<Rightarrow> Ret (Inl e) | None \<Rightarrow> Ret (Inr ())))"

definition ReloadLVMMetadataCache :: "(gerr + unit) prog" where
  "ReloadLVMMetadataCache =
     bindP (RunCommandSplit PVScan [''--cache'']) (\<lambda>(output, err).
       case err of Some e \<Rightarrow> Ret (Inl e) | None \<Rightarrow> Ret (Inr ()))"

section \<open>Rules for the callers\<close>

text \<open>An error as the result of a function that only returns an error.\<close>

fun of_err :: "gerr option \<Rightarrow> gerr + unit" where
  "of_err None = Inr ()"
| "of_err (Some e) = Inl e"

lemma case_of_err [simp]:
  "(case err of None \<Rightarrow> Ret (Inr ()) | Some e \<Rightarrow> Ret (Inl e)) = Ret (of_err err)"
  by (cases err) auto

lemma of_err_simps [simp]: "of_err err = Inr () \<longleftrightarrow> err = None" "of_err err = Inl e \<longleftrightarrow> err = Some e"
  by (cases err; simp)+

lemma wp_RunCommandSplit [wp_simps]:
  "wp (RunCommandSplit c args) Q tr \<longleftrightarrow> (\<forall>out e. Q (Val (out, e)) (tr @ [EvExec (RunSplit c args) (out, e)]))"
  by (auto simp: RunCommandSplit_def)

lemma split_stat_all: "(\<forall>st. P st) \<longleftrightarrow> P StatOk \<and> P StatNotExist \<and> (\<forall>e. P (StatErr e))"
  by (metis stat_result.exhaust)

definition dev_of :: "LVMVolume \<Rightarrow> string" where
  "dev_of vol = DevMapperPath @ ReplaceAll CHR ''-'' ''--'' (VolGroup (Spec vol)) @ ''-'' @ ReplaceAll CHR ''-'' ''--'' (Name vol)"

lemma GetVolumeDevPath_eq: "GetVolumeDevPath vol = Inr (dev_of vol)"
  by (simp only: GetVolumeDevPath_def dev_of_def Let_def)

lemma wp_CheckVolumeExists [wp_simps]:
  "wp (CheckVolumeExists vol) Q tr \<longleftrightarrow>
     Q (Val (Inr True)) (tr @ [EvStat (dev_of vol) StatOk]) \<and>
     Q (Val (Inr False)) (tr @ [EvStat (dev_of vol) StatNotExist]) \<and>
     (\<forall>e. Q (Val (Inl e)) (tr @ [EvStat (dev_of vol) (StatErr e)]))"
  by (simp add: CheckVolumeExists_def GetVolumeDevPath_eq split_stat_all)

text \<open>The queries that the construction of the arguments may run.\<close>

definition is_query :: "event \<Rightarrow> bool" where
  "is_query ev = (case ev of EvExec (RunSplit c _) _ \<Rightarrow> c \<in> {LVList, VGList} | _ \<Rightarrow> False)"

definition is_thin :: "LVMVolume \<Rightarrow> bool" where
  "is_thin vol = (TrimSpace (ThinProvision (Spec vol)) = YES)"

text \<open>The arguments after the ones that set the size of what is allocated.\<close>

definition create_args_rest :: "LVMVolume \<Rightarrow> string list" where
  "create_args_rest vol =
     (if is_thin vol then [''-T'', VolGroup (Spec vol) @ ''/'' @ VolGroup (Spec vol) @ ''_thinpool'', ''-V'', Capacity (Spec vol) @ ''b'']
      else [])
     @ (if VolGroup (Spec vol) \<noteq> [] then [''-n'', Name vol] else [])
     @ (if \<not> is_thin vol then [VolGroup (Spec vol)] else []) @ [''-y'']"

lemma buildLVMCreateArgs_thick:
  assumes "\<not> is_thin vol"
  shows "buildLVMCreateArgs vol =
    Ret ((if Capacity (Spec vol) \<noteq> [] then [''-L'', Capacity (Spec vol) @ ''b''] else []) @ create_args_rest vol)"
  using assms by (simp add: buildLVMCreateArgs_def create_args_rest_def is_thin_def Let_def)

lemma getThinPoolSize_queries: "wp (getThinPoolSize vg s) (\<lambda>r t. (\<exists>x. r = Val x) \<and> list_all is_query t) []"
  by (simp add: getThinPoolSize_def getVGSize_def wp_simps is_query_def split: prod.splits option.splits)

lemma lvThinExists_queries: "wp (lvThinExists vg s) (\<lambda>r t. (\<exists>x. r = Val x) \<and> list_all is_query t) []"
  by (auto simp: lvThinExists_def wp_simps is_query_def split: option.splits)

lemma create_args_wp:
  "wp (buildLVMCreateArgs vol)
     (\<lambda>r t. \<exists>q sz. t = tr @ q \<and> list_all is_query q \<and> r = Val (sz @ create_args_rest vol) \<and>
        (\<not> is_thin vol \<longrightarrow> q = [])) tr"
proof (cases "is_thin vol")
  case False
  then show ?thesis by (simp add: buildLVMCreateArgs_thick)
next
  case True
  let ?Q = "\<lambda>r t. \<exists>q sz. t = tr @ q \<and> list_all is_query q \<and> r = Val (sz @ create_args_rest vol)"
  have rest: "buildLVMCreateArgs vol =
      bindP (if Capacity (Spec vol) \<noteq> [] then
          bindP (lvThinExists (VolGroup (Spec vol)) (VolGroup (Spec vol) @ ''_thinpool'')) (\<lambda>ex.
            if \<not> ex then bindP (getThinPoolSize (VolGroup (Spec vol)) (Capacity (Spec vol))) (\<lambda>ps. Ret [''-L'', ps])
            else Ret []) else Ret [])
        (\<lambda>sz. Ret (sz @ create_args_rest vol))"
    using True by (simp add: buildLVMCreateArgs_def create_args_rest_def is_thin_def Let_def)
  have "wp (buildLVMCreateArgs vol) ?Q tr"
    unfolding rest wp_bindP wp_if
    by (auto simp: wp_simps split: outcome.splits
        intro!: wp_frame [OF lvThinExists_queries] wp_frame [OF getThinPoolSize_queries])
  with True show ?thesis by (simp add: wp_iff_runs)
qed

lemma wp_lvm_CreateVolume:
  assumes "Q (Val (Inr ())) (tr @ [EvStat (dev_of vol) StatOk])"
    and "\<And>e. Q (Val (Inl e)) (tr @ [EvStat (dev_of vol) (StatErr e)])"
    and "\<And>q sz out err. list_all is_query q \<Longrightarrow> \<not> is_thin vol \<longrightarrow> q = [] \<Longrightarrow>
      Q (Val (of_err (map_option (ExecErr out) err)))
        (tr @ EvStat (dev_of vol) StatNotExist # q @
           [EvExec (RunSplit LVCreate (sz @ create_args_rest vol)) (out, err)])"
  shows "wp (lvm_CreateVolume vol) Q tr"
proof -
  have exec_error: "of_err (newExecError out err) = of_err (map_option (ExecErr out) err)" for out err
    by (cases err) (auto simp: newExecError_def)
  show ?thesis
    unfolding lvm_CreateVolume_def wp_tryP wp_CheckVolumeExists
    using assms assms(3) [of "[]", simplified]
    by (auto simp: wp_simps exec_error intro!: wp_mono [OF create_args_wp])
qed

text \<open>The file that \<^verbatim>\<open>wipefs\<close> is called on, and the error for its failure.\<close>

definition wiped :: "LVMVolume \<Rightarrow> string" where
  "wiped vol = join_rooted [DevPath, VolGroup (Spec vol), Name vol]"

definition wipe_error :: "LVMVolume \<Rightarrow> string \<Rightarrow> gerr \<Rightarrow> gerr" where
  "wipe_error vol out e =
     WrapErr e [MStr ''failed to wipe filesystem on device path: '', MStr (wiped vol), MStr '' resp: '', MStr out]"

definition plain_name :: "string \<Rightarrow> bool" where
  "plain_name s \<longleftrightarrow> s \<noteq> [] \<and> s \<noteq> ''.'' \<and> s \<noteq> ''..'' \<and> CHR ''/'' \<notin> set s"

lemma wiped_plain:
  assumes "plain_name (VolGroup (Spec vol))" and "plain_name (Name vol)"
  shows "wiped vol = DevPath @ VolGroup (Spec vol) @ ''/'' @ Name vol"
  using assms by (simp add: wiped_def join_rooted_def clean_rooted_def plain_name_def Split_append_sep Split_no_sep)

lemma wp_DestroyVolume:
  assumes "VolGroup (Spec vol) = [] \<Longrightarrow> Q (Val (Inr ())) tr"
    and "VolGroup (Spec vol) \<noteq> [] \<Longrightarrow> Q (Val (Inr ())) (tr @ [EvStat (dev_of vol) StatNotExist])"
    and "\<And>e. VolGroup (Spec vol) \<noteq> [] \<Longrightarrow> Q (Val (Inl e)) (tr @ [EvStat (dev_of vol) (StatErr e)])"
    and "\<And>out e. VolGroup (Spec vol) \<noteq> [] \<Longrightarrow> Q (Val (Inl (wipe_error vol out e)))
      (tr @ [EvStat (dev_of vol) StatOk, EvExec (RunCombined BlockCleanerCommand [''-af'', wiped vol]) (out, Some e)])"
    and "\<And>out out' err. VolGroup (Spec vol) \<noteq> [] \<Longrightarrow> Q (Val (of_err err))
      (tr @ [EvStat (dev_of vol) StatOk, EvExec (RunCombined BlockCleanerCommand [''-af'', wiped vol]) (out, None),
         EvExec (RunSplit LVRemove [''-y'', DevPath @ VolGroup (Spec vol) @ ''/'' @ Name vol]) (out', err)])"
  shows "wp (DestroyVolume vol) Q tr"
  using assms
  by (auto simp: DestroyVolume_def wp_simps removeVolumeFilesystem_def buildLVMDestroyArgs_def Let_def wiped_def
      wipe_error_def split: option.splits)

lemma wp_lvm_CreateSnapshot [wp_simps]:
  "wp (lvm_CreateSnapshot snap) Q tr \<longleftrightarrow> (\<forall>out err. Q (Val (of_err err))
     (tr @ [EvExec (RunSplit LVCreate (buildLVMSnapCreateArgs snap)) (out, err)]))"
  by (simp add: lvm_CreateSnapshot_def wp_simps)

lemma wp_DestroySnapshot:
  assumes "\<And>q out err. err \<noteq> None \<or> TrimSpace out \<noteq> getLVMSnapName (Name snap) \<Longrightarrow>
      Q (Val (Inr ())) (tr @ [EvExec (RunSplit LVList q) (out, err)])"
    and "\<And>q out out' err. TrimSpace out = getLVMSnapName (Name snap) \<Longrightarrow>
      Q (Val (of_err err)) (tr @ [EvExec (RunSplit LVList q) (out, None),
        EvExec (RunSplit LVRemove (buildLVMSnapDestroyArgs snap)) (out', err)])"
  shows "wp (DestroySnapshot snap) Q tr"
  using assms by (auto simp: DestroySnapshot_def isSnapshotExists_def wp_simps split: option.splits)

section \<open>Device paths\<close>

text \<open>Reads a device mapper name back: a doubled hyphen is a hyphen, the first single one separates the
  volume group from the volume.\<close>

fun undouble :: "string \<Rightarrow> string" where
  "undouble (a # b # s) = (if a = CHR ''-'' \<and> b = CHR ''-'' then CHR ''-'' # undouble s else a # undouble (b # s))"
| "undouble s = s"

fun split_dev :: "string \<Rightarrow> (string \<times> string) option" where
  "split_dev [] = None"
| "split_dev (a # s) =
     (if a = CHR ''-'' then
        (case s of
           b # s' \<Rightarrow> if b = CHR ''-'' then map_option (apfst (Cons CHR ''-'')) (split_dev s') else Some ([], undouble s)
         | [] \<Rightarrow> Some ([], []))
      else map_option (apfst (Cons a)) (split_dev s))"

abbreviation "dbl \<equiv> ReplaceAll CHR ''-'' ''--''"

lemma ReplaceAll_Nil [simp]: "ReplaceAll c n [] = []"
  by (simp add: ReplaceAll_def)

lemma ReplaceAll_Cons: "ReplaceAll c n (x # s) = (if x = c then n else [x]) @ ReplaceAll c n s"
  by (simp add: ReplaceAll_def)

lemma undouble_Cons_other: "a \<noteq> CHR ''-'' \<Longrightarrow> undouble (a # s) = a # undouble s"
  by (cases s) auto

lemma undouble_dbl [simp]: "undouble (dbl s) = s"
  by (induction s) (auto simp: ReplaceAll_Cons undouble_Cons_other)

lemma split_dev_dbl:
  assumes "lv = [] \<or> hd lv \<noteq> CHR ''-''"
  shows "split_dev (dbl vg @ CHR ''-'' # dbl lv) = Some (vg, lv)"
proof (induction vg)
  case Nil
  show ?case
  proof (cases lv)
    case (Cons c cs)
    then have "dbl lv = c # dbl cs" and "c \<noteq> CHR ''-''"
      using assms by (auto simp: ReplaceAll_Cons)
    moreover have "undouble (dbl lv) = lv" by (rule undouble_dbl)
    ultimately show ?thesis by simp
  qed simp
qed (simp add: ReplaceAll_Cons)

section \<open>Properties\<close>

text \<open>(C18) The device path of a volume determines its volume group and its name, whenever LVM's rule is kept
  that the name of a logical volume does not begin with a hyphen: reading the path back gives both. Two
  volumes that differ in one of them never share a device path, so the existence check that precedes
  creation and removal looks at the right device.\<close>

theorem dev_path_roundtrip:
  assumes "Name vol = [] \<or> hd (Name vol) \<noteq> CHR ''-''"
  shows "\<exists>p. GetVolumeDevPath vol = Inr (DevMapperPath @ p) \<and>
    split_dev p = Some (VolGroup (Spec vol), Name vol)"
  using split_dev_dbl [OF assms] by (simp add: GetVolumeDevPath_def Let_def)

theorem dev_path_roundtrip_witness:
  "\<exists>p. GetVolumeDevPath ex_ready_vol = Inr (DevMapperPath @ p) \<and>
    split_dev p = Some (''lvmvg'', ''pvc-1'')"
  using dev_path_roundtrip [of ex_ready_vol] by (simp add: ex_ready_vol_def)

text \<open>(C15) Creating a logical volume. In every run the device is looked up first; if it exists, or if it
  cannot be looked up, no LVM command runs and the call succeeds, respectively fails with that error.
  Otherwise queries may run (none for a thick volume) and then \<^verbatim>\<open>lvcreate\<close> runs exactly once, as the last
  command, for this name and volume group; the call succeeds exactly when that command does, and its
  error carries the output of the command.\<close>

theorem create_volume_runs:
  assumes "runs (lvm_CreateVolume vol) tr r"
  shows "tr = [EvStat (dev_of vol) StatOk] \<and> r = Val (Inr ()) \<or>
    (\<exists>e. tr = [EvStat (dev_of vol) (StatErr e)] \<and> r = Val (Inl e)) \<or>
    (\<exists>q sz out err. tr = EvStat (dev_of vol) StatNotExist # q @
         [EvExec (RunSplit LVCreate (sz @ create_args_rest vol)) (out, err)] \<and>
       list_all is_query q \<and> (\<not> is_thin vol \<longrightarrow> q = []) \<and>
       r = Val (of_err (map_option (ExecErr out) err)))"
  (is "?Q r tr")
proof -
  have "wp (lvm_CreateVolume vol) ?Q []"
    by (rule wp_lvm_CreateVolume) auto
  from wp_runs [OF this assms] show ?thesis .
qed

theorem create_volume_runs_witness:
  "\<exists>q sz out err. [EvStat (dev_of ex_ready_vol) StatNotExist,
       EvExec (RunSplit LVCreate [''-L'', ''1073741824b'', ''-n'', ''pvc-1'', ''lvmvg'', ''-y'']) ([], None)] =
     EvStat (dev_of ex_ready_vol) StatNotExist # q @
       [EvExec (RunSplit LVCreate (sz @ create_args_rest ex_ready_vol)) (out, err)] \<and> list_all is_query q"
proof -
  have thick: "\<not> is_thin ex_ready_vol"
    by (simp add: is_thin_def ex_ready_vol_def) code_simp
  have "runs (lvm_CreateVolume ex_ready_vol) [EvStat (dev_of ex_ready_vol) StatNotExist,
       EvExec (RunSplit LVCreate [''-L'', ''1073741824b'', ''-n'', ''pvc-1'', ''lvmvg'', ''-y'']) ([], None)]
     (Val (Inr ()))"
    using thick
    by (simp add: lvm_CreateVolume_def CheckVolumeExists_def GetVolumeDevPath_eq tryP_def buildLVMCreateArgs_thick
        RunCommandSplit_def newExecError_def create_args_rest_def ex_ready_vol_def)
  from create_volume_runs [OF this] show ?thesis by auto
qed

text \<open>(C16) Removing a logical volume. Without a volume group nothing runs and success is reported: no device is
  looked up. With one, the device is looked up first; if it is absent the call succeeds without a command, and if
  it cannot be looked up the call fails with that error. If it is present, \<^verbatim>\<open>wipefs -af\<close> runs on the file of the
  logical volume; \<^verbatim>\<open>lvremove\<close> runs only after it has succeeded, and the call succeeds exactly when \<^verbatim>\<open>lvremove\<close>
  does. So for a volume with a volume group a reported success means that the device was absent or has been
  removed. The two commands name the same file whenever the names of the group and of the volume are plain file
  names.\<close>

theorem destroy_volume_runs:
  assumes "runs (DestroyVolume vol) tr r"
  shows "(if VolGroup (Spec vol) = [] then tr = [] \<and> r = Val (Inr ())
     else tr = [EvStat (dev_of vol) StatNotExist] \<and> r = Val (Inr ()) \<or>
      (\<exists>e. tr = [EvStat (dev_of vol) (StatErr e)] \<and> r = Val (Inl e)) \<or>
      (\<exists>out e. tr = [EvStat (dev_of vol) StatOk, EvExec (RunCombined BlockCleanerCommand [''-af'', wiped vol]) (out, Some e)] \<and>
         r = Val (Inl (wipe_error vol out e))) \<or>
      (\<exists>out out' err. tr = [EvStat (dev_of vol) StatOk, EvExec (RunCombined BlockCleanerCommand [''-af'', wiped vol]) (out, None),
           EvExec (RunSplit LVRemove [''-y'', DevPath @ VolGroup (Spec vol) @ ''/'' @ Name vol]) (out', err)] \<and>
         r = Val (of_err err))) \<and>
    (plain_name (VolGroup (Spec vol)) \<and> plain_name (Name vol) \<longrightarrow>
       wiped vol = DevPath @ VolGroup (Spec vol) @ ''/'' @ Name vol)"
  (is "?Q r tr \<and> _")
proof
  have "wp (DestroyVolume vol) ?Q []"
    by (rule wp_DestroyVolume) auto
  from wp_runs [OF this assms] show "?Q r tr" .
qed (simp add: wiped_plain)

theorem destroy_volume_runs_witness:
  "runs (DestroyVolume ex_ready_vol) [EvStat (dev_of ex_ready_vol) StatOk,
       EvExec (RunCombined BlockCleanerCommand [''-af'', wiped ex_ready_vol]) ([], None),
       EvExec (RunSplit LVRemove [''-y'', ''/dev/lvmvg/pvc-1'']) ([], None)] (Val (Inr ())) \<and>
   wiped ex_ready_vol = ''/dev/lvmvg/pvc-1''"
proof
  show 1: "runs (DestroyVolume ex_ready_vol) [EvStat (dev_of ex_ready_vol) StatOk,
       EvExec (RunCombined BlockCleanerCommand [''-af'', wiped ex_ready_vol]) ([], None),
       EvExec (RunSplit LVRemove [''-y'', ''/dev/lvmvg/pvc-1'']) ([], None)] (Val (Inr ()))"
    by (simp add: DestroyVolume_def CheckVolumeExists_def GetVolumeDevPath_eq tryP_def removeVolumeFilesystem_def
        buildLVMDestroyArgs_def RunCommandSplit_def wiped_def Let_def ex_ready_vol_def)
  show "wiped ex_ready_vol = ''/dev/lvmvg/pvc-1''"
    using destroy_volume_runs [OF 1] by (simp add: plain_name_def ex_ready_vol_def)
qed

text \<open>A failure of the \<^verbatim>\<open>lvs\<close> command that looks for a snapshot is taken for its absence:
  \<^verbatim>\<open>DestroySnapshot\<close> looks at the boolean of \<^verbatim>\<open>isSnapshotExists\<close> before its error, and so reports success
  without removing anything. Its caller then drops the finalizer of the resource.\<close>

theorem destroy_snapshot_ignores_lvs_error:
  "runs (DestroySnapshot snap)
     [EvExec (RunSplit ''lvs'' [snap_VolGroup (snap_Spec snap) @ ''/'' @ getLVMSnapName (Name snap),
        ''--noheadings'', ''-o'', ''lv_name'']) (out, Some e)]
     (Val (Inr ()))"
  by (simp add: DestroySnapshot_def isSnapshotExists_def RunCommandSplit_def)

text \<open>Apart from that case, success of \<^verbatim>\<open>DestroySnapshot\<close> means that \<^verbatim>\<open>lvs\<close> did not print the name of the
  snapshot, or that \<^verbatim>\<open>lvremove\<close> of exactly this snapshot succeeded; nothing else is ever removed.\<close>

theorem destroy_snapshot_runs:
  assumes "runs (DestroySnapshot snap) tr r"
  shows "\<exists>q out err. hd tr = EvExec (RunSplit ''lvs'' q) (out, err) \<and>
    (err \<noteq> None \<and> length tr = 1 \<and> r = Val (Inr ()) \<or>
     TrimSpace out \<noteq> getLVMSnapName (Name snap) \<and> length tr = 1 \<and> r = Val (Inr ()) \<or>
     (\<exists>out' err'. err = None \<and> TrimSpace out = getLVMSnapName (Name snap) \<and>
        tl tr = [EvExec (RunSplit LVRemove
          [''-y'', DevPath @ snap_VolGroup (snap_Spec snap) @ ''/'' @ getLVMSnapName (Name snap)]) (out', err')] \<and>
        r = Val (of_err err')))"
  (is "?Q r tr")
proof -
  have "wp (DestroySnapshot snap) ?Q []"
    by (rule wp_DestroySnapshot) (auto simp: buildLVMSnapDestroyArgs_def)
  from wp_runs [OF this assms] show ?thesis .
qed

definition ex_snap :: LVMSnapshot where
  "ex_snap = zero_LVMSnapshot\<lparr>Name := ''snapshot-1'', Labels := [LVMVolKey \<mapsto> ''pvc-1''],
     snap_Spec := \<lparr>snap_OwnerNodeID = ''node-1'', snap_VolGroup = ''lvmvg'', SnapSize = ''1073741824''\<rparr>\<rparr>"

theorem destroy_snapshot_runs_witness:
  "\<exists>out' err'. [EvExec (RunSplit LVRemove [''-y'', ''/dev/lvmvg/1'']) ([], None)] =
     [EvExec (RunSplit LVRemove [''-y'', ''/dev/lvmvg/1'']) (out', err')]"
proof -
  have name: "getLVMSnapName (Name ex_snap) = ''1''" and "TrimSpace '' 1 '' = ''1''"
    by (simp_all add: ex_snap_def) code_simp+
  then have "runs (DestroySnapshot ex_snap)
     [EvExec (RunSplit ''lvs'' [''lvmvg/1'', ''--noheadings'', ''-o'', ''lv_name'']) ('' 1 '', None),
      EvExec (RunSplit LVRemove [''-y'', ''/dev/lvmvg/1'']) ([], None)] (Val (Inr ()))"
    by (simp add: DestroySnapshot_def isSnapshotExists_def RunCommandSplit_def buildLVMSnapDestroyArgs_def)
      (simp add: ex_snap_def)
  from destroy_snapshot_runs [OF this] show ?thesis by auto
qed

lemma wp_getLVSize:
  assumes "\<And>q out e e'. Q (Val (Inl e')) (tr @ [EvExec (RunSplit LVList q) (out, e)])"
    and "\<And>q out n. ParseUint (TrimSpace out) = (n, None) \<Longrightarrow>
      Q (Val (Inr n)) (tr @ [EvExec (RunSplit LVList q) (out, None)])"
  shows "wp (getLVSize vol) Q tr"
  using assms by (auto simp: getLVSize_def wp_simps Let_def split: option.splits prod.splits)

text \<open>(C19) Without a file system to resize, a logical volume is extended only when the size LVM reports is
  smaller than the wanted capacity, so a repeated request does nothing; when the reported size suffices
  the call succeeds after the query alone. An error of the query, or a size that cannot be parsed, is
  reported and nothing is extended.\<close>

theorem resize_volume_runs:
  assumes "runs (ResizeLVMVolume vol False) tr r"
  shows "(\<exists>e. r = Val (Inl e) \<and> (\<forall>args y. EvExec (RunSplit LVExtend args) y \<notin> set tr)) \<or>
    (\<exists>q out want cur. ParseUint (Capacity (Spec vol)) = (want, None) \<and> ParseUint (TrimSpace out) = (cur, None) \<and>
       (want \<le> cur \<and> tr = [EvExec (RunSplit LVList q) (out, None)] \<and> r = Val (Inr ()) \<or>
        cur < want \<and> (\<exists>out' err. tr = [EvExec (RunSplit LVList q) (out, None),
          EvExec (RunSplit LVExtend (buildVolumeResizeArgs vol False)) (out', err)] \<and> r = Val (of_err err))))"
  (is "?Q r tr")
proof -
  obtain want we where want: "ParseUint (Capacity (Spec vol)) = (want, we)" by fastforce
  have "wp (ResizeLVMVolume vol False) ?Q []"
  proof (cases we)
    case None
    have "wp (tryP (getLVSize vol) (\<lambda>cur. if want \<le> cur then Ret (Inr ())
        else bindP (RunCommandSplit LVExtend (buildVolumeResizeArgs vol False)) (\<lambda>(out, err). Ret (of_err err)))) ?Q []"
      unfolding wp_tryP
    proof (rule wp_getLVSize, goal_cases)
      case (2 q out cur)
      with want None show ?case
        by (cases "want \<le> cur") (auto simp: wp_simps not_le)
    qed simp
    then show ?thesis using want None by (simp add: ResizeLVMVolume_def)
  qed (use want in \<open>simp add: ResizeLVMVolume_def\<close>)
  from wp_runs [OF this assms] show ?thesis .
qed

theorem resize_volume_runs_witness:
  "runs (ResizeLVMVolume ex_ready_vol False)
     [EvExec (RunSplit LVList [''lvmvg/pvc-1'', ''--noheadings'', ''-o'', ''lv_size'', ''--units'', ''b'', ''--nosuffix''])
       ('' 1073741824'', None)] (Val (Inr ())) \<and> (1073741824::nat) \<le> 1073741824"
proof -
  have "TrimSpace '' 1073741824'' = ''1073741824''" "ParseUint ''1073741824'' = (1073741824, None)"
    by code_simp+
  then have 1: "runs (ResizeLVMVolume ex_ready_vol False)
     [EvExec (RunSplit LVList [''lvmvg/pvc-1'', ''--noheadings'', ''-o'', ''lv_size'', ''--units'', ''b'', ''--nosuffix''])
       ('' 1073741824'', None)] (Val (Inr ()))"
    by (simp add: ResizeLVMVolume_def getLVSize_def RunCommandSplit_def ex_ready_vol_def tryP_def Let_def)
  with resize_volume_runs [OF 1] show ?thesis by simp
qed

text \<open>(C20) When the free space of the volume group is below 256Mi and below the size of the first thin volume,
  the size computed for the thin pool is negative and is handed to \<^verbatim>\<open>lvcreate -L\<close>.\<close>

theorem thin_pool_size_negative:
  assumes "TrimSpace out = FormatInt free" and "0 \<le> free" and "free < MinExtentRoundOffSize"
    and "free < want" and "in_int64 want"
  shows "\<exists>n. 0 < n \<and> n \<le> 268435456 \<and>
    runs (getThinPoolSize vg (FormatInt want))
      [EvExec (RunSplit ''vgs'' [vg, ''--noheadings'', ''-o'', ''vg_free'', ''--units'', ''b'', ''--nosuffix'']) (out, None)]
      (Val (''-'' @ format_nat n @ ''b''))"
proof -
  have free: "in_int64 free" "in_int64 (free - MinExtentRoundOffSize)"
    using assms by (auto simp: in_int64_def min_int64_def max_int64_def)
  then have "FormatInt (sub64 free MinExtentRoundOffSize) = ''-'' @ format_nat (nat (MinExtentRoundOffSize - free))"
    using assms(3) by (simp add: sub64_def go_arith FormatInt_def)
  with free assms show ?thesis
    by (intro exI [of _ "nat (MinExtentRoundOffSize - free)"])
      (auto simp: getThinPoolSize_def getVGSize_def RunCommandSplit_def)
qed

theorem thin_pool_size_negative_witness:
  "\<exists>n. 0 < n \<and> n \<le> 268435456 \<and>
    runs (getThinPoolSize ''lvmvg'' (FormatInt 1073741824))
      [EvExec (RunSplit ''vgs'' [''lvmvg'', ''--noheadings'', ''-o'', ''vg_free'', ''--units'', ''b'', ''--nosuffix''])
        ('' 4194304'', None)]
      (Val (''-'' @ format_nat n @ ''b''))"
proof -
  have "TrimSpace '' 4194304'' = FormatInt 4194304" by code_simp
  then show ?thesis
    by (rule thin_pool_size_negative) (simp_all add: in_int64_def min_int64_def max_int64_def)
qed

end
