(* ===== verification/Go_Json.thy ===== *)
theory Go_Json
  imports Api_Types
begin

text \<open>
  The part of the Go package \<^verbatim>\<open>encoding/json\<close> that decodes the reports of \<^verbatim>\<open>vgs\<close>, \<^verbatim>\<open>lvs\<close> and \<^verbatim>\<open>pvs\<close>: a parser
  from bytes to JSON values, and the decoding of a value into a structure with one field \<^verbatim>\<open>report\<close>, a
  slice of structures with one field that is a slice of string maps. Field names match without regard to
  case, unknown fields are ignored, null leaves a zero value, and a value of the wrong type is an error.
  Bytes above 127 are kept as they are; where a field occurs twice the last occurrence counts.

  The parser takes fuel. \<open>json_fuel_enough\<close> shows that the amount \<open>parse_json\<close> gives it makes no
  difference to its result.
\<close>

section \<open>Parser\<close>

datatype json = JNull | JBool bool | JNum string | JStr string | JArr "json list" | JObj "(string \<times> json) list"

definition json_ws :: "char \<Rightarrow> bool" where
  "json_ws c = (c = CHR '' '' \<or> c = CHR 0x09 \<or> c = CHR 0x0A \<or> c = CHR 0x0D)"

abbreviation skip_ws :: "string \<Rightarrow> string" where
  "skip_ws \<equiv> dropWhile json_ws"

definition hex_val :: "char \<Rightarrow> nat option" where
  "hex_val c = (let n = (of_char c :: nat) in
     if 48 \<le> n \<and> n \<le> 57 then Some (n - 48)
     else if 97 \<le> n \<and> n \<le> 102 then Some (n - 87)
     else if 65 \<le> n \<and> n \<le> 70 then Some (n - 55)
     else None)"

fun hex4 :: "string \<Rightarrow> nat option" where
  "hex4 [a, b, c, d] =
     (case (hex_val a, hex_val b, hex_val c, hex_val d) of
        (Some w, Some x, Some y, Some z) \<Rightarrow> Some (((w * 16 + x) * 16 + y) * 16 + z)
      | _ \<Rightarrow> None)"
| "hex4 _ = None"

definition utf8 :: "nat \<Rightarrow> string" where
  "utf8 n =
     (if n < 0x80 then [char_of n]
      else if n < 0x800 then [char_of (0xC0 + n div 64), char_of (0x80 + n mod 64)]
      else if n < 0x10000 then [char_of (0xE0 + n div 4096), char_of (0x80 + n div 64 mod 64), char_of (0x80 + n mod 64)]
      else [char_of (0xF0 + n div 262144), char_of (0x80 + n div 4096 mod 64), char_of (0x80 + n div 64 mod 64),
            char_of (0x80 + n mod 64)])"

text \<open>An escaped code unit: a surrogate pair is combined, a lone surrogate is replaced. The result is the
  text and the number of bytes of the second half that were used.\<close>

definition unicode_escape :: "nat \<Rightarrow> string \<Rightarrow> string \<times> nat" where
  "unicode_escape n rest =
     (if 0xD800 \<le> n \<and> n < 0xE000 then
        (if take 2 rest = [CHR 0x5C, CHR ''u''] \<and> n < 0xDC00 then
           (case hex4 (take 4 (drop 2 rest)) of
              Some m \<Rightarrow> if 0xDC00 \<le> m \<and> m < 0xE000 then (utf8 (0x10000 + (n - 0xD800) * 1024 + (m - 0xDC00)), 6)
                        else (utf8 0xFFFD, 0)
            | None \<Rightarrow> (utf8 0xFFFD, 0))
         else (utf8 0xFFFD, 0))
      else (utf8 n, 0))"

definition simple_escape :: "char \<Rightarrow> string option" where
  "simple_escape c =
     (if c = CHR 0x22 \<or> c = CHR 0x5C \<or> c = CHR ''/'' then Some [c]
      else if c = CHR ''b'' then Some [CHR 0x08]
      else if c = CHR ''f'' then Some [CHR 0x0C]
      else if c = CHR ''n'' then Some [CHR 0x0A]
      else if c = CHR ''r'' then Some [CHR 0x0D]
      else if c = CHR ''t'' then Some [CHR 0x09]
      else None)"

text \<open>The rest of a string literal after its opening quote.\<close>

function json_string :: "string \<Rightarrow> (string \<times> string) option" where
  "json_string [] = None"
| "json_string (c # s) =
     (if c = CHR 0x22 then Some ([], s)
      else if c = CHR 0x5C then
        (if take 1 s = ''u'' then
           (case hex4 (take 4 (drop 1 s)) of
              Some n \<Rightarrow>
                (let (t, k) = unicode_escape n (drop 5 s)
                 in map_option (apfst ((@) t)) (json_string (drop (5 + k) s)))
            | None \<Rightarrow> None)
         else if s = [] then None
         else (case simple_escape (hd s) of
                 Some t \<Rightarrow> map_option (apfst ((@) t)) (json_string (tl s))
               | None \<Rightarrow> None))
      else if (of_char c :: nat) < 32 then None
      else map_option (apfst (Cons c)) (json_string s))"
  by pat_completeness auto
termination by (relation "measure length") (auto simp: less_Suc_eq_le)

text \<open>Numbers are not used by the reports beyond being recognised.\<close>

definition is_digit :: "char \<Rightarrow> bool" where
  "is_digit c = (digit_val c \<noteq> None)"

definition json_frac :: "string \<Rightarrow> (string \<times> string) option" where
  "json_frac s =
     (if take 1 s = ''.'' then
        (let ds = takeWhile is_digit (drop 1 s)
         in if ds = [] then None else Some (CHR ''.'' # ds, dropWhile is_digit (drop 1 s)))
      else Some ([], s))"

definition json_exp :: "string \<Rightarrow> (string \<times> string) option" where
  "json_exp s =
     (if take 1 s = ''e'' \<or> take 1 s = ''E'' then
        (let sg = (if take 1 (drop 1 s) = ''+'' \<or> take 1 (drop 1 s) = ''-'' then take 1 (drop 1 s) else []);
             r = drop (1 + length sg) s; ds = takeWhile is_digit r
         in if ds = [] then None else Some (take 1 s @ sg @ ds, dropWhile is_digit r))
      else Some ([], s))"

definition json_number :: "string \<Rightarrow> (string \<times> string) option" where
  "json_number s =
     (let sg = (if take 1 s = ''-'' then ''-'' else []);
          r = drop (length sg) s;
          ds = (if take 1 r = ''0'' then ''0'' else takeWhile is_digit r);
          r1 = drop (length ds) r
      in if ds = [] then None
         else case json_frac r1 of
             None \<Rightarrow> None
           | Some (f, r2) \<Rightarrow>
               (case json_exp r2 of
                  None \<Rightarrow> None
                | Some (e, r3) \<Rightarrow> Some (sg @ ds @ f @ e, r3)))"

fun json_value :: "nat \<Rightarrow> string \<Rightarrow> (json \<times> string) option"
  and json_elems :: "nat \<Rightarrow> string \<Rightarrow> (json list \<times> string) option"
  and json_members :: "nat \<Rightarrow> string \<Rightarrow> ((string \<times> json) list \<times> string) option"
where
  "json_value 0 s = None"
| "json_value (Suc n) s0 =
     (case skip_ws s0 of
        [] \<Rightarrow> None
      | c # s \<Rightarrow>
          if c = CHR 0x22 then map_option (apfst JStr) (json_string s)
          else if c = CHR ''['' then
            (if take 1 (skip_ws s) = '']'' then Some (JArr [], drop 1 (skip_ws s))
             else map_option (apfst JArr) (json_elems n s))
          else if c = CHR ''{'' then
            (if take 1 (skip_ws s) = ''}'' then Some (JObj [], drop 1 (skip_ws s))
             else map_option (apfst JObj) (json_members n s))
          else if HasPrefix (c # s) ''true'' then Some (JBool True, drop 3 s)
          else if HasPrefix (c # s) ''false'' then Some (JBool False, drop 4 s)
          else if HasPrefix (c # s) ''null'' then Some (JNull, drop 3 s)
          else map_option (apfst JNum) (json_number (c # s)))"
| "json_elems 0 s = None"
| "json_elems (Suc n) s =
     (case json_value n s of
        None \<Rightarrow> None
      | Some (v, r) \<Rightarrow>
          if take 1 (skip_ws r) = '']'' then Some ([v], drop 1 (skip_ws r))
          else if take 1 (skip_ws r) = '','' then map_option (apfst (Cons v)) (json_elems n (drop 1 (skip_ws r)))
          else None)"
| "json_members 0 s = None"
| "json_members (Suc n) s =
     (if take 1 (skip_ws s) \<noteq> [CHR 0x22] then None
      else case json_string (drop 1 (skip_ws s)) of
        None \<Rightarrow> None
      | Some (k, r0) \<Rightarrow>
          if take 1 (skip_ws r0) \<noteq> '':'' then None
          else case json_value n (drop 1 (skip_ws r0)) of
            None \<Rightarrow> None
          | Some (v, r) \<Rightarrow>
              if take 1 (skip_ws r) = ''}'' then Some ([(k, v)], drop 1 (skip_ws r))
              else if take 1 (skip_ws r) = '','' then
                map_option (apfst (Cons (k, v))) (json_members n (drop 1 (skip_ws r)))
              else None)"

definition parse_json :: "string \<Rightarrow> json option" where
  "parse_json s =
     (case json_value (2 * length s + 2) s of
        Some (v, r) \<Rightarrow> if skip_ws r = [] then Some v else None
      | None \<Rightarrow> None)"

section \<open>The fuel is enough\<close>

lemma length_skip_ws: "length (skip_ws s) \<le> length s"
  by (rule length_dropWhile_le)

lemma json_string_consumes: "json_string s = Some (t, r) \<Longrightarrow> length r < length s"
proof (induction s arbitrary: t r rule: json_string.induct)
  case (2 c s)
  show ?case
  proof (cases "c = CHR 0x22 \<or> c \<noteq> CHR 0x5C")
    case True
    then show ?thesis
      using 2 by (fastforce split: if_splits)
  next
    case False
    then have c: "c \<noteq> CHR 0x22" "c = CHR 0x5C" by auto
    show ?thesis
    proof (cases "take 1 s = ''u''")
      case True
      then obtain n where n: "hex4 (take 4 (drop 1 s)) = Some n"
        using 2(4) c by (auto split: option.splits)
      obtain x k where u: "unicode_escape n (drop 5 s) = (x, k)" by fastforce
      from 2(4) c True n u obtain t' where "json_string (drop (5 + k) s) = Some (t', r)"
        by (auto simp: Let_def)
      from 2(1) [OF c(1,2) True n u [symmetric] refl this] show ?thesis by simp
    next
      case no_u: False
      with 2(4) c obtain x t' where "s \<noteq> []" "simple_escape (hd s) = Some x" "json_string (tl s) = Some (t', r)"
        by (auto split: if_splits option.splits)
      from 2(2) [OF c(1,2) no_u this] show ?thesis by simp
    qed
  qed
qed simp

lemma json_number_consumes: "json_number s = Some (t, r) \<Longrightarrow> length r < length s"
proof -
  have frac: "length r2 \<le> length r1" if "json_frac r1 = Some (f, r2)" for f r1 r2
    using that by (auto simp: json_frac_def Let_def split: if_splits intro: order.trans [OF length_dropWhile_le])
  have ex: "length r2 \<le> length r1" if "json_exp r1 = Some (f, r2)" for f r1 r2
    using that by (auto simp: json_exp_def Let_def split: if_splits intro: order.trans [OF length_dropWhile_le])
  assume "json_number s = Some (t, r)"
  then show ?thesis
    unfolding json_number_def Let_def
    by (cases s) (force split: if_splits option.splits prod.splits dest!: frac ex)+
qed

lemma take1_Cons: "take 1 s = [c] \<longleftrightarrow> (\<exists>r. s = c # r)"
  by (cases s) auto

lemma json_consumes:
  "json_value n s = Some (v, r) \<Longrightarrow> length r < length s"
  "json_elems n s = Some (vs, r) \<Longrightarrow> length r < length s"
  "json_members n s = Some (ms, r) \<Longrightarrow> length r < length s"
proof (induction n arbitrary: s v r vs ms)
  case (Suc n)
  note IH = Suc
  {
    case 1
    obtain c s' where s: "skip_ws s = c # s'"
      using 1 by (cases "skip_ws s") auto
    have "length s' < length s" using length_skip_ws [of s] s by simp
    moreover have "length r \<le> length s'"
      using 1 s length_skip_ws [of s']
      by (auto split: if_splits dest!: IH(2,3) json_string_consumes json_number_consumes)
    ultimately show ?case by simp
  next
    case 2
    then obtain v' r' where v: "json_value n s = Some (v', r')"
      by (auto split: option.splits)
    have "length (skip_ws r') < length s"
      using IH(1) [OF v] length_skip_ws [of r'] by simp
    then show ?case
      using 2 v by (auto simp: split: if_splits dest!: IH(2))
  next
    case 3
    then obtain k r0 v' r' where k: "json_string (drop 1 (skip_ws s)) = Some (k, r0)"
      and v: "json_value n (drop 1 (skip_ws r0)) = Some (v', r')"
      by (auto split: option.splits if_splits)
    have "length r0 < length s" "length r' < length r0"
      using json_string_consumes [OF k] length_skip_ws [of s] IH(1) [OF v] length_skip_ws [of r0] by auto
    then have "length (skip_ws r') < length s"
      using length_skip_ws [of r'] by simp
    then show ?case
      using 3 k v by (auto split: if_splits dest!: IH(3))
  }
qed simp_all

lemma json_fuel_enough:
  "2 * length s + 1 \<le> m \<Longrightarrow> 2 * length s + 1 \<le> n \<Longrightarrow> json_value m s = json_value n s"
  "2 * length s + 2 \<le> m \<Longrightarrow> 2 * length s + 2 \<le> n \<Longrightarrow> json_elems m s = json_elems n s"
  "2 * length s + 2 \<le> m \<Longrightarrow> 2 * length s + 2 \<le> n \<Longrightarrow> json_members m s = json_members n s"
proof (induction m arbitrary: n s)
  case (Suc m)
  note IH = Suc(1-3)
  {
    case 1
    then obtain n' where n: "n = Suc n'" by (cases n) auto
    show ?case
    proof (cases "skip_ws s")
      case Nil
      show ?thesis unfolding n json_value.simps Nil list.case ..
    next
      case (Cons c s')
      then have "length s' < length s" using length_skip_ws [of s] by simp
      then have "json_elems m s' = json_elems n' s'" "json_members m s' = json_members n' s'"
        using 1 n by (auto intro!: IH(2,3))
      then show ?thesis using Cons n by simp
    qed
  next
    case 2
    then obtain n' where n: "n = Suc n'" by (cases n) auto
    have v: "json_value m s = json_value n' s"
      using 2 n by (intro IH(1)) auto
    show ?case
    proof (cases "json_value n' s")
      case (Some p)
      obtain v' r where p: "p = (v', r)" by fastforce
      have "length (drop 1 (skip_ws r)) + 1 \<le> length s"
        using json_consumes(1) [of n' s v' r] Some p length_skip_ws [of r] by auto
      then have "json_elems m (drop 1 (skip_ws r)) = json_elems n' (drop 1 (skip_ws r))"
        using 2 n by (intro IH(2)) auto
      then show ?thesis using v Some p n by simp
    qed (simp add: v n)
  next
    case 3
    then obtain n' where n: "n = Suc n'" by (cases n) auto
    show ?case
    proof (cases "json_string (drop 1 (skip_ws s))")
      case None
      then show ?thesis by (simp add: n)
    next
      case (Some q)
      obtain k r0 where q: "q = (k, r0)" by fastforce
      have r0: "length r0 < length s"
        using json_string_consumes [of "drop 1 (skip_ws s)" k r0] Some q length_skip_ws [of s] by auto
      then have v: "json_value m (drop 1 (skip_ws r0)) = json_value n' (drop 1 (skip_ws r0))"
        using 3 n length_skip_ws [of r0] by (intro IH(1)) auto
      have "json_members m (drop 1 (skip_ws r)) = json_members n' (drop 1 (skip_ws r))"
        if "json_value n' (drop 1 (skip_ws r0)) = Some (v', r)" for v' r
        using json_consumes(1) [OF that] r0 3 n length_skip_ws [of r0] length_skip_ws [of r]
        by (intro IH(3)) auto
      then show ?thesis using v Some q n by (simp split: option.splits)
    qed
  }
qed simp_all

text \<open>Any amount of fuel with which the parser reads the whole input is as good as the one \<open>parse_json\<close>
  gives it.\<close>

lemma parse_json_fuel:
  assumes "2 * length s + 1 \<le> n"
  shows "parse_json s = (case json_value n s of
     Some (v, r) \<Rightarrow> if skip_ws r = [] then Some v else None | None \<Rightarrow> None)"
  using json_fuel_enough(1) [of s "2 * length s + 2" n] assms by (simp add: parse_json_def)

section \<open>Decoding a report\<close>

text \<open>A null string value stores the empty string; a value of another type is an error.\<close>

fun decode_string :: "json \<Rightarrow> string option" where
  "decode_string (JStr s) = Some s"
| "decode_string JNull = Some []"
| "decode_string _ = None"

fun decode_entries :: "(string \<times> json) list \<Rightarrow> (string \<rightharpoonup> string) \<Rightarrow> (string \<rightharpoonup> string) option" where
  "decode_entries [] m = Some m"
| "decode_entries ((k, j) # kvs) m =
     (case decode_string j of None \<Rightarrow> None | Some v \<Rightarrow> decode_entries kvs (m(k \<mapsto> v)))"

fun decode_map :: "json \<Rightarrow> (string \<rightharpoonup> string) option" where
  "decode_map JNull = Some Map.empty"
| "decode_map (JObj kvs) = decode_entries kvs Map.empty"
| "decode_map _ = None"

fun map_opt :: "('a \<Rightarrow> 'b option) \<Rightarrow> 'a list \<Rightarrow> 'b list option" where
  "map_opt f [] = Some []"
| "map_opt f (x # xs) =
     (case f x of None \<Rightarrow> None | Some y \<Rightarrow> map_option (Cons y) (map_opt f xs))"

fun decode_slice :: "(json \<Rightarrow> 'a option) \<Rightarrow> json \<Rightarrow> 'a list option" where
  "decode_slice f JNull = Some []"
| "decode_slice f (JArr js) = map_opt f js"
| "decode_slice f _ = None"

text \<open>A structure with the one field \<open>name\<close>, which is a slice.\<close>

fun decode_field :: "string \<Rightarrow> (json \<Rightarrow> 'a option) \<Rightarrow> (string \<times> json) list \<Rightarrow> 'a list \<Rightarrow> 'a list option" where
  "decode_field name f [] acc = Some acc"
| "decode_field name f ((k, j) # kvs) acc =
     (if ToLower k = name then
        (case decode_slice f j of None \<Rightarrow> None | Some xs \<Rightarrow> decode_field name f kvs xs)
      else decode_field name f kvs acc)"

fun decode_struct :: "string \<Rightarrow> (json \<Rightarrow> 'a option) \<Rightarrow> json \<Rightarrow> 'a list option" where
  "decode_struct name f JNull = Some []"
| "decode_struct name f (JObj kvs) = decode_field name f kvs []"
| "decode_struct name f _ = None"

text \<open>\<^verbatim>\<open>json.Unmarshal(raw, output)\<close> for the report structure whose inner field is \<open>item\<close>.\<close>

definition Unmarshal_report :: "string \<Rightarrow> string \<Rightarrow> gerr + (string \<rightharpoonup> string) list list" where
  "Unmarshal_report item raw =
     (case parse_json raw of
        None \<Rightarrow> Inl (ExternErr ''json: syntax error'')
      | Some j \<Rightarrow>
          (case decode_struct ''report'' (decode_struct item decode_map) j of
             None \<Rightarrow> Inl (ExternErr ''json: cannot unmarshal'')
           | Some reports \<Rightarrow> Inr reports))"

end
