(* ===== verification/Go_Float.thy ===== *)
theory Go_Float
  imports Go_Prelude
begin

text \<open>
  The part of Go's \<^verbatim>\<open>float64\<close> that the driver uses. A finite value is the rational it denotes; an operation
  is the exact rational result rounded to the nearest value with 53 significant bits, ties to even, as
  IEEE 754 prescribes, with gradual underflow and overflow to infinity. The sign of zero is not kept: the
  driver neither divides by zero nor prints a float. The conversion of a value outside the range of the
  target integer type is implementation defined in Go and therefore a parameter.
\<close>

section \<open>Values and rounding\<close>

datatype f64 = Fin rat | PInf | NInf | NaN

fun bit_length :: "int \<Rightarrow> nat" where
  "bit_length n = (if n \<le> 0 then 0 else Suc (bit_length (n div 2)))"

declare bit_length.simps [simp del]

definition pow2 :: "int \<Rightarrow> rat" where
  "pow2 e = (if 0 \<le> e then 2 ^ nat e else 1 / 2 ^ nat (- e))"

text \<open>The binary exponent of a positive rational: the largest \<open>e\<close> with \<open>2\<^sup>e\<close> at most the value.\<close>

definition ilog2 :: "rat \<Rightarrow> int" where
  "ilog2 q = (case quotient_of q of (n, d) \<Rightarrow>
     let e = int (bit_length n) - int (bit_length d) in if pow2 e \<le> q then e else e - 1)"

definition round_half_even :: "rat \<Rightarrow> int" where
  "round_half_even q =
     (let f = \<lfloor>q\<rfloor>; d = q - of_int f
      in if d < 1 / 2 then f else if 1 / 2 < d then f + 1 else if even f then f else f + 1)"

definition ulp :: "rat \<Rightarrow> rat" where
  "ulp q = pow2 (max (ilog2 \<bar>q\<bar>) (- 1022) - 52)"

definition round64 :: "rat \<Rightarrow> f64" where
  "round64 q =
     (if q = 0 then Fin 0
      else let r = of_int (round_half_even (q / ulp q)) * ulp q
           in if 2 ^ 1024 \<le> r then PInf else if r \<le> - (2 ^ 1024) then NInf else Fin r)"

definition float_of_int :: "int \<Rightarrow> f64" where
  "float_of_int i = round64 (of_int i)"

definition float_sign :: "f64 \<Rightarrow> int" where
  "float_sign x = (case x of Fin q \<Rightarrow> (if 0 < q then 1 else if q < 0 then - 1 else 0) | PInf \<Rightarrow> 1 | NInf \<Rightarrow> - 1 | NaN \<Rightarrow> 0)"

fun float_mul :: "f64 \<Rightarrow> f64 \<Rightarrow> f64" where
  "float_mul (Fin p) (Fin q) = round64 (p * q)"
| "float_mul NaN y = NaN"
| "float_mul x NaN = NaN"
| "float_mul x y =
     (case float_sign x * float_sign y of s \<Rightarrow> if s = 0 then NaN else if 0 < s then PInf else NInf)"

text \<open>Division by a positive constant.\<close>

fun float_div_const :: "f64 \<Rightarrow> rat \<Rightarrow> f64" where
  "float_div_const (Fin p) q = round64 (p / q)"
| "float_div_const x q = x"

fun float_ceil :: "f64 \<Rightarrow> f64" where
  "float_ceil (Fin p) = Fin (of_int \<lceil>p\<rceil>)"
| "float_ceil x = x"

text \<open>Comparisons with NaN are false.\<close>

fun float_less :: "f64 \<Rightarrow> f64 \<Rightarrow> bool" where
  "float_less NaN y = False"
| "float_less x NaN = False"
| "float_less (Fin p) (Fin q) = (p < q)"
| "float_less NInf y = (y \<noteq> NInf)"
| "float_less x PInf = (x \<noteq> PInf)"
| "float_less _ _ = False"

definition trunc_rat :: "rat \<Rightarrow> int" where
  "trunc_rat q = (if 0 \<le> q then \<lfloor>q\<rfloor> else \<lceil>q\<rceil>)"

text \<open>\<^verbatim>\<open>int64(x)\<close> and \<^verbatim>\<open>uint64(x)\<close>; \<open>oor\<close> gives the result for a value out of range.\<close>

definition int64_of_float :: "(f64 \<Rightarrow> int) \<Rightarrow> f64 \<Rightarrow> int" where
  "int64_of_float oor x = (case x of
       Fin q \<Rightarrow> if in_int64 (trunc_rat q) then trunc_rat q else wrap64 (oor x)
     | _ \<Rightarrow> wrap64 (oor x))"

definition uint64_of_float :: "(f64 \<Rightarrow> int) \<Rightarrow> f64 \<Rightarrow> int" where
  "uint64_of_float oor x = (case x of
       Fin q \<Rightarrow> if 0 \<le> trunc_rat q \<and> trunc_rat q < 2 ^ 64 then trunc_rat q else oor x mod 2 ^ 64
     | _ \<Rightarrow> oor x mod 2 ^ 64)"

section \<open>Laws\<close>

lemma pow2_pos [simp]: "0 < pow2 e"
  by (simp add: pow2_def)

lemma pow2_nonneg [simp]: "0 \<le> pow2 e" "pow2 e \<noteq> 0"
  using less_imp_le [OF pow2_pos [of e]] less_imp_neq [OF pow2_pos [of e]] by auto

lemma pow2_Suc: "pow2 (e + 1) = 2 * pow2 e"
proof (cases "0 \<le> e")
  case True
  then show ?thesis by (simp add: pow2_def nat_add_distrib)
next
  case False
  then have "nat (- e) = Suc (nat (- (e + 1)))" by simp
  then show ?thesis
    using False by (cases "e + 1 = 0") (auto simp: pow2_def)
qed

lemma pow2_mono: "d \<le> e \<Longrightarrow> pow2 d \<le> pow2 e"
proof (induction "nat (e - d)" arbitrary: e)
  case (Suc n)
  then have "pow2 d \<le> pow2 (e - 1)" by (intro Suc(1)) auto
  also have "\<dots> \<le> pow2 e" using pow2_Suc [of "e - 1"] pow2_pos [of "e - 1"] by simp
  finally show ?case .
qed auto

lemma bit_length_bounds: "0 < n \<Longrightarrow> 2 ^ (bit_length n - 1) \<le> n \<and> n < 2 ^ bit_length n \<and> 0 < bit_length n"
proof (induction n rule: bit_length.induct)
  case (1 n)
  show ?case
  proof (cases "n = 1")
    case True
    then show ?thesis by (simp add: bit_length.simps)
  next
    case False
    with 1(2) have "0 < n div 2" by linarith
    with 1(1,2) have IH: "2 ^ (bit_length (n div 2) - 1) \<le> n div 2" "n div 2 < 2 ^ bit_length (n div 2)"
      "0 < bit_length (n div 2)" by auto
    then obtain k where k: "bit_length (n div 2) = Suc k" by (cases "bit_length (n div 2)") auto
    have "bit_length n = Suc (Suc k)" using 1(2) k by (simp add: bit_length.simps [of n])
    with IH k show ?thesis by simp linarith
  qed
qed

lemma pow2_nat: "pow2 (int k) = 2 ^ k"
  by (simp add: pow2_def)

lemma pow2_diff: "pow2 (int a - int b) = 2 ^ a / 2 ^ b"
proof (cases "b \<le> a")
  case True
  then have "nat (int a - int b) = a - b" by simp
  then show ?thesis using True by (simp add: pow2_def power_diff)
next
  case False
  then have "nat (- (int a - int b)) = b - a" by simp
  moreover have "(2 :: rat) ^ b = 2 ^ (b - a) * 2 ^ a"
    using False by (simp flip: power_add)
  ultimately show ?thesis using False by (simp add: pow2_def)
qed

text \<open>The defining property of the binary exponent.\<close>

lemma ilog2_bounds:
  assumes "0 < q"
  shows "pow2 (ilog2 q) \<le> q" "q < pow2 (ilog2 q + 1)"
proof -
  obtain n d where nd: "quotient_of q = (n, d)" by fastforce
  have d: "0 < d" using nd by (rule quotient_of_denom_pos)
  have q: "q = of_int n / of_int d" using nd by (rule quotient_of_div)
  then have n: "0 < n" using assms d by (simp add: zero_less_divide_iff)
  define a b where "a = bit_length n" and "b = bit_length d"
  obtain a' b' where ab: "a = Suc a'" "b = Suc b'"
    using bit_length_bounds [OF n] bit_length_bounds [OF d] by (metis a_def b_def gr0_implies_Suc)
  have n': "(2 :: rat) ^ a' \<le> of_int n" "of_int n < (2 :: rat) ^ a"
    using bit_length_bounds [OF n] ab unfolding a_def [symmetric]
    by (metis diff_Suc_1 of_int_le_iff of_int_numeral of_int_power, metis of_int_less_iff of_int_numeral of_int_power)
  have d': "(2 :: rat) ^ b' \<le> of_int d" "of_int d < (2 :: rat) ^ b"
    using bit_length_bounds [OF d] ab unfolding b_def [symmetric]
    by (metis diff_Suc_1 of_int_le_iff of_int_numeral of_int_power, metis of_int_less_iff of_int_numeral of_int_power)
  have d0: "(0 :: rat) < of_int d" using d by simp
  have lo: "2 ^ a' / 2 ^ b < q"
    unfolding q using n' d' d0 by (intro frac_less2) auto
  have hi: "q < 2 ^ a / 2 ^ b'"
    unfolding q using n n' d' by (intro frac_less) auto
  have e1: "pow2 (int a - int b - 1) = 2 ^ a' / 2 ^ b"
  proof -
    have "int a - int b - 1 = int a' - int b" using ab by simp
    then show ?thesis by (simp only: pow2_diff)
  qed
  have e2: "pow2 (int a - int b + 1) = 2 ^ a / 2 ^ b'"
  proof -
    have "int a - int b + 1 = int a - int b'" using ab by simp
    then show ?thesis by (simp only: pow2_diff)
  qed
  show "pow2 (ilog2 q) \<le> q" "q < pow2 (ilog2 q + 1)"
    using lo hi e1 e2 nd by (auto simp: ilog2_def Let_def a_def b_def)
qed

lemma round_half_even_le: "q \<le> of_int k \<Longrightarrow> round_half_even q \<le> k"
proof -
  assume q: "q \<le> of_int k"
  have "\<lfloor>q\<rfloor> \<le> k" using q by (simp add: floor_le_iff) 
  show ?thesis
  proof (cases "\<lfloor>q\<rfloor> < k")
    case True
    then show ?thesis by (auto simp: round_half_even_def Let_def)
  next
    case False
    with \<open>\<lfloor>q\<rfloor> \<le> k\<close> have f: "\<lfloor>q\<rfloor> = k" by simp
    then have "q = of_int k" using q of_int_floor_le [of q] by simp
    then show ?thesis by (simp add: round_half_even_def)
  qed
qed

lemma round_half_even_ge: "of_int k \<le> q \<Longrightarrow> k \<le> round_half_even q"
proof -
  assume "of_int k \<le> q"
  then have "k \<le> \<lfloor>q\<rfloor>" by (simp add: le_floor_iff)
  then show ?thesis by (auto simp: round_half_even_def Let_def)
qed

lemma round_half_even_int [simp]: "round_half_even (of_int k) = k"
  by (simp add: round_half_even_def)

text \<open>A rational between an integer multiple of its own spacing and zero rounds to a value between them.
  Integers below \<open>2\<^sup>5\<^sup>3\<close> are such multiples for every value that does not exceed them.\<close>

lemma ilog2_less:
  assumes "0 < q" and "q < 2 ^ k"
  shows "ilog2 q < int k"
proof (rule ccontr)
  assume "\<not> ilog2 q < int k"
  then have "pow2 (int k) \<le> pow2 (ilog2 q)" by (intro pow2_mono) simp
  then show False using ilog2_bounds(1) [OF assms(1)] assms(2) by (simp add: pow2_nat)
qed

lemma ulp_divides_int:
  assumes "0 < q" and "q < 2 ^ 53"
  shows "\<exists>k :: int. of_int i / ulp q = of_int (i * k) \<and> 0 < k"
proof -
  have "max (ilog2 q) (- 1022) - 52 \<le> 0"
    using ilog2_less [OF assms] by simp
  moreover define e where "e = max (ilog2 q) (- 1022) - 52"
  ultimately have "ulp q = 1 / 2 ^ nat (- e)"
    using assms(1) by (cases "e = 0") (auto simp: ulp_def pow2_def)
  then have "of_int i / ulp q = of_int (i * 2 ^ nat (- e))"
    by simp
  then show ?thesis by (metis zero_less_numeral zero_less_power)
qed

lemma round64_le_int:
  assumes "0 \<le> q" and "q \<le> of_int n" and "n < 2 ^ 53"
  shows "\<exists>r. round64 q = Fin r \<and> 0 \<le> r \<and> r \<le> of_int n"
proof (cases "q = 0")
  case True
  with assms show ?thesis by (simp add: round64_def)
next
  case False
  with assms have q: "0 < q" by simp
  have "(of_int n :: rat) < 2 ^ 53" using assms(3) by (metis of_int_less_iff of_int_numeral of_int_power)
  with assms(2) have lt: "q < 2 ^ 53" by simp
  obtain k where k: "of_int n / ulp q = of_int (n * k)" using ulp_divides_int [OF q lt] by blast
  have u: "0 < ulp q" by (simp add: ulp_def)
  have "q / ulp q \<le> of_int (n * k)"
    unfolding k [symmetric] using assms(2) u by (intro divide_right_mono) auto
  then have "round_half_even (q / ulp q) \<le> n * k" by (rule round_half_even_le)
  then have "(of_int (round_half_even (q / ulp q)) :: rat) \<le> of_int (n * k)" by (simp only: of_int_le_iff)
  then have "of_int (round_half_even (q / ulp q)) * ulp q \<le> of_int (n * k) * ulp q"
    using less_imp_le [OF u] by (rule mult_right_mono)
  also have "\<dots> = of_int n" unfolding k [symmetric] using u by simp
  finally have hi: "of_int (round_half_even (q / ulp q)) * ulp q \<le> of_int n" .
  have "0 \<le> round_half_even (q / ulp q)"
    using q u by (intro round_half_even_ge) (simp add: less_imp_le)
  then have lo: "0 \<le> of_int (round_half_even (q / ulp q)) * ulp q"
    using u by (simp add: less_imp_le)
  have "of_int (round_half_even (q / ulp q)) * ulp q < 2 ^ 1024"
    using hi \<open>of_int n < 2 ^ 53\<close> by (rule le_less_trans [THEN less_trans]) simp
  with hi lo False show ?thesis
    by (auto simp: round64_def Let_def)
qed

lemma float_of_int_exact:
  assumes "0 \<le> i" and "i < 2 ^ 53"
  shows "float_of_int i = Fin (of_int i)"
proof (cases "i = 0")
  case True
  then show ?thesis by (simp add: float_of_int_def round64_def)
next
  case False
  with assms have q: "0 < (of_int i :: rat)" by simp
  have lt: "(of_int i :: rat) < 2 ^ 53" using assms(2) by (metis of_int_less_iff of_int_numeral of_int_power)
  obtain k where k: "of_int i / ulp (of_int i) = of_int (i * k)" using ulp_divides_int [OF q lt] by blast
  have u: "0 < ulp (of_int i)" by (simp add: ulp_def)
  have "of_int (round_half_even (of_int i / ulp (of_int i))) * ulp (of_int i) = (of_int i :: rat)"
  proof -
    have "of_int (round_half_even (of_int i / ulp (of_int i))) = of_int i / ulp (of_int i :: rat)"
      by (simp only: k round_half_even_int)
    then show ?thesis using u by simp
  qed
  moreover have "(of_int i :: rat) < 2 ^ 1024" using lt by (rule less_trans) simp
  moreover have "- (2 ^ 1024) < (of_int i :: rat)" using q by (rule less_trans [rotated]) simp
  ultimately show ?thesis
    using False by (simp add: float_of_int_def round64_def Let_def)
qed

text \<open>Rounding takes no integer from \<open>2\<^sup>5\<^sup>3\<close> on below that bound.\<close>

lemma pow2_shift: "pow2 (e + int k) = 2 ^ k * pow2 e"
proof (induction k)
  case (Suc k)
  have "pow2 (e + int (Suc k)) = pow2 ((e + int k) + 1)" by (simp add: algebra_simps)
  then show ?case using Suc by (simp add: pow2_Suc)
qed simp

lemma float_of_int_large:
  assumes "2 ^ 53 \<le> i"
  shows "float_of_int i = PInf \<or> (\<exists>r. float_of_int i = Fin r \<and> 2 ^ 53 \<le> r)"
proof -
  define q :: rat where "q = of_int i"
  define e where "e = ilog2 q"
  have q: "2 ^ 53 \<le> q" unfolding q_def using assms by (metis of_int_le_iff of_int_numeral of_int_power)
  then have pos: "0 < q" by (rule less_le_trans [rotated]) simp
  have e: "53 \<le> e"
  proof (rule ccontr)
    assume "\<not> 53 \<le> e"
    then have "pow2 (e + 1) \<le> pow2 (int 53)" by (intro pow2_mono) simp
    then show False using ilog2_bounds(2) [OF pos] q unfolding e_def pow2_nat by simp
  qed
  then have u: "ulp q = pow2 (e - 52)" using pos by (simp add: ulp_def e_def)
  have shift: "pow2 e = 2 ^ 52 * ulp q" using pow2_shift [of "e - 52" 52] by (simp add: u)
  have "2 ^ 52 \<le> q / ulp q"
    using ilog2_bounds(1) [OF pos] pow2_pos [of "e - 52"] unfolding e_def [symmetric] shift u [symmetric]
    by (simp add: pos_le_divide_eq)
  then have "2 ^ 52 \<le> round_half_even (q / ulp q)" by (intro round_half_even_ge) simp
  then have "(2 ^ 52 :: rat) \<le> of_int (round_half_even (q / ulp q))" by (metis of_int_le_iff of_int_numeral of_int_power)
  then have "2 ^ 52 * ulp q \<le> of_int (round_half_even (q / ulp q)) * ulp q"
    by (intro mult_right_mono) (simp_all add: u)
  moreover have "2 ^ 53 \<le> pow2 e" using pow2_mono [OF e] pow2_nat [of 53] by simp
  ultimately have r: "2 ^ 53 \<le> of_int (round_half_even (q / ulp q)) * ulp q" unfolding shift by linarith
  then have "- (2 ^ 1024) < of_int (round_half_even (q / ulp q)) * ulp q" by (rule less_le_trans [rotated]) simp
  with r pos show ?thesis by (simp add: float_of_int_def round64_def Let_def q_def [symmetric])
qed

section \<open>\<^verbatim>\<open>strconv.ParseFloat\<close>\<close>

definition float_hex_val :: "char \<Rightarrow> nat option" where
  "float_hex_val c = (let n = (of_char (lower_char c) :: nat) in
     if 48 \<le> n \<and> n \<le> 57 then Some (n - 48) else if 97 \<le> n \<and> n \<le> 102 then Some (n - 87) else None)"

text \<open>\<^verbatim>\<open>underscoreOK\<close>: an underscore separates digits; a base prefix counts as one. \<open>prev\<close> tells whether a
  digit (\<open>Some True\<close>), an underscore (\<open>Some False\<close>) or something else came last.\<close>

fun underscore_loop :: "bool \<Rightarrow> bool option \<Rightarrow> string \<Rightarrow> bool" where
  "underscore_loop hex prev [] = (prev \<noteq> Some False)"
| "underscore_loop hex prev (c # s) =
     (if digit_val c \<noteq> None \<or> hex \<and> float_hex_val c \<noteq> None then underscore_loop hex (Some True) s
      else if c = CHR ''_'' then prev = Some True \<and> underscore_loop hex (Some False) s
      else prev \<noteq> Some False \<and> underscore_loop hex None s)"

definition drop_sign :: "string \<Rightarrow> string" where
  "drop_sign s = (if HasPrefix s ''+'' \<or> HasPrefix s ''-'' then drop 1 s else s)"

definition underscoreOK :: "string \<Rightarrow> bool" where
  "underscoreOK s =
     (let t = drop_sign s; p = ToLower (take 2 t) in
      if p = ''0x'' then underscore_loop True (Some True) (drop 2 t)
      else if p = ''0b'' \<or> p = ''0o'' then underscore_loop False (Some True) (drop 2 t)
      else underscore_loop False None t)"

text \<open>The mantissa: its digits as a number, the number of digits after the point, whether there was a
  digit, and what follows.\<close>

fun scan_mantissa ::
  "(char \<Rightarrow> nat option) \<Rightarrow> nat \<Rightarrow> bool \<Rightarrow> nat \<Rightarrow> nat \<Rightarrow> bool \<Rightarrow> string \<Rightarrow> nat \<times> nat \<times> bool \<times> string" where
  "scan_mantissa dv base dot m f dig [] = (m, f, dig, [])"
| "scan_mantissa dv base dot m f dig (c # s) =
     (if c = CHR ''.'' \<and> \<not> dot then scan_mantissa dv base True m f dig s
      else case dv c of
          Some d \<Rightarrow> scan_mantissa dv base dot (m * base + d) (if dot then Suc f else f) True s
        | None \<Rightarrow> (m, f, dig, c # s))"

text \<open>The digits of an exponent; its value stops growing once it has five digits.\<close>

fun exp_digits :: "nat \<Rightarrow> string \<Rightarrow> nat option" where
  "exp_digits e [] = Some e"
| "exp_digits e (c # s) =
     (case digit_val c of
        None \<Rightarrow> None
      | Some d \<Rightarrow> exp_digits (if e < 10000 then e * 10 + d else e) s)"

definition scan_exponent :: "string \<Rightarrow> int option" where
  "scan_exponent s =
     (let t = drop_sign s in
      if t = [] then None
      else map_option (\<lambda>e. if HasPrefix s ''-'' then - int e else int e) (exp_digits 0 t))"

definition read_float :: "string \<Rightarrow> rat option" where
  "read_float s0 =
     (let s = filter (\<lambda>c. c \<noteq> CHR ''_'') s0;
          neg = HasPrefix s ''-''; t = drop_sign s;
          hex = (ToLower (take 2 t) = ''0x'')
      in case (if hex then scan_mantissa float_hex_val 16 False 0 0 False (drop 2 t)
               else scan_mantissa digit_val 10 False 0 0 False t) of
           (m, f, dig, r) \<Rightarrow>
             if \<not> dig \<or> (CHR ''_'' \<in> set s0 \<and> \<not> underscoreOK s0) then None
             else
               let sg = (if neg then - 1 else 1 :: rat) in
               if hex then
                 (if ToLower (take 1 r) = ''p'' then
                    map_option (\<lambda>e. sg * of_nat m * pow2 (e - 4 * int f)) (scan_exponent (drop 1 r))
                  else None)
               else if r = [] then Some (sg * of_nat m / 10 ^ f)
               else if ToLower (take 1 r) = ''e'' then
                 map_option (\<lambda>e. if 0 \<le> e then sg * of_nat m / 10 ^ f * 10 ^ nat e
                                 else sg * of_nat m / 10 ^ f / 10 ^ nat (- e)) (scan_exponent (drop 1 r))
               else None)"

definition ParseFloat :: "string \<Rightarrow> f64 \<times> num_error option" where
  "ParseFloat s =
     (let l = ToLower (drop_sign s) in
      if l = ''inf'' \<or> l = ''infinity'' then (if HasPrefix s ''-'' then NInf else PInf, None)
      else if ToLower s = ''nan'' then (NaN, None)
      else case read_float s of
          None \<Rightarrow> (Fin 0, Some ErrSyntax)
        | Some q \<Rightarrow>
            (case round64 q of
               Fin r \<Rightarrow> (Fin r, None)
             | x \<Rightarrow> (x, Some ErrRange)))"

end
