(* ===== verification/Lvm_Report.thy ===== *)
theory Lvm_Report
  imports Lvm_Command Go_Json Go_Float
begin

text \<open>
  The part of \<^verbatim>\<open>src/pkg/lvm/lvm_util.go\<close> that reads the JSON reports of \<^verbatim>\<open>vgs\<close>, \<^verbatim>\<open>lvs\<close> and \<^verbatim>\<open>pvs\<close> into
  structures. The three parse functions range over Go maps, whose order is not determined, so they take
  the order of the keys as an argument; the functions that run the commands obtain it from the environment.
  A parse function returns the structure and an error, as in the source: \<^verbatim>\<open>parseVolumeGroup\<close> goes on after an
  error and overwrites it.

  The locale \<open>report_decoder\<close> holds what the three decoders share: one item per entry of the report, in
  its order, and an error as soon as one entry has one.
\<close>

section \<open>Definitions\<close>

record LogicalVolume =
  lv_Name :: string
  lv_FullName :: string
  lv_UUID :: string
  lv_Size :: int
  lv_Path :: string
  lv_DMPath :: string
  lv_Device :: string
  lv_VGName :: string
  lv_SegType :: string
  lv_Permission :: int
  lv_BehaviourWhenFull :: int
  lv_HealthStatus :: int
  lv_RaidSyncAction :: int
  lv_ActiveStatus :: string
  lv_Host :: string
  lv_PoolName :: string
  lv_UsedSizePercent :: f64
  lv_MetadataSize :: int
  lv_MetadataUsedPercent :: f64
  lv_SnapshotUsedPercent :: f64

record PhysicalVolume =
  pv_Name :: string
  pv_UUID :: string
  pv_Size :: int
  pv_DeviceSize :: int
  pv_MetadataSize :: int
  pv_MetadataFree :: int
  pv_Free :: int
  pv_Used :: int
  pv_Allocatable :: string
  pv_Missing :: string
  pv_InUse :: string
  pv_VGName :: string

definition zero_LogicalVolume :: LogicalVolume where
  "zero_LogicalVolume =
     \<lparr>lv_Name = [], lv_FullName = [], lv_UUID = [], lv_Size = 0, lv_Path = [], lv_DMPath = [], lv_Device = [],
      lv_VGName = [], lv_SegType = [], lv_Permission = 0, lv_BehaviourWhenFull = 0, lv_HealthStatus = 0,
      lv_RaidSyncAction = 0, lv_ActiveStatus = [], lv_Host = [], lv_PoolName = [], lv_UsedSizePercent = Fin 0,
      lv_MetadataSize = 0, lv_MetadataUsedPercent = Fin 0, lv_SnapshotUsedPercent = Fin 0\<rparr>"

definition zero_PhysicalVolume :: PhysicalVolume where
  "zero_PhysicalVolume =
     \<lparr>pv_Name = [], pv_UUID = [], pv_Size = 0, pv_DeviceSize = 0, pv_MetadataSize = 0, pv_MetadataFree = 0,
      pv_Free = 0, pv_Used = 0, pv_Allocatable = [], pv_Missing = [], pv_InUse = [], pv_VGName = []\<rparr>"

definition Enums :: "string \<Rightarrow> string list" where
  "Enums field =
     (if field = ''lv_permissions'' then [''unknown'', ''writeable'', ''read-only'', ''read-only-override'']
      else if field = ''lv_when_full'' then [''error'', ''queue'']
      else if field = ''raid_sync_action'' then [''idle'', ''frozen'', ''resync'', ''recover'', ''check'', ''repair'']
      else if field = ''lv_health_status'' then [[], ''partial'', ''refresh needed'', ''mismatches exist'']
      else if field = ''vg_allocation_policy'' then [''normal'', ''contiguous'', ''cling'', ''anywhere'', ''inherited'']
      else if field = ''vg_permissions'' then [''writeable'', ''read-only'']
      else [])"

text \<open>The loop of \<^verbatim>\<open>getIntFieldValue\<close> from index \<open>i\<close> on.\<close>

fun field_index :: "int \<Rightarrow> string \<Rightarrow> string list \<Rightarrow> int" where
  "field_index i x [] = - 1"
| "field_index i x (v # vs) = (if v = x then i else field_index (i + 1) x vs)"

definition getIntFieldValue :: "string \<Rightarrow> string \<Rightarrow> int" where
  "getIntFieldValue fieldName fieldValue = field_index 0 fieldValue (Enums fieldName)"

definition size_digits :: "string \<Rightarrow> string" where
  "size_digits s = TrimSuffix (ToLower s) ''b''"

text \<open>The error names the field, its text and the object; \<open>arg\<close> is the text the conversion was given.\<close>

definition invalid_format :: "string \<Rightarrow> string \<Rightarrow> string \<Rightarrow> string \<Rightarrow> string \<Rightarrow> num_error \<Rightarrow> gerr" where
  "invalid_format what key val name arg ne =
     NewErr [MStr ''invalid format of '', MStr key, MStr ''='', MStr val, MStr what, MStr name, MStr '': '',
             MErr (NumErr ne arg)]"

definition parse_size :: "string \<Rightarrow> int \<times> num_error option" where
  "parse_size s = ParseInt (size_digits s)"

text \<open>The destinations of the two maps of \<^verbatim>\<open>parseVolumeGroup\<close>.\<close>

definition vg_int32Map :: "(string \<times> (int \<Rightarrow> VolumeGroup \<Rightarrow> VolumeGroup)) list" where
  "vg_int32Map =
     [(''pv_count'', \<lambda>x. vg_PVCount_update (\<lambda>_. x)),
      (''lv_count'', \<lambda>x. vg_LVCount_update (\<lambda>_. x)),
      (''max_lv'', \<lambda>x. vg_MaxLV_update (\<lambda>_. x)),
      (''max_pv'', \<lambda>x. vg_MaxPV_update (\<lambda>_. x)),
      (''snap_count'', \<lambda>x. vg_SnapCount_update (\<lambda>_. x)),
      (''vg_missing_pv_count'', \<lambda>x. vg_MissingPVCount_update (\<lambda>_. x)),
      (''vg_mda_count'', \<lambda>x. vg_MetadataCount_update (\<lambda>_. x)),
      (''vg_mda_used_count'', \<lambda>x. vg_MetadataUsedCount_update (\<lambda>_. x))]"

definition vg_resQuantityMap :: "(string \<times> (int \<Rightarrow> VolumeGroup \<Rightarrow> VolumeGroup)) list" where
  "vg_resQuantityMap =
     [(''vg_size'', \<lambda>x. vg_Size_update (\<lambda>_. x)),
      (''vg_free'', \<lambda>x. vg_Free_update (\<lambda>_. x)),
      (''vg_mda_size'', \<lambda>x. vg_MetadataSize_update (\<lambda>_. x)),
      (''vg_mda_free'', \<lambda>x. vg_MetadataFree_update (\<lambda>_. x))]"

definition store :: "(string \<times> (int \<Rightarrow> 'a \<Rightarrow> 'a)) list \<Rightarrow> string \<Rightarrow> int \<Rightarrow> 'a \<Rightarrow> 'a" where
  "store dest key x a = (case map_of dest key of None \<Rightarrow> a | Some f \<Rightarrow> f x a)"

text \<open>One round of each loop: the error of the round replaces the one before.\<close>

definition vg_int32_step ::
  "(string \<rightharpoonup> string) \<Rightarrow> VolumeGroup \<times> gerr option \<Rightarrow> string \<Rightarrow> VolumeGroup \<times> gerr option" where
  "vg_int32_step m st key =
     (case Atoi (go_lookup m key) of (count, ne) \<Rightarrow>
       (store vg_int32Map key (wrap32 count) (fst st),
        map_option (invalid_format '' for vg '' key (go_lookup m key) (vg_Name (fst st)) (go_lookup m key)) ne))"

definition vg_quantity_step ::
  "(string \<rightharpoonup> string) \<Rightarrow> VolumeGroup \<times> gerr option \<Rightarrow> string \<Rightarrow> VolumeGroup \<times> gerr option" where
  "vg_quantity_step m st key =
     (case parse_size (go_lookup m key) of (sizeBytes, ne) \<Rightarrow>
       (store vg_resQuantityMap key sizeBytes (fst st),
        map_option (invalid_format '' for vg '' key (go_lookup m key) (vg_Name (fst st)) (size_digits (go_lookup m key))) ne))"

definition parseVolumeGroup ::
  "string list \<Rightarrow> string list \<Rightarrow> (string \<rightharpoonup> string) \<Rightarrow> VolumeGroup \<times> gerr option" where
  "parseVolumeGroup ord1 ord2 m =
     (let vg0 = zero_VolumeGroup\<lparr>vg_Name := go_lookup m ''vg_name'', vg_UUID := go_lookup m ''vg_uuid''\<rparr>;
          st1 = foldl (vg_int32_step m) (vg0, None) (map_order ord1 (map fst vg_int32Map));
          st2 = foldl (vg_quantity_step m) st1 (map_order ord2 (map fst vg_resQuantityMap))
      in ((fst st2)\<lparr>vg_Permission := getIntFieldValue ''vg_permissions'' (go_lookup m ''vg_permissions''),
                    vg_AllocationPolicy :=
                      getIntFieldValue ''vg_allocation_policy'' (go_lookup m ''vg_allocation_policy'')\<rparr>,
          snd st2))"

text \<open>The decoding of the items of a report: the items so far are returned with an error, but every caller
  drops them. \<open>i\<close> counts the maps ranged over.\<close>

fun decode_vgs_items ::
  "(nat \<Rightarrow> string list) \<Rightarrow> nat \<Rightarrow> (string \<rightharpoonup> string) list \<Rightarrow> gerr + VolumeGroup list" where
  "decode_vgs_items ord i [] = Inr []"
| "decode_vgs_items ord i (item # items) =
     (case parseVolumeGroup (ord i) (ord (i + 1)) item of
        (_, Some e) \<Rightarrow> Inl e
      | (vg, None) \<Rightarrow>
          (case decode_vgs_items ord (i + 2) items of Inl e \<Rightarrow> Inl e | Inr vgs \<Rightarrow> Inr (vg # vgs)))"

definition decodeVgsJSON :: "(nat \<Rightarrow> string list) \<Rightarrow> string \<Rightarrow> gerr + VolumeGroup list" where
  "decodeVgsJSON ord raw =
     (case Unmarshal_report ''vg'' raw of
        Inl e \<Rightarrow> Inl e
      | Inr reports \<Rightarrow>
          (case reports of
             [items] \<Rightarrow> decode_vgs_items ord 0 items
           | _ \<Rightarrow> Inl (NewErr [MStr ''expected exactly one lvm report''])))"

definition ListLVMVolumeGroup :: "bool \<Rightarrow> (gerr + VolumeGroup list) prog" where
  "ListLVMVolumeGroup reloadCache =
     tryP (if reloadCache then ReloadLVMMetadataCache else Ret (Inr ())) (\<lambda>_.
       bindP (RunCommandSplit VGList
                [''--options'', ''vg_all'', ''--reportformat'', ''json'', ''--units'', ''b'']) (\<lambda>(output, err).
         case err of
           Some e \<Rightarrow> Ret (Inl e)
         | None \<Rightarrow> OpOrder () (\<lambda>ord. Ret (decodeVgsJSON ord output))))"

definition getLvDeviceName :: "string \<Rightarrow> (gerr + string) prog" where
  "getLvDeviceName path =
     OpStr (EvalSymlinks path) (\<lambda>r. case r of
         Inl e \<Rightarrow> Ret (Inl e)
       | Inr dmPath \<Rightarrow> Ret (Inr (last (Split CHR ''/'' dmPath))))"

definition lv_int64Map :: "(string \<times> (int \<Rightarrow> LogicalVolume \<Rightarrow> LogicalVolume)) list" where
  "lv_int64Map =
     [(''lv_size'', \<lambda>x. lv_Size_update (\<lambda>_. x)), (''lv_metadata_size'', \<lambda>x. lv_MetadataSize_update (\<lambda>_. x))]"

definition lv_float64Map :: "(string \<times> (f64 \<Rightarrow> LogicalVolume \<Rightarrow> LogicalVolume)) list" where
  "lv_float64Map =
     [(''data_percent'', \<lambda>x. lv_UsedSizePercent_update (\<lambda>_. x)),
      (''metadata_percent'', \<lambda>x. lv_MetadataUsedPercent_update (\<lambda>_. x)),
      (''snap_percent'', \<lambda>x. lv_SnapshotUsedPercent_update (\<lambda>_. x))]"

text \<open>The loops of \<^verbatim>\<open>parseLogicalVolume\<close> return at the first error.\<close>

fun lv_int64_loop :: "(string \<rightharpoonup> string) \<Rightarrow> string list \<Rightarrow> LogicalVolume \<Rightarrow> LogicalVolume \<times> gerr option" where
  "lv_int64_loop m [] lv = (lv, None)"
| "lv_int64_loop m (key # keys) lv =
     (if go_lookup m ''segtype'' \<noteq> ''thin-pool'' \<and> key = ''lv_metadata_size''
      then lv_int64_loop m keys (store lv_int64Map key 0 lv)
      else case parse_size (go_lookup m key) of
          (_, Some ne) \<Rightarrow> (lv, Some (invalid_format '' for vg '' key (go_lookup m key) (lv_Name lv) (size_digits (go_lookup m key)) ne))
        | (sizeBytes, None) \<Rightarrow> lv_int64_loop m keys (store lv_int64Map key sizeBytes lv))"

fun lv_float64_loop :: "(string \<rightharpoonup> string) \<Rightarrow> string list \<Rightarrow> LogicalVolume \<Rightarrow> LogicalVolume \<times> gerr option" where
  "lv_float64_loop m [] lv = (lv, None)"
| "lv_float64_loop m (key # keys) lv =
     (case (if go_lookup m key = [] then (Fin 0, None) else ParseFloat (go_lookup m key)) of
        (_, Some ne) \<Rightarrow> (lv, Some (invalid_format '' for lv '' key (go_lookup m key) (lv_Name lv) (go_lookup m key) ne))
      | (count, None) \<Rightarrow>
          lv_float64_loop m keys (case map_of lv_float64Map key of None \<Rightarrow> lv | Some f \<Rightarrow> f count lv))"

definition parseLogicalVolume ::
  "string list \<Rightarrow> string list \<Rightarrow> (string \<rightharpoonup> string) \<Rightarrow> LogicalVolume \<times> gerr option" where
  "parseLogicalVolume ord1 ord2 m =
     (let lv0 = zero_LogicalVolume\<lparr>lv_Name := go_lookup m ''lv_name'', lv_FullName := go_lookup m ''lv_full_name'',
            lv_UUID := go_lookup m ''lv_uuid'', lv_Path := go_lookup m ''lv_path'',
            lv_DMPath := go_lookup m ''lv_dm_path'', lv_VGName := go_lookup m ''vg_name'',
            lv_ActiveStatus := go_lookup m ''lv_active''\<rparr>
      in case lv_int64_loop m (map_order ord1 (map fst lv_int64Map)) lv0 of
           (lv1, Some e) \<Rightarrow> (lv1, Some e)
         | (lv1, None) \<Rightarrow>
             lv_float64_loop m (map_order ord2 (map fst lv_float64Map))
               (lv1\<lparr>lv_SegType := go_lookup m ''segtype'', lv_Host := go_lookup m ''lv_host'',
                    lv_PoolName := go_lookup m ''pool_lv'',
                    lv_Permission := getIntFieldValue ''lv_permissions'' (go_lookup m ''lv_permissions''),
                    lv_BehaviourWhenFull := getIntFieldValue ''lv_when_full'' (go_lookup m ''lv_when_full''),
                    lv_HealthStatus := getIntFieldValue ''lv_health_status'' (go_lookup m ''lv_health_status''),
                    lv_RaidSyncAction := getIntFieldValue ''raid_sync_action'' (go_lookup m ''raid_sync_action'')\<rparr>))"

fun decode_lvs_items ::
  "(nat \<Rightarrow> string list) \<Rightarrow> nat \<Rightarrow> (string \<rightharpoonup> string) list \<Rightarrow> (gerr + LogicalVolume list) prog" where
  "decode_lvs_items ord i [] = Ret (Inr [])"
| "decode_lvs_items ord i (item # items) =
     (case parseLogicalVolume (ord i) (ord (i + 1)) item of
        (_, Some e) \<Rightarrow> Ret (Inl e)
      | (lv, None) \<Rightarrow>
          tryP (getLvDeviceName (lv_Path lv)) (\<lambda>deviceName.
            tryP (decode_lvs_items ord (i + 2) items) (\<lambda>lvs.
              Ret (Inr (lv\<lparr>lv_Device := deviceName\<rparr> # lvs)))))"

definition decodeLvsJSON :: "(nat \<Rightarrow> string list) \<Rightarrow> string \<Rightarrow> (gerr + LogicalVolume list) prog" where
  "decodeLvsJSON ord raw =
     (case Unmarshal_report ''lv'' raw of
        Inl e \<Rightarrow> Ret (Inl e)
      | Inr reports \<Rightarrow>
          (case reports of
             [items] \<Rightarrow> decode_lvs_items ord 0 items
           | _ \<Rightarrow> Ret (Inl (NewErr [MStr ''expected exactly one lvm report'']))))"

definition ListLVMLogicalVolume :: "(gerr + LogicalVolume list) prog" where
  "ListLVMLogicalVolume =
     bindP (RunCommandSplit LVList
              [''--options'', ''lv_all,vg_name,segtype'', ''--reportformat'', ''json'', ''--units'', ''b'']) (\<lambda>(output, err).
       case err of
         Some e \<Rightarrow> Ret (Inl e)
       | None \<Rightarrow> OpOrder () (\<lambda>ord. decodeLvsJSON ord output))"

definition pv_resQuantityMap :: "(string \<times> (int \<Rightarrow> PhysicalVolume \<Rightarrow> PhysicalVolume)) list" where
  "pv_resQuantityMap =
     [(''pv_size'', \<lambda>x. pv_Size_update (\<lambda>_. x)),
      (''pv_free'', \<lambda>x. pv_Free_update (\<lambda>_. x)),
      (''pv_used'', \<lambda>x. pv_Used_update (\<lambda>_. x)),
      (''pv_mda_size'', \<lambda>x. pv_MetadataSize_update (\<lambda>_. x)),
      (''pv_mda_free'', \<lambda>x. pv_MetadataFree_update (\<lambda>_. x)),
      (''dev_size'', \<lambda>x. pv_DeviceSize_update (\<lambda>_. x))]"

fun pv_quantity_loop :: "(string \<rightharpoonup> string) \<Rightarrow> string list \<Rightarrow> PhysicalVolume \<Rightarrow> PhysicalVolume \<times> gerr option" where
  "pv_quantity_loop m [] pv = (pv, None)"
| "pv_quantity_loop m (key # keys) pv =
     (case parse_size (go_lookup m key) of
        (_, Some ne) \<Rightarrow> (pv, Some (invalid_format '' for pv '' key (go_lookup m key) (pv_Name pv) (size_digits (go_lookup m key)) ne))
      | (sizeBytes, None) \<Rightarrow> pv_quantity_loop m keys (store pv_resQuantityMap key sizeBytes pv))"

definition parsePhysicalVolume :: "string list \<Rightarrow> (string \<rightharpoonup> string) \<Rightarrow> PhysicalVolume \<times> gerr option" where
  "parsePhysicalVolume ord m =
     pv_quantity_loop m (map_order ord (map fst pv_resQuantityMap))
       (zero_PhysicalVolume\<lparr>pv_Name := go_lookup m ''pv_name'', pv_UUID := go_lookup m ''pv_uuid'',
          pv_InUse := go_lookup m ''pv_in_use'', pv_Allocatable := go_lookup m ''pv_allocatable'',
          pv_Missing := go_lookup m ''pv_missing'', pv_VGName := go_lookup m ''vg_name''\<rparr>)"

fun decode_pvs_items ::
  "(nat \<Rightarrow> string list) \<Rightarrow> nat \<Rightarrow> (string \<rightharpoonup> string) list \<Rightarrow> gerr + PhysicalVolume list" where
  "decode_pvs_items ord i [] = Inr []"
| "decode_pvs_items ord i (item # items) =
     (case parsePhysicalVolume (ord i) item of
        (_, Some e) \<Rightarrow> Inl e
      | (pv, None) \<Rightarrow>
          (case decode_pvs_items ord (i + 1) items of Inl e \<Rightarrow> Inl e | Inr pvs \<Rightarrow> Inr (pv # pvs)))"

definition decodePvsJSON :: "(nat \<Rightarrow> string list) \<Rightarrow> string \<Rightarrow> gerr + PhysicalVolume list" where
  "decodePvsJSON ord raw =
     (case Unmarshal_report ''pv'' raw of
        Inl e \<Rightarrow> Inl e
      | Inr reports \<Rightarrow>
          (case reports of
             [items] \<Rightarrow> decode_pvs_items ord 0 items
           | _ \<Rightarrow> Inl (NewErr [MStr ''expected exactly one lvm report''])))"

definition ListLVMPhysicalVolume :: "(gerr + PhysicalVolume list) prog" where
  "ListLVMPhysicalVolume =
     tryP ReloadLVMMetadataCache (\<lambda>_.
       bindP (RunCommandSplit PVList
                [''--options'', ''pv_all,vg_name'', ''--reportformat'', ''json'', ''--units'', ''b'']) (\<lambda>(output, err).
         case err of
           Some e \<Rightarrow> Ret (Inl e)
         | None \<Rightarrow> OpOrder () (\<lambda>ord. Ret (decodePvsJSON ord output))))"

section \<open>Decoding item by item\<close>

text \<open>What \<^verbatim>\<open>decodeVgsJSON\<close> and \<^verbatim>\<open>decodePvsJSON\<close> share. \<open>parse i\<close> parses an item when \<open>i\<close> maps have been ranged
  over before, and ranges over \<open>stride\<close> maps.\<close>

locale report_decoder =
  fixes parse :: "nat \<Rightarrow> (string \<rightharpoonup> string) \<Rightarrow> 'a \<times> gerr option"
    and decode :: "nat \<Rightarrow> (string \<rightharpoonup> string) list \<Rightarrow> gerr + 'a list"
    and stride :: nat
  assumes decode_Nil: "decode i [] = Inr []"
    and decode_Cons: "decode i (item # items) =
      (case parse i item of
         (_, Some e) \<Rightarrow> Inl e
       | (x, None) \<Rightarrow> (case decode (i + stride) items of Inl e \<Rightarrow> Inl e | Inr xs \<Rightarrow> Inr (x # xs)))"
begin

lemma decode_ok_iff:
  "decode i items = Inr xs \<longleftrightarrow>
     length xs = length items \<and> (\<forall>j < length items. parse (i + j * stride) (items ! j) = (xs ! j, None))"
proof (induction items arbitrary: i xs)
  case Nil
  then show ?case by (auto simp: decode_Nil)
next
  case (Cons item items)
  obtain x e where p: "parse i item = (x, e)" by fastforce
  show ?case
  proof (cases e)
    case (Some err)
    then show ?thesis using p by (auto simp: decode_Cons)
  next
    case None
    have "decode i (item # items) = Inr xs \<longleftrightarrow> (\<exists>ys. xs = x # ys \<and> decode (i + stride) items = Inr ys)"
      using p None by (auto simp: decode_Cons split: sum.splits)
    also have "\<dots> \<longleftrightarrow> length xs = Suc (length items) \<and> (\<forall>j < Suc (length items).
        parse (i + j * stride) ((item # items) ! j) = (xs ! j, None))"
      using p None by (cases xs) (auto simp: Cons All_less_Suc2 algebra_simps)
    finally show ?thesis by simp
  qed
qed

text \<open>The first item with an error decides the result.\<close>

lemma decode_error:
  assumes "\<forall>j < length pre. snd (parse (i + j * stride) (pre ! j)) = None"
    and "parse (i + length pre * stride) item = (x, Some e)"
  shows "decode i (pre @ item # items) = Inl e"
  using assms
proof (induction pre arbitrary: i)
  case Nil
  then show ?case by (simp add: decode_Cons)
next
  case (Cons p pre)
  then have "snd (parse i p) = None" by auto
  moreover have "decode (i + stride) (pre @ item # items) = Inl e"
    using Cons.prems by (intro Cons.IH) (auto simp: All_less_Suc2 algebra_simps)
  ultimately show ?case by (auto simp: decode_Cons split: prod.splits option.splits)
qed

end

interpretation vgsd: report_decoder
  "\<lambda>i. parseVolumeGroup (ord i) (ord (i + 1))" "decode_vgs_items ord" 2 for ord
  by unfold_locales (simp_all only: decode_vgs_items.simps)

interpretation pvsd: report_decoder
  "\<lambda>i. parsePhysicalVolume (ord i)" "decode_pvs_items ord" 1 for ord
  by unfold_locales (simp_all only: decode_pvs_items.simps)


section \<open>The value of a parsed volume group\<close>

lemma foldl_field:
  assumes "\<And>st key. g (fst (step st key)) = (if key = k then v else g (fst st))"
  shows "g (fst (foldl step st keys)) = (if k \<in> set keys then v else g (fst st))"
  by (induction keys arbitrary: st rule: rev_induct) (auto simp: assms)

lemma foldl_frame:
  assumes "\<And>st key. g (fst (step st key)) = g (fst st)"
  shows "g (fst (foldl step st keys)) = g (fst st)"
  by (induction keys arbitrary: st) (auto simp: assms)

text \<open>The record a volume group of the report stands for.\<close>

definition vg_of :: "(string \<rightharpoonup> string) \<Rightarrow> VolumeGroup" where
  "vg_of m =
     \<lparr>vg_Name = go_lookup m ''vg_name'', vg_UUID = go_lookup m ''vg_uuid'',
      vg_Size = fst (parse_size (go_lookup m ''vg_size'')),
      vg_Free = fst (parse_size (go_lookup m ''vg_free'')),
      vg_LVCount = wrap32 (fst (Atoi (go_lookup m ''lv_count''))),
      vg_PVCount = wrap32 (fst (Atoi (go_lookup m ''pv_count''))),
      vg_MaxLV = wrap32 (fst (Atoi (go_lookup m ''max_lv''))),
      vg_MaxPV = wrap32 (fst (Atoi (go_lookup m ''max_pv''))),
      vg_SnapCount = wrap32 (fst (Atoi (go_lookup m ''snap_count''))),
      vg_MissingPVCount = wrap32 (fst (Atoi (go_lookup m ''vg_missing_pv_count''))),
      vg_MetadataCount = wrap32 (fst (Atoi (go_lookup m ''vg_mda_count''))),
      vg_MetadataUsedCount = wrap32 (fst (Atoi (go_lookup m ''vg_mda_used_count''))),
      vg_MetadataFree = fst (parse_size (go_lookup m ''vg_mda_free'')),
      vg_MetadataSize = fst (parse_size (go_lookup m ''vg_mda_size'')),
      vg_Permission = getIntFieldValue ''vg_permissions'' (go_lookup m ''vg_permissions''),
      vg_AllocationPolicy = getIntFieldValue ''vg_allocation_policy'' (go_lookup m ''vg_allocation_policy'')\<rparr>"

lemmas vg_step_defs =
  vg_int32_step_def vg_quantity_step_def store_def vg_int32Map_def vg_resQuantityMap_def

lemma vg_int32_step_sels:
  "vg_PVCount (fst (vg_int32_step m st key)) = (if key = ''pv_count'' then wrap32 (fst (Atoi (go_lookup m ''pv_count''))) else vg_PVCount (fst st))"
  "vg_LVCount (fst (vg_int32_step m st key)) = (if key = ''lv_count'' then wrap32 (fst (Atoi (go_lookup m ''lv_count''))) else vg_LVCount (fst st))"
  "vg_MaxLV (fst (vg_int32_step m st key)) = (if key = ''max_lv'' then wrap32 (fst (Atoi (go_lookup m ''max_lv''))) else vg_MaxLV (fst st))"
  "vg_MaxPV (fst (vg_int32_step m st key)) = (if key = ''max_pv'' then wrap32 (fst (Atoi (go_lookup m ''max_pv''))) else vg_MaxPV (fst st))"
  "vg_SnapCount (fst (vg_int32_step m st key)) = (if key = ''snap_count'' then wrap32 (fst (Atoi (go_lookup m ''snap_count''))) else vg_SnapCount (fst st))"
  "vg_MissingPVCount (fst (vg_int32_step m st key)) = (if key = ''vg_missing_pv_count'' then wrap32 (fst (Atoi (go_lookup m ''vg_missing_pv_count''))) else vg_MissingPVCount (fst st))"
  "vg_MetadataCount (fst (vg_int32_step m st key)) = (if key = ''vg_mda_count'' then wrap32 (fst (Atoi (go_lookup m ''vg_mda_count''))) else vg_MetadataCount (fst st))"
  "vg_MetadataUsedCount (fst (vg_int32_step m st key)) = (if key = ''vg_mda_used_count'' then wrap32 (fst (Atoi (go_lookup m ''vg_mda_used_count''))) else vg_MetadataUsedCount (fst st))"
  "vg_Name (fst (vg_int32_step m st key)) = vg_Name (fst st)"
  "vg_UUID (fst (vg_int32_step m st key)) = vg_UUID (fst st)"
  by (simp_all add: vg_int32_step_def store_def vg_int32Map_def split: prod.splits)

lemma vg_quantity_step_sels:
  "vg_Size (fst (vg_quantity_step m st key)) = (if key = ''vg_size'' then fst (parse_size (go_lookup m ''vg_size'')) else vg_Size (fst st))"
  "vg_Free (fst (vg_quantity_step m st key)) = (if key = ''vg_free'' then fst (parse_size (go_lookup m ''vg_free'')) else vg_Free (fst st))"
  "vg_MetadataSize (fst (vg_quantity_step m st key)) = (if key = ''vg_mda_size'' then fst (parse_size (go_lookup m ''vg_mda_size'')) else vg_MetadataSize (fst st))"
  "vg_MetadataFree (fst (vg_quantity_step m st key)) = (if key = ''vg_mda_free'' then fst (parse_size (go_lookup m ''vg_mda_free'')) else vg_MetadataFree (fst st))"
  "vg_Name (fst (vg_quantity_step m st key)) = vg_Name (fst st)"
  "vg_UUID (fst (vg_quantity_step m st key)) = vg_UUID (fst st)"
  "vg_PVCount (fst (vg_quantity_step m st key)) = vg_PVCount (fst st)"
  "vg_LVCount (fst (vg_quantity_step m st key)) = vg_LVCount (fst st)"
  "vg_MaxLV (fst (vg_quantity_step m st key)) = vg_MaxLV (fst st)"
  "vg_MaxPV (fst (vg_quantity_step m st key)) = vg_MaxPV (fst st)"
  "vg_SnapCount (fst (vg_quantity_step m st key)) = vg_SnapCount (fst st)"
  "vg_MissingPVCount (fst (vg_quantity_step m st key)) = vg_MissingPVCount (fst st)"
  "vg_MetadataCount (fst (vg_quantity_step m st key)) = vg_MetadataCount (fst st)"
  "vg_MetadataUsedCount (fst (vg_quantity_step m st key)) = vg_MetadataUsedCount (fst st)"
  by (simp_all add: vg_quantity_step_def store_def vg_resQuantityMap_def split: prod.splits)

lemma vg_int32_fields:
  "vg_PVCount (fst (foldl (vg_int32_step m) st (map_order ord (map fst vg_int32Map)))) =
     wrap32 (fst (Atoi (go_lookup m ''pv_count'')))"
  "vg_LVCount (fst (foldl (vg_int32_step m) st (map_order ord (map fst vg_int32Map)))) =
     wrap32 (fst (Atoi (go_lookup m ''lv_count'')))"
  "vg_MaxLV (fst (foldl (vg_int32_step m) st (map_order ord (map fst vg_int32Map)))) =
     wrap32 (fst (Atoi (go_lookup m ''max_lv'')))"
  "vg_MaxPV (fst (foldl (vg_int32_step m) st (map_order ord (map fst vg_int32Map)))) =
     wrap32 (fst (Atoi (go_lookup m ''max_pv'')))"
  "vg_SnapCount (fst (foldl (vg_int32_step m) st (map_order ord (map fst vg_int32Map)))) =
     wrap32 (fst (Atoi (go_lookup m ''snap_count'')))"
  "vg_MissingPVCount (fst (foldl (vg_int32_step m) st (map_order ord (map fst vg_int32Map)))) =
     wrap32 (fst (Atoi (go_lookup m ''vg_missing_pv_count'')))"
  "vg_MetadataCount (fst (foldl (vg_int32_step m) st (map_order ord (map fst vg_int32Map)))) =
     wrap32 (fst (Atoi (go_lookup m ''vg_mda_count'')))"
  "vg_MetadataUsedCount (fst (foldl (vg_int32_step m) st (map_order ord (map fst vg_int32Map)))) =
     wrap32 (fst (Atoi (go_lookup m ''vg_mda_used_count'')))"
  by (simp_all add: vg_int32Map_def
      foldl_field [where g = vg_PVCount and step = "vg_int32_step m", OF vg_int32_step_sels(1)]
      foldl_field [where g = vg_LVCount and step = "vg_int32_step m", OF vg_int32_step_sels(2)]
      foldl_field [where g = vg_MaxLV and step = "vg_int32_step m", OF vg_int32_step_sels(3)]
      foldl_field [where g = vg_MaxPV and step = "vg_int32_step m", OF vg_int32_step_sels(4)]
      foldl_field [where g = vg_SnapCount and step = "vg_int32_step m", OF vg_int32_step_sels(5)]
      foldl_field [where g = vg_MissingPVCount and step = "vg_int32_step m", OF vg_int32_step_sels(6)]
      foldl_field [where g = vg_MetadataCount and step = "vg_int32_step m", OF vg_int32_step_sels(7)]
      foldl_field [where g = vg_MetadataUsedCount and step = "vg_int32_step m", OF vg_int32_step_sels(8)])

lemma vg_quantity_fields:
  "vg_Size (fst (foldl (vg_quantity_step m) st (map_order ord (map fst vg_resQuantityMap)))) =
     fst (parse_size (go_lookup m ''vg_size''))"
  "vg_Free (fst (foldl (vg_quantity_step m) st (map_order ord (map fst vg_resQuantityMap)))) =
     fst (parse_size (go_lookup m ''vg_free''))"
  "vg_MetadataSize (fst (foldl (vg_quantity_step m) st (map_order ord (map fst vg_resQuantityMap)))) =
     fst (parse_size (go_lookup m ''vg_mda_size''))"
  "vg_MetadataFree (fst (foldl (vg_quantity_step m) st (map_order ord (map fst vg_resQuantityMap)))) =
     fst (parse_size (go_lookup m ''vg_mda_free''))"
  by (simp_all add: vg_resQuantityMap_def
      foldl_field [where g = vg_Size and step = "vg_quantity_step m", OF vg_quantity_step_sels(1)]
      foldl_field [where g = vg_Free and step = "vg_quantity_step m", OF vg_quantity_step_sels(2)]
      foldl_field [where g = vg_MetadataSize and step = "vg_quantity_step m", OF vg_quantity_step_sels(3)]
      foldl_field [where g = vg_MetadataFree and step = "vg_quantity_step m", OF vg_quantity_step_sels(4)])

lemmas vg_frames =
  foldl_frame [where g = vg_Name and step = "vg_int32_step m", OF vg_int32_step_sels(9)] foldl_frame [where g = vg_UUID and step = "vg_int32_step m", OF vg_int32_step_sels(10)]
  foldl_frame [where g = vg_Name and step = "vg_quantity_step m", OF vg_quantity_step_sels(5)] foldl_frame [where g = vg_UUID and step = "vg_quantity_step m", OF vg_quantity_step_sels(6)]
  foldl_frame [where g = vg_PVCount and step = "vg_quantity_step m", OF vg_quantity_step_sels(7)]
  foldl_frame [where g = vg_LVCount and step = "vg_quantity_step m", OF vg_quantity_step_sels(8)]
  foldl_frame [where g = vg_MaxLV and step = "vg_quantity_step m", OF vg_quantity_step_sels(9)]
  foldl_frame [where g = vg_MaxPV and step = "vg_quantity_step m", OF vg_quantity_step_sels(10)]
  foldl_frame [where g = vg_SnapCount and step = "vg_quantity_step m", OF vg_quantity_step_sels(11)]
  foldl_frame [where g = vg_MissingPVCount and step = "vg_quantity_step m", OF vg_quantity_step_sels(12)]
  foldl_frame [where g = vg_MetadataCount and step = "vg_quantity_step m", OF vg_quantity_step_sels(13)]
  foldl_frame [where g = vg_MetadataUsedCount and step = "vg_quantity_step m", OF vg_quantity_step_sels(14)]
  for m

lemma parseVolumeGroup_value: "fst (parseVolumeGroup ord1 ord2 m) = vg_of m"
  by (rule VolumeGroup.equality)
    (simp_all add: parseVolumeGroup_def Let_def vg_of_def vg_int32_fields vg_quantity_fields vg_frames)

text \<open>The error is that of the last quantity.\<close>

lemma parseVolumeGroup_error:
  "snd (parseVolumeGroup ord1 ord2 m) = None \<longleftrightarrow>
     snd (parse_size (go_lookup m (last (map_order ord2 (map fst vg_resQuantityMap))))) = None"
proof -
  have "map_order ord2 (map fst vg_resQuantityMap) \<noteq> []"
  proof
    assume "map_order ord2 (map fst vg_resQuantityMap) = []"
    then have "set (map fst vg_resQuantityMap) = {}" by (metis set_map_order set_empty)
    then show False by (simp add: vg_resQuantityMap_def)
  qed
  then obtain ks k where ks: "map_order ord2 (map fst vg_resQuantityMap) = ks @ [k]"
    by (meson rev_exhaust)
  have "snd (vg_quantity_step m st k) = None \<longleftrightarrow> snd (parse_size (go_lookup m k)) = None" for st
    by (simp add: vg_quantity_step_def split: prod.splits)
  then show ?thesis
    by (simp add: parseVolumeGroup_def Let_def ks)
qed

section \<open>Properties\<close>

text \<open>(C27) The structure that \<^verbatim>\<open>parseVolumeGroup\<close> builds from an entry of the \<^verbatim>\<open>vgs\<close> report does not depend on
  the order in which Go ranges over its maps: it is \<open>vg_of\<close> of the entry, every count and size read from
  its own field.\<close>

theorem parse_vg_order_independent:
  "fst (parseVolumeGroup ord1 ord2 m) = vg_of m"
  by (rule parseVolumeGroup_value)

text \<open>(C28) Its error does depend on that order, and can be lost: if the text of one size field is a number,
  there is an order of iteration in which \<^verbatim>\<open>parseVolumeGroup\<close> reports no error, whatever the other size
  fields and all the count fields contain.\<close>

theorem parse_vg_error_lost:
  assumes "k \<in> {''vg_size'', ''vg_free'', ''vg_mda_size'', ''vg_mda_free''}"
    and "snd (parse_size (go_lookup m k)) = None"
  shows "\<exists>ord2. \<forall>ord1. snd (parseVolumeGroup ord1 ord2 m) = None"
proof -
  let ?keys = "map fst vg_resQuantityMap"
  let ?ord = "filter (\<lambda>x. x \<noteq> k) ?keys @ [k]"
  have keys: "set ?keys = {''vg_size'', ''vg_free'', ''vg_mda_size'', ''vg_mda_free''}" "distinct ?keys"
    by (simp_all add: vg_resQuantityMap_def)
  then have "map_order ?ord ?keys = ?ord"
    using assms(1) by (intro map_order_perm) auto
  then have "\<forall>ord1. snd (parseVolumeGroup ord1 ?ord m) = None"
    using assms(2) by (simp add: parseVolumeGroup_error)
  then show ?thesis by blast
qed

theorem parse_vg_error_lost_witness:
  "\<exists>ord2. \<forall>ord1. snd (parseVolumeGroup ord1 ord2 [''vg_size'' \<mapsto> ''bad'', ''vg_free'' \<mapsto> ''1024B'']) = None"
proof (rule parse_vg_error_lost [of "''vg_free''"])
  show "snd (parse_size (go_lookup [''vg_size'' \<mapsto> ''bad'', ''vg_free'' \<mapsto> ''1024B''] ''vg_free'')) = None"
    by code_simp
qed simp

text \<open>(C26) Listing the volume groups. When the call returns a list, \<^verbatim>\<open>vgs\<close> ran successfully, after a
  successful reload of the metadata cache if one was asked for, its output was a report with exactly one
  part, and the list has one volume group per entry of that part, in its order, each the \<open>vg_of\<close> of its
  entry.\<close>

theorem list_vgs_complete:
  assumes "runs (ListLVMVolumeGroup reload) tr (Val (Inr vgs))"
  shows "\<exists>raw ord items. Unmarshal_report ''vg'' raw = Inr [items] \<and> vgs = map vg_of items \<and>
    (if reload then \<exists>out. hd tr = EvExec (RunSplit PVScan [''--cache'']) (out, None) else length tr = 2) \<and>
    drop (length tr - 2) tr =
      [EvExec (RunSplit VGList [''--options'', ''vg_all'', ''--reportformat'', ''json'', ''--units'', ''b'']) (raw, None),
       EvOrder () ord]"
proof -
  have items: "\<exists>items. Unmarshal_report ''vg'' raw = Inr [items] \<and> vgs = map vg_of items"
    if dec: "decodeVgsJSON ord raw = Inr vgs" for ord raw
  proof -
    from dec obtain items where items: "Unmarshal_report ''vg'' raw = Inr [items]"
      and "decode_vgs_items ord 0 items = Inr vgs"
      by (auto simp: decodeVgsJSON_def split: sum.splits list.splits)
    then have "length vgs = length items"
      and nth: "\<forall>j < length items. parseVolumeGroup (ord (j * 2)) (ord (j * 2 + 1)) (items ! j) = (vgs ! j, None)"
      by (simp_all add: vgsd.decode_ok_iff)
    moreover have "\<forall>j < length items. vgs ! j = vg_of (items ! j)"
      using nth by (metis fst_conv parseVolumeGroup_value)
    ultimately have "vgs = map vg_of items" by (intro nth_equalityI) auto
    with items show ?thesis by blast
  qed
  show ?thesis
  proof (cases reload)
    case True
    with assms obtain out raw ord where
      "tr = [EvExec (RunSplit PVScan [''--cache'']) (out, None),
        EvExec (RunSplit VGList [''--options'', ''vg_all'', ''--reportformat'', ''json'', ''--units'', ''b'']) (raw, None),
        EvOrder () ord]" and "decodeVgsJSON ord raw = Inr vgs"
      by (auto simp: ListLVMVolumeGroup_def ReloadLVMMetadataCache_def RunCommandSplit_def tryP_def
          split: option.splits sum.splits)
    with items [of ord raw] True show ?thesis by auto
  next
    case False
    with assms obtain raw ord where
      "tr = [EvExec (RunSplit VGList [''--options'', ''vg_all'', ''--reportformat'', ''json'', ''--units'', ''b'']) (raw, None),
        EvOrder () ord]" and "decodeVgsJSON ord raw = Inr vgs"
      by (auto simp: ListLVMVolumeGroup_def RunCommandSplit_def tryP_def split: option.splits)
    with items [of ord raw] False show ?thesis by auto
  qed
qed

text \<open>A report as \<^verbatim>\<open>vgs\<close> prints it; \<open>quoted\<close> puts double quotes around a text.\<close>

definition quoted :: "string \<Rightarrow> string" where
  "quoted s = CHR 0x22 # s @ [CHR 0x22]"

definition ex_report :: string where
  "ex_report = ''{'' @ quoted ''report'' @ '': [ {'' @ quoted ''vg'' @ '': [ {'' @
     quoted ''vg_name'' @ '':'' @ quoted ''lvmvg'' @ '', '' @ quoted ''vg_size'' @ '':'' @ quoted ''4096B'' @ '', '' @
     quoted ''vg_free'' @ '':'' @ quoted ''1024B'' @ '', '' @ quoted ''vg_mda_size'' @ '':'' @ quoted ''512B'' @ '', '' @
     quoted ''vg_mda_free'' @ '':'' @ quoted ''256B'' @ ''} ] } ] }''"

definition ex_entry :: "string \<rightharpoonup> string" where
  "ex_entry = [''vg_name'' \<mapsto> ''lvmvg'', ''vg_size'' \<mapsto> ''4096B'', ''vg_free'' \<mapsto> ''1024B'',
     ''vg_mda_size'' \<mapsto> ''512B'', ''vg_mda_free'' \<mapsto> ''256B'']"

lemma ex_report_parsed:
  "parse_json ex_report = Some (JObj [(''report'', JArr [JObj [(''vg'', JArr [JObj
     [(''vg_name'', JStr ''lvmvg''), (''vg_size'', JStr ''4096B''), (''vg_free'', JStr ''1024B''),
      (''vg_mda_size'', JStr ''512B''), (''vg_mda_free'', JStr ''256B'')]])]])])"
  by code_simp

lemma ex_report_decoded: "Unmarshal_report ''vg'' ex_report = Inr [[ex_entry]]"
proof -
  have "ToLower ''report'' = ''report''" "ToLower ''vg'' = ''vg''" by code_simp+
  then show ?thesis by (simp add: Unmarshal_report_def ex_report_parsed ex_entry_def)
qed

lemma ex_report_vgs: "decodeVgsJSON (\<lambda>_. []) ex_report = Inr [vg_of ex_entry]"
proof -
  have "snd (parseVolumeGroup [] [] ex_entry) = None" by code_simp
  then have "parseVolumeGroup [] [] ex_entry = (vg_of ex_entry, None)"
    using parseVolumeGroup_value [of "[]" "[]" ex_entry] by (metis prod.collapse)
  then show ?thesis by (simp add: decodeVgsJSON_def ex_report_decoded)
qed

theorem list_vgs_complete_witness:
  "\<exists>items. Unmarshal_report ''vg'' ex_report = Inr [items] \<and> [vg_of ex_entry] = map vg_of items"
proof -
  have "runs (ListLVMVolumeGroup False)
      [EvExec (RunSplit VGList [''--options'', ''vg_all'', ''--reportformat'', ''json'', ''--units'', ''b'']) (ex_report, None),
       EvOrder () (\<lambda>_. [])] (Val (Inr [vg_of ex_entry]))"
    by (simp add: ListLVMVolumeGroup_def RunCommandSplit_def tryP_def ex_report_vgs)
  from list_vgs_complete [OF this] show ?thesis by auto
qed

text \<open>A run that lists one volume group, for the components that list them.\<close>

definition ex_list_run :: "event list" where
  "ex_list_run =
     [EvExec (RunSplit PVScan [''--cache'']) ([], None),
      EvExec (RunSplit VGList [''--options'', ''vg_all'', ''--reportformat'', ''json'', ''--units'', ''b'']) (ex_report, None),
      EvOrder () (\<lambda>_. [])]"

lemma ex_list_runs: "runs (ListLVMVolumeGroup True) ex_list_run (Val (Inr [vg_of ex_entry]))"
  by (simp add: ListLVMVolumeGroup_def ReloadLVMMetadataCache_def RunCommandSplit_def tryP_def ex_report_vgs ex_list_run_def)

end
