(* ===== verification/Frames.thy ===== *)
theory Frames
  imports Effects
begin

text \<open>
  Which operations a program can perform at all: \<open>only P p\<close> says that every event of every run of \<open>p\<close> satisfies
  \<open>P\<close>. The rules of \<open>only_intros\<close> follow the structure of the programs, so that such a fact about a handler
  is proved by going through its text.
\<close>

text \<open>The runs of a case distinction, as a disjunction of its cases.\<close>

lemma runs_case_sum:
  "runs (case x of Inl a \<Rightarrow> f a | Inr b \<Rightarrow> g b) tr r \<longleftrightarrow>
     (\<exists>a. x = Inl a \<and> runs (f a) tr r) \<or> (\<exists>b. x = Inr b \<and> runs (g b) tr r)"
  by (cases x) auto

lemma runs_case_option:
  "runs (case x of None \<Rightarrow> f | Some b \<Rightarrow> g b) tr r \<longleftrightarrow>
     x = None \<and> runs f tr r \<or> (\<exists>b. x = Some b \<and> runs (g b) tr r)"
  by (cases x) auto

lemma runs_tryP:
  "runs (tryP m f) tr r \<longleftrightarrow>
     (\<exists>e. r = Val (Inl e) \<and> runs m tr (Val (Inl e))) \<or> (\<exists>s. r = Crash s \<and> runs m tr (Crash s)) \<or>
     (\<exists>a tr1 tr2. tr = tr1 @ tr2 \<and> runs m tr1 (Val (Inr a)) \<and> runs (f a) tr2 r)"
  unfolding tryP_def runs_bindP runs_case_sum by auto

lemma runs_bindP_ok: "runs m t1 (Val a) \<Longrightarrow> runs (f a) t2 r \<Longrightarrow> runs (bindP m f) (t1 @ t2) r"
  unfolding runs_bindP by blast

lemma runs_tryP_ok: "runs m t1 (Val (Inr a)) \<Longrightarrow> runs (f a) t2 r \<Longrightarrow> runs (tryP m f) (t1 @ t2) r"
  unfolding runs_tryP by blast

lemmas runs_simps = runs_bindP runs_tryP runs_case_sum runs_case_option

named_theorems only_intros \<open>introduction rules for the operations of a program\<close>

definition only :: "(event \<Rightarrow> bool) \<Rightarrow> 'a prog \<Rightarrow> bool" where
  "only P p = (\<forall>tr r. runs p tr r \<longrightarrow> list_all P tr)"

lemma onlyI: "(\<And>tr r. runs p tr r \<Longrightarrow> list_all P tr) \<Longrightarrow> only P p"
  unfolding only_def by blast

lemma only_runs: "only P p \<Longrightarrow> runs p tr r \<Longrightarrow> list_all P tr"
  unfolding only_def by blast

lemma only_mono: "only P p \<Longrightarrow> (\<And>ev. P ev \<Longrightarrow> Q ev) \<Longrightarrow> only Q p"
  by (auto simp: only_def list_all_iff)

lemma only_wp: "only P p \<longleftrightarrow> wp p (\<lambda>r t. list_all P t) []"
  by (auto simp: only_def wp_iff_runs)

lemma only_Ret [only_intros, simp]: "only P (Ret a)"
  by (simp add: only_def)

lemma only_Panic [only_intros, simp]: "only P (Panic s)"
  by (simp add: only_def)

lemma only_step:
  "\<forall>y. P (E y) \<Longrightarrow> \<forall>y. only P (k y) \<Longrightarrow> \<exists>y tr'. tr = E y # tr' \<and> runs (k y) tr' r \<Longrightarrow> list_all P tr"
  using only_runs by fastforce

lemma only_op [rule_format, only_intros]:
  "(\<forall>y. P (EvErr x0 y)) \<Longrightarrow> (\<forall>y. only P (k0 y)) \<Longrightarrow> only P (OpErr x0 k0)"
  "(\<forall>y. P (EvUnit x1 y)) \<Longrightarrow> (\<forall>y. only P (k1 y)) \<Longrightarrow> only P (OpUnit x1 k1)"
  "(\<forall>y. P (EvExec x2 y)) \<Longrightarrow> (\<forall>y. only P (k2 y)) \<Longrightarrow> only P (OpExec x2 k2)"
  "(\<forall>y. P (EvStat x3 y)) \<Longrightarrow> (\<forall>y. only P (k3 y)) \<Longrightarrow> only P (OpStat x3 k3)"
  "(\<forall>y. P (EvStr x4 y)) \<Longrightarrow> (\<forall>y. only P (k4 y)) \<Longrightarrow> only P (OpStr x4 k4)"
  "(\<forall>y. P (EvStrs x5 y)) \<Longrightarrow> (\<forall>y. only P (k5 y)) \<Longrightarrow> only P (OpStrs x5 k5)"
  "(\<forall>y. P (EvBool x6 y)) \<Longrightarrow> (\<forall>y. only P (k6 y)) \<Longrightarrow> only P (OpBool x6 k6)"
  "(\<forall>y. P (EvDev x7 y)) \<Longrightarrow> (\<forall>y. only P (k7 y)) \<Longrightarrow> only P (OpDev x7 k7)"
  "(\<forall>y. P (EvStatfs x8 y)) \<Longrightarrow> (\<forall>y. only P (k8 y)) \<Longrightarrow> only P (OpStatfs x8 k8)"
  "(\<forall>y. P (EvNow x9 y)) \<Longrightarrow> (\<forall>y. only P (k9 y)) \<Longrightarrow> only P (OpNow x9 k9)"
  "(\<forall>y. P (EvCtx x10 y)) \<Longrightarrow> (\<forall>y. only P (k10 y)) \<Longrightarrow> only P (OpCtx x10 k10)"
  "(\<forall>y. P (EvOrder x11 y)) \<Longrightarrow> (\<forall>y. only P (k11 y)) \<Longrightarrow> only P (OpOrder x11 k11)"
  "(\<forall>y. P (EvSched x12 y)) \<Longrightarrow> (\<forall>y. only P (k12 y)) \<Longrightarrow> only P (OpSched x12 k12)"
  "(\<forall>y. P (EvLabels x13 y)) \<Longrightarrow> (\<forall>y. only P (k13 y)) \<Longrightarrow> only P (OpLabels x13 k13)"
  "(\<forall>y. P (EvWq x14 y)) \<Longrightarrow> (\<forall>y. only P (k14 y)) \<Longrightarrow> only P (OpWq x14 k14)"
  "(\<forall>y. P (EvVol x15 y)) \<Longrightarrow> (\<forall>y. only P (k15 y)) \<Longrightarrow> only P (OpVol x15 k15)"
  "(\<forall>y. P (EvVols x16 y)) \<Longrightarrow> (\<forall>y. only P (k16 y)) \<Longrightarrow> only P (OpVols x16 k16)"
  "(\<forall>y. P (EvVolCache x17 y)) \<Longrightarrow> (\<forall>y. only P (k17 y)) \<Longrightarrow> only P (OpVolCache x17 k17)"
  "(\<forall>y. P (EvSnap x18 y)) \<Longrightarrow> (\<forall>y. only P (k18 y)) \<Longrightarrow> only P (OpSnap x18 k18)"
  "(\<forall>y. P (EvSnaps x19 y)) \<Longrightarrow> (\<forall>y. only P (k19 y)) \<Longrightarrow> only P (OpSnaps x19 k19)"
  "(\<forall>y. P (EvSnapCache x20 y)) \<Longrightarrow> (\<forall>y. only P (k20 y)) \<Longrightarrow> only P (OpSnapCache x20 k20)"
  "(\<forall>y. P (EvNode x21 y)) \<Longrightarrow> (\<forall>y. only P (k21 y)) \<Longrightarrow> only P (OpNode x21 k21)"
  "(\<forall>y. P (EvNodes x22 y)) \<Longrightarrow> (\<forall>y. only P (k22 y)) \<Longrightarrow> only P (OpNodes x22 k22)"
  "(\<forall>y. P (EvNodeCache x23 y)) \<Longrightarrow> (\<forall>y. only P (k23 y)) \<Longrightarrow> only P (OpNodeCache x23 k23)"
  "(\<forall>y. P (EvNodeKey x24 y)) \<Longrightarrow> (\<forall>y. only P (k24 y)) \<Longrightarrow> only P (OpNodeKey x24 k24)"
  "(\<forall>y. P (EvK8sKeys x25 y)) \<Longrightarrow> (\<forall>y. only P (k25 y)) \<Longrightarrow> only P (OpK8sKeys x25 k25)"
  "(\<forall>y. P (EvK8sNodes x26 y)) \<Longrightarrow> (\<forall>y. only P (k26 y)) \<Longrightarrow> only P (OpK8sNodes x26 k26)"
  by (rule onlyI, unfold runs.simps, rule only_step, assumption+)+

lemma only_bindP [rule_format, only_intros]: "only P m \<Longrightarrow> (\<forall>a. only P (f a)) \<Longrightarrow> only P (bindP m f)"
  by (rule onlyI) (auto simp: runs_bindP; blast intro: only_runs)

lemma only_tryP [rule_format, only_intros]: "only P m \<Longrightarrow> (\<forall>a. only P (f a)) \<Longrightarrow> only P (tryP m f)"
  unfolding tryP_def by (rule only_bindP) (auto split: sum.splits)

lemma only_if [only_intros]: "(b \<Longrightarrow> only P m) \<Longrightarrow> (\<not> b \<Longrightarrow> only P n) \<Longrightarrow> only P (if b then m else n)"
  by simp

lemma only_case_sum [only_intros]:
  "(\<And>a. x = Inl a \<Longrightarrow> only P (f a)) \<Longrightarrow> (\<And>b. x = Inr b \<Longrightarrow> only P (g b)) \<Longrightarrow>
    only P (case x of Inl a \<Rightarrow> f a | Inr b \<Rightarrow> g b)"
  by (cases x) auto

lemma only_case_option [only_intros]:
  "(x = None \<Longrightarrow> only P f) \<Longrightarrow> (\<And>b. x = Some b \<Longrightarrow> only P (g b)) \<Longrightarrow>
    only P (case x of None \<Rightarrow> f | Some b \<Rightarrow> g b)"
  by (cases x) auto

lemma only_case_prod [only_intros]:
  "(\<And>a b. x = (a, b) \<Longrightarrow> only P (f a b)) \<Longrightarrow> only P (case x of (a, b) \<Rightarrow> f a b)"
  by (cases x) auto

lemma only_case_list [only_intros]:
  "(x = [] \<Longrightarrow> only P f) \<Longrightarrow> (\<And>a b. x = a # b \<Longrightarrow> only P (g a b)) \<Longrightarrow>
    only P (case x of [] \<Rightarrow> f | a # b \<Rightarrow> g a b)"
  by (cases x) auto

lemma only_let [only_intros]: "only P (f a) \<Longrightarrow> only P (let x = a in f x)"
  by simp

lemma only_callErr [only_intros]: "(\<And>y. P (EvErr x y)) \<Longrightarrow> only P (callErr x)"
  unfolding callErr_def by (intro only_intros)

lemma only_callUnit [only_intros]: "(\<And>y. P (EvUnit x y)) \<Longrightarrow> only P (callUnit x)"
  unfolding callUnit_def by (intro only_intros)

section \<open>Programs that do not crash\<close>

named_theorems no_crash_intros \<open>introduction rules for programs that do not crash\<close>

definition no_crash :: "'a prog \<Rightarrow> bool" where
  "no_crash p = (\<forall>tr s. \<not> runs p tr (Crash s))"

lemma no_crashD: "no_crash p \<Longrightarrow> runs p tr r \<Longrightarrow> \<exists>x. r = Val x"
  unfolding no_crash_def by (cases r) auto

lemma no_crash_wp: "no_crash p \<longleftrightarrow> wp p (\<lambda>r t. \<exists>x. r = Val x) []"
  unfolding no_crash_def wp_iff_runs by (metis outcome.distinct(1) outcome.exhaust)

lemma no_crash_Ret [no_crash_intros]: "no_crash (Ret a)"
  by (simp add: no_crash_def)

lemma no_crash_step: "\<forall>y. no_crash (k y) \<Longrightarrow> \<not> (\<exists>y tr'. tr = E y # tr' \<and> runs (k y) tr' (Crash s))"
  unfolding no_crash_def by blast

lemma no_crash_op [rule_format, no_crash_intros]:
  "(\<forall>y. no_crash (k0 y)) \<Longrightarrow> no_crash (OpErr x0 k0)"
  "(\<forall>y. no_crash (k1 y)) \<Longrightarrow> no_crash (OpUnit x1 k1)"
  "(\<forall>y. no_crash (k2 y)) \<Longrightarrow> no_crash (OpExec x2 k2)"
  "(\<forall>y. no_crash (k3 y)) \<Longrightarrow> no_crash (OpStat x3 k3)"
  "(\<forall>y. no_crash (k4 y)) \<Longrightarrow> no_crash (OpStr x4 k4)"
  "(\<forall>y. no_crash (k5 y)) \<Longrightarrow> no_crash (OpStrs x5 k5)"
  "(\<forall>y. no_crash (k6 y)) \<Longrightarrow> no_crash (OpBool x6 k6)"
  "(\<forall>y. no_crash (k7 y)) \<Longrightarrow> no_crash (OpDev x7 k7)"
  "(\<forall>y. no_crash (k8 y)) \<Longrightarrow> no_crash (OpStatfs x8 k8)"
  "(\<forall>y. no_crash (k9 y)) \<Longrightarrow> no_crash (OpNow x9 k9)"
  "(\<forall>y. no_crash (k10 y)) \<Longrightarrow> no_crash (OpCtx x10 k10)"
  "(\<forall>y. no_crash (k11 y)) \<Longrightarrow> no_crash (OpOrder x11 k11)"
  "(\<forall>y. no_crash (k12 y)) \<Longrightarrow> no_crash (OpSched x12 k12)"
  "(\<forall>y. no_crash (k13 y)) \<Longrightarrow> no_crash (OpLabels x13 k13)"
  "(\<forall>y. no_crash (k14 y)) \<Longrightarrow> no_crash (OpWq x14 k14)"
  "(\<forall>y. no_crash (k15 y)) \<Longrightarrow> no_crash (OpVol x15 k15)"
  "(\<forall>y. no_crash (k16 y)) \<Longrightarrow> no_crash (OpVols x16 k16)"
  "(\<forall>y. no_crash (k17 y)) \<Longrightarrow> no_crash (OpVolCache x17 k17)"
  "(\<forall>y. no_crash (k18 y)) \<Longrightarrow> no_crash (OpSnap x18 k18)"
  "(\<forall>y. no_crash (k19 y)) \<Longrightarrow> no_crash (OpSnaps x19 k19)"
  "(\<forall>y. no_crash (k20 y)) \<Longrightarrow> no_crash (OpSnapCache x20 k20)"
  "(\<forall>y. no_crash (k21 y)) \<Longrightarrow> no_crash (OpNode x21 k21)"
  "(\<forall>y. no_crash (k22 y)) \<Longrightarrow> no_crash (OpNodes x22 k22)"
  "(\<forall>y. no_crash (k23 y)) \<Longrightarrow> no_crash (OpNodeCache x23 k23)"
  "(\<forall>y. no_crash (k24 y)) \<Longrightarrow> no_crash (OpNodeKey x24 k24)"
  "(\<forall>y. no_crash (k25 y)) \<Longrightarrow> no_crash (OpK8sKeys x25 k25)"
  "(\<forall>y. no_crash (k26 y)) \<Longrightarrow> no_crash (OpK8sNodes x26 k26)"
  by (auto simp: no_crash_def)

lemma no_crash_bindP [no_crash_intros]: "no_crash m \<Longrightarrow> (\<And>a. no_crash (f a)) \<Longrightarrow> no_crash (bindP m f)"
  by (auto simp: no_crash_def runs_bindP)

lemma no_crash_tryP [no_crash_intros]: "no_crash m \<Longrightarrow> (\<And>a. no_crash (f a)) \<Longrightarrow> no_crash (tryP m f)"
  by (auto simp: no_crash_def runs_tryP)

lemma no_crash_if [no_crash_intros]:
  "(b \<Longrightarrow> no_crash m) \<Longrightarrow> (\<not> b \<Longrightarrow> no_crash n) \<Longrightarrow> no_crash (if b then m else n)"
  by simp

lemma no_crash_case_sum [no_crash_intros]:
  "(\<And>a. x = Inl a \<Longrightarrow> no_crash (f a)) \<Longrightarrow> (\<And>b. x = Inr b \<Longrightarrow> no_crash (g b)) \<Longrightarrow>
    no_crash (case x of Inl a \<Rightarrow> f a | Inr b \<Rightarrow> g b)"
  by (cases x) auto

lemma no_crash_case_option [no_crash_intros]:
  "(x = None \<Longrightarrow> no_crash f) \<Longrightarrow> (\<And>b. x = Some b \<Longrightarrow> no_crash (g b)) \<Longrightarrow>
    no_crash (case x of None \<Rightarrow> f | Some b \<Rightarrow> g b)"
  by (cases x) auto

lemma no_crash_case_prod [no_crash_intros]:
  "(\<And>a b. x = (a, b) \<Longrightarrow> no_crash (f a b)) \<Longrightarrow> no_crash (case x of (a, b) \<Rightarrow> f a b)"
  by (cases x) auto

lemma no_crash_case_list [no_crash_intros]:
  "(x = [] \<Longrightarrow> no_crash f) \<Longrightarrow> (\<And>a b. x = a # b \<Longrightarrow> no_crash (g a b)) \<Longrightarrow>
    no_crash (case x of [] \<Rightarrow> f | a # b \<Rightarrow> g a b)"
  by (cases x) auto

lemma no_crash_let [no_crash_intros]: "no_crash (f a) \<Longrightarrow> no_crash (let x = a in f x)"
  by simp

lemma no_crash_call [no_crash_intros]: "no_crash (callErr x)" "no_crash (callUnit u)"
  by (auto simp: no_crash_def callErr_def callUnit_def)

end
