(* ===== verification/Reconcile.thy ===== *)
theory Reconcile
  imports Frames
begin

text \<open>
  What the three controllers under \<^verbatim>\<open>src/pkg/mgmt\<close> share: the objects their informers hand to the event
  handlers, the functions of \<^verbatim>\<open>client-go\<close> that make keys of objects, and the processing of one item of a
  work queue, which the three packages repeat with their own \<^verbatim>\<open>syncHandler\<close>.

  The locale \<open>reconciler\<close> states what such a handler promises - it does not touch the work queue - and
  derives the protocol of \<^verbatim>\<open>processNextWorkItem\<close>: an item that was taken is given back exactly once, at the
  end, and is either forgotten or queued again with a delay, never both. It is interpreted for the
  three controllers in their theories.
\<close>

section \<open>Objects and keys\<close>

text \<open>
  An \<^verbatim>\<open>interface{}\<close> from an informer. An unstructured object comes with the result of its conversion to the
  typed resource, and with the result of its conversion to a tombstone, whose \<^verbatim>\<open>Obj\<close> may or may not be of the
  resource type.
\<close>

datatype 'a iface =
    Unstructured "gerr + 'a" "gerr + 'a option"
  | OtherObject

text \<open>\<^verbatim>\<open>cache.MetaNamespaceKeyFunc\<close> of an object with a namespace and a name, and
  \<^verbatim>\<open>cache.SplitMetaNamespaceKey\<close>. What the driver relies on is that splitting a key gives back what it was
  made of.\<close>

record key_funcs =
  MetaNamespaceKeyFunc :: "string \<Rightarrow> string \<Rightarrow> gerr + string"
  SplitMetaNamespaceKey :: "string \<Rightarrow> gerr + string \<times> string"

definition key_ok :: "key_funcs \<Rightarrow> 'a ObjectMeta_scheme \<Rightarrow> bool" where
  "key_ok KF obj = (\<forall>key. MetaNamespaceKeyFunc KF (Namespace obj) (Name obj) = Inr key \<longrightarrow>
     SplitMetaNamespaceKey KF key = Inr (Namespace obj, Name obj))"

text \<open>The functions as \<^verbatim>\<open>client-go\<close> documents them, for namespaces that are not empty.\<close>

definition slash_keys :: key_funcs where
  "slash_keys =
     \<lparr>MetaNamespaceKeyFunc = (\<lambda>ns name. Inr (ns @ ''/'' @ name)),
      SplitMetaNamespaceKey = (\<lambda>key. case Split CHR ''/'' key of
          [name] \<Rightarrow> Inr ([], name)
        | [ns, name] \<Rightarrow> Inr (ns, name)
        | _ \<Rightarrow> Inl (NewErr [MStr ''unexpected key format: '', MStr key]))\<rparr>"

lemma key_ok_slash_keys:
  "CHR ''/'' \<notin> set (Namespace obj) \<Longrightarrow> CHR ''/'' \<notin> set (Name obj) \<Longrightarrow> key_ok slash_keys obj"
  by (simp add: key_ok_def slash_keys_def Split_append_sep Split_no_sep)

fun getStructuredObject :: "'a iface \<Rightarrow> 'a option" where
  "getStructuredObject (Unstructured (Inr x) _) = Some x"
| "getStructuredObject (Unstructured (Inl _) _) = None"
| "getStructuredObject OtherObject = None"

text \<open>The object of a delete event: the resource, or the one in a tombstone.\<close>

definition deleted_object :: "'a iface \<Rightarrow> 'a option" where
  "deleted_object obj =
     (case getStructuredObject obj of
        Some x \<Rightarrow> Some x
      | None \<Rightarrow>
          (case obj of
             OtherObject \<Rightarrow> None
           | Unstructured _ tomb \<Rightarrow>
               (case tomb of Inl _ \<Rightarrow> None | Inr None \<Rightarrow> None | Inr (Some x) \<Rightarrow> Some x)))"

text \<open>\<^verbatim>\<open>enqueue\<close>: the key of the object is added to the work queue; an object without a key is only
  reported.\<close>

definition enqueue :: "key_funcs \<Rightarrow> 'a ObjectMeta_scheme \<Rightarrow> unit prog" where
  "enqueue KF obj =
     (case MetaNamespaceKeyFunc KF (Namespace obj) (Name obj) of
        Inl _ \<Rightarrow> Ret ()
      | Inr key \<Rightarrow> callUnit (WqAdd key))"

section \<open>One item of a work queue\<close>

definition process_item :: "(string \<Rightarrow> (gerr + unit) prog) \<Rightarrow> wq_item \<Rightarrow> (gerr + unit) prog" where
  "process_item syncHandler obj =
     finallyP
       (case obj of
          WqOther \<Rightarrow> bindP (callUnit (WqForget obj)) (\<lambda>_. Ret (Inr ()))
        | WqKey key \<Rightarrow>
            bindP (syncHandler key) (\<lambda>r. case r of
                Inl e \<Rightarrow> bindP (callUnit (WqAddRateLimited key)) (\<lambda>_.
                  Ret (Inl (NewErr [MStr ''error syncing '', MStr key, MStr '': '', MErr e, MStr '', requeuing''])))
              | Inr _ \<Rightarrow> bindP (callUnit (WqForget obj)) (\<lambda>_. Ret (Inr ()))))
       (WqDone obj)"

definition process_next :: "(string \<Rightarrow> (gerr + unit) prog) \<Rightarrow> bool prog" where
  "process_next syncHandler =
     OpWq () (\<lambda>got. case got of
         None \<Rightarrow> Ret False
       | Some obj \<Rightarrow> bindP (process_item syncHandler obj) (\<lambda>_. Ret True))"

text \<open>\<^verbatim>\<open>runWorker\<close> repeats that until the queue is shut down. The model counts the rounds: the result is
  \<open>True\<close> when the worker is still running after \<open>n\<close> of them.\<close>

primrec worker_rounds :: "bool prog \<Rightarrow> nat \<Rightarrow> bool prog" where
  "worker_rounds next 0 = Ret True"
| "worker_rounds next (Suc n) = bindP next (\<lambda>more. if more then worker_rounds next n else Ret False)"

section \<open>The contract\<close>

definition is_queue_event :: "event \<Rightarrow> bool" where
  "is_queue_event ev = (case ev of
       EvUnit (WqAdd _) _ \<Rightarrow> True | EvUnit (WqAddRateLimited _) _ \<Rightarrow> True | EvUnit (WqForget _) _ \<Rightarrow> True
     | EvUnit (WqDone _) _ \<Rightarrow> True | EvWq _ _ \<Rightarrow> True | _ \<Rightarrow> False)"

abbreviation "no_queue tr \<equiv> list_all (\<lambda>ev. \<not> is_queue_event ev) tr"

lemma is_queue_event_simps [simp]:
  "is_queue_event (EvUnit (WqForget i) u)" "is_queue_event (EvUnit (WqDone i) u)"
  "is_queue_event (EvUnit (WqAdd k) u)" "is_queue_event (EvUnit (WqAddRateLimited k) u)" "is_queue_event (EvWq v w)"
  "\<not> is_queue_event (EvErr a b)" "\<not> is_queue_event (EvExec c d)" "\<not> is_queue_event (EvStat f g)"
  "\<not> is_queue_event (EvVol h j)" "\<not> is_queue_event (EvVolCache l m)" "\<not> is_queue_event (EvSnap n p)"
  "\<not> is_queue_event (EvSnapCache q r)" "\<not> is_queue_event (EvNode s t)" "\<not> is_queue_event (EvNodeCache x y)"
  "\<not> is_queue_event (EvOrder v ord)"
  by (simp_all add: is_queue_event_def)

text \<open>The items that a trace takes from the queue, and those it gives back, in their order.\<close>

fun taken :: "event list \<Rightarrow> wq_item list" where
  "taken [] = []"
| "taken (EvWq u (Some i) # tr) = i # taken tr"
| "taken (_ # tr) = taken tr"

fun given_back :: "event list \<Rightarrow> wq_item list" where
  "given_back [] = []"
| "given_back (EvUnit (WqDone i) u # tr) = i # given_back tr"
| "given_back (_ # tr) = given_back tr"

lemma taken_append [simp]: "taken (a @ b) = taken a @ taken b"
  by (induction a rule: taken.induct) auto

lemma given_back_append [simp]: "given_back (a @ b) = given_back a @ given_back b"
  by (induction a rule: given_back.induct) auto

lemma no_queue_taken: "no_queue tr \<Longrightarrow> taken tr = []"
  by (induction tr rule: taken.induct) auto

lemma no_queue_given_back: "no_queue tr \<Longrightarrow> given_back tr = []"
  by (induction tr rule: given_back.induct) auto

text \<open>How a round ends when the handler ended with \<open>res\<close>.\<close>

fun item_end :: "string \<Rightarrow> (gerr + unit) outcome \<Rightarrow> event list" where
  "item_end key (Val (Inr _)) = [EvUnit (WqForget (WqKey key)) (), EvUnit (WqDone (WqKey key)) ()]"
| "item_end key (Val (Inl _)) = [EvUnit (WqAddRateLimited key) (), EvUnit (WqDone (WqKey key)) ()]"
| "item_end key (Crash _) = [EvUnit (WqDone (WqKey key)) ()]"

fun item_result :: "(gerr + unit) outcome \<Rightarrow> bool outcome" where
  "item_result (Val _) = Val True"
| "item_result (Crash s) = Crash s"

lemma item_end_queue [simp]:
  "taken (item_end key res) = []" "given_back (item_end key res) = [WqKey key]"
  by (induction key res rule: item_end.induct) auto

lemma wq_item_all: "(\<forall>i. P i) \<longleftrightarrow> P WqOther \<and> (\<forall>key. P (WqKey key))"
  by (metis wq_item.exhaust)

lemma wp_process_next:
  "wp (process_next h) Q tr \<longleftrightarrow>
     Q (Val False) (tr @ [EvWq () None]) \<and>
     Q (Val True) (tr @ [EvWq () (Some WqOther), EvUnit (WqForget WqOther) (), EvUnit (WqDone WqOther) ()]) \<and>
     (\<forall>key. wp (h key) (\<lambda>res t. Q (item_result res) (t @ item_end key res)) (tr @ [EvWq () (Some (WqKey key))]))"
  unfolding process_next_def process_item_def
  by (simp add: split_option_all wq_item_all wp_finallyP wp_bindP wp_callUnit,
      intro conj_cong refl iff_allI arg_cong [where f = "\<lambda>Q. wp m Q t" for m t] ext)
    (auto simp: wp_simps split: outcome.splits sum.splits)

locale reconciler =
  fixes syncHandler :: "string \<Rightarrow> (gerr + unit) prog"
    and processNextWorkItem :: "bool prog"
  assumes process: "processNextWorkItem = process_next syncHandler"
    and sync_quiet: "only (\<lambda>ev. \<not> is_queue_event ev) (syncHandler key)"
begin

lemmas sync_no_queue = only_runs [OF sync_quiet]

text \<open>What one round does: nothing after a shutdown; an item that is not a key is forgotten; a key is handed
  to the handler, then forgotten after a success and queued again with a delay after an error. \<open>Done\<close> is
  the last event, also when the handler crashes.\<close>

lemma process_protocol:
  assumes "runs processNextWorkItem tr r"
  shows "tr = [EvWq () None] \<and> r = Val False \<or>
    tr = [EvWq () (Some WqOther), EvUnit (WqForget WqOther) (), EvUnit (WqDone WqOther) ()] \<and> r = Val True \<or>
    (\<exists>key tr' res. runs (syncHandler key) tr' res \<and> r = item_result res \<and>
       tr = EvWq () (Some (WqKey key)) # tr' @ item_end key res)"
  (is "?Q r tr")
  using assms unfolding process by (rule wp_runs [rotated]) (unfold wp_process_next, auto simp: wp_iff_runs)

lemma round_balanced: "runs processNextWorkItem tr r \<Longrightarrow> given_back tr = taken tr"
  using process_protocol [of tr r] sync_no_queue
  by (auto simp: no_queue_taken no_queue_given_back)

text \<open>Whatever the handler does, a worker gives back exactly the items it took, in the order it took them,
  also when a handler crashes.\<close>

lemma worker_balanced: "runs (worker_rounds processNextWorkItem n) tr r \<Longrightarrow> given_back tr = taken tr"
proof (induction n arbitrary: tr)
  case (Suc n)
  from Suc.prems consider
      tr1 tr2 more where "tr = tr1 @ tr2" "runs processNextWorkItem tr1 (Val more)"
        "runs (if more then worker_rounds processNextWorkItem n else Ret False) tr2 r"
    | s where "runs processNextWorkItem tr (Crash s)"
    by (auto simp: runs_bindP)
  then show ?case
    by cases (auto simp: round_balanced Suc.IH split: if_splits)
qed simp

end

end
