(* ===== verification/Vol_Controller.thy ===== *)
theory Vol_Controller
  imports Lvm_Report Reconcile
begin

text \<open>
  \<^verbatim>\<open>src/pkg/mgmt/volume/volume.go\<close>: the controller of the \<^verbatim>\<open>LVMVolume\<close> resources of a node. The event handlers
  put the keys of the volumes that this node owns on the work queue; \<open>vol_syncHandler\<close> reads the resource from
  the cache and \<open>syncVol\<close> brings the logical volume in line with it.

  The regular expressions are compiled by \<open>Compile\<close>, a parameter: a pattern is an error or a predicate on
  names. The theorems hold for every such function.
\<close>

section \<open>Definitions\<close>

type_synonym regexp_compiler = "string \<Rightarrow> gerr + (string \<Rightarrow> bool)"

definition vol_isDeletionCandidate :: "LVMVolume \<Rightarrow> bool" where
  "vol_isDeletionCandidate vol = (DeletionTimestamp vol \<noteq> None)"

definition vol_getStructuredObject :: "LVMVolume iface \<Rightarrow> LVMVolume option" where
  "vol_getStructuredObject obj = getStructuredObject obj"

definition enqueueVol :: "key_funcs \<Rightarrow> LVMVolume \<Rightarrow> unit prog" where
  "enqueueVol KF vol = enqueue KF vol"

definition addVol :: "globals \<Rightarrow> key_funcs \<Rightarrow> LVMVolume iface \<Rightarrow> unit prog" where
  "addVol G KF obj =
     (case vol_getStructuredObject obj of
        None \<Rightarrow> Ret ()
      | Some vol \<Rightarrow> if NodeID G \<noteq> OwnerNodeID (Spec vol) then Ret () else enqueueVol KF vol)"

definition updateVol :: "globals \<Rightarrow> key_funcs \<Rightarrow> LVMVolume iface \<Rightarrow> LVMVolume iface \<Rightarrow> unit prog" where
  "updateVol G KF oldObj newObj =
     (case vol_getStructuredObject newObj of
        None \<Rightarrow> Ret ()
      | Some newVol \<Rightarrow>
          if NodeID G \<noteq> OwnerNodeID (Spec newVol) then Ret ()
          else if vol_isDeletionCandidate newVol then enqueueVol KF newVol else Ret ())"

definition deleteVol :: "globals \<Rightarrow> key_funcs \<Rightarrow> LVMVolume iface \<Rightarrow> unit prog" where
  "deleteVol G KF obj =
     (case deleted_object obj of
        None \<Rightarrow> Ret ()
      | Some vol \<Rightarrow> if NodeID G \<noteq> OwnerNodeID (Spec vol) then Ret () else enqueueVol KF vol)"

text \<open>The volume groups that can serve a request: those that match the pattern and, unless the volume is
  thinly provisioned, have the capacity; less free space first, and in the reported order for equal
  free space (\<^verbatim>\<open>sort.SliceStable\<close>).\<close>

definition vg_fits :: "(string \<Rightarrow> bool) \<Rightarrow> LVMVolume \<Rightarrow> int \<Rightarrow> VolumeGroup \<Rightarrow> bool" where
  "vg_fits matches vol capacity vg =
     (matches (vg_Name vg) \<and> (ThinProvision (Spec vol) \<noteq> YES \<longrightarrow> \<not> vg_Free vg < capacity))"

definition getVgPriorityList :: "regexp_compiler \<Rightarrow> LVMVolume \<Rightarrow> (gerr + VolumeGroup list) prog" where
  "getVgPriorityList Compile vol =
     (case Compile (VgPattern (Spec vol)) of
        Inl e \<Rightarrow> Ret (Inl (NewErr [MStr ''invalid regular expression '', MStr (VgPattern (Spec vol)),
                  MStr '' for lvm volume '', MStr (Name vol), MStr '': '', MErr e]))
      | Inr re \<Rightarrow>
          (case Atoi (Capacity (Spec vol)) of
             (_, Some ne) \<Rightarrow> Ret (Inl (NewErr [MStr ''invalid requested capacity '', MStr (Capacity (Spec vol)),
                  MStr '' for lvm volume '', MStr (Name vol), MStr '': '', MErr (NumErr ne (Capacity (Spec vol)))]))
           | (capacity, None) \<Rightarrow>
               bindP (ListLVMVolumeGroup True) (\<lambda>r. case r of
                   Inl e \<Rightarrow> Ret (Inl (NewErr [MStr ''failed to list vgs available on node: '', MErr e]))
                 | Inr vgs \<Rightarrow> Ret (Inr (sort_key vg_Free (filter (vg_fits re vol capacity) vgs))))))"

definition transformLVMError :: "gerr \<Rightarrow> VolumeError" where
  "transformLVMError err =
     \<lparr>ve_Code = (case err of
        ExecErr output _ \<Rightarrow>
          if Contains (ToLower output) ''insufficient free space'' then InsufficientCapacity else VolErrInternal
      | _ \<Rightarrow> VolErrInternal),
      ve_Message = [MErr err]\<rparr>"

text \<open>The loop of \<^verbatim>\<open>syncVol\<close> over the volume groups, and what follows it when none is left: \<open>vol\<close> and \<open>err\<close> are the
  values of the variables of that name.\<close>

primrec try_vgs :: "globals \<Rightarrow> LVMVolume \<Rightarrow> gerr \<Rightarrow> VolumeGroup list \<Rightarrow> (gerr + unit) prog" where
  "try_vgs G vol err [] =
     UpdateVolInfo G (vol\<lparr>Status := (Status vol)\<lparr>StatusError := Some (transformLVMError err)\<rparr>\<rparr>) LVMStatusFailed"
| "try_vgs G vol err (vg # vgs) =
     tryP (UpdateVolGroup G vol (vg_Name vg)) (\<lambda>vol'.
       bindP (lvm_CreateVolume vol') (\<lambda>r. case r of
           Inr _ \<Rightarrow> UpdateVolInfo G vol' LVMStatusReady
         | Inl e \<Rightarrow> try_vgs G vol' e vgs))"

definition no_vg_err :: "LVMVolume \<Rightarrow> gerr" where
  "no_vg_err vol = NewErr [MStr ''no vg available to serve volume request having regex='',
     MStr (VgPattern (Spec vol)), MStr '' & capacity='', MStr (Capacity (Spec vol))]"

definition syncVol :: "globals \<Rightarrow> regexp_compiler \<Rightarrow> LVMVolume \<Rightarrow> (gerr + unit) prog" where
  "syncVol G Compile vol =
     (if vol_isDeletionCandidate vol then tryP (DestroyVolume vol) (\<lambda>_. RemoveVolFinalizer G vol)
      else if State (Status vol) = LVMStatusFailed then Ret (Inr ())
      else if State (Status vol) = LVMStatusReady then Ret (Inr ())
      else
        let scan = tryP (getVgPriorityList Compile vol) (\<lambda>vgs. try_vgs G vol (no_vg_err vol) vgs)
        in if VolGroup (Spec vol) \<noteq> []
           then bindP (lvm_CreateVolume vol) (\<lambda>r. case r of
               Inr _ \<Rightarrow> UpdateVolInfo G vol LVMStatusReady
             | Inl _ \<Rightarrow> scan)
           else scan)"

text \<open>The cache answers with the object as far as it could be converted, and the error of the conversion,
  which is only logged.\<close>

definition vol_syncHandler :: "globals \<Rightarrow> key_funcs \<Rightarrow> regexp_compiler \<Rightarrow> string \<Rightarrow> (gerr + unit) prog" where
  "vol_syncHandler G KF Compile key =
     (case SplitMetaNamespaceKey KF key of
        Inl _ \<Rightarrow> Ret (Inr ())
      | Inr (ns, name) \<Rightarrow>
          OpVolCache (ns, name) (\<lambda>r. case r of
              Inl e \<Rightarrow> if IsNotFound e then Ret (Inr ()) else Ret (Inl e)
            | Inr (vol, _) \<Rightarrow> syncVol G Compile vol))"

definition vol_processNextWorkItem :: "globals \<Rightarrow> key_funcs \<Rightarrow> regexp_compiler \<Rightarrow> bool prog" where
  "vol_processNextWorkItem G KF Compile = process_next (vol_syncHandler G KF Compile)"

definition vol_runWorker :: "globals \<Rightarrow> key_funcs \<Rightarrow> regexp_compiler \<Rightarrow> nat \<Rightarrow> bool prog" where
  "vol_runWorker G KF Compile n = worker_rounds (vol_processNextWorkItem G KF Compile) n"

section \<open>What the controller writes and runs\<close>

text \<open>The resource as the API server last acknowledged it, starting from the one that was read.\<close>

fun acked :: "LVMVolume \<Rightarrow> event list \<Rightarrow> LVMVolume" where
  "acked vol [] = vol"
| "acked vol (EvVol (VolUpdate ns w) (Inr v) # tr) = acked v tr"
| "acked vol (_ # tr) = acked vol tr"

lemma acked_append [simp]: "acked vol (a @ b) = acked (acked vol a) b"
  by (induction vol a rule: acked.induct) auto

definition is_scan :: "event \<Rightarrow> bool" where
  "is_scan ev = (case ev of EvExec (RunSplit c _) _ \<Rightarrow> c \<in> {PVScan, VGList, LVList} | EvOrder _ _ \<Rightarrow> True | _ \<Rightarrow> False)"

lemma is_scan_query: "is_query ev \<Longrightarrow> is_scan ev"
  by (auto simp: is_query_def is_scan_def split: event.splits exec_op.splits)

lemma is_scan_cases:
  assumes "is_scan ev"
  obtains (exec) c args y where "ev = EvExec (RunSplit c args) y" "c \<noteq> LVCreate" | (order) u ord where "ev = EvOrder u ord"
  using assms by (auto simp: is_scan_def split: event.splits exec_op.splits)

lemma acked_scan [simp]: "list_all is_scan t \<Longrightarrow> acked vol t = vol"
  by (induction t) (auto elim: is_scan_cases)

text \<open>The last thing that happened shows that the logical volume of \<open>v\<close> exists: its device was found, or
  \<^verbatim>\<open>lvcreate\<close> for it succeeded.\<close>

definition shown_present :: "LVMVolume \<Rightarrow> event list \<Rightarrow> bool" where
  "shown_present v tr = (\<exists>pre. tr = pre @ [EvStat (dev_of v) StatOk] \<or>
     (\<exists>sz out. tr = pre @ [EvExec (RunSplit LVCreate (sz @ create_args_rest v)) (out, None)]))"

lemma shown_present_snoc [simp]:
  "shown_present v (tr @ [EvStat (dev_of v) StatOk])"
  "shown_present v (tr @ x # q @ [EvExec (RunSplit LVCreate (sz @ create_args_rest v)) (out, None)])"
  by (auto simp: shown_present_def)

lemma vol_info_same [simp]:
  "dev_of (vol_info G v s) = dev_of v" "create_args_rest (vol_info G v s) = create_args_rest v"
  "shown_present (vol_info G v s) t = shown_present v t"
proof -
  show 1: "dev_of (vol_info G v s) = dev_of v" by (simp only: vol_info_def dev_of_def) simp
  show 2: "create_args_rest (vol_info G v s) = create_args_rest v"
    by (simp add: vol_info_def create_args_rest_def is_thin_def)
  show "shown_present (vol_info G v s) t = shown_present v t" by (simp only: shown_present_def 1 2)
qed

text \<open>While the controller looks for a volume group, \<^verbatim>\<open>lvcreate\<close> runs only for the resource as it was last
  acknowledged, and the only writes record another volume group in it.\<close>

definition search_event :: "LVMVolume \<Rightarrow> event list \<Rightarrow> event \<Rightarrow> bool" where
  "search_event vol pre ev = (case ev of
       EvExec (RunSplit c args) _ \<Rightarrow>
         c = LVCreate \<longrightarrow> (\<exists>sz. args = sz @ create_args_rest (acked vol pre))
     | EvVol (VolUpdate ns w) _ \<Rightarrow>
         (\<exists>vg. vg \<noteq> [] \<and> w = (acked vol pre)\<lparr>Spec := (Spec (acked vol pre))\<lparr>VolGroup := vg\<rparr>\<rparr>)
     | _ \<Rightarrow> True)"

abbreviation "searching vol \<equiv> each_event (search_event vol)"

lemma search_event_simps [simp]:
  "search_event vol pre (EvErr a b)" "search_event vol pre (EvStat c d)" "search_event vol pre (EvOrder u ord)"
  "search_event vol pre (EvExec (RunSplit LVCreate args) y) \<longleftrightarrow> (\<exists>sz. args = sz @ create_args_rest (acked vol pre))"
  by (simp_all add: search_event_def)

lemma search_event_group:
  "vg \<noteq> [] \<Longrightarrow> acked vol pre = v \<Longrightarrow>
    search_event vol pre (EvVol (VolUpdate ns (v\<lparr>Spec := (Spec v)\<lparr>VolGroup := vg\<rparr>\<rparr>)) y)"
  by (auto simp: search_event_def)

lemma search_event_scan: "list_all is_scan t \<Longrightarrow> each_event (\<lambda>pre. search_event vol (tr @ pre)) t"
  by (rule each_event_trivial) (auto simp: list_all_iff search_event_def elim!: is_scan_cases)

text \<open>The write that ends the search: the resource as last acknowledged is marked as ready, right after its
  volume was shown to exist, or as failed with an error.\<close>

definition marks :: "globals \<Rightarrow> LVMVolume \<Rightarrow> event list \<Rightarrow> LVMVolume \<Rightarrow> bool" where
  "marks G v pre w =
     (w = vol_info G v LVMStatusReady \<and> shown_present v pre \<or>
      (\<exists>err. w = vol_info G (v\<lparr>Status := (Status v)\<lparr>StatusError := Some (transformLVMError err)\<rparr>\<rparr>) LVMStatusFailed))"

text \<open>How the handling of a volume that is to be provisioned ends: with an error of the search; with a success
  and no further write, if the resource already has finalizers; or with a marking, whose answer decides.\<close>

definition provisioned :: "globals \<Rightarrow> LVMVolume \<Rightarrow> (gerr + unit) outcome \<Rightarrow> event list \<Rightarrow> bool" where
  "provisioned G vol r tr =
     (searching vol tr \<and> (\<exists>e. r = Val (Inl e)) \<or>
      searching vol tr \<and> r = Val (Inr ()) \<and> Finalizers (acked vol tr) \<noteq> None \<or>
      (\<exists>pre w y. tr = pre @ [cs_ok, EvVol (VolUpdate (LvmNamespace G) w) y] \<and> searching vol pre \<and>
         Finalizers (acked vol pre) = None \<and> marks G (acked vol pre) pre w \<and> r = Val (map_sum (\<lambda>e. e) (\<lambda>_. ()) y)))"

lemma answer_ok [simp]: "Inr () = map_sum (\<lambda>e. e) (\<lambda>_. ()) y \<longleftrightarrow> (\<exists>v. y = Inr v)"
  by (cases y) auto

lemma provisioned_error: "searching vol tr \<Longrightarrow> provisioned G vol (Val (Inl e)) tr"
  by (simp add: provisioned_def)

lemma create_wp:
  assumes "searching vol tr" and "acked vol tr = v"
  shows "wp (lvm_CreateVolume v) (\<lambda>r t. \<exists>x. r = Val x \<and> searching vol t \<and> acked vol t = v \<and>
    (x = Inr () \<longrightarrow> shown_present v t)) tr"
proof (rule wp_lvm_CreateVolume, goal_cases)
  case (3 q sz out err)
  then have "list_all is_scan q" by (auto simp: list_all_iff is_scan_query)
  with assms 3 show ?case
    by (cases err) (auto simp: each_event_append search_event_scan [of q _ "tr @ [EvStat (dev_of v) StatNotExist]", simplified])
qed (use assms in \<open>auto simp: each_event_append\<close>)

lemma mark_ready_wp:
  assumes "searching vol tr" and "acked vol tr = v" and "shown_present v tr"
  shows "wp (UpdateVolInfo G v LVMStatusReady) (provisioned G vol) tr"
  using assms by (auto simp: wp_simps provisioned_error each_event_append)
    (auto simp: provisioned_def marks_def)

lemma mark_failed_wp:
  assumes "searching vol tr" and "acked vol tr = v"
  shows "wp (UpdateVolInfo G (v\<lparr>Status := (Status v)\<lparr>StatusError := Some (transformLVMError err)\<rparr>\<rparr>) LVMStatusFailed)
    (provisioned G vol) tr"
  using assms by (auto simp: wp_simps provisioned_error each_event_append)
    (auto simp: provisioned_def marks_def)

lemma try_vgs_wp:
  assumes "searching vol tr" and "acked vol tr = v"
  shows "wp (try_vgs G v err vgs) (provisioned G vol) tr"
  using assms
proof (induction vgs arbitrary: tr v err)
  case Nil
  then show ?case by (simp add: mark_failed_wp)
next
  case (Cons vg vgs)
  have step: "wp (bindP (lvm_CreateVolume v') (\<lambda>r. case r of
        Inr _ \<Rightarrow> UpdateVolInfo G v' LVMStatusReady | Inl e \<Rightarrow> try_vgs G v' e vgs)) (provisioned G vol) tr'"
    if "searching vol tr'" "acked vol tr' = v'" for tr' v'
    unfolding wp_bindP
    by (rule wp_mono [OF create_wp [OF that]])
      (auto simp: wp_case_sum mark_ready_wp Cons.IH split: sum.splits)
  show ?case
    using Cons.prems
    by (auto simp: wp_tryP wp_UpdateVolGroup provisioned_error each_event_append search_event_group
        intro!: step split: sum.splits)
qed

lemma ListLVMVolumeGroup_scan: "wp (ListLVMVolumeGroup True) (\<lambda>r t. (\<exists>x. r = Val x) \<and> list_all is_scan t) []"
  by (auto simp: ListLVMVolumeGroup_def ReloadLVMMetadataCache_def wp_simps is_scan_def split: option.splits sum.splits)

lemma getVgPriorityList_scan:
  "wp (getVgPriorityList Compile vol) (\<lambda>r t. \<exists>x t'. r = Val x \<and> t = tr @ t' \<and> list_all is_scan t') tr"
  unfolding getVgPriorityList_def
  by (auto simp: wp_simps intro!: wp_frame [OF ListLVMVolumeGroup_scan] split: sum.splits option.splits prod.splits)

text \<open>The volume is to be provisioned: it is not being deleted and has no terminal state.\<close>

definition to_provision :: "LVMVolume \<Rightarrow> bool" where
  "to_provision vol = (\<not> vol_isDeletionCandidate vol \<and> \<not> is_terminal vol)"

lemma syncVol_provision_wp:
  assumes "to_provision vol"
  shows "wp (syncVol G Compile vol) (provisioned G vol) []"
proof -
  have scan: "wp (tryP (getVgPriorityList Compile vol) (\<lambda>vgs. try_vgs G vol (no_vg_err vol) vgs)) (provisioned G vol) tr"
    if "searching vol tr" "acked vol tr = vol" for tr
    unfolding wp_tryP
    by (rule wp_mono [OF getVgPriorityList_scan])
      (use that in \<open>auto simp: each_event_append search_event_scan provisioned_error split: sum.splits intro!: try_vgs_wp\<close>)
  have create: "wp (bindP (lvm_CreateVolume vol) (\<lambda>r. case r of
        Inr _ \<Rightarrow> UpdateVolInfo G vol LVMStatusReady
      | Inl _ \<Rightarrow> tryP (getVgPriorityList Compile vol) (\<lambda>vgs. try_vgs G vol (no_vg_err vol) vgs)))
    (provisioned G vol) []"
    unfolding wp_bindP
    by (rule wp_mono [OF create_wp [where vol = vol]]) (auto simp: wp_case_sum mark_ready_wp scan split: sum.splits)
  from assms scan [of "[]"] create show ?thesis
    by (auto simp: syncVol_def to_provision_def is_terminal_def Let_def)
qed

text \<open>What follows the removal of the logical volume, which ended with \<open>x\<close>.\<close>

definition unfinalize :: "globals \<Rightarrow> LVMVolume \<Rightarrow> gerr + unit \<Rightarrow> (gerr + unit) outcome \<Rightarrow> event list \<Rightarrow> bool" where
  "unfinalize G vol x r u = (case x of
       Inl e \<Rightarrow> u = [] \<and> r = Val (Inl e)
     | Inr _ \<Rightarrow> (\<exists>e e'. u = [cs_fail e] \<and> r = Val (Inl e')) \<or>
         (\<exists>y. u = [cs_ok, EvVol (VolUpdate (LvmNamespace G) (vol\<lparr>Finalizers := None\<rparr>)) y] \<and>
           r = Val (map_sum (\<lambda>e. e) (\<lambda>_. ()) y)))"

lemma unfinalize_simps [simp]:
  "unfinalize G vol (Inl e) (Val (Inl e)) []"
  "unfinalize G vol (Inr ()) (Val (Inl e')) [cs_fail e]"
  "unfinalize G vol (Inr ()) (Val (Inl e)) [cs_ok, EvVol (VolUpdate (LvmNamespace G) (vol\<lparr>Finalizers := None\<rparr>)) (Inl e)]"
  "unfinalize G vol (Inr ()) (Val (Inr ())) [cs_ok, EvVol (VolUpdate (LvmNamespace G) (vol\<lparr>Finalizers := None\<rparr>)) (Inr v)]"
  by (auto simp: unfinalize_def)

lemma syncVol_delete:
  assumes "runs (syncVol G Compile vol) tr r" and "vol_isDeletionCandidate vol"
  shows "\<exists>x d u. tr = d @ u \<and> runs (DestroyVolume vol) d (Val x) \<and> unfinalize G vol x r u"
proof -
  have no_crash: "wp (DestroyVolume vol) (\<lambda>r t. \<exists>x. r = Val x) []"
    by (rule wp_DestroyVolume) auto
  have rest: "unfinalize G vol (Inr ()) r u" if "runs (RemoveVolFinalizer G vol) u r" for u
    by (rule wp_runs [OF _ that]) (simp add: wp_RemoveVolFinalizer)
  from assms consider
      d u x where "tr = d @ u" "runs (DestroyVolume vol) d (Val x)"
        "runs (case x of Inl e \<Rightarrow> Ret (Inl e) | Inr _ \<Rightarrow> RemoveVolFinalizer G vol) u r"
    | s where "runs (DestroyVolume vol) tr (Crash s)"
    by (auto simp: syncVol_def tryP_def runs_bindP)
  then show ?thesis
  proof cases
    case 1
    then have "unfinalize G vol x r u"
      using rest by (cases x) auto
    with 1 show ?thesis by blast
  next
    case 2
    from wp_runs [OF no_crash this] show ?thesis by simp
  qed
qed

section \<open>The work queue\<close>

abbreviation "quiet \<equiv> only (\<lambda>ev. \<not> is_queue_event ev)"

lemma quiet_vol_writes [only_intros]:
  "quiet (UpdateVolInfo G vol s)" "quiet (UpdateVolGroup G vol vg)" "quiet (RemoveVolFinalizer G vol)"
  by (simp_all add: only_wp wp_simps)

lemma quiet_commands [only_intros]:
  "quiet (lvm_CreateVolume vol)" "quiet (DestroyVolume vol)" "quiet (ListLVMVolumeGroup b)"
proof -
  have query: "is_query ev \<Longrightarrow> \<not> is_queue_event ev" for ev
    by (auto simp: is_query_def split: event.splits)
  show "quiet (lvm_CreateVolume vol)"
    unfolding only_wp by (rule wp_lvm_CreateVolume) (auto simp: list_all_iff query)
  show "quiet (DestroyVolume vol)"
    unfolding only_wp by (rule wp_DestroyVolume) auto
  show "quiet (ListLVMVolumeGroup b)"
    unfolding ListLVMVolumeGroup_def ReloadLVMMetadataCache_def RunCommandSplit_def
    by (intro only_intros) simp_all
qed

lemma quiet_try_vgs [only_intros]: "quiet (try_vgs G vol err vgs)"
  by (induction vgs arbitrary: vol err) (auto intro!: only_intros)

lemma quiet_syncHandler: "quiet (vol_syncHandler G KF Compile key)"
  unfolding vol_syncHandler_def syncVol_def getVgPriorityList_def
  by (intro only_intros) simp_all

interpretation vol_rec: reconciler "vol_syncHandler G KF Compile" "vol_processNextWorkItem G KF Compile"
  for G KF Compile
  by unfold_locales (simp_all only: vol_processNextWorkItem_def quiet_syncHandler)

section \<open>Properties\<close>

lemma syncVol_cases:
  assumes "runs (syncVol G Compile vol) tr r"
  obtains (provision) "to_provision vol" "provisioned G vol r tr"
  | (delete) x d u where "vol_isDeletionCandidate vol" "tr = d @ u" "runs (DestroyVolume vol) d (Val x)" "unfinalize G vol x r u"
  | (terminal) "is_terminal vol" "\<not> vol_isDeletionCandidate vol" "tr = []" "r = Val (Inr ())"
proof -
  consider "to_provision vol" | "vol_isDeletionCandidate vol" | "is_terminal vol" "\<not> vol_isDeletionCandidate vol"
    by (auto simp: to_provision_def)
  then show ?thesis
  proof cases
    case 1
    from provision [OF this wp_runs [OF syncVol_provision_wp [OF this] assms]] show ?thesis .
  next
    case 2
    with syncVol_delete [OF assms 2] show ?thesis using delete by blast
  next
    case 3
    with assms have "tr = [] \<and> r = Val (Inr ())"
      by (auto simp: syncVol_def is_terminal_def split: if_splits)
    with 3 show ?thesis using terminal by blast
  qed
qed

lemma provisioned_event [consumes 2, case_names search mark]:
  assumes "provisioned G vol r tr" and "tr = pre @ ev # post"
  obtains "search_event vol pre ev"
  | pre' w y where "pre = pre' @ [cs_ok]" "post = []" "ev = EvVol (VolUpdate (LvmNamespace G) w) y"
      "searching vol pre'" "marks G (acked vol pre') pre' w"
proof -
  from assms(1) consider "searching vol tr"
    | pre' w y where "tr = pre' @ [cs_ok, EvVol (VolUpdate (LvmNamespace G) w) y]" "searching vol pre'"
        "marks G (acked vol pre') pre' w"
    unfolding provisioned_def by blast
  then show ?thesis
  proof cases
    case 1
    with assms(2) show ?thesis by (intro that(1)) (simp add: each_event_append)
  next
    case (2 pre' w y)
    show ?thesis
    proof (cases post rule: rev_cases)
      case Nil
      with 2 assms(2) show ?thesis by (intro that(2)) auto
    next
      case (snoc post' z)
      with 2 assms(2) have "pre' @ [cs_ok] = pre @ ev # post'" by simp
      moreover from 2(2) have "searching vol (pre' @ [cs_ok])" by (simp add: each_event_append)
      ultimately show ?thesis by (intro that(1)) (simp add: each_event_append)
    qed
  qed
qed

text \<open>What removing a logical volume can do.\<close>

definition destroy_event :: "event \<Rightarrow> bool" where
  "destroy_event ev = (case ev of EvStat _ _ \<Rightarrow> True | EvExec (RunCombined _ _) _ \<Rightarrow> True
     | EvExec (RunSplit c _) _ \<Rightarrow> c = LVRemove | _ \<Rightarrow> False)"

lemma only_DestroyVolume: "only destroy_event (DestroyVolume vol)"
  unfolding only_wp by (rule wp_DestroyVolume) (auto simp: destroy_event_def)

lemma acked_destroy: "list_all destroy_event d \<Longrightarrow> acked vol d = vol"
  by (induction d) (auto simp: destroy_event_def split: event.splits exec_op.splits)

lemma DestroyVolume_ok:
  assumes "runs (DestroyVolume vol) d (Val (Inr ()))"
  shows "VolGroup (Spec vol) = [] \<or> EvStat (dev_of vol) StatNotExist \<in> set d \<or>
    (\<exists>out. EvExec (RunSplit LVRemove [''-y'', DevPath @ VolGroup (Spec vol) @ ''/'' @ Name vol]) (out, None) \<in> set d)"
  (is "?Q d")
proof -
  have "wp (DestroyVolume vol) (\<lambda>r d. r = Val (Inr ()) \<longrightarrow> ?Q d) []"
    by (rule wp_DestroyVolume) auto
  from wp_runs [OF this assms] show ?thesis by simp
qed

text \<open>(C1) Write-ahead: whenever the reconciliation of a volume runs \<^verbatim>\<open>lvcreate\<close>, the volume is neither being
  deleted nor in a terminal state, and the command is the one for the resource as the API server has last
  acknowledged it (or as it was read, before any write): the volume group that the command allocates
  from is already recorded, so a crash cannot leak a logical volume that no resource names.\<close>

theorem sync_write_ahead:
  assumes "runs (syncVol G Compile vol) tr r" and "tr = pre @ EvExec (RunSplit LVCreate args) y # post"
  shows "DeletionTimestamp vol = None \<and> \<not> is_terminal vol \<and> (\<exists>sz. args = sz @ create_args_rest (acked vol pre))"
  using assms(1)
proof (cases rule: syncVol_cases)
  case provision
  from provision(2) assms(2) have "search_event vol pre (EvExec (RunSplit LVCreate args) y)"
    by (cases rule: provisioned_event) auto
  with provision(1) show ?thesis
    by (simp add: to_provision_def vol_isDeletionCandidate_def)
next
  case (delete x d u)
  have "EvExec (RunSplit LVCreate args) y \<notin> set d"
    using only_runs [OF only_DestroyVolume delete(3)] by (auto simp: list_all_iff destroy_event_def)
  moreover have "EvExec (RunSplit LVCreate args) y \<notin> set u"
    using delete(4) by (auto simp: unfinalize_def split: sum.splits)
  ultimately show ?thesis using delete(2) assms(2) by (metis Un_iff in_set_conv_decomp set_append)
qed (use assms(2) in simp)

text \<open>A volume that waits for its logical volume, and the runs on it that the witnesses use.\<close>

definition ex_pending_vol :: LVMVolume where
  "ex_pending_vol = ex_ready_vol\<lparr>Finalizers := None, Status := \<lparr>State = LVMStatusPending, StatusError = None\<rparr>\<rparr>"

definition ex_create_run :: "event list" where
  "ex_create_run =
     [EvStat (dev_of ex_pending_vol) StatNotExist,
      EvExec (RunSplit LVCreate ([''-L'', ''1073741824b''] @ create_args_rest ex_pending_vol)) ([], None),
      cs_ok, EvVol (VolUpdate ''openebs'' (vol_info ex_G ex_pending_vol LVMStatusReady))
        (Inr (vol_info ex_G ex_pending_vol LVMStatusReady))]"

lemma ex_thick: "\<not> is_thin ex_pending_vol"
  by (simp add: is_thin_def ex_pending_vol_def ex_ready_vol_def) code_simp

lemma ex_create_args:
  "buildLVMCreateArgs ex_pending_vol = Ret ([''-L'', ''1073741824b''] @ create_args_rest ex_pending_vol)"
  using ex_thick by (simp add: buildLVMCreateArgs_thick ex_pending_vol_def ex_ready_vol_def)

lemma ex_pending_fields [simp]:
  "DeletionTimestamp ex_pending_vol = None" "State (Status ex_pending_vol) = LVMStatusPending"
  "VolGroup (Spec ex_pending_vol) = ''lvmvg''" "Finalizers ex_pending_vol = None" "Name ex_pending_vol = ''pvc-1''"
  by (simp_all add: ex_pending_vol_def ex_ready_vol_def zero_LVMVolume_def)

lemma UpdateVolInfo_run:
  assumes "Finalizers vol = None"
  shows "runs (UpdateVolInfo G vol state)
    [cs_ok, EvVol (VolUpdate (LvmNamespace G) (vol_info G vol state)) (Inr v)] (Val (Inr ()))"
  using assms
  by (simp add: UpdateVolInfo_def vol_BuildFrom_def vol_builder_defs vol_Build_def vol_info_def merge_labels_def
      on_object_def vol_kc_Update_def vol_defaultUpdate_def with_client_def getClientOrCached_def tryP_def
      getClientsetForPathOrDirect_def callErr_def Let_def)

lemma ex_create_runs: "runs (syncVol ex_G Compile ex_pending_vol) ex_create_run (Val (Inr ()))"
  using UpdateVolInfo_run [of ex_pending_vol ex_G LVMStatusReady "vol_info ex_G ex_pending_vol LVMStatusReady"]
  by (simp add: syncVol_def vol_isDeletionCandidate_def ex_create_run_def Let_def lvm_CreateVolume_def tryP_def
      CheckVolumeExists_def GetVolumeDevPath_eq ex_create_args RunCommandSplit_def newExecError_def)

theorem sync_write_ahead_witness:
  "\<exists>sz. [''-L'', ''1073741824b''] @ create_args_rest ex_pending_vol =
     sz @ create_args_rest (acked ex_pending_vol [EvStat (dev_of ex_pending_vol) StatNotExist])"
  using sync_write_ahead [OF ex_create_runs [of "\<lambda>_. Inr (\<lambda>_. True)"],
      of "[EvStat (dev_of ex_pending_vol) StatNotExist]"
        "[''-L'', ''1073741824b''] @ create_args_rest ex_pending_vol" "([], None)"]
  by (simp add: ex_create_run_def)

text \<open>(C2) A volume becomes \<^verbatim>\<open>Ready\<close> only when it exists: whenever the reconciliation writes the state \<^verbatim>\<open>Ready\<close> to a
  resource that was not ready as last acknowledged, the step right before (building the client apart)
  found the device of that volume or ran \<^verbatim>\<open>lvcreate\<close> for it successfully; the write also sets the finalizer
  that keeps the resource until the logical volume is removed, and nothing follows it.\<close>

theorem sync_ready_sound:
  assumes "runs (syncVol G Compile vol) tr r" and "tr = pre @ EvVol (VolUpdate ns w) y # post"
    and "State (Status w) = LVMStatusReady" and "State (Status (acked vol pre)) \<noteq> LVMStatusReady"
  shows "\<exists>pre'. pre = pre' @ [EvErr (GetClientset []) None] \<and> shown_present w pre' \<and>
    Finalizers w = Some [LVMFinalizer] \<and> post = []"
  using assms(1)
proof (cases rule: syncVol_cases)
  case provision
  from provision(2) assms(2) show ?thesis
  proof (cases rule: provisioned_event)
    case search
    with assms(3,4) show ?thesis by (auto simp: search_event_def)
  next
    case (mark pre' w' y')
    then have w: "w' = w" "acked vol pre = acked vol pre'" by auto
    with mark(5) assms(3,4) have "w = vol_info G (acked vol pre') LVMStatusReady" "shown_present (acked vol pre') pre'"
      by (auto simp: marks_def vol_info_def)
    then have "shown_present w pre'" by simp
    with mark w \<open>w = _\<close> show ?thesis by (simp add: vol_info_def)
  qed
next
  case (delete x d u)
  have d: "list_all destroy_event d" using only_runs [OF only_DestroyVolume delete(3)] .
  then have "EvVol (VolUpdate ns w) y \<notin> set d" by (auto simp: list_all_iff destroy_event_def)
  then obtain u1 where pre: "pre = d @ u1" and u: "u = u1 @ EvVol (VolUpdate ns w) y # post"
    using delete(2) assms(2) by (auto simp: append_eq_append_conv2 Cons_eq_append_conv)
  with delete(4) have "u1 = [cs_ok]" "w = vol\<lparr>Finalizers := None\<rparr>"
    by (auto simp: unfinalize_def Cons_eq_append_conv append_eq_Cons_conv split: sum.splits)
  with assms(3,4) pre d show ?thesis by (simp add: acked_destroy)
qed (use assms(2) in simp)

theorem sync_ready_sound_witness:
  "shown_present (vol_info ex_G ex_pending_vol LVMStatusReady)
     [EvStat (dev_of ex_pending_vol) StatNotExist,
      EvExec (RunSplit LVCreate ([''-L'', ''1073741824b''] @ create_args_rest ex_pending_vol)) ([], None)]"
proof -
  have "\<exists>pre'. take 3 ex_create_run = pre' @ [EvErr (GetClientset []) None] \<and>
      shown_present (vol_info ex_G ex_pending_vol LVMStatusReady) pre' \<and>
      Finalizers (vol_info ex_G ex_pending_vol LVMStatusReady) = Some [LVMFinalizer] \<and> ([] :: event list) = []"
    by (rule sync_ready_sound [OF ex_create_runs [of "\<lambda>_. Inr (\<lambda>_. True)"]])
      (simp_all add: ex_create_run_def vol_info_def)
  then show ?thesis by (auto simp: ex_create_run_def)
qed

text \<open>The API server answers an update with finalizers as they were sent.\<close>

definition echoes_finalizers :: "event list \<Rightarrow> bool" where
  "echoes_finalizers tr = (\<forall>ns w v. EvVol (VolUpdate ns w) (Inr v) \<in> set tr \<longrightarrow> Finalizers v = Finalizers w)"

lemma echoes_finalizersD:
  "echoes_finalizers tr \<Longrightarrow> EvVol (VolUpdate ns w) (Inr v) \<in> set tr \<Longrightarrow> Finalizers v = Finalizers w"
  unfolding echoes_finalizers_def by blast

lemma search_keeps_finalizers:
  "searching vol tr \<Longrightarrow> echoes_finalizers tr \<Longrightarrow> Finalizers (acked vol tr) = Finalizers vol"
proof (induction tr rule: rev_induct)
  case (snoc ev tr)
  from snoc.prems(2) have "echoes_finalizers tr" unfolding echoes_finalizers_def by (metis Un_iff set_append)
  with snoc have IH: "Finalizers (acked vol tr) = Finalizers vol" and ev: "search_event vol tr ev"
    by (simp_all add: each_event_snoc)
  show ?case
  proof (cases "\<exists>ns w v. ev = EvVol (VolUpdate ns w) (Inr v)")
    case True
    then obtain ns w v where e: "ev = EvVol (VolUpdate ns w) (Inr v)" by blast
    then have "Finalizers v = Finalizers w" by (intro echoes_finalizersD [OF snoc.prems(2), of ns]) simp
    moreover have "Finalizers w = Finalizers (acked vol tr)" using ev e by (auto simp: search_event_def)
    ultimately show ?thesis using IH e by simp
  next
    case False
    then have "acked (acked vol tr) [ev] = acked vol tr"
      by (cases "(acked vol tr, [ev])" rule: acked.cases) auto
    with IH show ?thesis by simp
  qed
qed simp

text \<open>(C4) A reconciliation of a new volume that reports success has settled it: the last thing it did was a
  write, acknowledged by the API server, that puts the resource into one of the states \<^verbatim>\<open>Ready\<close> and
  \<^verbatim>\<open>Failed\<close>, in which later reconciliations leave it alone. So the controller that waits for the volume
  is always answered. The API server is assumed to store finalizers as they are sent.\<close>

theorem sync_settles:
  assumes "runs (syncVol G Compile vol) tr (Val (Inr ()))" and "DeletionTimestamp vol = None"
    and "\<not> is_terminal vol" and "Finalizers vol = None" and "echoes_finalizers tr"
  shows "\<exists>pre w v. tr = pre @ [EvVol (VolUpdate (LvmNamespace G) w) (Inr v)] \<and> is_terminal w \<and>
    (\<forall>G' Compile'. DeletionTimestamp w = None \<longrightarrow> runs (syncVol G' Compile' w) [] (Val (Inr ())))"
proof -
  have "to_provision vol" using assms by (simp add: to_provision_def vol_isDeletionCandidate_def)
  from wp_runs [OF syncVol_provision_wp [OF this] assms(1)]
  obtain pre w v where tr: "tr = pre @ [cs_ok, EvVol (VolUpdate (LvmNamespace G) w) (Inr v)]" "marks G (acked vol pre) pre w"
    unfolding provisioned_def
    using search_keeps_finalizers [of vol tr] assms(4,5) by auto
  then have "is_terminal w" by (auto simp: marks_def is_terminal_def vol_info_def)
  moreover from this have "DeletionTimestamp w = None \<Longrightarrow> runs (syncVol G' Compile' w) [] (Val (Inr ()))" for G' Compile'
    by (auto simp: syncVol_def is_terminal_def vol_isDeletionCandidate_def)
  moreover have "tr = (pre @ [cs_ok]) @ [EvVol (VolUpdate (LvmNamespace G) w) (Inr v)]" using tr by simp
  ultimately show ?thesis by blast
qed

theorem sync_settles_witness:
  "\<exists>pre w v. ex_create_run = pre @ [EvVol (VolUpdate ''openebs'' w) (Inr v)] \<and> is_terminal w"
proof -
  have "\<exists>pre w v. ex_create_run = pre @ [EvVol (VolUpdate (LvmNamespace ex_G) w) (Inr v)] \<and> is_terminal w \<and>
      (\<forall>G' Compile'. DeletionTimestamp w = None \<longrightarrow> runs (syncVol G' Compile' w) [] (Val (Inr ())))"
    by (rule sync_settles [OF ex_create_runs [of "\<lambda>_. Inr (\<lambda>_. True)"]])
      (simp_all add: is_terminal_def echoes_finalizers_def ex_create_run_def)
  then show ?thesis unfolding ex_G_simps by blast
qed

text \<open>(C3) A volume that is being deleted loses its finalizer only after its logical volume is gone: the only
  write of the reconciliation removes the finalizers, and it happens only if the resource names no
  volume group, or the device was found not to exist, or \<^verbatim>\<open>lvremove\<close> of exactly this volume succeeded.\<close>

theorem sync_delete_keeps_finalizer:
  assumes "runs (syncVol G Compile vol) tr r" and "DeletionTimestamp vol \<noteq> None"
    and "EvVol (VolUpdate ns w) y \<in> set tr"
  shows "w = vol\<lparr>Finalizers := None\<rparr> \<and>
    (VolGroup (Spec vol) = [] \<or> EvStat (dev_of vol) StatNotExist \<in> set tr \<or>
     (\<exists>out. EvExec (RunSplit LVRemove [''-y'', DevPath @ VolGroup (Spec vol) @ ''/'' @ Name vol]) (out, None) \<in> set tr))"
proof -
  from assms(2) have "vol_isDeletionCandidate vol" by (simp add: vol_isDeletionCandidate_def)
  from syncVol_delete [OF assms(1) this] obtain x d u where
    tr: "tr = d @ u" and d: "runs (DestroyVolume vol) d (Val x)" and u: "unfinalize G vol x r u" by blast
  have "EvVol (VolUpdate ns w) y \<notin> set d"
    using only_runs [OF only_DestroyVolume d] by (auto simp: list_all_iff destroy_event_def)
  with assms(3) tr have "EvVol (VolUpdate ns w) y \<in> set u" by auto
  with u have x: "x = Inr ()" and w: "w = vol\<lparr>Finalizers := None\<rparr>"
    by (auto simp: unfinalize_def split: sum.splits)
  from DestroyVolume_ok [OF d [unfolded x]] w tr show ?thesis by auto
qed

definition ex_deleted_vol :: LVMVolume where
  "ex_deleted_vol = ex_ready_vol\<lparr>DeletionTimestamp := Some 0\<rparr>"

theorem sync_delete_keeps_finalizer_witness:
  "EvStat (dev_of ex_deleted_vol) StatNotExist \<in> set
     [EvStat (dev_of ex_deleted_vol) StatNotExist, cs_ok,
      EvVol (VolUpdate ''openebs'' (ex_deleted_vol\<lparr>Finalizers := None\<rparr>)) (Inr ex_deleted_vol)] \<and>
   ex_deleted_vol\<lparr>Finalizers := None\<rparr> \<noteq> ex_deleted_vol"
proof -
  have vg: "VolGroup (Spec ex_deleted_vol) = ''lvmvg''" "DeletionTimestamp ex_deleted_vol = Some 0"
    "Finalizers ex_deleted_vol \<noteq> None"
    by (simp_all add: ex_deleted_vol_def ex_ready_vol_def)
  then have "runs (syncVol ex_G (\<lambda>_. Inr (\<lambda>_. True)) ex_deleted_vol)
     [EvStat (dev_of ex_deleted_vol) StatNotExist, cs_ok,
      EvVol (VolUpdate ''openebs'' (ex_deleted_vol\<lparr>Finalizers := None\<rparr>)) (Inr ex_deleted_vol)] (Val (Inr ()))"
    by (simp add: syncVol_def vol_isDeletionCandidate_def DestroyVolume_def CheckVolumeExists_def GetVolumeDevPath_eq
        tryP_def RemoveVolFinalizer_def vol_kc_Update_def vol_defaultUpdate_def with_client_def getClientOrCached_def
        getClientsetForPathOrDirect_def callErr_def)
  from sync_delete_keeps_finalizer [OF this] vg show ?thesis
    by (auto dest: arg_cong [where f = Finalizers])
qed

text \<open>(C21) The order in which volume groups are tried. A priority list is made from the groups that LVM reports
  after a rescan; it has exactly those whose name matches the pattern of the volume and which have the
  free space, unless the volume is thin; the free space never decreases along the list, and groups with
  the same free space stay in the reported order.\<close>

theorem vg_priority_list:
  assumes "runs (getVgPriorityList Compile vol) tr (Val (Inr vgs))"
  shows "\<exists>re capacity all. Compile (VgPattern (Spec vol)) = Inr re \<and> Atoi (Capacity (Spec vol)) = (capacity, None) \<and>
    runs (ListLVMVolumeGroup True) tr (Val (Inr all)) \<and>
    (\<forall>vg. vg \<in> set vgs \<longleftrightarrow> vg \<in> set all \<and> re (vg_Name vg) \<and>
       (ThinProvision (Spec vol) = ''yes'' \<or> capacity \<le> vg_Free vg)) \<and>
    sorted (map vg_Free vgs) \<and>
    (\<forall>k. filter (\<lambda>vg. vg_Free vg = k) vgs = filter (\<lambda>vg. vg_Free vg = k) (filter (\<lambda>vg. vg \<in> set vgs) all))"
proof -
  obtain capacity ne where atoi: "Atoi (Capacity (Spec vol)) = (capacity, ne)" by fastforce
  from assms obtain re all where re: "Compile (VgPattern (Spec vol)) = Inr re" "ne = None"
    and all: "runs (ListLVMVolumeGroup True) tr (Val (Inr all))"
    and vgs: "vgs = sort_key vg_Free (filter (vg_fits re vol capacity) all)"
    by (auto simp: getVgPriorityList_def atoi runs_simps)
  have fits: "filter (\<lambda>vg. vg \<in> set vgs) all = filter (vg_fits re vol capacity) all"
    by (rule filter_cong) (auto simp: vgs)
  have "filter (\<lambda>vg. vg_Free vg = k) vgs = filter (\<lambda>vg. vg_Free vg = k) (filter (\<lambda>vg. vg \<in> set vgs) all)" for k
    unfolding fits by (simp only: vgs sort_key_stable)
  moreover have "vg \<in> set vgs \<longleftrightarrow> vg \<in> set all \<and> re (vg_Name vg) \<and>
      (ThinProvision (Spec vol) = ''yes'' \<or> capacity \<le> vg_Free vg)" for vg
    by (auto simp: vgs vg_fits_def)
  moreover have "sorted (map vg_Free vgs)" by (simp add: vgs)
  ultimately show ?thesis using re atoi all by blast
qed

theorem vg_priority_list_witness:
  "runs (getVgPriorityList (\<lambda>_. Inr (\<lambda>_. False)) ex_pending_vol) ex_list_run (Val (Inr [])) \<and>
   sorted (map vg_Free ([] :: VolumeGroup list))"
proof -
  have cap: "Capacity (Spec ex_pending_vol) = ''1073741824''"
    by (simp add: ex_pending_vol_def ex_ready_vol_def)
  have "Atoi ''1073741824'' = (1073741824, None)" by code_simp
  then have 1: "runs (getVgPriorityList (\<lambda>_. Inr (\<lambda>_. False)) ex_pending_vol) ex_list_run (Val (Inr []))"
    using ex_list_runs unfolding getVgPriorityList_def cap
    by (simp add: runs_bindP vg_fits_def) (metis (no_types, lifting) append_Nil2 runs.simps(1) sum.case(2))
  with vg_priority_list [OF 1] show ?thesis by simp
qed

text \<open>(C25) Keys come back to the objects they were made of: if the add handler puts a key on the queue for a
  volume, then that volume belongs to this node and the reconciliation of this key looks up exactly its
  namespace and name. Keys are assumed to split into the namespace and name they were made from.\<close>

theorem add_then_sync:
  assumes "runs (addVol G KF (Unstructured (Inr vol) tomb)) [EvUnit (WqAdd key) ()] r" and "key_ok KF vol"
  shows "OwnerNodeID (Spec vol) = NodeID G \<and> r = Val () \<and>
    (\<forall>tr res. runs (vol_syncHandler G KF Compile key) tr res \<longrightarrow>
      (\<exists>y tr'. tr = EvVolCache (Namespace vol, Name vol) y # tr'))"
proof -
  from assms(1) have own: "OwnerNodeID (Spec vol) = NodeID G" "r = Val ()"
    and key: "MetaNamespaceKeyFunc KF (Namespace vol) (Name vol) = Inr key"
    by (auto simp: addVol_def vol_getStructuredObject_def enqueueVol_def enqueue_def callUnit_def split: if_splits sum.splits)
  with assms(2) have "SplitMetaNamespaceKey KF key = Inr (Namespace vol, Name vol)"
    by (simp add: key_ok_def)
  with own show ?thesis by (auto simp: vol_syncHandler_def)
qed

theorem add_then_sync_witness:
  "OwnerNodeID (Spec (ex_pending_vol\<lparr>Namespace := ''openebs''\<rparr>)) = NodeID ex_G"
proof -
  have "runs (addVol ex_G slash_keys (Unstructured (Inr (ex_pending_vol\<lparr>Namespace := ''openebs''\<rparr>)) (Inr None)))
      [EvUnit (WqAdd ''openebs/pvc-1'') ()] (Val ())"
    by (simp add: addVol_def vol_getStructuredObject_def enqueueVol_def enqueue_def callUnit_def slash_keys_def
        ex_pending_vol_def ex_ready_vol_def)
  from add_then_sync [OF this key_ok_slash_keys] show ?thesis by simp
qed

end
