(* ===== verification/Lifecycle.thy ===== *)
theory Lifecycle
  imports Vol_Controller
begin

text \<open>
  The life of a volume as an abstract state machine, and the proof that the volume controller
  (\<open>Vol_Controller\<close>, \<^verbatim>\<open>src/pkg/mgmt/volume/volume.go\<close>) implements it. The abstract state is the phase of the
  resource, the volume group that the resource records, the set of volume groups in which a logical volume of
  this name exists, and whether a device check has failed. The concrete state is the resource as the API server
  stores it and the set of device paths that exist on the node. Every operation that a reconciliation performs is
  one abstract step or none. The last part puts the controller into its surroundings, where its process dies
  between any two operations, it works from superseded versions of the resource, answers of the API server get
  lost, and other clients change and delete the resource, and shows what then holds of the logical volumes.
\<close>

section \<open>The abstract machine\<close>

datatype phase = Waiting | Available | Rejected | Deleting | Released

text \<open>Phase, recorded volume group (empty: none), groups that hold a logical volume of this name, and whether the
  check of a device has failed with an error, so that the controller may have taken an existing volume for
  an absent one.\<close>

type_synonym lifecycle = "phase \<times> string \<times> string set \<times> bool"

inductive lc_step :: "lifecycle \<Rightarrow> lifecycle \<Rightarrow> bool" where
  assign: "g \<notin> H \<or> b \<Longrightarrow> g' \<noteq> [] \<Longrightarrow> lc_step (Waiting, g, H, b) (Waiting, g', H, b)"
| provision: "g \<noteq> [] \<Longrightarrow> lc_step (Waiting, g, H, b) (Waiting, g, insert g H, b)"
| announce: "g \<in> H \<Longrightarrow> lc_step (Waiting, g, H, b) (Available, g, H, b)"
| reject: "g \<notin> H \<or> b \<Longrightarrow> lc_step (Waiting, g, H, b) (Rejected, g, H, b)"
| remove: "H' \<subseteq> H - {g} \<Longrightarrow> lc_step (Deleting, g, H, b) (Deleting, g, H', b)"
| release: "g \<notin> H \<Longrightarrow> lc_step (Deleting, g, H, b) (Released, g, H, b)"
| check_fails: "lc_step (p, g, H, b) (p, g, H, True)"

inductive_cases lc_stepE: "lc_step (p, g, H, b) (p', g', H', b')"

text \<open>A check that failed before does not disable a step.\<close>

lemma lc_step_blind:
  "lc_step\<^sup>=\<^sup>= (p, g, H, b) (p', g', H', b') \<Longrightarrow> lc_step\<^sup>=\<^sup>= (p, g, H, x \<or> b) (p', g', H', x \<or> b')"
  by (auto elim!: lc_stepE intro: lc_step.intros)

section \<open>The node\<close>

text \<open>The device paths that a call of \<^verbatim>\<open>lvcreate\<close> for a volume makes, and that \<^verbatim>\<open>lvremove\<close> removes.\<close>

definition made :: "string list \<Rightarrow> string set" where
  "made args = {dev_of v |v. \<exists>sz. args = sz @ create_args_rest v \<and> VolGroup (Spec v) \<noteq> []}"

definition removed :: "string list \<Rightarrow> string set" where
  "removed args = {dev_of v |v. args = [''-y'', DevPath @ VolGroup (Spec v) @ ''/'' @ Name v]}"

definition lv_change :: "string set \<Rightarrow> event \<Rightarrow> string set" where
  "lv_change S ev = (case ev of
       EvExec (RunSplit c args) (_, None) \<Rightarrow>
         if c = LVCreate then S \<union> made args else if c = LVRemove then S - removed args else S
     | _ \<Rightarrow> S)"

fun lvs :: "string set \<Rightarrow> event list \<Rightarrow> string set" where
  "lvs S [] = S"
| "lvs S (ev # tr) = lvs (lv_change S ev) tr"

text \<open>The environment is honest: a check of \<^verbatim>\<open>stat\<close> that does not fail tells whether the device exists, and the API
  server answers an update that it accepts with the object that it stored.\<close>

definition honest_event :: "string set \<Rightarrow> event \<Rightarrow> bool" where
  "honest_event S ev = (case ev of
       EvStat d StatOk \<Rightarrow> d \<in> S
     | EvStat d StatNotExist \<Rightarrow> d \<notin> S
     | EvVol (VolUpdate _ w) (Inr v) \<Rightarrow> v = w
     | _ \<Rightarrow> True)"

definition honest :: "string set \<Rightarrow> event list \<Rightarrow> bool" where
  "honest S tr = each_event (\<lambda>pre. honest_event (lvs S pre)) tr"

lemma lvs_append [simp]: "lvs S (a @ b) = lvs (lvs S a) b"
  by (induction S a rule: lvs.induct) auto

lemma honest_append [simp]: "honest S (a @ b) \<longleftrightarrow> honest S a \<and> honest (lvs S a) b"
  by (simp add: honest_def each_event_append)

lemma honest_simps [simp]: "honest S []" "honest S (ev # tr) \<longleftrightarrow> honest_event S ev \<and> honest (lv_change S ev) tr"
  using each_event_append [of "\<lambda>pre. honest_event (lvs S pre)" "[ev]" tr] by (simp_all add: honest_def)

text \<open>A check has failed.\<close>

definition stat_error :: "event \<Rightarrow> bool" where
  "stat_error ev = (case ev of EvStat _ (StatErr _) \<Rightarrow> True | _ \<Rightarrow> False)"

abbreviation "blind \<equiv> list_ex stat_error"

section \<open>The abstraction\<close>

definition phase_of :: "LVMVolume \<Rightarrow> phase" where
  "phase_of v = (if DeletionTimestamp v \<noteq> None then (if Finalizers v = None then Released else Deleting)
     else if State (Status v) = LVMStatusReady then Available
     else if State (Status v) = LVMStatusFailed then Rejected else Waiting)"

definition in_group :: "LVMVolume \<Rightarrow> string \<Rightarrow> LVMVolume" where
  "in_group v g = v\<lparr>Spec := (Spec v)\<lparr>VolGroup := g\<rparr>\<rparr>"

definition held :: "LVMVolume \<Rightarrow> string set \<Rightarrow> string set" where
  "held v S = {g. g \<noteq> [] \<and> dev_of (in_group v g) \<in> S}"

definition lc :: "LVMVolume \<Rightarrow> string set \<Rightarrow> bool \<Rightarrow> lifecycle" where
  "lc v S b = (phase_of v, VolGroup (Spec v), held v S, b)"

lemma dev_of_group [simp]: "dev_of (in_group v (VolGroup (Spec v))) = dev_of v"
  by (simp add: in_group_def dev_of_def)

lemma held_recorded: "VolGroup (Spec v) \<in> held v S \<longleftrightarrow> VolGroup (Spec v) \<noteq> [] \<and> dev_of v \<in> S"
  by (simp add: held_def)

lemma held_cong: "Name v = Name w \<Longrightarrow> held v S = held w S"
  by (simp add: held_def dev_of_def in_group_def)

lemma dev_of_group_inj [simp]: "dev_of (in_group v g) = dev_of (in_group v h) \<longleftrightarrow> g = h"
proof -
  have "ReplaceAll CHR ''-'' ''--'' g = ReplaceAll CHR ''-'' ''--'' h \<Longrightarrow> g = h"
    by (metis undouble_dbl)
  then show ?thesis by (auto simp: dev_of_def in_group_def)
qed

lemma held_insert:
  assumes "VolGroup (Spec v) \<noteq> []"
  shows "held v (insert (dev_of v) S) = insert (VolGroup (Spec v)) (held v S)"
  using assms dev_of_group_inj [of v _ "VolGroup (Spec v)"] by (auto simp: held_def)

text \<open>The arguments of \<^verbatim>\<open>lvcreate\<close> determine the logical volume, so a successful call makes exactly one device.\<close>

lemma create_args_determine:
  assumes "a @ create_args_rest v = b @ create_args_rest w"
    and "VolGroup (Spec v) \<noteq> []" and "VolGroup (Spec w) \<noteq> []"
  shows "VolGroup (Spec v) = VolGroup (Spec w) \<and> Name v = Name w"
proof -
  have pool: "g = h" if "g @ ''/'' @ g @ ''_thinpool'' = h @ ''/'' @ h @ ''_thinpool''" for g h :: string
  proof -
    from arg_cong [OF that, of length] have "length g = length h" by simp
    with that show ?thesis by simp
  qed
  have nb: "s @ ''b'' \<noteq> ''-n''" "''-n'' \<noteq> s @ ''b''" for s :: string
    by (auto simp: append_eq_Cons_conv)
  define ra where "ra = rev a"
  define rb where "rb = rev b"
  have "rev (create_args_rest v) @ ra = rev (create_args_rest w) @ rb"
    using arg_cong [OF assms(1), of rev] by (simp add: ra_def rb_def)
  then show ?thesis
    using assms(2,3) nb(1) [of "Capacity (Spec v)"] nb(2) [of "Capacity (Spec w)"]
      pool [of "VolGroup (Spec v)" "VolGroup (Spec w)"]
    by (cases "is_thin v"; cases "is_thin w") (simp_all add: create_args_rest_def)
qed

lemma made_create: "VolGroup (Spec v) \<noteq> [] \<Longrightarrow> made (sz @ create_args_rest v) = {dev_of v}"
  unfolding made_def by (auto dest!: create_args_determine simp: dev_of_def)

lemma removed_destroy: "dev_of v \<in> removed [''-y'', DevPath @ VolGroup (Spec v) @ ''/'' @ Name v]"
  by (auto simp: removed_def)

section \<open>Simulation\<close>

text \<open>Each operation of a run that starts with the resource \<open>vol\<close> and the devices \<open>S\<close> is an abstract step or none; for
  a write this holds of the object that is sent, whatever the answer.\<close>

definition sim_event :: "LVMVolume \<Rightarrow> string set \<Rightarrow> event list \<Rightarrow> event \<Rightarrow> bool" where
  "sim_event vol S pre ev = (honest S (pre @ [ev]) \<longrightarrow>
     lc_step\<^sup>=\<^sup>= (lc (acked vol pre) (lvs S pre) (blind pre))
       (lc (acked vol (pre @ [ev])) (lvs S (pre @ [ev])) (blind (pre @ [ev]))) \<and>
     (\<forall>ns w y. ev = EvVol (VolUpdate ns w) y \<longrightarrow> Name w = Name (acked vol pre) \<and>
        lc_step\<^sup>=\<^sup>= (lc (acked vol pre) (lvs S pre) (blind pre)) (lc w (lvs S pre) (blind pre))))"

abbreviation "simulates vol S \<equiv> each_event (sim_event vol S)"

text \<open>Events that change neither the resource nor the devices, and are no failed check.\<close>

definition idle_event :: "event \<Rightarrow> bool" where
  "idle_event ev = ((\<forall>vol. acked vol [ev] = vol) \<and> (\<forall>S. lv_change S ev = S) \<and> \<not> stat_error ev \<and>
     (\<forall>ns w y. ev \<noteq> EvVol (VolUpdate ns w) y))"

lemma idle_events [simp]:
  "idle_event (EvErr a b)" "idle_event (EvStat d StatOk)" "idle_event (EvStat d StatNotExist)"
  "idle_event (EvExec (RunSplit c args) (out, Some e))" "idle_event (EvExec (RunCombined c args) y)"
  by (auto simp: idle_event_def lv_change_def stat_error_def split: option.splits)

lemma idle_scan: "list_all is_scan t \<Longrightarrow> list_all idle_event t"
proof (induction t)
  case (Cons ev t)
  then consider c args y where "ev = EvExec (RunSplit c args) y" "c \<in> {PVScan, VGList, LVList}" | u ord where "ev = EvOrder u ord"
    by (auto simp: is_scan_def split: event.splits exec_op.splits)
  then have "idle_event ev"
    by cases (auto simp: idle_event_def lv_change_def stat_error_def split: option.splits prod.splits)
  with Cons show ?case by simp
qed simp

lemma idle_blind [simp]: "list_all idle_event t \<Longrightarrow> \<not> blind t"
  by (auto simp: list_all_iff list_ex_iff idle_event_def)

lemma idle_sim: "list_all idle_event t \<Longrightarrow> simulates vol S tr \<Longrightarrow> simulates vol S (tr @ t)"
  by (auto simp: each_event_append sim_event_def idle_event_def list_all_iff intro!: each_event_trivial)

text \<open>A failed check.\<close>

lemma blind_sim:
  assumes "simulates vol S tr"
  shows "simulates vol S (tr @ [EvStat d (StatErr e)])"
proof -
  have "lv_change S' (EvStat d (StatErr e)) = S'" for S' by (simp add: lv_change_def)
  then have "sim_event vol S tr (EvStat d (StatErr e))"
    by (auto simp: sim_event_def lc_def stat_error_def intro: lc_step.check_fails)
  with assms show ?thesis by (simp add: each_event_snoc)
qed

lemma idle_lvs [simp]: "list_all idle_event t \<Longrightarrow> lvs S t = S"
  by (induction t) (auto simp: idle_event_def)

lemma idle_acked [simp]: "list_all idle_event t \<Longrightarrow> acked vol t = vol"
proof (induction t)
  case (Cons ev t)
  then show ?case using acked_append [of vol "[ev]" t] by (simp add: idle_event_def)
qed simp

text \<open>While the controller looks for a volume group: every operation is simulated, and \<open>v\<close> is the stored resource.\<close>

definition looking :: "LVMVolume \<Rightarrow> string set \<Rightarrow> LVMVolume \<Rightarrow> event list \<Rightarrow> bool" where
  "looking vol S v tr \<longleftrightarrow> simulates vol S tr \<and> acked vol tr = v \<and> (honest S tr \<longrightarrow> phase_of v = Waiting)"

text \<open>The logical volume of \<open>v\<close> exists; it is absent, or a check has failed.\<close>

definition lv_found :: "string set \<Rightarrow> LVMVolume \<Rightarrow> event list \<Rightarrow> bool" where
  "lv_found S v tr \<longleftrightarrow> (honest S tr \<longrightarrow> VolGroup (Spec v) \<in> held v (lvs S tr))"

definition lv_absent :: "string set \<Rightarrow> LVMVolume \<Rightarrow> event list \<Rightarrow> bool" where
  "lv_absent S v tr \<longleftrightarrow> (honest S tr \<longrightarrow> VolGroup (Spec v) \<notin> held v (lvs S tr) \<or> blind tr)"

lemma looking_idle: "looking vol S v tr \<Longrightarrow> list_all idle_event t \<Longrightarrow> looking vol S v (tr @ t)"
  by (simp add: looking_def idle_sim)

lemma looking_blind: "looking vol S v tr \<Longrightarrow> looking vol S v (tr @ [EvStat d (StatErr e)])"
  by (simp add: looking_def blind_sim)

lemma lv_absent_idle: "lv_absent S v tr \<Longrightarrow> list_all idle_event t \<Longrightarrow> lv_absent S v (tr @ t)"
  by (simp add: lv_absent_def)

lemma lv_absent_stat:
  "list_all idle_event q \<Longrightarrow> lv_absent S v (tr @ EvStat (dev_of v) StatNotExist # q)"
  by (auto simp: lv_absent_def held_recorded honest_event_def lv_change_def)

lemma create_looking:
  assumes "looking vol S v tr" and g: "VolGroup (Spec v) \<noteq> []"
  shows "wp (lvm_CreateVolume v) (\<lambda>r t. \<exists>x. r = Val x \<and> looking vol S v t \<and>
    (if x = Inr () then lv_found S v t else lv_absent S v t)) tr"
proof (rule wp_lvm_CreateVolume, goal_cases)
  case 1
  from looking_idle [OF assms(1), of "[EvStat (dev_of v) StatOk]"] show ?case
    using g by (auto simp: lv_found_def held_recorded honest_event_def lv_change_def)
next
  case (2 e)
  from looking_blind [OF assms(1)] show ?case by (auto simp: lv_absent_def stat_error_def)
next
  case (3 q sz out err)
  let ?t = "tr @ EvStat (dev_of v) StatNotExist # q"
  let ?ev = "EvExec (RunSplit LVCreate (sz @ create_args_rest v)) (out, err)"
  have q: "list_all idle_event q" using 3(1) by (intro idle_scan) (auto simp: list_all_iff is_scan_query)
  then have t: "looking vol S v ?t" "lv_absent S v ?t"
    using looking_idle [OF assms(1), of "EvStat (dev_of v) StatNotExist # q"] by (auto intro: lv_absent_stat)
  show ?case
  proof (cases err)
    case (Some e)
    from looking_idle [OF t(1), of "[?ev]"] lv_absent_idle [OF t(2), of "[?ev]"] Some show ?thesis by simp
  next
    case None
    have change: "lv_change S' ?ev = insert (dev_of v) S'" for S'
      using made_create [OF g] by (auto simp: lv_change_def None)
    have "lc_step (Waiting, VolGroup (Spec v), H, b) (Waiting, VolGroup (Spec v), insert (VolGroup (Spec v)) H, b)" for H b
      using g by (rule lc_step.provision)
    then have "sim_event vol S ?t ?ev"
      using t(1) g by (auto simp: sim_event_def looking_def lc_def change held_insert stat_error_def)
    with t(1) have "looking vol S v (?t @ [?ev])" by (simp add: looking_def each_event_snoc del: append_assoc append_Cons)
    moreover have "lv_found S v (?t @ [?ev])" using g by (simp add: lv_found_def change held_recorded)
    ultimately show ?thesis by (simp add: None)
  qed
qed

text \<open>A write, as one abstract step.\<close>

lemma sim_write:
  assumes "simulates vol S tr" and "acked vol tr = v"
    and "honest S tr \<Longrightarrow> Name w = Name v \<and>
      lc_step\<^sup>=\<^sup>= (lc v (lvs S tr) (blind tr)) (phase_of w, VolGroup (Spec w), held v (lvs S tr), blind tr)"
  shows "simulates vol S (tr @ [cs_ok, EvVol (VolUpdate ns w) y])"
proof -
  have ok: "simulates vol S (tr @ [cs_ok])" using idle_sim [OF _ assms(1), of "[cs_ok]"] by simp
  have "lv_change S' cs_ok = S'" "lv_change S' (EvVol x y) = S'" "\<not> stat_error cs_ok" "\<not> stat_error (EvVol x y)" for S' x y
    by (simp_all add: lv_change_def stat_error_def)
  then have "sim_event vol S (tr @ [cs_ok]) (EvVol (VolUpdate ns w) y)"
    using assms(2,3) held_cong [of w v] by (cases y) (auto simp: sim_event_def lc_def honest_event_def)
  with ok show ?thesis using each_event_snoc [of "sim_event vol S" "tr @ [cs_ok]"] by simp
qed

lemma sim_fail: "simulates vol S tr \<Longrightarrow> simulates vol S (tr @ [cs_fail e])"
  using idle_sim [of "[cs_fail e]"] by simp

lemma mark_ready_sim:
  assumes "looking vol S v tr" and "lv_found S v tr"
  shows "wp (UpdateVolInfo G v LVMStatusReady) (\<lambda>_. simulates vol S) tr"
proof -
  have "phase_of v = Waiting \<Longrightarrow> phase_of (vol_info G v LVMStatusReady) = Available"
    by (simp add: phase_of_def vol_info_def split: if_splits)
  then have "simulates vol S (tr @ [cs_ok, EvVol (VolUpdate ns (vol_info G v LVMStatusReady)) y])" for ns y
    using assms by (intro sim_write [where v = v])
      (auto simp: looking_def lv_found_def lc_def vol_info_def intro: lc_step.announce)
  with assms(1) show ?thesis by (simp add: wp_UpdateVolInfo looking_def sim_fail)
qed

lemma mark_failed_sim:
  assumes "looking vol S v tr" and "lv_absent S v tr"
  shows "wp (UpdateVolInfo G (v\<lparr>Status := (Status v)\<lparr>StatusError := err\<rparr>\<rparr>) LVMStatusFailed) (\<lambda>_. simulates vol S) tr"
proof -
  let ?w = "vol_info G (v\<lparr>Status := (Status v)\<lparr>StatusError := err\<rparr>\<rparr>) LVMStatusFailed"
  have "phase_of v = Waiting \<Longrightarrow> phase_of ?w = Rejected"
    by (simp add: phase_of_def vol_info_def split: if_splits)
  then have "simulates vol S (tr @ [cs_ok, EvVol (VolUpdate ns ?w) y])" for ns y
    using assms by (intro sim_write [where v = v])
      (auto simp: looking_def lv_absent_def lc_def vol_info_def intro: lc_step.reject)
  with assms(1) show ?thesis by (simp add: wp_UpdateVolInfo looking_def sim_fail)
qed

lemma assign_looking:
  assumes "looking vol S v tr" and "lv_absent S v tr" and "vg \<noteq> []"
  shows "simulates vol S (tr @ [cs_ok, EvVol (VolUpdate ns (v\<lparr>Spec := (Spec v)\<lparr>VolGroup := vg\<rparr>\<rparr>)) y])"
    and "y = Inr v' \<Longrightarrow> looking vol S v' (tr @ [cs_ok, EvVol (VolUpdate ns (v\<lparr>Spec := (Spec v)\<lparr>VolGroup := vg\<rparr>\<rparr>)) y])"
    and "y = Inr v' \<Longrightarrow> honest S (tr @ [cs_ok, EvVol (VolUpdate ns (v\<lparr>Spec := (Spec v)\<lparr>VolGroup := vg\<rparr>\<rparr>)) y]) \<Longrightarrow>
      VolGroup (Spec v') \<noteq> []"
proof -
  let ?w = "v\<lparr>Spec := (Spec v)\<lparr>VolGroup := vg\<rparr>\<rparr>"
  have phase: "phase_of ?w = phase_of v" by (simp add: phase_of_def)
  show sim: "simulates vol S (tr @ [cs_ok, EvVol (VolUpdate ns ?w) y])"
    using assms phase by (intro sim_write [where v = v])
      (auto simp: looking_def lv_absent_def lc_def intro: lc_step.assign)
  show "y = Inr v' \<Longrightarrow> looking vol S v' (tr @ [cs_ok, EvVol (VolUpdate ns ?w) y])"
    using sim assms(1) phase by (auto simp: looking_def honest_event_def)
  show "y = Inr v' \<Longrightarrow> honest S (tr @ [cs_ok, EvVol (VolUpdate ns ?w) y]) \<Longrightarrow> VolGroup (Spec v') \<noteq> []"
    using assms(3) by (auto simp: honest_event_def)
qed

text \<open>Nothing is claimed once the environment was not honest.\<close>

lemma dishonest_sim:
  assumes "\<not> honest S tr" and "simulates vol S tr"
  shows "wp p (\<lambda>_. simulates vol S) tr"
  unfolding wp_iff_runs using assms
  by (auto simp: each_event_append sim_event_def intro!: each_event_trivial simp: list_all_iff)

lemma create_then_sim:
  assumes "looking vol S v tr" and "VolGroup (Spec v) \<noteq> []"
    and "\<And>e t. looking vol S v t \<Longrightarrow> lv_absent S v t \<Longrightarrow> wp (f e) (\<lambda>_. simulates vol S) t"
  shows "wp (bindP (lvm_CreateVolume v) (\<lambda>r. case r of Inr _ \<Rightarrow> UpdateVolInfo G v LVMStatusReady | Inl e \<Rightarrow> f e))
    (\<lambda>_. simulates vol S) tr"
  unfolding wp_bindP
  by (rule wp_mono [OF create_looking [OF assms(1,2)]]) (auto simp: mark_ready_sim assms(3) split: sum.split)

lemma try_vgs_sim:
  assumes "looking vol S v tr" and "lv_absent S v tr"
  shows "wp (try_vgs G v err vgs) (\<lambda>_. simulates vol S) tr"
  using assms
proof (induction vgs arbitrary: tr v err)
  case Nil
  then show ?case by (simp add: mark_failed_sim)
next
  case (Cons vg vgs)
  have sim: "simulates vol S tr" using Cons.prems(1) by (simp add: looking_def)
  have step: "wp (bindP (lvm_CreateVolume v') (\<lambda>r. case r of
        Inr _ \<Rightarrow> UpdateVolInfo G v' LVMStatusReady | Inl e \<Rightarrow> try_vgs G v' e vgs)) (\<lambda>_. simulates vol S)
      (tr @ [cs_ok, EvVol (VolUpdate (LvmNamespace G) (v\<lparr>Spec := (Spec v)\<lparr>VolGroup := vg_Name vg\<rparr>\<rparr>)) (Inr v')])"
    (is "wp _ _ ?t") if "vg_Name vg \<noteq> []" for v'
  proof (cases "honest S ?t")
    case True
    with assign_looking(2,3) [OF Cons.prems that refl] show ?thesis
      by (intro create_then_sim Cons.IH) auto
  qed (use assign_looking(1) [OF Cons.prems that] in \<open>auto intro: dishonest_sim\<close>)
  show ?case
    using step assign_looking(1) [OF Cons.prems] sim
    by (auto simp: wp_tryP wp_UpdateVolGroup sim_fail split: sum.splits)
qed

lemma syncVol_provision_sim:
  assumes "to_provision vol"
  shows "wp (syncVol G Compile vol) (\<lambda>_. simulates vol S) []"
proof -
  let ?scan = "tryP (getVgPriorityList Compile vol) (\<lambda>vgs. try_vgs G vol (no_vg_err vol) vgs)"
  have start: "looking vol S vol []"
    using assms by (simp add: looking_def phase_of_def to_provision_def is_terminal_def vol_isDeletionCandidate_def)
  have scan: "wp ?scan (\<lambda>_. simulates vol S) tr" if "looking vol S vol tr" "lv_absent S vol tr" for tr
    unfolding wp_tryP
  proof (rule wp_mono [OF getVgPriorityList_scan], goal_cases)
    case (1 r t)
    then obtain x t' where t: "r = Val x" "t = tr @ t'" "list_all idle_event t'" using idle_scan by auto
    then show ?case
      using looking_idle [OF that(1)] lv_absent_idle [OF that(2)] idle_sim [of t' vol S tr] that(1)
      by (cases x) (auto simp: looking_def intro!: try_vgs_sim)
  qed
  have "wp ?scan (\<lambda>_. simulates vol S) []" if "VolGroup (Spec vol) = []"
    using that start by (intro scan) (simp_all add: lv_absent_def held_def)
  moreover have "wp (bindP (lvm_CreateVolume vol) (\<lambda>r. case r of
        Inr _ \<Rightarrow> UpdateVolInfo G vol LVMStatusReady | Inl _ \<Rightarrow> ?scan)) (\<lambda>_. simulates vol S) []"
    if "VolGroup (Spec vol) \<noteq> []"
    using that start scan by (intro create_then_sim)
  ultimately show ?thesis
    using assms by (auto simp: syncVol_def to_provision_def is_terminal_def Let_def)
qed

lemma removal_sim:
  assumes "phase_of vol = Deleting"
    and gone_def: "gone = [EvStat (dev_of vol) StatOk, EvExec (RunCombined BlockCleanerCommand wipe) (out, None),
    EvExec (RunSplit LVRemove [''-y'', DevPath @ VolGroup (Spec vol) @ ''/'' @ Name vol]) (out', err)]"
  shows "simulates vol S gone \<and> acked vol gone = vol \<and> \<not> blind gone \<and> (err = None \<longrightarrow> lv_absent S vol gone)"
proof -
  let ?rm = "[''-y'', DevPath @ VolGroup (Spec vol) @ ''/'' @ Name vol]"
  have lv: "lv_change S' (EvStat d r) = S'" "lv_change S' (EvExec (RunCombined c a) y) = S'"
    "lv_change S' (EvExec (RunSplit LVRemove args) (out', None)) = S' - removed args"
    "lv_change S' (EvExec (RunSplit LVRemove args) (out', Some e)) = S'"
    for S' d r c a y args e
    by (auto simp: lv_change_def)
  have "held vol (S - removed ?rm) \<subseteq> held vol S - {VolGroup (Spec vol)}" "VolGroup (Spec vol) \<notin> held vol (S - removed ?rm)"
    using removed_destroy [of vol] by (auto simp: held_def)
  then show ?thesis
    using assms(1)
    by (cases err) (auto simp: gone_def sim_event_def lc_def lv lv_absent_def stat_error_def intro: lc_step.remove)
qed

lemma syncVol_delete_sim:
  assumes "vol_isDeletionCandidate vol" and "Finalizers vol \<noteq> None"
  shows "wp (syncVol G Compile vol) (\<lambda>_. simulates vol S) []"
proof -
  have phase: "phase_of vol = Deleting" "phase_of (vol\<lparr>Finalizers := None\<rparr>) = Released"
    using assms by (simp_all add: phase_of_def vol_isDeletionCandidate_def)
  have fin: "wp (RemoveVolFinalizer G vol) (\<lambda>_. simulates vol S) tr"
    if "simulates vol S tr" "acked vol tr = vol" "lv_absent S vol tr" "\<not> blind tr" for tr
    using that phase
    by (auto simp: wp_RemoveVolFinalizer sim_fail lc_def lv_absent_def intro!: sim_write [where v = vol] lc_step.release)
  have sim: "simulates vol S t \<and> acked vol t = vol \<and> lvs S t = S" if "list_all idle_event t" for t
    using idle_sim [OF that, of vol S "[]"] that by simp
  have "wp (tryP (DestroyVolume vol) (\<lambda>_. RemoveVolFinalizer G vol)) (\<lambda>_. simulates vol S) []"
    unfolding wp_tryP
  proof (rule wp_DestroyVolume, goal_cases)
    case 1
    then show ?case using fin [of "[]"] by (simp add: lv_absent_def held_def)
  next
    case 2
    have "lv_absent S vol [EvStat (dev_of vol) StatNotExist]" "\<not> blind [EvStat (dev_of vol) StatNotExist]"
      using lv_absent_stat [of "[]" S vol "[]"] by (simp_all add: stat_error_def)
    with fin [of "[EvStat (dev_of vol) StatNotExist]"] sim [of "[EvStat (dev_of vol) StatNotExist]"] show ?case by simp
  next
    case (3 e)
    then show ?case using blind_sim [of vol S "[]"] by simp
  next
    case (4 out e)
    then show ?case
      using sim [of "[EvStat (dev_of vol) StatOk, EvExec (RunCombined BlockCleanerCommand [''-af'', wiped vol]) (out, Some e)]"]
      by simp
  next
    case (5 out out' err)
    then show ?case
      using removal_sim [OF phase(1) refl, of S "[''-af'', wiped vol]" out out' err] fin by (cases err) auto
  qed
  then show ?thesis using assms(1) by (simp add: syncVol_def)
qed

text \<open>A resource that is being deleted is kept by its finalizers.\<close>

definition kept :: "LVMVolume \<Rightarrow> bool" where
  "kept vol \<longleftrightarrow> (DeletionTimestamp vol \<noteq> None \<longrightarrow> Finalizers vol \<noteq> None)"

lemma syncVol_simulates:
  assumes "runs (syncVol G Compile vol) tr r" and "kept vol"
  shows "simulates vol S tr"
  using assms(1)
proof (cases rule: syncVol_cases)
  case provision
  from wp_runs [OF syncVol_provision_sim [OF provision(1)] assms(1)] show ?thesis .
next
  case (delete x d u)
  with assms(2) have "Finalizers vol \<noteq> None" by (simp add: kept_def vol_isDeletionCandidate_def)
  from wp_runs [OF syncVol_delete_sim [OF delete(1) this] assms(1)] show ?thesis .
qed simp

lemma op_simulated:
  assumes "runs (syncVol G Compile vol) (pre @ ev # post) r" and "kept vol" and "honest S (pre @ [ev])"
  shows "lc_step\<^sup>=\<^sup>= (lc (acked vol pre) (lvs S pre) (blind pre))
      (lc (acked vol (pre @ [ev])) (lvs S (pre @ [ev])) (blind (pre @ [ev])))"
    and "ev = EvVol (VolUpdate ns w) y \<Longrightarrow> Name w = Name (acked vol pre) \<and>
      lc_step\<^sup>=\<^sup>= (lc (acked vol pre) (lvs S pre) (blind pre)) (lc w (lvs S pre) (blind pre))"
proof -
  have "sim_event vol S pre ev"
    using syncVol_simulates [OF assms(1,2), of S] by (simp add: each_event_append)
  then show "lc_step\<^sup>=\<^sup>= (lc (acked vol pre) (lvs S pre) (blind pre))
      (lc (acked vol (pre @ [ev])) (lvs S (pre @ [ev])) (blind (pre @ [ev])))"
    and "ev = EvVol (VolUpdate ns w) y \<Longrightarrow> Name w = Name (acked vol pre) \<and>
      lc_step\<^sup>=\<^sup>= (lc (acked vol pre) (lvs S pre) (blind pre)) (lc w (lvs S pre) (blind pre))"
    using assms(3) by (auto simp: sim_event_def)
qed

section \<open>The controller in its surroundings\<close>

text \<open>One resource, from its creation on, and the node that owns it. The state has the resource as it is stored, the
  versions that it superseded, the device paths on the node, and the reconciliation in progress, if any, as the
  version that it was given and the operations that it has performed. A resource whose deletion was requested
  and that has no finalizers is gone. Three more fields record what has happened: the check of a device
  failed; a reconciliation created or removed a logical volume while the version it worked on was superseded by
  one with another phase or volume group; the resource was deleted, without a finalizer to keep it, when it
  recorded a volume group and had not failed.\<close>

record system =
  stored :: LVMVolume
  superseded :: "LVMVolume set"
  devices :: "string set"
  job :: "(LVMVolume \<times> event list) option"
  check_failed :: bool
  worked_outdated :: bool
  deleted_early :: bool

definition same_stage :: "LVMVolume \<Rightarrow> LVMVolume \<Rightarrow> bool" where
  "same_stage v w \<longleftrightarrow> Name v = Name w \<and> phase_of v = phase_of w \<and> VolGroup (Spec v) = VolGroup (Spec w)"

definition store :: "LVMVolume \<Rightarrow> system \<Rightarrow> system" where
  "store w s = s\<lparr>stored := w, superseded := insert (stored s) (superseded s)\<rparr>"

definition performed :: "LVMVolume \<Rightarrow> event list \<Rightarrow> event \<Rightarrow> system \<Rightarrow> system" where
  "performed c tr ev s = (let S = lv_change (devices s) ev in
     s\<lparr>devices := S, job := Some (c, tr @ [ev]), check_failed := check_failed s \<or> stat_error ev,
       worked_outdated := worked_outdated s \<or> S \<noteq> devices s \<and> \<not> same_stage (acked c tr) (stored s)\<rparr>)"

definition marked_deleted :: "int \<Rightarrow> system \<Rightarrow> system" where
  "marked_deleted t s = (let v = stored s in (store (v\<lparr>DeletionTimestamp := Some t\<rparr>) s)
     \<lparr>deleted_early := deleted_early s \<or> Finalizers v = None \<and> VolGroup (Spec v) \<noteq> [] \<and> phase_of v \<noteq> Rejected\<rparr>)"


text \<open>A reconciliation is given the stored resource or a version that it superseded (\<open>take\<close>), but never one without
  finalizers whose deletion was requested, which the API server removes. It performs its operations one at a time (\<open>operate\<close>, \<open>accepted\<close>, \<open>refused\<close>, \<open>lost\<close>). Between any two it may end, because it has finished or because
  the process dies (\<open>stop\<close>). The API server accepts an update only of the stored version; one that it accepts may
  still be answered with an error. Other clients may change what concerns neither the phase nor the volume
  group (\<open>edit\<close>), and may delete the resource in every phase, with or without finalizers (\<open>delete\<close>).\<close>

inductive sys_step :: "system \<Rightarrow> system \<Rightarrow> bool" where
  take: "job s = None \<Longrightarrow> c \<in> insert (stored s) (superseded s) \<Longrightarrow> kept c \<Longrightarrow> sys_step s (s\<lparr>job := Some (c, [])\<rparr>)"
| operate: "job s = Some (c, tr) \<Longrightarrow> runs (syncVol G Compile c) (tr @ ev # post) r \<Longrightarrow>
    \<forall>ns w y. ev \<noteq> EvVol (VolUpdate ns w) y \<Longrightarrow> honest_event (devices s) ev \<Longrightarrow> sys_step s (performed c tr ev s)"
| accepted: "job s = Some (c, tr) \<Longrightarrow> runs (syncVol G Compile c) (tr @ EvVol (VolUpdate ns w) (Inr w) # post) r \<Longrightarrow>
    acked c tr = stored s \<Longrightarrow> sys_step s ((store w s)\<lparr>job := Some (c, tr @ [EvVol (VolUpdate ns w) (Inr w)])\<rparr>)"
| refused: "job s = Some (c, tr) \<Longrightarrow> runs (syncVol G Compile c) (tr @ EvVol (VolUpdate ns w) (Inl e) # post) r \<Longrightarrow>
    sys_step s (s\<lparr>job := Some (c, tr @ [EvVol (VolUpdate ns w) (Inl e)])\<rparr>)"
| lost: "job s = Some (c, tr) \<Longrightarrow> runs (syncVol G Compile c) (tr @ EvVol (VolUpdate ns w) (Inl e) # post) r \<Longrightarrow>
    acked c tr = stored s \<Longrightarrow> sys_step s ((store w s)\<lparr>job := Some (c, tr @ [EvVol (VolUpdate ns w) (Inl e)])\<rparr>)"
| stop: "sys_step s (s\<lparr>job := None\<rparr>)"
| edit: "same_stage w (stored s) \<Longrightarrow> sys_step s (store w s)"
| delete: "DeletionTimestamp (stored s) = None \<Longrightarrow> sys_step s (marked_deleted t s)"






lemma store_simps [simp]:
  "stored (store w s) = w" "superseded (store w s) = insert (stored s) (superseded s)" "devices (store w s) = devices s"
  "job (store w s) = job s" "check_failed (store w s) = check_failed s" "worked_outdated (store w s) = worked_outdated s"
  "deleted_early (store w s) = deleted_early s"
  by (simp_all add: store_def)











text \<open>The runs that the witnesses use.\<close>

definition ex_system :: system where
  "ex_system = \<lparr>stored = ex_pending_vol, superseded = {}, devices = {}, job = None, check_failed = False,
     worked_outdated = False, deleted_early = False\<rparr>"


definition ex_created :: system where
  "ex_created = ex_system\<lparr>devices := {dev_of ex_pending_vol}, job := Some (ex_pending_vol, take 2 ex_create_run)\<rparr>"

lemma ex_created_reached: "sys_step\<^sup>*\<^sup>* ex_system ex_created"
proof -
  let ?stat = "EvStat (dev_of ex_pending_vol) StatNotExist"
  let ?make = "EvExec (RunSplit LVCreate ([''-L'', ''1073741824b''] @ create_args_rest ex_pending_vol)) ([], None)"
  let ?s1 = "ex_system\<lparr>job := Some (ex_pending_vol, [])\<rparr>" and ?s2 = "ex_system\<lparr>job := Some (ex_pending_vol, [?stat])\<rparr>"
  note run = ex_create_runs [of "\<lambda>_. Inr (\<lambda>_. True)", unfolded ex_create_run_def]
  have made: "made (''-L'' # ''1073741824b'' # create_args_rest ex_pending_vol) = {dev_of ex_pending_vol}"
    using made_create [of ex_pending_vol "[''-L'', ''1073741824b'']"] by simp
  have "sys_step ex_system ?s1" by (rule sys_step.take) (simp_all add: ex_system_def kept_def)
  moreover have "sys_step ?s1 (performed ex_pending_vol [] ?stat ?s1)"
    by (rule sys_step.operate [where post = "drop 1 ex_create_run" and r = "Val (Inr ())"
        and G = ex_G and Compile = "\<lambda>_. Inr (\<lambda>_. True)"])
      (use run in \<open>simp_all add: ex_system_def honest_event_def ex_create_run_def\<close>)
  moreover have "performed ex_pending_vol [] ?stat ?s1 = ?s2"
    by (simp add: performed_def ex_system_def lv_change_def stat_error_def)
  moreover have "sys_step ?s2 (performed ex_pending_vol [?stat] ?make ?s2)"
    by (rule sys_step.operate [where post = "drop 2 ex_create_run" and r = "Val (Inr ())"
        and G = ex_G and Compile = "\<lambda>_. Inr (\<lambda>_. True)"])
      (use run in \<open>simp_all add: ex_system_def honest_event_def ex_create_run_def\<close>)
  moreover have "performed ex_pending_vol [?stat] ?make ?s2 = ex_created"
    by (simp add: performed_def ex_system_def ex_created_def lv_change_def stat_error_def made same_stage_def ex_create_run_def)
  ultimately show ?thesis by (simp add: converse_rtranclp_into_rtranclp)
qed



text \<open>The proviso on early deletion is needed: a resource that is deleted between \<^verbatim>\<open>lvcreate\<close> and the update that adds
  its finalizer is gone, and its logical volume is left behind.\<close>

lemma early_deletion_leaks:
  "sys_step\<^sup>*\<^sup>* ex_system (marked_deleted t ex_created) \<and> phase_of (stored (marked_deleted t ex_created)) = Released \<and>
   dev_of ex_pending_vol \<in> devices (marked_deleted t ex_created) \<and>
   \<not> check_failed (marked_deleted t ex_created) \<and> \<not> worked_outdated (marked_deleted t ex_created)"
proof -
  have "sys_step ex_created (marked_deleted t ex_created)"
    by (rule sys_step.delete) (simp add: ex_created_def ex_system_def)
  with ex_created_reached have "sys_step\<^sup>*\<^sup>* ex_system (marked_deleted t ex_created)" by simp
  then show ?thesis by (simp add: marked_deleted_def Let_def phase_of_def ex_created_def ex_system_def store_def)
qed

section \<open>Properties\<close>

text \<open>(C6) The volume controller refines the life cycle. Assume that a device check that does not fail tells whether
  the device exists, that an accepted update is answered with the stored object, and that a failed \<^verbatim>\<open>lvcreate\<close> or
  \<^verbatim>\<open>lvremove\<close> changes nothing. Then each operation of each reconciliation takes the stored resource and the devices
  along one step of the abstract machine, or leaves the abstract state as it is: a volume is moved to another
  group, or fails, only if it has no logical volume in the recorded group or a check has failed; it becomes
  available only if it has one there; one is created only in the recorded group; and one is removed, and the
  resource released, only when its deletion was requested, the latter only when none is left in the recorded group.
  An update that is sent is such a step also if its answer is an error.\<close>

theorem sync_refines_lifecycle:
  assumes "runs (syncVol G Compile vol) (pre @ ev # post) r" and "kept vol" and "honest S (pre @ [ev])"
  shows "lc_step\<^sup>=\<^sup>= (lc (acked vol pre) (lvs S pre) (b \<or> blind pre))
      (lc (acked vol (pre @ [ev])) (lvs S (pre @ [ev])) (b \<or> blind (pre @ [ev]))) \<and>
    (\<forall>ns w y. ev = EvVol (VolUpdate ns w) y \<longrightarrow> Name w = Name (acked vol pre) \<and>
       lc_step\<^sup>=\<^sup>= (lc (acked vol pre) (lvs S pre) (b \<or> blind pre)) (lc w (lvs S pre) (b \<or> blind pre)))"
  using op_simulated [OF assms] lc_step_blind [of _ _ _ _ _ _ _ _ b] unfolding lc_def by blast

theorem sync_refines_lifecycle_witness:
  "lc_step\<^sup>=\<^sup>= (Waiting, ''lvmvg'', {''lvmvg''}, False) (Available, ''lvmvg'', {''lvmvg''}, False)"
proof -
  let ?w = "vol_info ex_G ex_pending_vol LVMStatusReady"
  have run: "runs (syncVol ex_G (\<lambda>_. Inr (\<lambda>_. True)) ex_pending_vol)
      (take 3 ex_create_run @ EvVol (VolUpdate ''openebs'' ?w) (Inr ?w) # []) (Val (Inr ()))"
    using ex_create_runs [of "\<lambda>_. Inr (\<lambda>_. True)"] by (simp add: ex_create_run_def)
  have lv: "lvs {} (take 3 ex_create_run) = {dev_of ex_pending_vol}"
    using made_create [of ex_pending_vol "[''-L'', ''1073741824b'']"] by (simp add: ex_create_run_def lv_change_def)
  have H: "held ex_pending_vol {dev_of ex_pending_vol} = {''lvmvg''}"
    using held_insert [of ex_pending_vol "{}"] by (simp add: held_def)
  then have H': "held ?w {dev_of ex_pending_vol} = {''lvmvg''}"
    using held_cong [of ?w ex_pending_vol] by (simp add: vol_info_def)
  have "kept ex_pending_vol" "honest {} (take 3 ex_create_run @ [EvVol (VolUpdate ''openebs'' ?w) (Inr ?w)])"
    by (simp_all add: kept_def ex_create_run_def honest_event_def lv_change_def)
  from sync_refines_lifecycle [OF run this, of False, THEN conjunct2] have
    "lc_step\<^sup>=\<^sup>= (lc (acked ex_pending_vol (take 3 ex_create_run)) {dev_of ex_pending_vol} (blind (take 3 ex_create_run)))
       (lc ?w {dev_of ex_pending_vol} (blind (take 3 ex_create_run)))"
    by (simp only: lv) simp
  moreover have "acked ex_pending_vol (take 3 ex_create_run) = ex_pending_vol" "\<not> blind (take 3 ex_create_run)"
    by (simp_all add: ex_create_run_def stat_error_def)
  moreover have "phase_of ex_pending_vol = Waiting" "phase_of ?w = Available" "VolGroup (Spec ?w) = ''lvmvg''"
    by (simp_all add: phase_of_def vol_info_def)
  ultimately show ?thesis by (simp add: lc_def H H')
qed



end
