(* ===== verification/Snap_Controller.thy ===== *)
theory Snap_Controller
  imports Lvm_Command Reconcile
begin

text \<open>
  \<^verbatim>\<open>src/pkg/mgmt/snapshot/snapshot.go\<close>: the controller of the \<^verbatim>\<open>LVMSnapshot\<close> resources of a node.
\<close>

section \<open>Definitions\<close>

definition snap_isDeletionCandidate :: "LVMSnapshot \<Rightarrow> bool" where
  "snap_isDeletionCandidate snap = (DeletionTimestamp snap \<noteq> None)"

definition snap_getStructuredObject :: "LVMSnapshot iface \<Rightarrow> LVMSnapshot option" where
  "snap_getStructuredObject obj = getStructuredObject obj"

definition enqueueSnap :: "key_funcs \<Rightarrow> LVMSnapshot \<Rightarrow> unit prog" where
  "enqueueSnap KF snap = enqueue KF snap"

definition syncSnap :: "globals \<Rightarrow> LVMSnapshot \<Rightarrow> (gerr + unit) prog" where
  "syncSnap G snap =
     (if snap_isDeletionCandidate snap then tryP (DestroySnapshot snap) (\<lambda>_. RemoveSnapFinalizer G snap)
      else if snap_State (snap_Status snap) = LVMStatusPending
        then tryP (lvm_CreateSnapshot snap) (\<lambda>_. UpdateSnapInfo G snap)
      else Ret (Inr ()))"

definition snap_syncHandler :: "globals \<Rightarrow> key_funcs \<Rightarrow> string \<Rightarrow> (gerr + unit) prog" where
  "snap_syncHandler G KF key =
     (case SplitMetaNamespaceKey KF key of
        Inl _ \<Rightarrow> Ret (Inr ())
      | Inr (ns, name) \<Rightarrow>
          OpSnapCache (ns, name) (\<lambda>r. case r of
              Inl e \<Rightarrow> if IsNotFound e then Ret (Inr ()) else Ret (Inl e)
            | Inr (snap, _) \<Rightarrow> syncSnap G snap))"

definition addSnap :: "globals \<Rightarrow> key_funcs \<Rightarrow> LVMSnapshot iface \<Rightarrow> unit prog" where
  "addSnap G KF obj =
     (case snap_getStructuredObject obj of
        None \<Rightarrow> Ret ()
      | Some snap \<Rightarrow> if NodeID G \<noteq> snap_OwnerNodeID (snap_Spec snap) then Ret () else enqueueSnap KF snap)"

definition updateSnap :: "globals \<Rightarrow> key_funcs \<Rightarrow> LVMSnapshot iface \<Rightarrow> LVMSnapshot iface \<Rightarrow> unit prog" where
  "updateSnap G KF oldObj newObj =
     (case snap_getStructuredObject newObj of
        None \<Rightarrow> Ret ()
      | Some newSnap \<Rightarrow>
          if NodeID G \<noteq> snap_OwnerNodeID (snap_Spec newSnap) then Ret ()
          else if snap_isDeletionCandidate newSnap then enqueueSnap KF newSnap else Ret ())"

definition deleteSnap :: "globals \<Rightarrow> key_funcs \<Rightarrow> LVMSnapshot iface \<Rightarrow> unit prog" where
  "deleteSnap G KF obj =
     (case deleted_object obj of
        None \<Rightarrow> Ret ()
      | Some snap \<Rightarrow> if NodeID G \<noteq> snap_OwnerNodeID (snap_Spec snap) then Ret () else enqueueSnap KF snap)"

definition snap_processNextWorkItem :: "globals \<Rightarrow> key_funcs \<Rightarrow> bool prog" where
  "snap_processNextWorkItem G KF = process_next (snap_syncHandler G KF)"

definition snap_runWorker :: "globals \<Rightarrow> key_funcs \<Rightarrow> nat \<Rightarrow> bool prog" where
  "snap_runWorker G KF n = worker_rounds (snap_processNextWorkItem G KF) n"

section \<open>The work queue\<close>

lemma snap_syncHandler_quiet: "only (\<lambda>ev. \<not> is_queue_event ev) (snap_syncHandler G KF key)"
proof -
  have "only (\<lambda>ev. \<not> is_queue_event ev) (DestroySnapshot snap)" for snap
    unfolding only_wp by (rule wp_DestroySnapshot) auto
  moreover have "only (\<lambda>ev. \<not> is_queue_event ev) (lvm_CreateSnapshot snap)"
    "only (\<lambda>ev. \<not> is_queue_event ev) (RemoveSnapFinalizer G snap)"
    "only (\<lambda>ev. \<not> is_queue_event ev) (UpdateSnapInfo G snap)" for snap
    by (simp_all add: only_wp wp_simps)
  ultimately show ?thesis
    unfolding snap_syncHandler_def syncSnap_def by (intro only_intros) simp_all
qed

interpretation snap_rec: reconciler "snap_syncHandler G KF" "snap_processNextWorkItem G KF" for G KF
  by unfold_locales (simp_all only: snap_processNextWorkItem_def snap_syncHandler_quiet)

section \<open>What a reconciliation does\<close>

text \<open>A snapshot that is being deleted: an error of the removal ends the reconciliation, after a success the
  only write removes the finalizers.\<close>

definition snap_delete_spec :: "LVMSnapshot \<Rightarrow> (gerr + unit) outcome \<Rightarrow> event list \<Rightarrow> bool" where
  "snap_delete_spec snap r tr = (\<exists>x d u. tr = d @ u \<and> runs (DestroySnapshot snap) d (Val x) \<and>
     (u = [] \<longleftrightarrow> (\<exists>e. x = Inl e)) \<and> (x \<noteq> Inr () \<longrightarrow> r = Val x) \<and>
     (\<forall>ns w y. EvSnap (SnapUpdate ns w) y \<in> set tr \<longrightarrow> x = Inr () \<and> w = snap\<lparr>Finalizers := None\<rparr>))"

text \<open>A pending snapshot: \<^verbatim>\<open>lvcreate\<close> runs first, once; its error ends the reconciliation, after its success the
  resource is marked as ready unless it has finalizers.\<close>

definition snap_create_spec :: "globals \<Rightarrow> LVMSnapshot \<Rightarrow> (gerr + unit) outcome \<Rightarrow> event list \<Rightarrow> bool" where
  "snap_create_spec G snap r tr =
     (\<exists>out err u. tr = EvExec (RunSplit LVCreate (buildLVMSnapCreateArgs snap)) (out, err) # u \<and>
       (err \<noteq> None \<longrightarrow> u = [] \<and> r = Val (of_err err)) \<and>
       (err = None \<longrightarrow>
         (Finalizers snap \<noteq> None \<and> u = [] \<and> r = Val (Inr ()) \<or>
          Finalizers snap = None \<and> (\<exists>e e'. u = [cs_fail e] \<and> r = Val (Inl e')) \<or>
          Finalizers snap = None \<and> (\<exists>y. r = Val (map_sum (\<lambda>e. e) (\<lambda>_. ()) y) \<and>
            u = [cs_ok, EvSnap (SnapUpdate (LvmNamespace G) (snap_info G snap)) y]))))"

lemma syncSnap_delete:
  assumes "runs (syncSnap G snap) tr r" and "snap_isDeletionCandidate snap"
  shows "snap_delete_spec snap r tr"
proof -
  have no_crash: "wp (DestroySnapshot snap) (\<lambda>r t. (\<exists>x. r = Val x) \<and> (\<forall>ns w y. EvSnap (SnapUpdate ns w) y \<notin> set t)) []"
    by (rule wp_DestroySnapshot) auto
  have rest: "u \<noteq> [] \<and> (\<forall>ns w y. EvSnap (SnapUpdate ns w) y \<in> set u \<longrightarrow> w = snap\<lparr>Finalizers := None\<rparr>)"
    if "runs (RemoveSnapFinalizer G snap) u r" for u
    by (rule wp_runs [OF _ that]) (simp add: wp_RemoveSnapFinalizer)
  from assms consider e where "r = Val (Inl e)" "runs (DestroySnapshot snap) tr (Val (Inl e))"
    | d u where "tr = d @ u" "runs (DestroySnapshot snap) d (Val (Inr ()))" "runs (RemoveSnapFinalizer G snap) u r"
    using wp_runs [OF no_crash] by (auto simp: syncSnap_def runs_tryP) blast
  then show ?thesis
    unfolding snap_delete_spec_def
  proof cases
    case (1 e)
    with wp_runs [OF no_crash 1(2)] show "\<exists>x d u. tr = d @ u \<and> runs (DestroySnapshot snap) d (Val x) \<and>
        (u = [] \<longleftrightarrow> (\<exists>e. x = Inl e)) \<and> (x \<noteq> Inr () \<longrightarrow> r = Val x) \<and>
        (\<forall>ns w y. EvSnap (SnapUpdate ns w) y \<in> set tr \<longrightarrow> x = Inr () \<and> w = snap\<lparr>Finalizers := None\<rparr>)"
      by (intro exI [of _ "Inl e"] exI [of _ tr] exI [of _ "[]"]) simp
  next
    case (2 d u)
    with wp_runs [OF no_crash 2(2)] rest [OF 2(3)] show "\<exists>x d u. tr = d @ u \<and> runs (DestroySnapshot snap) d (Val x) \<and>
        (u = [] \<longleftrightarrow> (\<exists>e. x = Inl e)) \<and> (x \<noteq> Inr () \<longrightarrow> r = Val x) \<and>
        (\<forall>ns w y. EvSnap (SnapUpdate ns w) y \<in> set tr \<longrightarrow> x = Inr () \<and> w = snap\<lparr>Finalizers := None\<rparr>)"
      by (intro exI [of _ "Inr ()"] exI [of _ d] exI [of _ u]) auto
  qed
qed

lemma syncSnap_create_wp:
  assumes "\<not> snap_isDeletionCandidate snap" and "snap_State (snap_Status snap) = LVMStatusPending"
  shows "wp (syncSnap G snap) (snap_create_spec G snap) []"
  using assms by (auto simp: syncSnap_def wp_simps split_option_all split_sum_all snap_create_spec_def)

section \<open>Properties\<close>

text \<open>(C22) The reconciliation of a snapshot. One that is being deleted loses its finalizers only after the
  removal of the snapshot reported success. Otherwise only the state \<^verbatim>\<open>Pending\<close> causes anything: \<^verbatim>\<open>lvcreate\<close>
  runs first, exactly once; if it fails its error is returned and the resource is not touched; if it
  succeeds, the next write (if there are no finalizers yet) marks the resource as \<^verbatim>\<open>Ready\<close>.\<close>

theorem sync_snap_runs:
  assumes "runs (syncSnap G snap) tr r"
  shows "if DeletionTimestamp snap \<noteq> None then snap_delete_spec snap r tr
    else if snap_State (snap_Status snap) = LVMStatusPending then snap_create_spec G snap r tr
    else tr = [] \<and> r = Val (Inr ())"
proof -
  have "tr = [] \<and> r = Val (Inr ())"
    if "\<not> snap_isDeletionCandidate snap" "snap_State (snap_Status snap) \<noteq> LVMStatusPending"
    using assms that by (simp add: syncSnap_def)
  with syncSnap_delete [OF assms] wp_runs [OF syncSnap_create_wp assms] show ?thesis
    by (simp add: snap_isDeletionCandidate_def)
qed

definition ex_pending_snap :: LVMSnapshot where
  "ex_pending_snap = ex_snap\<lparr>snap_Status := \<lparr>snap_State = LVMStatusPending\<rparr>\<rparr>"

theorem sync_snap_runs_witness:
  "snap_create_spec ex_G ex_pending_snap (Val (Inl (ExternErr ''exit status 5'')))
     [EvExec (RunSplit LVCreate (buildLVMSnapCreateArgs ex_pending_snap)) ([], Some (ExternErr ''exit status 5''))]"
proof -
  have ex: "DeletionTimestamp ex_pending_snap = None" "snap_State (snap_Status ex_pending_snap) = LVMStatusPending"
    by (simp_all add: ex_pending_snap_def ex_snap_def zero_LVMSnapshot_def)
  then have "runs (syncSnap ex_G ex_pending_snap)
     [EvExec (RunSplit LVCreate (buildLVMSnapCreateArgs ex_pending_snap)) ([], Some (ExternErr ''exit status 5''))]
     (Val (Inl (ExternErr ''exit status 5'')))"
    by (simp add: syncSnap_def snap_isDeletionCandidate_def lvm_CreateSnapshot_def RunCommandSplit_def tryP_def)
  from sync_snap_runs [OF this] ex show ?thesis by simp
qed

text \<open>(C31) A failing \<^verbatim>\<open>lvs\<close> makes the controller forget a snapshot: for every snapshot that is being deleted there
  is a run in which the only command is an \<^verbatim>\<open>lvs\<close> that fails, no \<^verbatim>\<open>lvremove\<close> runs, and the finalizers are
  removed all the same and success is reported, so that the logical volume may stay behind without a
  resource.\<close>

theorem sync_snap_forgets:
  assumes "DeletionTimestamp snap \<noteq> None"
  shows "\<exists>tr. runs (syncSnap G snap) tr (Val (Inr ())) \<and>
    (\<exists>q out e. [ev \<leftarrow> tr. \<exists>c y. ev = EvExec c y] = [EvExec (RunSplit LVList q) (out, Some e)]) \<and>
    (\<exists>y. EvSnap (SnapUpdate (LvmNamespace G) (snap\<lparr>Finalizers := None\<rparr>)) (Inr y) \<in> set tr)"
proof -
  let ?lvs = "EvExec (RunSplit ''lvs'' [snap_VolGroup (snap_Spec snap) @ ''/'' @ getLVMSnapName (Name snap),
        ''--noheadings'', ''-o'', ''lv_name'']) ([], Some (ExternErr ''exit status 5''))"
  have "runs (syncSnap G snap)
      [?lvs, cs_ok, EvSnap (SnapUpdate (LvmNamespace G) (snap\<lparr>Finalizers := None\<rparr>)) (Inr snap)] (Val (Inr ()))"
    using assms
    by (simp add: syncSnap_def snap_isDeletionCandidate_def DestroySnapshot_def isSnapshotExists_def RunCommandSplit_def
        tryP_def RemoveSnapFinalizer_def snap_kc_Update_def snap_defaultUpdate_def with_client_def getClientOrCached_def
        getClientsetForPathOrDirect_def callErr_def)
  then show ?thesis
    by (intro exI [of _ "[?lvs, cs_ok, EvSnap (SnapUpdate (LvmNamespace G) (snap\<lparr>Finalizers := None\<rparr>)) (Inr snap)]"] conjI) auto
qed

theorem sync_snap_forgets_witness:
  "\<exists>tr. runs (syncSnap ex_G (ex_snap\<lparr>DeletionTimestamp := Some 0\<rparr>)) tr (Val (Inr ()))"
proof -
  have "DeletionTimestamp (ex_snap\<lparr>DeletionTimestamp := Some 0\<rparr>) \<noteq> None" by simp
  from sync_snap_forgets [OF this, of ex_G] show ?thesis by blast
qed

end
