(* ===== verification/Node_Controller.thy ===== *)
theory Node_Controller
  imports Lvm_Report Reconcile
begin

text \<open>
  \<^verbatim>\<open>src/pkg/mgmt/lvmnode/lvmnode.go\<close>: the controller that publishes the volume groups of the node in its
  \<^verbatim>\<open>LVMNode\<close> resource. \<open>ownerRef\<close> is the field of the controller that holds the reference to the Kubernetes
  node. The semantic equality of \<^verbatim>\<open>src/pkg/equality/semantic.go\<close> compares quantities by their value and does
  not distinguish a missing from an empty list, which is the equality of the model.
\<close>

section \<open>Definitions\<close>

definition node_listLVMVolumeGroup :: "(gerr + VolumeGroup list) prog" where
  "node_listLVMVolumeGroup = ListLVMVolumeGroup True"

definition node_getStructuredObject :: "LVMNode iface \<Rightarrow> LVMNode option" where
  "node_getStructuredObject obj = getStructuredObject obj"

fun isOwnerRefsUpdateRequired :: "OwnerReference \<Rightarrow> OwnerReference list \<Rightarrow> OwnerReference list \<times> bool" where
  "isOwnerRefsUpdateRequired req [] = ([req], True)"
| "isOwnerRefsUpdateRequired req (ref # refs) =
     (if or_UID ref \<noteq> or_UID req then
        (case isOwnerRefsUpdateRequired req refs of (refs', updated) \<Rightarrow> (ref # refs', updated))
      else if or_Controller ref \<noteq> or_Controller req then (ref\<lparr>or_Controller := or_Controller req\<rparr> # refs, True)
      else (ref # refs, False))"

text \<open>The node that \<^verbatim>\<open>syncNode\<close> wants to see, made from the cached one, and whether that is a change.\<close>

definition node_update :: "OwnerReference \<Rightarrow> VolumeGroup list \<Rightarrow> LVMNode \<Rightarrow> LVMNode \<times> bool" where
  "node_update ownerRef vgs node =
     (let (node1, updateRequired1) =
            (case isOwnerRefsUpdateRequired ownerRef (OwnerReferences node) of
               (ownerRefs, True) \<Rightarrow> (node\<lparr>OwnerReferences := ownerRefs\<rparr>, True)
             | (_, False) \<Rightarrow> (node, False))
      in if VolumeGroups node1 \<noteq> vgs then (node1\<lparr>VolumeGroups := vgs\<rparr>, True) else (node1, updateRequired1))"

definition syncNode :: "OwnerReference \<Rightarrow> string \<Rightarrow> string \<Rightarrow> (gerr + unit) prog" where
  "syncNode ownerRef namespace name =
     OpNodeCache (namespace, name) (\<lambda>r.
       let cached = (case r of
             Inl e \<Rightarrow> if IsNotFound e then Inr None else Inl e
           | Inr (node, None) \<Rightarrow> Inr (Some node)
           | Inr (_, Some _) \<Rightarrow> Inl (NewErr [MStr ''couldn't get node object'']))
       in case cached of
         Inl e \<Rightarrow> Ret (Inl e)
       | Inr cachedNode \<Rightarrow>
           tryP node_listLVMVolumeGroup (\<lambda>vgs.
             case cachedNode of
               None \<Rightarrow>
                 (case node_Build (chain node_NewBuilder
                         [node_WithNamespace namespace, node_WithName name, node_WithVolumeGroups vgs,
                          node_WithOwnerReferences [ownerRef]]) of
                    Inl e \<Rightarrow> Ret (Inl e)
                  | Inr node \<Rightarrow>
                      bindP (node_kc_Create (kc_for namespace) (Some node)) (\<lambda>r. case r of
                          Inl e \<Rightarrow> Ret (Inl (NewErr [MStr ''create lvm node '', MStr namespace, MStr ''/'', MStr name, MStr '': '', MErr e]))
                        | Inr _ \<Rightarrow> Ret (Inr ())))
             | Some node \<Rightarrow>
                 (case node_update ownerRef vgs node of
                    (_, False) \<Rightarrow> Ret (Inr ())
                  | (node', True) \<Rightarrow>
                      bindP (node_kc_Update (kc_for namespace) (Some node')) (\<lambda>r. case r of
                          Inl e \<Rightarrow> Ret (Inl (NewErr [MStr ''update lvm node '', MStr namespace, MStr ''/'', MStr name, MStr '': '', MErr e]))
                        | Inr _ \<Rightarrow> Ret (Inr ())))))"

definition node_syncHandler :: "key_funcs \<Rightarrow> OwnerReference \<Rightarrow> string \<Rightarrow> (gerr + unit) prog" where
  "node_syncHandler KF ownerRef key =
     (case SplitMetaNamespaceKey KF key of
        Inl _ \<Rightarrow> Ret (Inr ())
      | Inr (namespace, name) \<Rightarrow> syncNode ownerRef namespace name)"

definition enqueueNode :: "globals \<Rightarrow> key_funcs \<Rightarrow> LVMNode \<Rightarrow> unit prog" where
  "enqueueNode G KF node =
     (if Namespace node \<noteq> LvmNamespace G \<or> Name node \<noteq> NodeID G then Ret () else enqueue KF node)"

definition addNode :: "globals \<Rightarrow> key_funcs \<Rightarrow> LVMNode iface \<Rightarrow> unit prog" where
  "addNode G KF obj = (case node_getStructuredObject obj of None \<Rightarrow> Ret () | Some node \<Rightarrow> enqueueNode G KF node)"

definition updateNode :: "globals \<Rightarrow> key_funcs \<Rightarrow> LVMNode iface \<Rightarrow> LVMNode iface \<Rightarrow> unit prog" where
  "updateNode G KF oldObj newObj =
     (case node_getStructuredObject newObj of None \<Rightarrow> Ret () | Some newNode \<Rightarrow> enqueueNode G KF newNode)"

definition deleteNode :: "globals \<Rightarrow> key_funcs \<Rightarrow> LVMNode iface \<Rightarrow> unit prog" where
  "deleteNode G KF obj = (case deleted_object obj of None \<Rightarrow> Ret () | Some node \<Rightarrow> enqueueNode G KF node)"

definition node_processNextWorkItem :: "key_funcs \<Rightarrow> OwnerReference \<Rightarrow> bool prog" where
  "node_processNextWorkItem KF ownerRef = process_next (node_syncHandler KF ownerRef)"

definition node_runWorker :: "key_funcs \<Rightarrow> OwnerReference \<Rightarrow> nat \<Rightarrow> bool prog" where
  "node_runWorker KF ownerRef n = worker_rounds (node_processNextWorkItem KF ownerRef) n"

text \<open>The loop of \<^verbatim>\<open>Run\<close> that puts the node of this process on the queue, for \<open>n\<close> ticks of the timer before the
  controller is stopped.\<close>

primrec node_poll :: "globals \<Rightarrow> nat \<Rightarrow> unit prog" where
  "node_poll G 0 = Ret ()"
| "node_poll G (Suc n) = bindP (callUnit (WqAdd (LvmNamespace G @ ''/'' @ NodeID G))) (\<lambda>_. node_poll G n)"

section \<open>The work queue\<close>

lemma node_syncHandler_quiet: "only (\<lambda>ev. \<not> is_queue_event ev) (node_syncHandler KF ownerRef key)"
  unfolding node_syncHandler_def syncNode_def node_listLVMVolumeGroup_def ListLVMVolumeGroup_def
    ReloadLVMMetadataCache_def RunCommandSplit_def node_kc_Create_def node_kc_Update_def with_client_def
    getClientOrCached_def getClientsetForPathOrDirect_def node_defaultCreate_def node_defaultUpdate_def
  by (intro only_intros) (auto intro!: only_intros split: bool.splits)

interpretation node_rec: reconciler "node_syncHandler KF ownerRef" "node_processNextWorkItem KF ownerRef" for KF ownerRef
  by unfold_locales (simp_all only: node_processNextWorkItem_def node_syncHandler_quiet)

section \<open>The wanted state\<close>

text \<open>The reference to the Kubernetes node is there, with the wanted controller field (of the first reference
  with its identifier), and the volume groups are those reported.\<close>

definition owner_ok :: "OwnerReference \<Rightarrow> OwnerReference list \<Rightarrow> bool" where
  "owner_ok req refs = (\<exists>ref. find (\<lambda>r. or_UID r = or_UID req) refs = Some ref \<and> or_Controller ref = or_Controller req)"

definition node_desired :: "OwnerReference \<Rightarrow> VolumeGroup list \<Rightarrow> LVMNode \<Rightarrow> bool" where
  "node_desired ownerRef vgs node = (owner_ok ownerRef (OwnerReferences node) \<and> VolumeGroups node = vgs)"

lemma owner_ok_Cons [simp]:
  "owner_ok req (ref # refs) = (if or_UID ref = or_UID req then or_Controller ref = or_Controller req else owner_ok req refs)"
  by (simp add: owner_ok_def)

lemma owner_refs_spec:
  assumes "isOwnerRefsUpdateRequired req refs = (refs', updated)"
  shows "owner_ok req refs' \<and> (updated \<longleftrightarrow> \<not> owner_ok req refs) \<and> (\<not> updated \<longrightarrow> refs' = refs) \<and>
    map or_UID refs = take (length refs) (map or_UID refs')"
  using assms
proof (induction refs arbitrary: refs' updated)
  case Nil
  then show ?case by (auto simp: owner_ok_def)
next
  case (Cons ref refs)
  obtain r u where rec: "isOwnerRefsUpdateRequired req refs = (r, u)" by fastforce
  note IH = Cons.IH [OF rec]
  show ?case
  proof (cases "or_UID ref = or_UID req")
    case True
    with Cons.prems show ?thesis by (cases "or_Controller ref = or_Controller req") auto
  next
    case False
    with Cons.prems rec have "refs' = ref # r" "updated = u" by auto
    with False IH show ?thesis by simp
  qed
qed

lemma node_update_spec:
  assumes "node_update ownerRef vgs node = (node', updated)"
  shows "node_desired ownerRef vgs node'" and "updated \<longleftrightarrow> \<not> node_desired ownerRef vgs node"
    and "Name node' = Name node" and "Namespace node' = Namespace node"
proof -
  obtain refs u where refs: "isOwnerRefsUpdateRequired ownerRef (OwnerReferences node) = (refs, u)" by fastforce
  have spec: "owner_ok ownerRef refs" "u \<longleftrightarrow> \<not> owner_ok ownerRef (OwnerReferences node)"
    "\<not> u \<Longrightarrow> OwnerReferences node = refs"
    using owner_refs_spec [OF refs] by auto
  have fields: "OwnerReferences node' = refs \<and> VolumeGroups node' = vgs \<and> Name node' = Name node \<and>
      Namespace node' = Namespace node \<and> (updated \<longleftrightarrow> u \<or> VolumeGroups node \<noteq> vgs)"
    using assms refs spec(3) by (cases u; cases "VolumeGroups node = vgs") (auto simp: node_update_def)
  show "node_desired ownerRef vgs node'" using spec(1) fields by (simp add: node_desired_def)
  show "updated \<longleftrightarrow> \<not> node_desired ownerRef vgs node" using spec(2) fields by (auto simp: node_desired_def)
  show "Name node' = Name node" "Namespace node' = Namespace node" using fields by simp_all
qed

lemma wp_node_writes [wp_simps]:
  "wp (node_kc_Create (kc_for ns) (Some node)) Q tr \<longleftrightarrow>
     (\<forall>e. Q (Val (Inl (cs_wrap e [MStr ''failed to create lvm node {'', MStr (Name node), MStr ''} in namespace {'', MStr ns, MStr ''}'']))) (tr @ [cs_fail e])) \<and>
     (\<forall>y. Q (Val y) (tr @ [cs_ok, EvNode (NodeCreate ns node) y]))"
  "wp (node_kc_Update (kc_for ns) (Some node)) Q tr \<longleftrightarrow>
     (\<forall>e. Q (Val (Inl (cs_wrap e [MStr ''failed to update lvmnode {'', MStr (Name node), MStr ''} in namespace {'', MStr (Namespace node), MStr ''}'']))) (tr @ [cs_fail e])) \<and>
     (\<forall>y. Q (Val y) (tr @ [cs_ok, EvNode (NodeUpdate ns node) y]))"
  by (auto simp: node_kc_defs wp_simps cs_wrap_def)

text \<open>What follows the listing of the volume groups, for the cached node.\<close>

definition node_written :: "OwnerReference \<Rightarrow> string \<Rightarrow> string \<Rightarrow> VolumeGroup list \<Rightarrow> LVMNode option \<Rightarrow> event list \<Rightarrow> bool" where
  "node_written ownerRef ns name vgs cached u = (case cached of
       None \<Rightarrow> (\<exists>w y. u = [cs_ok, EvNode (NodeCreate ns w) (Inr y)] \<and> Name w = name \<and> Namespace w = ns \<and>
         node_desired ownerRef vgs w)
     | Some node \<Rightarrow>
         if node_desired ownerRef vgs node then u = []
         else (\<exists>w y. u = [cs_ok, EvNode (NodeUpdate ns w) (Inr y)] \<and> Name w = Name node \<and>
           Namespace w = Namespace node \<and> node_desired ownerRef vgs w))"

lemma node_create_written:
  assumes "runs (case node_Build (chain node_NewBuilder
         [node_WithNamespace ns, node_WithName name, node_WithVolumeGroups vgs, node_WithOwnerReferences [ownerRef]]) of
      Inl e \<Rightarrow> Ret (Inl e)
    | Inr node \<Rightarrow> bindP (node_kc_Create (kc_for ns) (Some node)) (\<lambda>r. case r of
          Inl e \<Rightarrow> Ret (Inl (err e)) | Inr _ \<Rightarrow> Ret (Inr ()))) u (Val (Inr ()))"
  shows "node_written ownerRef ns name vgs None u"
proof -
  have "wp (case node_Build (chain node_NewBuilder
         [node_WithNamespace ns, node_WithName name, node_WithVolumeGroups vgs, node_WithOwnerReferences [ownerRef]]) of
      Inl e \<Rightarrow> Ret (Inl e)
    | Inr node \<Rightarrow> bindP (node_kc_Create (kc_for ns) (Some node)) (\<lambda>r. case r of
          Inl e \<Rightarrow> Ret (Inl (err e)) | Inr _ \<Rightarrow> Ret (Inr ())))
      (\<lambda>r u. r = Val (Inr ()) \<longrightarrow> node_written ownerRef ns name vgs None u) []"
    by (auto simp: wp_simps node_builder_defs node_Build_def node_NewBuilder_def on_object_def add_err_def
        node_written_def node_desired_def owner_ok_def split: sum.splits)
  from wp_runs [OF this assms] show ?thesis by simp
qed

lemma node_update_written:
  assumes "runs (case node_update ownerRef vgs node of
      (_, False) \<Rightarrow> Ret (Inr ())
    | (node', True) \<Rightarrow> bindP (node_kc_Update (kc_for ns) (Some node')) (\<lambda>r. case r of
          Inl e \<Rightarrow> Ret (Inl (err e)) | Inr _ \<Rightarrow> Ret (Inr ()))) u (Val (Inr ()))"
  shows "node_written ownerRef ns name vgs (Some node) u"
proof -
  obtain node' updated where upd: "node_update ownerRef vgs node = (node', updated)" by fastforce
  note spec = node_update_spec [OF upd]
  show ?thesis
  proof (cases updated)
    case True
    with assms upd have run: "runs (bindP (node_kc_Update (kc_for ns) (Some node')) (\<lambda>r. case r of
          Inl e \<Rightarrow> Ret (Inl (err e)) | Inr _ \<Rightarrow> Ret (Inr ()))) u (Val (Inr ()))" by simp
    have "wp (bindP (node_kc_Update (kc_for ns) (Some node')) (\<lambda>r. case r of
          Inl e \<Rightarrow> Ret (Inl (err e)) | Inr _ \<Rightarrow> Ret (Inr ())))
        (\<lambda>r u. r = Val (Inr ()) \<longrightarrow> (\<exists>y. u = [cs_ok, EvNode (NodeUpdate ns node') (Inr y)])) []"
      by (simp add: wp_simps split: sum.splits)
    from wp_runs [OF this run] True spec show ?thesis by (auto simp: node_written_def)
  next
    case False
    with assms upd spec show ?thesis by (auto simp: node_written_def)
  qed
qed

section \<open>Properties\<close>

text \<open>(C24) Reconciling the owner references of a node resource reaches a fixed point in one step: afterwards the
  reference to the Kubernetes node is present with the wanted controller field, doing it again changes
  nothing, a change is reported exactly when it was missing or wrong, and no other reference is dropped
  or reordered.\<close>

theorem owner_refs_converge:
  assumes "isOwnerRefsUpdateRequired req refs = (refs', updated)"
  shows "owner_ok req refs' \<and> isOwnerRefsUpdateRequired req refs' = (refs', False) \<and>
    (updated \<longleftrightarrow> \<not> owner_ok req refs) \<and> map or_UID refs = take (length refs) (map or_UID refs')"
proof -
  obtain refs'' u where again: "isOwnerRefsUpdateRequired req refs' = (refs'', u)" by fastforce
  from owner_refs_spec [OF assms] owner_refs_spec [OF again] have "u = False" "refs'' = refs'" by blast+
  with owner_refs_spec [OF assms] again show ?thesis by blast
qed

theorem owner_refs_converge_witness:
  "owner_ok (OwnerReference.make ''v1'' ''Node'' ''node-1'' ''u-1'' None)
     [OwnerReference.make ''v1'' ''Pod'' ''p'' ''u-2'' None, OwnerReference.make ''v1'' ''Node'' ''node-1'' ''u-1'' None]"
proof -
  have "isOwnerRefsUpdateRequired (OwnerReference.make ''v1'' ''Node'' ''node-1'' ''u-1'' None)
     [OwnerReference.make ''v1'' ''Pod'' ''p'' ''u-2'' None] =
     ([OwnerReference.make ''v1'' ''Pod'' ''p'' ''u-2'' None, OwnerReference.make ''v1'' ''Node'' ''node-1'' ''u-1'' None], True)"
    by (simp add: OwnerReference.make_def)
  from owner_refs_converge [OF this] show ?thesis by simp
qed

text \<open>(C23) A successful reconciliation of the node resource publishes what LVM reports. The volume groups are
  listed exactly once, after a rescan. If the cached resource already shows them and refers to the
  Kubernetes node, nothing is written; if it does not, one acknowledged update of that resource makes it
  so; if there is no resource, one acknowledged creation under the requested name does.\<close>

theorem sync_node_publishes:
  assumes "runs (syncNode ownerRef ns name) tr (Val (Inr ()))"
  shows "\<exists>cached vgs scan u. runs (ListLVMVolumeGroup True) scan (Val (Inr vgs)) \<and>
    node_written ownerRef ns name vgs cached u \<and>
    (case cached of
       Some node \<Rightarrow> tr = EvNodeCache (ns, name) (Inr (node, None)) # scan @ u
     | None \<Rightarrow> \<exists>e. IsNotFound e \<and> tr = EvNodeCache (ns, name) (Inl e) # scan @ u)"
proof -
  from assms obtain y tr' where tr: "tr = EvNodeCache (ns, name) y # tr'" by (auto simp: syncNode_def)
  consider e where "y = Inl e" | node where "y = Inr (node, None)" | node e where "y = Inr (node, Some e)"
    by (metis not_None_eq old.prod.exhaust sum.exhaust)
  then show ?thesis
  proof cases
    case (1 e)
    with assms tr have "IsNotFound e" by (auto simp: syncNode_def split: if_splits)
    with 1 assms tr obtain vgs scan u where scan: "runs (ListLVMVolumeGroup True) scan (Val (Inr vgs))" "tr' = scan @ u"
      and u: "runs (case node_Build (chain node_NewBuilder
         [node_WithNamespace ns, node_WithName name, node_WithVolumeGroups vgs, node_WithOwnerReferences [ownerRef]]) of
          Inl e \<Rightarrow> Ret (Inl e)
        | Inr node \<Rightarrow> bindP (node_kc_Create (kc_for ns) (Some node)) (\<lambda>r. case r of
              Inl e \<Rightarrow> Ret (Inl (NewErr [MStr ''create lvm node '', MStr ns, MStr ''/'', MStr name, MStr '': '', MErr e]))
            | Inr _ \<Rightarrow> Ret (Inr ()))) u (Val (Inr ()))"
      by (auto simp: syncNode_def node_listLVMVolumeGroup_def runs_tryP)
    from node_create_written [OF u] scan \<open>IsNotFound e\<close> 1 tr show ?thesis
      by (intro exI [of _ None] exI [of _ vgs] exI [of _ scan] exI [of _ u]) auto
  next
    case (2 node)
    with assms tr obtain vgs scan u where scan: "runs (ListLVMVolumeGroup True) scan (Val (Inr vgs))" "tr' = scan @ u"
      and u: "runs (case node_update ownerRef vgs node of
          (_, False) \<Rightarrow> Ret (Inr ())
        | (node', True) \<Rightarrow> bindP (node_kc_Update (kc_for ns) (Some node')) (\<lambda>r. case r of
              Inl e \<Rightarrow> Ret (Inl (NewErr [MStr ''update lvm node '', MStr ns, MStr ''/'', MStr name, MStr '': '', MErr e]))
            | Inr _ \<Rightarrow> Ret (Inr ()))) u (Val (Inr ()))"
      by (auto simp: syncNode_def node_listLVMVolumeGroup_def runs_tryP)
    from node_update_written [OF u] scan 2 tr show ?thesis
      by (intro exI [of _ "Some node"] exI [of _ vgs] exI [of _ scan] exI [of _ u]) auto
  qed (use assms tr in \<open>auto simp: syncNode_def\<close>)
qed

definition ex_ownerRef :: OwnerReference where
  "ex_ownerRef = \<lparr>or_APIVersion = ''v1'', or_Kind = ''Node'', or_Name = ''node-1'', or_UID = ''u-1'', or_Controller = None\<rparr>"

definition ex_node :: LVMNode where
  "ex_node = zero_LVMNode\<lparr>Namespace := ''openebs'', Name := ''node-1'', VolumeGroups := [vg_of ex_entry],
     OwnerReferences := [ex_ownerRef]\<rparr>"

definition ex_node_run :: "event list" where
  "ex_node_run = EvNodeCache (''openebs'', ''node-1'') (Inl (ApiErr ReasonNotFound ''gone'')) # ex_list_run @
     [cs_ok, EvNode (NodeCreate ''openebs'' ex_node) (Inr ex_node)]"

lemma ex_node_runs: "runs (syncNode ex_ownerRef ''openebs'' ''node-1'') ex_node_run (Val (Inr ()))"
proof -
  have build: "node_Build (chain node_NewBuilder [node_WithNamespace ''openebs'', node_WithName ''node-1'',
      node_WithVolumeGroups [vg_of ex_entry], node_WithOwnerReferences [ex_ownerRef]]) = Inr ex_node"
    by (simp add: node_builder_defs node_Build_def node_NewBuilder_def on_object_def ex_node_def)
  have create: "runs (node_kc_Create (kc_for ''openebs'') (Some ex_node)) [cs_ok, EvNode (NodeCreate ''openebs'' ex_node) (Inr ex_node)]
      (Val (Inr ex_node))"
    by (simp add: node_kc_Create_def node_defaultCreate_def with_client_def getClientOrCached_def tryP_def
        getClientsetForPathOrDirect_def callErr_def)
  have last: "runs (bindP (node_kc_Create (kc_for ''openebs'') (Some ex_node)) (\<lambda>r. case r of
      Inl e \<Rightarrow> Ret (Inl (err e)) | Inr _ \<Rightarrow> Ret (Inr ()))) [cs_ok, EvNode (NodeCreate ''openebs'' ex_node) (Inr ex_node)]
      (Val (Inr ()))" for err :: "gerr \<Rightarrow> gerr"
    by (rule runs_bindP_ok [OF create, where ?t2.0 = "[]", unfolded append_Nil2]) simp
  show ?thesis
    unfolding syncNode_def ex_node_run_def node_listLVMVolumeGroup_def
    by (simp add: Let_def) (rule runs_tryP_ok [OF ex_list_runs], simp add: build [simplified] last)
qed

theorem sync_node_publishes_witness:
  "\<exists>cached vgs scan u. runs (ListLVMVolumeGroup True) scan (Val (Inr vgs)) \<and>
    node_written ex_ownerRef ''openebs'' ''node-1'' vgs cached u \<and>
    (case cached of
       Some node \<Rightarrow> ex_node_run = EvNodeCache (''openebs'', ''node-1'') (Inr (node, None)) # scan @ u
     | None \<Rightarrow> \<exists>e. IsNotFound e \<and> ex_node_run = EvNodeCache (''openebs'', ''node-1'') (Inl e) # scan @ u)"
  by (rule sync_node_publishes [OF ex_node_runs])

end
