(* ===== verification/Params.thy ===== *)
theory Params
  imports Kubeclient Go_Float "HOL-Library.Multiset"
begin

text \<open>
  \<^verbatim>\<open>src/pkg/driver/params.go\<close>: the parameters of a storage class and of a snapshot class. Three functions of
  libraries are parameters: \<open>ci\<close> (\<^verbatim>\<open>helpers.GetCaseInsensitiveMap\<close>, which lowers the keys of a map), \<open>Compile\<close>
  (\<^verbatim>\<open>regexp.Compile\<close>, an error or the predicate of a pattern) and \<open>quantity\<close> (\<^verbatim>\<open>resource.ParseQuantity\<close> followed by
  the first result of \<^verbatim>\<open>AsInt64\<close>). A compiled expression is kept with its text, which \<^verbatim>\<open>String\<close> returns.
\<close>

section \<open>Definitions\<close>

type_synonym Regexp = "string \<times> (string \<Rightarrow> bool)"

definition MatchString :: "Regexp \<Rightarrow> string \<Rightarrow> bool" where
  "MatchString re s = snd re s"

record VolumeParams =
  vp_VgPattern :: Regexp
  vp_Scheduler :: string
  vp_Shared :: string
  vp_ThinProvision :: string
  vp_PVCName :: string
  vp_PVCNamespace :: string
  vp_PVName :: string

record SnapshotParams =
  sp_SnapSize :: f64
  AbsSnapSize :: bool

abbreviation "VolumeWeighted \<equiv> ''VolumeWeighted''"
abbreviation "CapacityWeighted \<equiv> ''CapacityWeighted''"
abbreviation "SpaceWeighted \<equiv> ''SpaceWeighted''"

text \<open>Reading a Go map: the zero value for an absent key.\<close>

definition entry :: "(string \<rightharpoonup> string) \<Rightarrow> string \<Rightarrow> string" where
  "entry m k = (case m k of None \<Rightarrow> [] | Some v \<Rightarrow> v)"

text \<open>One round of the loop over \<^verbatim>\<open>stringParams\<close>: each key has the pointer to its own field.\<close>

definition set_param :: "string \<Rightarrow> string \<Rightarrow> VolumeParams \<Rightarrow> VolumeParams" where
  "set_param key value p =
     (if key = ''scheduler'' then p\<lparr>vp_Scheduler := value\<rparr>
      else if key = ''shared'' then p\<lparr>vp_Shared := value\<rparr>
      else p\<lparr>vp_ThinProvision := value\<rparr>)"

definition string_param :: "(string \<rightharpoonup> string) \<Rightarrow> string \<Rightarrow> VolumeParams \<Rightarrow> VolumeParams" where
  "string_param m key p = (case m key of None \<Rightarrow> p | Some value \<Rightarrow> set_param key value p)"

definition stringParams :: "string list" where
  "stringParams = [''scheduler'', ''shared'', ''thinprovision'']"

text \<open>The loop ranges over a map; \<open>string_params_order\<close> below shows that its order is irrelevant.\<close>

definition NewVolumeParams ::
  "((string \<rightharpoonup> string) \<Rightarrow> (string \<rightharpoonup> string)) \<Rightarrow> (string \<Rightarrow> gerr + (string \<Rightarrow> bool)) \<Rightarrow> (string \<rightharpoonup> string) \<Rightarrow>
     gerr + VolumeParams" where
  "NewVolumeParams ci Compile m0 =
     (let m = ci m0;
          vgPattern = (case m ''volgroup'' of Some volGroup \<Rightarrow> ''^'' @ volGroup @ ''$'' | None \<Rightarrow> entry m ''vgpattern'')
      in case Compile vgPattern of
          Inl e \<Rightarrow> Inl (NewErr [MStr ''invalid volgroup/vgpattern param '', MStr vgPattern, MStr '': '', MErr e])
        | Inr re \<Rightarrow>
            let params = \<lparr>vp_VgPattern = (vgPattern, re), vp_Scheduler = SpaceWeighted, vp_Shared = ''no'',
                          vp_ThinProvision = ''no'', vp_PVCName = [], vp_PVCNamespace = [], vp_PVName = []\<rparr>;
                params = fold (string_param m) stringParams params
            in Inr (params\<lparr>vp_PVCName := entry m ''csi.storage.k8s.io/pvc/name'',
                           vp_PVCNamespace := entry m ''csi.storage.k8s.io/pvc/namespace'',
                           vp_PVName := entry m ''csi.storage.k8s.io/pv/name''\<rparr>))"

definition NewSnapshotParams ::
  "((string \<rightharpoonup> string) \<Rightarrow> (string \<rightharpoonup> string)) \<Rightarrow> (string \<Rightarrow> gerr + int) \<Rightarrow> (string \<rightharpoonup> string) \<Rightarrow> gerr + SnapshotParams" where
  "NewSnapshotParams ci quantity m0 =
     (let m = ci m0; params = \<lparr>sp_SnapSize = Fin 0, AbsSnapSize = False\<rparr> in
      case m ''snapsize'' of
        None \<Rightarrow> Inr params
      | Some sz \<Rightarrow>
          if HasSuffix sz ''%'' then
            (case ParseFloat (butlast sz) of
               (_, Some ne) \<Rightarrow> Inl (NumErr ne (butlast sz))
             | (f, None) \<Rightarrow>
                 if float_less f (Fin 1) \<or> float_less (Fin 100) f
                 then Inl (NewErr [MStr ''snapSize percentage should be between 1 and 100, found '', MStr sz])
                 else Inr (params\<lparr>sp_SnapSize := f\<rparr>))
          else
            (case quantity sz of
               Inl e \<Rightarrow> Inl e
             | Inr snapSize \<Rightarrow>
                 if snapSize < 1 then Inl (NewErr [MStr ''absolute snapSize should greater than 0, found '', MStr sz])
                 else Inr (params\<lparr>AbsSnapSize := True, sp_SnapSize := float_of_int snapSize\<rparr>)))"

section \<open>Lemmas\<close>

lemma set_param_comm:
  "x \<noteq> y \<Longrightarrow> x \<in> set stringParams \<Longrightarrow> y \<in> set stringParams \<Longrightarrow>
     set_param x u (set_param y v p) = set_param y v (set_param x u p)"
  unfolding stringParams_def by (simp, elim disjE) (simp_all add: set_param_def)

lemma string_param_comm:
  assumes "x \<in> set stringParams" and "y \<in> set stringParams"
  shows "string_param m x \<circ> string_param m y = string_param m y \<circ> string_param m x"
  using set_param_comm [OF _ assms] by (cases "x = y") (auto simp: fun_eq_iff string_param_def split: option.split)

lemma string_params_order:
  assumes "mset ks = mset stringParams"
  shows "fold (string_param m) ks p = fold (string_param m) stringParams p"
proof -
  have "fold (string_param m) ks = fold (string_param m) stringParams"
    using string_param_comm assms by (rule fold_multiset_equiv) (simp_all flip: mset_eq_setD [OF assms])
  then show ?thesis by simp
qed

section \<open>Properties\<close>

text \<open>The parameters of a storage class, field by field: \<^verbatim>\<open>volgroup\<close>, anchored at both ends, overrides
  \<^verbatim>\<open>vgpattern\<close>; each of the three settings is the given value or its default; the result is an error exactly if
  the expression does not compile.\<close>

theorem volume_params_fields:
  "NewVolumeParams ci Compile m0 =
     (let m = ci m0;
          field = (\<lambda>k d. case m k of None \<Rightarrow> d | Some v \<Rightarrow> v);
          pat = (case m ''volgroup'' of Some vg \<Rightarrow> ''^'' @ vg @ ''$'' | None \<Rightarrow> field ''vgpattern'' [])
      in case Compile pat of
          Inl e \<Rightarrow> Inl (NewErr [MStr ''invalid volgroup/vgpattern param '', MStr pat, MStr '': '', MErr e])
        | Inr re \<Rightarrow> Inr \<lparr>vp_VgPattern = (pat, re), vp_Scheduler = field ''scheduler'' SpaceWeighted,
            vp_Shared = field ''shared'' ''no'', vp_ThinProvision = field ''thinprovision'' ''no'',
            vp_PVCName = field ''csi.storage.k8s.io/pvc/name'' [], vp_PVCNamespace = field ''csi.storage.k8s.io/pvc/namespace'' [],
            vp_PVName = field ''csi.storage.k8s.io/pv/name'' []\<rparr>)"
proof -
  have three: "fold (string_param m) stringParams p =
      p\<lparr>vp_Scheduler := (case m ''scheduler'' of None \<Rightarrow> vp_Scheduler p | Some v \<Rightarrow> v),
        vp_Shared := (case m ''shared'' of None \<Rightarrow> vp_Shared p | Some v \<Rightarrow> v),
        vp_ThinProvision := (case m ''thinprovision'' of None \<Rightarrow> vp_ThinProvision p | Some v \<Rightarrow> v)\<rparr>" for m p
    by (simp add: stringParams_def string_param_def set_param_def split: option.splits)
  show ?thesis
    unfolding NewVolumeParams_def Let_def three entry_def
    by (cases "Compile (case ci m0 ''volgroup'' of Some vg \<Rightarrow> ''^'' @ vg @ ''$''
        | None \<Rightarrow> (case ci m0 ''vgpattern'' of None \<Rightarrow> [] | Some v \<Rightarrow> v))") (simp_all cong: option.case_cong)
qed

end
