(* ===== verification/Sched_Helper.thy ===== *)
theory Sched_Helper
  imports Params Lvm_Volume
begin

text \<open>
  \<^verbatim>\<open>src/pkg/driver/schd_helper.go\<close>: the weights that the scheduler of \<^verbatim>\<open>lib-csi\<close> gets for the nodes, by the number of
  volumes, by their capacity, or by the free space of the largest matching volume group. The weights are
  \<^verbatim>\<open>int64\<close>; a map of Go is a partial function.
\<close>

section \<open>Definitions\<close>

type_synonym weights = "string \<rightharpoonup> int"

text \<open>\<^verbatim>\<open>nmap[node] += d\<close>\<close>

definition bump :: "string \<Rightarrow> int \<Rightarrow> weights \<Rightarrow> weights" where
  "bump node d nmap = nmap(node \<mapsto> add64 (case nmap node of None \<Rightarrow> 0 | Some w \<Rightarrow> w) d)"

definition getVolumeWeightedMap :: "globals \<Rightarrow> Regexp \<Rightarrow> (gerr + weights) prog" where
  "getVolumeWeightedMap G re =
     tryP (vol_kc_List (kc_for (LvmNamespace G))) (\<lambda>vollist.
       Ret (Inr (fold (\<lambda>vol nmap.
           if MatchString re (VolGroup (Spec vol)) then bump (OwnerNodeID (Spec vol)) 1 nmap else nmap)
         vollist Map.empty)))"

definition getCapacityWeightedMap :: "globals \<Rightarrow> Regexp \<Rightarrow> (gerr + weights) prog" where
  "getCapacityWeightedMap G re =
     tryP (vol_kc_List (kc_for (LvmNamespace G))) (\<lambda>volList.
       Ret (Inr (fold (\<lambda>vol nmap.
           if MatchString re (VolGroup (Spec vol))
           then (case ParseInt (Capacity (Spec vol)) of
                   (volSize, None) \<Rightarrow> bump (OwnerNodeID (Spec vol)) volSize nmap
                 | (_, Some _) \<Rightarrow> nmap)
           else nmap)
         volList Map.empty)))"

text \<open>The inner loops of \<^verbatim>\<open>getSpaceWeightedMap\<close> and of \<^verbatim>\<open>GetCapacity\<close>: the largest free size so far.\<close>

definition max_free :: "Regexp \<Rightarrow> VolumeGroup list \<Rightarrow> int \<Rightarrow> int" where
  "max_free re vgs m0 = fold (\<lambda>vg m. if MatchString re (vg_Name vg) \<and> m < vg_Free vg then vg_Free vg else m) vgs m0"

definition getSpaceWeightedMap :: "globals \<Rightarrow> Regexp \<Rightarrow> (gerr + weights) prog" where
  "getSpaceWeightedMap G re =
     tryP (node_kc_List (kc_for (LvmNamespace G))) (\<lambda>nodeList.
       Ret (Inr (fold (\<lambda>node nmap.
           let maxFree = max_free re (VolumeGroups node) 0
           in if 0 < maxFree then nmap(Name node \<mapsto> sub64 max_int64 maxFree) else nmap)
         nodeList Map.empty)))"

definition getNodeMap :: "globals \<Rightarrow> string \<Rightarrow> Regexp \<Rightarrow> (gerr + weights) prog" where
  "getNodeMap G schd vgPattern =
     (if schd = VolumeWeighted then getVolumeWeightedMap G vgPattern
      else if schd = CapacityWeighted then getCapacityWeightedMap G vgPattern
      else if schd = SpaceWeighted then getSpaceWeightedMap G vgPattern
      else getSpaceWeightedMap G vgPattern)"

section \<open>Reference definitions\<close>

text \<open>The exact sum of the amounts of a node, reduced to 64 bits once.\<close>

definition node_total :: "(string \<times> int) list \<Rightarrow> weights" where
  "node_total es n = (let ds = map snd (filter (\<lambda>e. fst e = n) es) in if ds = [] then None else Some (wrap64 (sum_list ds)))"

lemma bump_node_total: "fold (\<lambda>(node, d). bump node d) es Map.empty = node_total es"
proof (induction es rule: rev_induct)
  case (snoc e es)
  obtain node d where e: "e = (node, d)" by force
  show ?case
    unfolding fold_append comp_def snoc e
    by (auto simp: fun_eq_iff bump_def node_total_def Let_def add64_def comp_def)
qed (simp add: node_total_def fun_eq_iff)

lemma fold_bump:
  "fold (\<lambda>x s. if P x then bump (n x) (d x) s else s) xs Map.empty = node_total (map (\<lambda>x. (n x, d x)) (filter P xs))"
proof -
  have "fold (\<lambda>x s. if P x then bump (n x) (d x) s else s) xs m =
      fold (\<lambda>(node, d). bump node d) (map (\<lambda>x. (n x, d x)) (filter P xs)) m" for m
    by (induction xs arbitrary: m) auto
  then show ?thesis by (simp only: bump_node_total)
qed

definition volume_entries :: "Regexp \<Rightarrow> LVMVolume list \<Rightarrow> (string \<times> int) list" where
  "volume_entries re vols = map (\<lambda>v. (OwnerNodeID (Spec v), 1)) (filter (\<lambda>v. MatchString re (VolGroup (Spec v))) vols)"

definition capacity_entries :: "Regexp \<Rightarrow> LVMVolume list \<Rightarrow> (string \<times> int) list" where
  "capacity_entries re vols =
     map (\<lambda>v. (OwnerNodeID (Spec v), fst (ParseInt (Capacity (Spec v)))))
       (filter (\<lambda>v. MatchString re (VolGroup (Spec v)) \<and> snd (ParseInt (Capacity (Spec v))) = None) vols)"

text \<open>The largest free size of the matching volume groups, at least 0.\<close>

definition best_free :: "Regexp \<Rightarrow> VolumeGroup list \<Rightarrow> int" where
  "best_free re vgs = Max (insert 0 (vg_Free ` {vg \<in> set vgs. MatchString re (vg_Name vg)}))"

lemma max_free_Max:
  "max_free re vgs m0 = Max (insert m0 (vg_Free ` {vg \<in> set vgs. MatchString re (vg_Name vg)}))"
proof (induction vgs arbitrary: m0)
  case (Cons vg vgs)
  define F where "F = vg_Free ` {vg \<in> set vgs. MatchString re (vg_Name vg)}"
  have fin: "finite F" by (simp add: F_def)
  have "{v \<in> set (vg # vgs). MatchString re (vg_Name v)} =
      (if MatchString re (vg_Name vg) then insert vg {vg \<in> set vgs. MatchString re (vg_Name vg)}
       else {vg \<in> set vgs. MatchString re (vg_Name vg)})" by auto
  then have img: "vg_Free ` {v \<in> set (vg # vgs). MatchString re (vg_Name v)} =
      (if MatchString re (vg_Name vg) then insert (vg_Free vg) F else F)" by (simp add: F_def)
  have "max_free re (vg # vgs) m0 = max_free re vgs (if MatchString re (vg_Name vg) \<and> m0 < vg_Free vg then vg_Free vg else m0)"
    by (simp add: max_free_def)
  also have "\<dots> = Max (insert (if MatchString re (vg_Name vg) \<and> m0 < vg_Free vg then vg_Free vg else m0) F)"
    unfolding F_def by (rule Cons)
  also have "\<dots> = Max (insert m0 (if MatchString re (vg_Name vg) then insert (vg_Free vg) F else F))"
    using fin by (cases "F = {}") (auto simp: max_def)
  finally show ?case by (simp only: img)
qed (simp add: max_free_def)

definition space_weight :: "Regexp \<Rightarrow> LVMNode \<Rightarrow> int option" where
  "space_weight re node =
     (let m = best_free re (VolumeGroups node) in if 0 < m then Some (max_int64 - m) else None)"

lemma space_fold:
  assumes "distinct (map Name nodes)" and "\<forall>node \<in> set nodes. \<forall>vg \<in> set (VolumeGroups node). in_int64 (vg_Free vg)"
  shows "fold (\<lambda>node nmap. let m = max_free re (VolumeGroups node) 0
      in if 0 < m then nmap(Name node \<mapsto> sub64 max_int64 m) else nmap) nodes Map.empty n =
    (case find (\<lambda>node. Name node = n) nodes of None \<Rightarrow> None | Some node \<Rightarrow> space_weight re node)"
  using assms
proof (induction nodes rule: rev_induct)
  case (snoc node nodes)
  define m where "m = max_free re (VolumeGroups node) 0"
  have best: "m = best_free re (VolumeGroups node)" by (simp add: m_def max_free_Max best_free_def)
  have "in_int64 (max_int64 - m)" if "0 < m"
  proof -
    have "m \<in> insert 0 (vg_Free ` {vg \<in> set (VolumeGroups node). MatchString re (vg_Name vg)})"
      unfolding best best_free_def by (rule Max_in) auto
    with that snoc(3) have "in_int64 m" by auto
    with that show ?thesis by (auto simp: in_int64_def min_int64_def)
  qed
  then have w: "0 < m \<Longrightarrow> sub64 max_int64 m = max_int64 - m" by (simp add: sub64_def wrap64_id)
  have new: "find (\<lambda>x. Name x = Name node) nodes = None"
    using snoc(2) by (simp add: find_None_iff) (metis image_eqI)
  have find_snoc: "find P (nodes @ [node]) = (case find P nodes of None \<Rightarrow> (if P node then Some node else None) | r \<Rightarrow> r)"
    for P by (induction nodes) auto
  have ws: "space_weight re node = (if 0 < m then Some (max_int64 - m) else None)"
    by (simp add: space_weight_def best Let_def)
  show ?case
    using snoc new by (auto simp: find_snoc Let_def m_def [symmetric] w ws split: option.splits)
qed simp

section \<open>Rules\<close>

lemma wp_kc_Lists [wp_simps]:
  "wp (vol_kc_List (kc_for ns)) Q tr \<longleftrightarrow>
     (\<forall>e. Q (Val (Inl (cs_wrap e [MStr ''failed to list lvm volumes in namespace {'', MStr ns, MStr ''}'']))) (tr @ [cs_fail e])) \<and>
     (\<forall>y. Q (Val y) (tr @ [cs_ok, EvVols ns y]))"
  "wp (node_kc_List (kc_for ns)) R tr \<longleftrightarrow>
     (\<forall>e. R (Val (Inl (cs_wrap e [MStr ''failed to list lvm nodes in namespace {'', MStr ns, MStr ''}'']))) (tr @ [cs_fail e])) \<and>
     (\<forall>y. R (Val y) (tr @ [cs_ok, EvNodes ns y]))"
  by (auto simp: vol_kc_List_def vol_defaultList_def node_kc_List_def node_defaultList_def wp_simps cs_wrap_def)

lemma volume_fold:
  "fold (\<lambda>vol nmap. if MatchString re (VolGroup (Spec vol)) then bump (OwnerNodeID (Spec vol)) 1 nmap else nmap) vols Map.empty =
     node_total (volume_entries re vols)"
  unfolding volume_entries_def by (rule fold_bump)

lemma capacity_fold:
  "fold (\<lambda>vol nmap. if MatchString re (VolGroup (Spec vol))
      then (case ParseInt (Capacity (Spec vol)) of
          (volSize, None) \<Rightarrow> bump (OwnerNodeID (Spec vol)) volSize nmap | (_, Some _) \<Rightarrow> nmap)
      else nmap) vols Map.empty =
     node_total (capacity_entries re vols)" (is "fold ?f vols Map.empty = _")
proof -
  have "?f = (\<lambda>vol nmap. if MatchString re (VolGroup (Spec vol)) \<and> snd (ParseInt (Capacity (Spec vol))) = None
      then bump (OwnerNodeID (Spec vol)) (fst (ParseInt (Capacity (Spec vol)))) nmap else nmap)"
    by (auto simp: fun_eq_iff split: prod.splits option.splits)
  then show ?thesis
    unfolding capacity_entries_def by (simp only: fold_bump)
qed

section \<open>Properties\<close>

text \<open>(C40) The weights of every scheduler agree with a reference definition. The number and the capacity of the
  volumes are, per owner node, the exact sums over the listed volumes with a matching volume group (and a
  parsable capacity), reduced to 64 bits; a node without such a volume has no weight. The space weight of a
  listed node is the distance of its largest matching free size from the largest \<^verbatim>\<open>int64\<close>, without overflow, and
  a node with no free space has no weight, provided the API server lists each name once and free sizes are
  in range. Unknown scheduler names mean the space weights.\<close>

theorem node_map_reference:
  assumes "runs (getNodeMap G schd re) tr (Val (Inr nmap))"
  shows "if schd = VolumeWeighted
    then \<exists>vols. tr = [cs_ok, EvVols (LvmNamespace G) (Inr vols)] \<and> nmap = node_total (volume_entries re vols)
    else if schd = CapacityWeighted
    then \<exists>vols. tr = [cs_ok, EvVols (LvmNamespace G) (Inr vols)] \<and> nmap = node_total (capacity_entries re vols)
    else \<exists>nodes. tr = [cs_ok, EvNodes (LvmNamespace G) (Inr nodes)] \<and>
      (distinct (map Name nodes) \<and> (\<forall>node \<in> set nodes. \<forall>vg \<in> set (VolumeGroups node). in_int64 (vg_Free vg)) \<longrightarrow>
       (\<forall>n. nmap n = (case find (\<lambda>node. Name node = n) nodes of None \<Rightarrow> None | Some node \<Rightarrow> space_weight re node)))"
    (is "?P nmap tr")
proof -
  have "wp (getNodeMap G schd re) (\<lambda>r t. \<forall>m. r = Val (Inr m) \<longrightarrow> ?P m t) []"
    by (simp add: getNodeMap_def getVolumeWeightedMap_def getCapacityWeightedMap_def getSpaceWeightedMap_def wp_simps split_sum_all
        volume_fold capacity_fold space_fold)
  from wp_runs [OF this assms] show ?thesis by simp
qed

definition ex_nodes :: "LVMNode list" where
  "ex_nodes = [zero_LVMNode\<lparr>Name := ''node-1'', VolumeGroups := [zero_VolumeGroup\<lparr>vg_Name := ''vg'', vg_Free := 7\<rparr>]\<rparr>]"

theorem node_map_reference_witness:
  "space_weight (''vg'', \<lambda>s. s = ''vg'') (hd ex_nodes) = Some (max_int64 - 7)"
proof -
  define re :: Regexp where "re = (''vg'', \<lambda>s. s = ''vg'')"
  have run: "runs (getNodeMap ex_G [] re) [cs_ok, EvNodes ''openebs'' (Inr ex_nodes)]
      (Val (Inr [''node-1'' \<mapsto> max_int64 - 7]))"
    by (simp add: getNodeMap_def getSpaceWeightedMap_def tryP_def node_kc_List_def with_client_def getClientOrCached_def
        getClientsetForPathOrDirect_def callErr_def node_defaultList_def ex_nodes_def max_free_def MatchString_def re_def
        sub64_def max_int64_def wrap64_def zero_LVMNode_def zero_VolumeGroup_def)
  have "space_weight re (hd ex_nodes) = Some (max_int64 - 7)"
    using node_map_reference [OF run]
    by (auto simp: ex_nodes_def zero_LVMNode_def zero_VolumeGroup_def in_int64_def min_int64_def max_int64_def
        dest!: spec [of _ "''node-1''"])
  then show ?thesis by (simp only: re_def)
qed

end
