(* ===== verification/Responses.thy ===== *)
theory Responses
  imports Csi_Types
begin

text \<open>
  \<^verbatim>\<open>src/pkg/response\<close>: the builders of the responses of the controller. A builder holds the response under
  construction; each method sets one field of it.
\<close>

section \<open>\<^verbatim>\<open>create.go\<close>\<close>

definition NewCreateVolumeResponseBuilder :: CreateVolumeResponse where
  "NewCreateVolumeResponseBuilder =
     \<lparr>VolumeId = [], CapacityBytes = 0, VolumeContext = Map.empty, ContentSource = None, AccessibleTopology = []\<rparr>"

definition cvr_WithName :: "string \<Rightarrow> CreateVolumeResponse \<Rightarrow> CreateVolumeResponse" where
  "cvr_WithName name b = b\<lparr>VolumeId := name\<rparr>"

definition cvr_WithCapacity :: "int \<Rightarrow> CreateVolumeResponse \<Rightarrow> CreateVolumeResponse" where
  "cvr_WithCapacity capacity b = b\<lparr>CapacityBytes := capacity\<rparr>"

definition cvr_WithContext :: "(string \<rightharpoonup> string) \<Rightarrow> CreateVolumeResponse \<Rightarrow> CreateVolumeResponse" where
  "cvr_WithContext ctx b = b\<lparr>VolumeContext := ctx\<rparr>"

definition cvr_WithContentSource :: "VolumeContentSource option \<Rightarrow> CreateVolumeResponse \<Rightarrow> CreateVolumeResponse" where
  "cvr_WithContentSource cnt b = b\<lparr>ContentSource := cnt\<rparr>"

definition cvr_WithTopology :: "segments \<Rightarrow> CreateVolumeResponse \<Rightarrow> CreateVolumeResponse" where
  "cvr_WithTopology topology b = b\<lparr>AccessibleTopology := [topology]\<rparr>"

definition cvr_Build :: "CreateVolumeResponse \<Rightarrow> CreateVolumeResponse" where
  "cvr_Build b = b"

section \<open>\<^verbatim>\<open>delete.go\<close>\<close>

text \<open>The response has no fields.\<close>

definition NewDeleteVolumeResponseBuilder :: unit where
  "NewDeleteVolumeResponseBuilder = ()"

definition dvr_Build :: "unit \<Rightarrow> unit" where
  "dvr_Build b = b"

section \<open>\<^verbatim>\<open>resize.go\<close>\<close>

definition NewControllerExpandVolumeResponseBuilder :: ExpandVolumeResponse where
  "NewControllerExpandVolumeResponseBuilder = \<lparr>ev_CapacityBytes = 0, NodeExpansionRequired = False\<rparr>"

definition evr_WithCapacityBytes :: "int \<Rightarrow> ExpandVolumeResponse \<Rightarrow> ExpandVolumeResponse" where
  "evr_WithCapacityBytes capacity b = b\<lparr>ev_CapacityBytes := capacity\<rparr>"

definition evr_WithNodeExpansionRequired :: "bool \<Rightarrow> ExpandVolumeResponse \<Rightarrow> ExpandVolumeResponse" where
  "evr_WithNodeExpansionRequired nodeExpansionRequired b = b\<lparr>NodeExpansionRequired := nodeExpansionRequired\<rparr>"

definition evr_Build :: "ExpandVolumeResponse \<Rightarrow> ExpandVolumeResponse" where
  "evr_Build b = b"

section \<open>\<^verbatim>\<open>snapshot.go\<close>\<close>

definition NewCreateSnapshotResponseBuilder :: SnapshotResponse where
  "NewCreateSnapshotResponseBuilder =
     \<lparr>SizeBytes = 0, SnapshotId = [], SourceVolumeId = [], CreationTime = None, ReadyToUse = False\<rparr>"

definition csr_WithSize :: "int \<Rightarrow> SnapshotResponse \<Rightarrow> SnapshotResponse" where
  "csr_WithSize sz b = b\<lparr>SizeBytes := sz\<rparr>"

definition csr_WithSnapshotID :: "string \<Rightarrow> SnapshotResponse \<Rightarrow> SnapshotResponse" where
  "csr_WithSnapshotID snapshotID b = b\<lparr>SnapshotId := snapshotID\<rparr>"

definition csr_WithSourceVolumeID :: "string \<Rightarrow> SnapshotResponse \<Rightarrow> SnapshotResponse" where
  "csr_WithSourceVolumeID volumeID b = b\<lparr>SourceVolumeId := volumeID\<rparr>"

text \<open>The nanoseconds are converted to \<^verbatim>\<open>int32\<close>.\<close>

definition csr_WithCreationTime :: "int \<Rightarrow> int \<Rightarrow> SnapshotResponse \<Rightarrow> SnapshotResponse" where
  "csr_WithCreationTime tsec tnsec b = b\<lparr>CreationTime := Some (tsec, wrap32 tnsec)\<rparr>"

definition csr_WithReadyToUse :: "bool \<Rightarrow> SnapshotResponse \<Rightarrow> SnapshotResponse" where
  "csr_WithReadyToUse readyToUse b = b\<lparr>ReadyToUse := readyToUse\<rparr>"

definition csr_Build :: "SnapshotResponse \<Rightarrow> SnapshotResponse" where
  "csr_Build b = b"

lemmas response_defs =
  NewCreateVolumeResponseBuilder_def cvr_WithName_def cvr_WithCapacity_def cvr_WithContext_def cvr_WithContentSource_def
  cvr_WithTopology_def cvr_Build_def NewDeleteVolumeResponseBuilder_def dvr_Build_def
  NewControllerExpandVolumeResponseBuilder_def evr_WithCapacityBytes_def evr_WithNodeExpansionRequired_def evr_Build_def
  NewCreateSnapshotResponseBuilder_def csr_WithSize_def csr_WithSnapshotID_def csr_WithSourceVolumeID_def
  csr_WithCreationTime_def csr_WithReadyToUse_def csr_Build_def

end
