(* ===== verification/Csi_Controller.thy ===== *)
theory Csi_Controller
  imports Sched_Helper Responses Frames
begin

text \<open>
  \<^verbatim>\<open>src/pkg/driver/controller.go\<close>: the CSI controller service. A handler is a program that returns a response or an
  error. The controller itself has only fields that are set before it serves requests: its capabilities, the
  label of the node index, and the indexes of the informer for Kubernetes nodes. The informer caches, the
  scheduler and the leak protection of \<^verbatim>\<open>lib-csi\<close> are reached by operations. Parameters stand for functions of
  libraries: \<open>ci\<close>, \<open>Compile\<close> and \<open>quantity\<close> as in \<open>Params\<close>, \<open>selects\<close> (\<^verbatim>\<open>labels.SelectorFromSet(...).Matches\<close>) and
  \<open>oor\<close> (the conversion of a float out of range).
\<close>

section \<open>Definitions\<close>

record controller =
  cs_capabilities :: "RpcType list"
  cs_indexedLabel :: string
  cs_k8sIndexers :: "string list"

abbreviation "Mi \<equiv> 1024 * 1024 :: int"
abbreviation "Gi \<equiv> 1024 * 1024 * 1024 :: int"

text \<open>The constants of the analytics library are represented by their names.\<close>

abbreviation "VolumeProvision \<equiv> ''VolumeProvision''"
abbreviation "VolumeDeprovision \<equiv> ''VolumeDeprovision''"

definition SupportedVolumeCapabilityAccessModes :: "AccessMode list" where
  "SupportedVolumeCapabilityAccessModes = [SINGLE_NODE_WRITER]"

definition sendEventOrIgnore :: "globals \<Rightarrow> string \<Rightarrow> string \<Rightarrow> string \<Rightarrow> string \<Rightarrow> unit prog" where
  "sendEventOrIgnore G pvcName pvName capacity method =
     (if GoogleAnalyticsEnabled G = ''true'' then callUnit (SendEvent pvcName pvName capacity method) else Ret ())"

definition getRoundedCapacity :: "int \<Rightarrow> int" where
  "getRoundedCapacity sz =
     (if Gi < sz then mul64 (quot64 (sub64 (add64 sz Gi) 1) Gi) Gi
      else mul64 (quot64 (sub64 (add64 sz Mi) 1) Mi) Mi)"

text \<open>The second result of \<^verbatim>\<open>waitForLVMVolume\<close> is read only together with an error: the boolean tells whether the
  volume was deleted in order to be scheduled again. \<open>settle_volume\<close> is its part after the wait.\<close>

definition settle_volume :: "globals \<Rightarrow> LVMVolume \<Rightarrow> (bool \<times> gerr + LVMVolume) prog" where
  "settle_volume G vol =
     (if State (Status vol) = LVMStatusReady then Ret (Inr vol)
      else case StatusError (Status vol) of
          None \<Rightarrow> Ret (Inl (False, StatusErr Aborted [MStr ''failed lvmvol must have error set'']))
        | Some volErr \<Rightarrow>
            bindP (lvm_DeleteVolume G (Name vol)) (\<lambda>r. case r of
                Inl e \<Rightarrow> Ret (Inl (False, StatusErr Aborted
                  [MStr ''failed to delete volume '', MStr (Name vol), MStr '': '', MErr e]))
              | Inr _ \<Rightarrow>
                  bindP (WaitForLVMVolumeDestroy G (Name vol)) (\<lambda>r. case r of
                      Inl e \<Rightarrow> Ret (Inl (False, StatusErr Aborted
                        [MStr ''failed to delete volume '', MStr (Name vol), MStr '': '', MErr e]))
                    | Inr _ \<Rightarrow> Ret (Inl (True, StatusErr ResourceExhausted (ve_Message volErr))))))"

definition waitForLVMVolume :: "globals \<Rightarrow> LVMVolume \<Rightarrow> (bool \<times> gerr + LVMVolume) prog" where
  "waitForLVMVolume G vol =
     bindP (if State (Status vol) = LVMStatusPending then WaitForLVMVolumeProcessed G (Name vol) else Ret (Inr vol))
       (\<lambda>r. case r of
           Inl e \<Rightarrow> Ret (Inl (False, e))
         | Inr vol \<Rightarrow> settle_volume G vol)"

text \<open>The part of \<^verbatim>\<open>CreateLVMVolume\<close> after the checks of an existing volume: schedule, create the resource, wait.\<close>

definition create_scheduled :: "globals \<Rightarrow> CreateVolumeRequest \<Rightarrow> VolumeParams \<Rightarrow> string \<Rightarrow> string \<Rightarrow> (gerr + LVMVolume) prog" where
  "create_scheduled G req params volName capacity =
     bindP (getNodeMap G (vp_Scheduler params) (vp_VgPattern params)) (\<lambda>r. case r of
         Inl e \<Rightarrow> Ret (Inl (StatusErr Internal [MStr ''get node map failed : '', MErr e]))
       | Inr nmap \<Rightarrow>
           OpSched (cv_Accessibility req, nmap) (\<lambda>selected. case selected of
               [] \<Rightarrow> Ret (Inl (StatusErr Internal [MStr ''scheduler failed, not able to select a node to create the PV'']))
             | owner # _ \<Rightarrow>
                 (case vol_Build (chain vol_NewBuilder
                      [vol_WithName volName, vol_WithCapacity capacity, vol_WithVgPattern (fst (vp_VgPattern params)),
                       vol_WithOwnerNode owner, vol_WithVolumeStatus LVMStatusPending, vol_WithShared (vp_Shared params),
                       vol_WithThinProvision (vp_ThinProvision params)]) of
                    Inl e \<Rightarrow> Ret (Inl (StatusErr Internal [MErr e]))
                  | Inr volObj \<Rightarrow>
                      bindP (ProvisionVolume G volObj) (\<lambda>r. case r of
                          Inl e \<Rightarrow> Ret (Inl (StatusErr Internal [MStr ''not able to provision the volume '', MErr e]))
                        | Inr vol \<Rightarrow>
                            bindP (waitForLVMVolume G vol) (\<lambda>r. Ret (map_sum snd id r))))))"

text \<open>\<^verbatim>\<open>req.GetCapacityRange().RequiredBytes\<close> dereferences the capacity range, which may be absent.\<close>

definition CreateLVMVolume :: "globals \<Rightarrow> CreateVolumeRequest \<Rightarrow> VolumeParams \<Rightarrow> (gerr + LVMVolume) prog" where
  "CreateLVMVolume G req params =
     (case cv_RequiredBytes req of
        None \<Rightarrow> Panic ''nil pointer dereference''
      | Some required \<Rightarrow>
          let volName = ToLower (cv_Name req);
              capacity = FormatInt (getRoundedCapacity required)
          in bindP (GetLVMVolume G volName) (\<lambda>r. case r of
              Inl e \<Rightarrow>
                if \<not> IsNotFound e
                then Ret (Inl (StatusErr Aborted [MStr ''failed get lvm volume '', MStr volName, MStr '': '', MErr e]))
                else create_scheduled G req params volName capacity
            | Inr vol \<Rightarrow>
                if DeletionTimestamp vol \<noteq> None
                then tryP (WaitForLVMVolumeDestroy G volName) (\<lambda>_. create_scheduled G req params volName capacity)
                else if Capacity (Spec vol) \<noteq> capacity
                then Ret (Inl (StatusErr AlreadyExists [MStr ''volume '', MStr volName, MStr '' already present'']))
                else bindP (waitForLVMVolume G vol) (\<lambda>r. case r of
                    Inr vol \<Rightarrow> Ret (Inr vol)
                  | Inl (reschedule, e) \<Rightarrow>
                      if \<not> reschedule then Ret (Inl e)
                      else create_scheduled G req params volName capacity)))"

text \<open>The name of an enumeration value in the protocol definition, as its \<^verbatim>\<open>String\<close> method prints it.\<close>

fun rpc_String :: "RpcType \<Rightarrow> string" where
  "rpc_String RPC_UNKNOWN = ''UNKNOWN''"
| "rpc_String RPC_CREATE_DELETE_VOLUME = ''CREATE_DELETE_VOLUME''"
| "rpc_String RPC_PUBLISH_UNPUBLISH_VOLUME = ''PUBLISH_UNPUBLISH_VOLUME''"
| "rpc_String RPC_LIST_VOLUMES = ''LIST_VOLUMES''"
| "rpc_String RPC_GET_CAPACITY = ''GET_CAPACITY''"
| "rpc_String RPC_CREATE_DELETE_SNAPSHOT = ''CREATE_DELETE_SNAPSHOT''"
| "rpc_String RPC_LIST_SNAPSHOTS = ''LIST_SNAPSHOTS''"
| "rpc_String RPC_CLONE_VOLUME = ''CLONE_VOLUME''"
| "rpc_String RPC_EXPAND_VOLUME = ''EXPAND_VOLUME''"

definition newControllerCapabilities :: "RpcType list" where
  "newControllerCapabilities =
     [RPC_CREATE_DELETE_VOLUME, RPC_EXPAND_VOLUME, RPC_CREATE_DELETE_SNAPSHOT, RPC_GET_CAPACITY]"

definition validateRequest :: "controller \<Rightarrow> RpcType \<Rightarrow> gerr + unit" where
  "validateRequest cs c =
     (if c \<in> set (cs_capabilities cs) then Inr ()
      else Inl (StatusErr InvalidArgument
        [MStr ''failed to validate request: {'', MStr (rpc_String c), MStr ''} is not supported'']))"

definition validateSupportedVolumeCapabilities :: "VolumeCapability \<Rightarrow> gerr + unit" where
  "validateSupportedVolumeCapabilities volCap =
     (if (case vc_AccessMode volCap of None \<Rightarrow> False | Some m \<Rightarrow> m \<notin> set SupportedVolumeCapabilityAccessModes)
      then Inl (StatusErr InvalidArgument [MStr ''only ReadwriteOnce access mode is supported''])
      else if vc_AccessType volCap = None
      then Inl (StatusErr InvalidArgument [MStr ''only Block mode (or) FileSystem mode is supported''])
      else Inr ())"

fun validate_all :: "VolumeCapability list \<Rightarrow> gerr + unit" where
  "validate_all [] = Inr ()"
| "validate_all (c # cs) = (case validateSupportedVolumeCapabilities c of Inl e \<Rightarrow> Inl e | Inr _ \<Rightarrow> validate_all cs)"

definition validateVolumeCreateReq :: "controller \<Rightarrow> CreateVolumeRequest \<Rightarrow> gerr + unit" where
  "validateVolumeCreateReq cs req =
     (case validateRequest cs RPC_CREATE_DELETE_VOLUME of
        Inl e \<Rightarrow> Inl (WrapErr e [MStr ''failed to handle create volume request for {'', MStr (cv_Name req), MStr ''}''])
      | Inr _ \<Rightarrow>
          if cv_Name req = []
          then Inl (StatusErr InvalidArgument [MStr ''failed to handle create volume request: missing volume name''])
          else case cv_Capabilities req of
              None \<Rightarrow> Inl (StatusErr InvalidArgument [MStr ''failed to handle create volume request: missing volume capabilities''])
            | Some volCapabilities \<Rightarrow> validate_all volCapabilities)"

text \<open>The part of \<^verbatim>\<open>CreateVolume\<close> that runs under the leak protection.\<close>

definition create_protected :: "globals \<Rightarrow> CreateVolumeRequest \<Rightarrow> VolumeParams \<Rightarrow> string \<Rightarrow> int \<Rightarrow> (gerr + CreateVolumeResponse) prog" where
  "create_protected G req params volName size' =
     tryP (CreateLVMVolume G req params) (\<lambda>vol.
       bindP (sendEventOrIgnore G (vp_PVCName params) volName (FormatInt size') VolumeProvision) (\<lambda>_.
         let topology = [LVMTopologyKey \<mapsto> OwnerNodeID (Spec vol)];
             cntx = [VolGroupKey \<mapsto> VolGroup (Spec vol), OpenEBSCasTypeKey \<mapsto> LVMCasTypeName]
         in Ret (Inr (cvr_Build (chain NewCreateVolumeResponseBuilder
              [cvr_WithName volName, cvr_WithCapacity size', cvr_WithTopology topology, cvr_WithContext cntx,
               cvr_WithContentSource (cv_ContentSource req)])))))"

definition cs_CreateVolume ::
  "globals \<Rightarrow> controller \<Rightarrow> ((string \<rightharpoonup> string) \<Rightarrow> (string \<rightharpoonup> string)) \<Rightarrow> (string \<Rightarrow> gerr + (string \<Rightarrow> bool)) \<Rightarrow>
     CreateVolumeRequest \<Rightarrow> (gerr + CreateVolumeResponse) prog" where
  "cs_CreateVolume G cs ci Compile req =
     (case validateVolumeCreateReq cs req of
        Inl e \<Rightarrow> Ret (Inl (StatusErr InvalidArgument [MErr e]))
      | Inr _ \<Rightarrow>
          (case NewVolumeParams ci Compile (cv_Parameters req) of
             Inl e \<Rightarrow> Ret (Inl (StatusErr InvalidArgument [MStr ''failed to parse csi volume params: '', MErr e]))
           | Inr params \<Rightarrow>
               let volName = ToLower (cv_Name req);
                   size' = getRoundedCapacity (case cv_RequiredBytes req of None \<Rightarrow> 0 | Some n \<Rightarrow> n)
               in case cv_ContentSource req of
                   Some (SourceSnapshot _) \<Rightarrow> Ret (Inl (StatusErr Unimplemented []))
                 | Some (SourceVolume _) \<Rightarrow> Ret (Inl (StatusErr Unimplemented []))
                 | _ \<Rightarrow>
                     tryP (callErr (BeginCreateVolume volName (vp_PVCNamespace params) (vp_PVCName params))) (\<lambda>_.
                       finallyP (create_protected G req params volName size') (FinishCreateVolume volName))))"

definition cs_deleteVolume :: "globals \<Rightarrow> string \<Rightarrow> (gerr + unit) prog" where
  "cs_deleteVolume G volumeID =
     bindP (GetLVMVolume G volumeID) (\<lambda>r. case r of
         Inl e \<Rightarrow>
           if IsNotFound e then Ret (Inr ())
           else Ret (Inl (WrapErr e [MStr ''failed to get volume for {'', MStr volumeID, MStr ''}'']))
       | Inr vol \<Rightarrow>
           bindP (if DeletionTimestamp vol = None then lvm_DeleteVolume G volumeID else Ret (Inr ())) (\<lambda>r. case r of
               Inl e \<Rightarrow> Ret (Inl (WrapErr e [MStr ''failed to handle delete volume request for {'', MStr volumeID, MStr ''}'']))
             | Inr _ \<Rightarrow>
                 tryP (WaitForLVMVolumeDestroy G volumeID) (\<lambda>_.
                   bindP (sendEventOrIgnore G [] volumeID (Capacity (Spec vol)) VolumeDeprovision) (\<lambda>_. Ret (Inr ())))))"

definition validateDeleteVolumeReq :: "globals \<Rightarrow> controller \<Rightarrow> string \<Rightarrow> (gerr + unit) prog" where
  "validateDeleteVolumeReq G cs reqId =
     (let volumeID = ToLower reqId in
      if volumeID = []
      then Ret (Inl (StatusErr InvalidArgument [MStr ''failed to handle delete volume request: missing volume id'']))
      else bindP (GetSnapshotForVolume G volumeID) (\<lambda>r. case r of
          Inl e \<Rightarrow> Ret (Inl (StatusErr NotFound
            [MStr ''failed to handle delete volume request for {'', MStr reqId,
             MStr ''}, validation failed checking for active snapshots. Error: '', MErr e]))
        | Inr snapList \<Rightarrow>
            if snapList \<noteq> []
            then Ret (Inl (StatusErr Internal
              [MStr ''failed to handle delete volume request for {'', MStr reqId, MStr ''} with '',
               MStr (FormatInt (int (length snapList))), MStr '' active snapshots'']))
            else case validateRequest cs RPC_CREATE_DELETE_VOLUME of
                Inl e \<Rightarrow> Ret (Inl (WrapErr e
                  [MStr ''failed to handle delete volume request for {'', MStr volumeID, MStr ''} : validation failed'']))
              | Inr _ \<Rightarrow> Ret (Inr ())))"

definition cs_DeleteVolume :: "globals \<Rightarrow> controller \<Rightarrow> string \<Rightarrow> (gerr + unit) prog" where
  "cs_DeleteVolume G cs reqId =
     tryP (validateDeleteVolumeReq G cs reqId) (\<lambda>_.
       tryP (cs_deleteVolume G (ToLower reqId)) (\<lambda>_. Ret (Inr (dvr_Build NewDeleteVolumeResponseBuilder))))"

definition hasSupport :: "VolumeCapability \<Rightarrow> bool" where
  "hasSupport c = (\<exists>m \<in> set SupportedVolumeCapabilityAccessModes. m = GetMode c)"

definition isValidVolumeCapabilities :: "VolumeCapability list \<Rightarrow> bool" where
  "isValidVolumeCapabilities volCaps = fold (\<lambda>c foundAll. if \<not> hasSupport c then False else foundAll) volCaps True"

text \<open>The response holds the confirmed capabilities, if any.\<close>

definition cs_ValidateVolumeCapabilities ::
  "globals \<Rightarrow> string \<Rightarrow> VolumeCapability list \<Rightarrow> (gerr + VolumeCapability list option) prog" where
  "cs_ValidateVolumeCapabilities G reqId volCaps =
     (let volumeID = ToLower reqId in
      if volumeID = [] then Ret (Inl (StatusErr InvalidArgument [MStr ''Volume ID not provided'']))
      else if volCaps = [] then Ret (Inl (StatusErr InvalidArgument [MStr ''Volume capabilities not provided'']))
      else bindP (GetLVMVolume G volumeID) (\<lambda>r. case r of
          Inl e \<Rightarrow> Ret (Inl (StatusErr NotFound [MStr ''Get volume failed err '', MErr e]))
        | Inr _ \<Rightarrow> Ret (Inr (if isValidVolumeCapabilities volCaps then Some volCaps else None))))"

definition cs_ControllerGetCapabilities :: "controller \<Rightarrow> gerr + RpcType list" where
  "cs_ControllerGetCapabilities cs = Inr (cs_capabilities cs)"

definition IsSupportedVolumeCapabilityAccessMode :: "AccessMode \<Rightarrow> bool" where
  "IsSupportedVolumeCapabilityAccessMode accessMode = (\<exists>access \<in> set SupportedVolumeCapabilityAccessModes. accessMode = access)"

text \<open>The request has a volume id and, in an optional capacity range, the required bytes.\<close>

definition cs_ControllerExpandVolume :: "globals \<Rightarrow> string \<Rightarrow> int option \<Rightarrow> (gerr + ExpandVolumeResponse) prog" where
  "cs_ControllerExpandVolume G reqId required =
     (let volumeID = ToLower reqId in
      if volumeID = [] then Ret (Inl (StatusErr InvalidArgument [MStr ''ControllerExpandVolume: no volumeID provided'']))
      else bindP (GetSnapshotForVolume G volumeID) (\<lambda>r. case r of
          Inl e \<Rightarrow> Ret (Inl (StatusErr NotFound
            [MStr ''failed to handle ControllerExpandVolume Request for '', MStr reqId, MStr '', {'', MErr e, MStr ''}'']))
        | Inr snapList \<Rightarrow>
            if snapList \<noteq> []
            then Ret (Inl (StatusErr Internal
              [MStr ''ControllerExpandVolume: unable to resize volume '', MStr reqId, MStr '' with '',
               MStr (FormatInt (int (length snapList))), MStr '' active snapshots'']))
            else
              let updatedSize = getRoundedCapacity (case required of None \<Rightarrow> 0 | Some n \<Rightarrow> n)
              in bindP (GetLVMVolume G volumeID) (\<lambda>r. case r of
                  Inl e \<Rightarrow> Ret (Inl (StatusErr Internal
                    [MStr ''ControllerExpandVolumeRequest: failed to get LVMVolume for '', MStr volumeID, MStr '', {'', MErr e, MStr ''}'']))
                | Inr vol \<Rightarrow>
                    (case ParseInt (Capacity (Spec vol)) of
                       (_, Some ne) \<Rightarrow> Ret (Inl (StatusErr Internal
                         [MStr ''ControllerExpandVolumeRequest: failed to parse volsize in for '', MStr volumeID, MStr '', {'',
                          MErr (NumErr ne (Capacity (Spec vol))), MStr ''}'']))
                     | (volsize, None) \<Rightarrow>
                         if updatedSize \<le> volsize
                         then Ret (Inr (evr_Build (chain NewControllerExpandVolumeResponseBuilder [evr_WithCapacityBytes volsize])))
                         else bindP (ResizeVolume G vol updatedSize) (\<lambda>r. case r of
                             Inl e \<Rightarrow> Ret (Inl (StatusErr Internal
                               [MStr ''failed to handle ControllerExpandVolumeRequest for '', MStr volumeID, MStr '', {'', MErr e, MStr ''}'']))
                           | Inr _ \<Rightarrow> Ret (Inr (evr_Build (chain NewControllerExpandVolumeResponseBuilder
                               [evr_WithCapacityBytes updatedSize, evr_WithNodeExpansionRequired True]))))))))"

definition validateSnapshotRequest :: "globals \<Rightarrow> CreateSnapshotRequest \<Rightarrow> (gerr + unit) prog" where
  "validateSnapshotRequest G req =
     (let snapName = ToLower (sr_Name req); volumeID = ToLower (sr_SourceVolumeId req) in
      if snapName = [] \<or> volumeID = []
      then Ret (Inl (StatusErr InvalidArgument
        [MStr ''CreateSnapshot error invalid request '', MStr volumeID, MStr '': '', MStr snapName]))
      else bindP (GetLVMSnapshot G snapName) (\<lambda>r. case r of
          Inl e \<Rightarrow>
            if IsNotFound e then Ret (Inr ())
            else Ret (Inl (StatusErr NotFound
              [MStr ''CreateSnapshot error snap '', MStr snapName, MStr '' '', MStr volumeID, MStr '' get failed : '', MErr e]))
        | Inr snap \<Rightarrow>
            if entry (Labels snap) LVMVolKey \<noteq> volumeID
            then Ret (Inl (StatusErr AlreadyExists
              [MStr ''CreateSnapshot error snapshot '', MStr snapName, MStr '' already exist for different source vol '',
               MStr (entry (Labels snap) LVMVolKey), MStr '': '', MStr volumeID]))
            else Ret (Inr ())))"

definition getSnapSize :: "(f64 \<Rightarrow> int) \<Rightarrow> SnapshotParams \<Rightarrow> int \<Rightarrow> int" where
  "getSnapSize oor params capacity =
     (let snapSize =
        (if \<not> AbsSnapSize params
         then int64_of_float oor (float_mul (float_of_int capacity) (float_div_const (sp_SnapSize params) 100))
         else let s = int64_of_float oor (sp_SnapSize params) in if capacity < s then capacity else s)
      in getRoundedCapacity snapSize)"

text \<open>The object that the snapshot request builds, with the error of the last \<^verbatim>\<open>Build\<close>; a failed first \<^verbatim>\<open>Build\<close> returns
  nil, from which \<^verbatim>\<open>BuildFrom\<close> makes a builder with an error.\<close>

definition build_snapshot :: "string \<Rightarrow> LVMVolume \<Rightarrow> int \<Rightarrow> gerr + LVMSnapshot" where
  "build_snapshot name vol snapSize =
     (let snapObj = snap_Build (chain snap_NewBuilder
            [snap_WithName name, snap_WithLabels [(LVMVolKey, Name vol)], snap_WithOwnerNode (OwnerNodeID (Spec vol)),
             snap_WithVolGroup (VolGroup (Spec vol))]);
          again = (\<lambda>sz. snap_Build (chain (snap_BuildFrom (case snapObj of Inl _ \<Rightarrow> None | Inr s \<Rightarrow> Some s)) [snap_WithSnapSize sz]))
      in if 0 < snapSize then again (FormatInt snapSize)
         else if ThinProvision (Spec vol) \<noteq> YES then again (Capacity (Spec vol))
         else snapObj)"

definition snapshot_response :: "CreateSnapshotRequest \<Rightarrow> int \<Rightarrow> string \<Rightarrow> SnapshotResponse" where
  "snapshot_response req snapTimeStamp state =
     csr_Build (chain NewCreateSnapshotResponseBuilder
       [csr_WithSourceVolumeID (sr_SourceVolumeId req), csr_WithSnapshotID (sr_SourceVolumeId req @ ''@'' @ sr_Name req),
        csr_WithCreationTime snapTimeStamp 0, csr_WithReadyToUse (state = LVMStatusReady)])"

text \<open>The part of \<^verbatim>\<open>CreateSnapshot\<close> after the volume was read. The errors of \<^verbatim>\<open>ParseInt\<close> and of the last
  \<^verbatim>\<open>GetLVMSnapshotStatus\<close> are ignored; the state is then empty.\<close>

definition snapshot_volume ::
  "globals \<Rightarrow> ((string \<rightharpoonup> string) \<Rightarrow> (string \<rightharpoonup> string)) \<Rightarrow> (string \<Rightarrow> gerr + int) \<Rightarrow> (f64 \<Rightarrow> int) \<Rightarrow>
     CreateSnapshotRequest \<Rightarrow> int \<Rightarrow> LVMVolume \<Rightarrow> (gerr + SnapshotResponse) prog" where
  "snapshot_volume G ci quantity oor req snapTimeStamp vol =
     (let capacity = fst (ParseInt (Capacity (Spec vol)))
      in case NewSnapshotParams ci quantity (sr_Parameters req) of
          Inl e \<Rightarrow> Ret (Inl (StatusErr InvalidArgument [MStr ''failed to parse csi volume params: '', MErr e]))
        | Inr params \<Rightarrow>
            (case build_snapshot (sr_Name req) vol (getSnapSize oor params capacity) of
               Inl e \<Rightarrow> Ret (Inl (StatusErr Internal
                 [MStr ''failed to create snapshotobject for '', MStr (sr_SourceVolumeId req), MStr '': '', MStr (sr_Name req),
                  MStr '', {'', MErr e, MStr ''}'']))
             | Inr snapObj \<Rightarrow>
                 bindP (ProvisionSnapshot G (snapObj\<lparr>snap_Status := (snap_Status snapObj)\<lparr>snap_State := LVMStatusPending\<rparr>\<rparr>))
                   (\<lambda>r. case r of
                     Inl e \<Rightarrow> Ret (Inl (StatusErr Internal
                       [MStr ''failed to handle CreateSnapshotRequest for '', MStr (sr_SourceVolumeId req), MStr '': '',
                        MStr (sr_Name req), MStr '', {'', MErr e, MStr ''}'']))
                   | Inr _ \<Rightarrow>
                       bindP (GetLVMSnapshotStatus G (sr_Name req)) (\<lambda>r.
                         Ret (Inr (snapshot_response req snapTimeStamp (case r of Inl _ \<Rightarrow> [] | Inr state \<Rightarrow> state)))))))"

definition cs_CreateSnapshot ::
  "globals \<Rightarrow> ((string \<rightharpoonup> string) \<Rightarrow> (string \<rightharpoonup> string)) \<Rightarrow> (string \<Rightarrow> gerr + int) \<Rightarrow> (f64 \<Rightarrow> int) \<Rightarrow>
     CreateSnapshotRequest \<Rightarrow> (gerr + SnapshotResponse) prog" where
  "cs_CreateSnapshot G ci quantity oor req =
     tryP (validateSnapshotRequest G req) (\<lambda>_.
       OpNow () (\<lambda>snapTimeStamp.
         bindP (GetLVMSnapshotStatus G (sr_Name req)) (\<lambda>r. case r of
             Inr state \<Rightarrow> Ret (Inr (snapshot_response req snapTimeStamp state))
           | Inl _ \<Rightarrow>
               bindP (GetLVMVolume G (sr_SourceVolumeId req)) (\<lambda>r. case r of
                   Inl e \<Rightarrow> Ret (Inl (StatusErr Internal
                     [MStr ''CreateSnapshot not able to get volume '', MStr (sr_SourceVolumeId req), MStr '': '', MStr (sr_Name req),
                      MStr '', {'', MErr e, MStr ''}'']))
                 | Inr vol \<Rightarrow> snapshot_volume G ci quantity oor req snapTimeStamp vol))))"

definition cs_DeleteSnapshot :: "globals \<Rightarrow> string \<Rightarrow> (gerr + unit) prog" where
  "cs_DeleteSnapshot G SnapId =
     (case Split CHR ''@'' SnapId of
        [_, snapName] \<Rightarrow>
          bindP (lvm_DeleteSnapshot G snapName) (\<lambda>r. case r of
              Inl e \<Rightarrow> Ret (Inl (StatusErr Internal
                [MStr ''failed to handle DeleteSnapshot for '', MStr SnapId, MStr '', {'', MErr e, MStr ''}'']))
            | Inr _ \<Rightarrow> Ret (Inr ()))
      | _ \<Rightarrow> Ret (Inl (StatusErr Internal
          [MStr ''failed to handle DeleteSnapshot for '', MStr SnapId,
           MStr '', {failed to get the snapshot name, Manual intervention required}''])))"

definition cs_ListSnapshots :: "gerr + unit" where
  "cs_ListSnapshots = Inl (StatusErr Unimplemented [])"

definition cs_ControllerUnpublishVolume :: "gerr + unit" where
  "cs_ControllerUnpublishVolume = Inl (StatusErr Unimplemented [])"

definition cs_ControllerPublishVolume :: "gerr + unit" where
  "cs_ControllerPublishVolume = Inl (StatusErr Unimplemented [])"

definition cs_ListVolumes :: "gerr + unit" where
  "cs_ListVolumes = Inl (StatusErr Unimplemented [])"

definition LabelIndexName :: "string \<Rightarrow> string" where
  "LabelIndexName label = ''l:'' @ label"

text \<open>An object whose metadata cannot be accessed is an error.\<close>

definition LabelIndexFunc :: "string \<Rightarrow> (gerr + string \<times> (string \<rightharpoonup> string)) \<Rightarrow> gerr + string list" where
  "LabelIndexFunc label obj = (case obj of
       Inl e \<Rightarrow> Inl (NewErr [MStr ''k8s api object type doesn't implements metav1.Object interface: '', MErr e])
     | Inr (_, lbls) \<Rightarrow> Inr (case lbls label of None \<Rightarrow> [] | Some v \<Rightarrow> [v]))"

fun filterNodes ::
  "(segments \<Rightarrow> (string \<rightharpoonup> string) \<Rightarrow> bool) \<Rightarrow> segments \<Rightarrow> (gerr + string \<times> (string \<rightharpoonup> string)) list \<Rightarrow> gerr + string list" where
  "filterNodes selects segs [] = Inr []"
| "filterNodes selects segs (Inl e # vs) = Inl e"
| "filterNodes selects segs (Inr (name, lbls) # vs) =
     map_sum id (\<lambda>names. if selects segs lbls then name # names else names) (filterNodes selects segs vs)"

definition filterNodesByTopology ::
  "controller \<Rightarrow> (segments \<Rightarrow> (string \<rightharpoonup> string) \<Rightarrow> bool) \<Rightarrow> segments \<Rightarrow> (gerr + string list) prog" where
  "filterNodesByTopology cs selects segs =
     (let list_all_nodes = OpK8sNodes ListK8sNodes (\<lambda>r. Ret (case r of Inl e \<Rightarrow> Inl e | Inr vs \<Rightarrow> filterNodes selects segs vs));
          indexName = LabelIndexName (cs_indexedLabel cs)
      in if segs = Map.empty then OpK8sKeys () (\<lambda>keys. Ret (Inr keys))
         else if indexName \<notin> set (cs_k8sIndexers cs) then list_all_nodes
         else case segs (cs_indexedLabel cs) of
             Some segValue \<Rightarrow>
               OpK8sNodes (K8sNodesByIndex indexName segValue) (\<lambda>r. Ret (case r of
                   Inl e \<Rightarrow> Inl (WrapErr e [MStr ''query indexed store indexName='', MStr indexName, MStr '' indexKey='', MStr segValue])
                 | Inr vs \<Rightarrow> filterNodes selects segs vs))
           | None \<Rightarrow> list_all_nodes)"

text \<open>The loop over the node names; an error of the cache is only logged.\<close>

fun capacity_loop :: "globals \<Rightarrow> Regexp \<Rightarrow> string list \<Rightarrow> int \<Rightarrow> int prog" where
  "capacity_loop G re [] availableCapacity = Ret availableCapacity"
| "capacity_loop G re (nodeName # names) availableCapacity =
     OpNodeKey (LvmNamespace G @ ''/'' @ nodeName) (\<lambda>r. case r of
         Inl _ \<Rightarrow> capacity_loop G re names availableCapacity
       | Inr None \<Rightarrow> capacity_loop G re names availableCapacity
       | Inr (Some lvmNode) \<Rightarrow> capacity_loop G re names (max_free re (VolumeGroups lvmNode) availableCapacity))"

definition cs_GetCapacity ::
  "globals \<Rightarrow> controller \<Rightarrow> ((string \<rightharpoonup> string) \<Rightarrow> (string \<rightharpoonup> string)) \<Rightarrow> (string \<Rightarrow> gerr + (string \<Rightarrow> bool)) \<Rightarrow>
     (segments \<Rightarrow> (string \<rightharpoonup> string) \<Rightarrow> bool) \<Rightarrow> segments option \<Rightarrow> (string \<rightharpoonup> string) \<Rightarrow> (gerr + int) prog" where
  "cs_GetCapacity G cs ci Compile selects topology parameters =
     (let segs = (case topology of None \<Rightarrow> Map.empty | Some t \<Rightarrow> t) in
      bindP (filterNodesByTopology cs selects segs) (\<lambda>r. case r of
          Inl e \<Rightarrow> Ret (Inl (StatusErr Internal [MErr e]))
        | Inr nodeNames \<Rightarrow>
            (case NewVolumeParams ci Compile parameters of
               Inl e \<Rightarrow> Ret (Inl (StatusErr InvalidArgument [MStr ''failed to parse csi volume params: '', MErr e]))
             | Inr params \<Rightarrow> bindP (capacity_loop G (vp_VgPattern params) nodeNames 0) (\<lambda>c. Ret (Inr c)))))"

section \<open>Rounding\<close>

lemma sub_add64: "sub64 (add64 n u) 1 = wrap64 (n + u - 1)"
  using wrap64_add_left [of "n + u" "- 1"] by (simp add: sub64_def add64_def algebra_simps)

lemma round_up_bounds:
  assumes "0 < (u :: int)"
  shows "n \<le> (n + u - 1) div u * u" and "(n + u - 1) div u * u < n + u"
  using div_mult_mod_eq [of "n + u - 1" u] pos_mod_bound [OF assms, of "n + u - 1"] pos_mod_sign [OF assms, of "n + u - 1"]
  by linarith+

lemma round_up_exact:
  assumes "0 < u" and "0 \<le> n" and "n + u - 1 \<le> max_int64"
  shows "mul64 (quot64 (sub64 (add64 n u) 1) u) u = (n + u - 1) div u * u"
proof -
  define q where "q = (n + u - 1) div u"
  have "q * u \<le> n + u - 1" using round_up_bounds(2) [OF assms(1), of n] by (simp add: q_def)
  moreover have "0 \<le> q" using assms by (simp add: q_def pos_imp_zdiv_nonneg_iff)
  moreover have "q \<le> q * u" using \<open>0 \<le> q\<close> assms(1) mult_left_mono [of 1 u q] by simp
  ultimately have "in_int64 (q * u)" "in_int64 q" and n: "in_int64 (n + u - 1)"
    using assms by (auto simp: in_int64_def min_int64_def)
  moreover have "(n + u - 1) sdiv u = q" using assms by (simp add: q_def sdiv_nonneg)
  ultimately show ?thesis
    by (simp add: sub_add64 mul64_def quot64_def wrap64_id q_def)
qed

lemma getRoundedCapacity_exact:
  assumes "0 \<le> n" and "n \<le> max_int64 - (Gi - 1)"
  shows "getRoundedCapacity n = (let u = if Gi < n then Gi else Mi in (n + u - 1) div u * u)"
  using round_up_exact [of Gi n] round_up_exact [of Mi n] assms
  by (simp add: getRoundedCapacity_def Let_def)

text \<open>Beyond the last multiple the sum wraps around and the result is negative.\<close>

lemma getRoundedCapacity_overflow:
  assumes "max_int64 - (Gi - 1) < n" and "n \<le> max_int64"
  shows "getRoundedCapacity n < 0"
proof -
  define s where "s = n + Gi - 1 - 2 ^ 64"
  have s: "min_int64 \<le> s" "s < min_int64 + Gi"
    using assms by (simp_all add: s_def max_int64_def min_int64_def)
  have "wrap64 (n + Gi - 1) = wrap64 s"
    using minus_mod_self2 [of "n + Gi - 1 + 2 ^ 63" "2 ^ 64"] unfolding wrap64_def s_def by (simp add: algebra_simps)
  then have w: "wrap64 (n + Gi - 1) = s"
    using s by (simp add: wrap64_id in_int64_def min_int64_def max_int64_def)
  define q where "q = s sdiv Gi"
  have "q = - ((- s) div Gi)"
    using s by (simp add: q_def signed_divide_int_def sgn_if min_int64_def)
  moreover have "2 ^ 33 - 1 \<le> (- s) div Gi" "(- s) div Gi \<le> 2 ^ 33"
    using s by (simp_all add: min_int64_def)
  ultimately have q: "- (2 ^ 33) \<le> q" "q \<le> - (2 ^ 33 - 1)" by simp_all
  then have "in_int64 q" "in_int64 (q * Gi)" by (simp_all add: in_int64_def min_int64_def max_int64_def)
  moreover have "Gi < n" using assms by (simp add: max_int64_def)
  ultimately have "getRoundedCapacity n = q * Gi"
    unfolding getRoundedCapacity_def sub_add64 w quot64_def mul64_def q_def [symmetric] by (simp add: wrap64_id)
  then show ?thesis using q by simp
qed

section \<open>Rules for the waits\<close>

definition wait_event :: "event \<Rightarrow> bool" where
  "wait_event ev \<longleftrightarrow> is_vol_read ev \<or> is_clientset_event ev \<or> (\<exists>c. ev = EvCtx () c)"

text \<open>Evidence that a volume resource is gone.\<close>

definition gone :: "globals \<Rightarrow> string \<Rightarrow> event \<Rightarrow> bool" where
  "gone G vid ev \<longleftrightarrow> (\<exists>e. IsNotFound e \<and> (ev = EvVol (VolGet (LvmNamespace G) vid) (Inl e) \<or> ev = cs_fail e))"

lemma wait_event_simps [simp]:
  "wait_event (EvVol (VolGet ns n) y)" "wait_event (EvErr (GetClientset p) z)" "wait_event (EvCtx () c)"
  by (simp_all add: wait_event_def)

lemma wait_event_cases:
  assumes "wait_event ev"
  obtains ns n y where "ev = EvVol (VolGet ns n) y" | p y where "ev = EvErr (GetClientset p) y" | c where "ev = EvCtx () c"
proof -
  have "\<exists>ns n y. ev = EvVol (VolGet ns n) y" if "is_vol_read ev"
    using that by (cases ev) (auto simp: is_vol_read_def split: vol_op.splits)
  moreover have "\<exists>p y. ev = EvErr (GetClientset p) y" if "is_clientset_event ev"
    using that by (cases ev) (auto simp: is_clientset_event_def split: err_op.splits)
  ultimately show ?thesis using assms that unfolding wait_event_def by blast
qed

lemma gone_wait_event: "gone G vid ev \<Longrightarrow> wait_event ev"
  by (auto simp: gone_def)

lemma wp_poll:
  assumes loop: "wp p (poll_result n (tr @ [EvCtx () c]) ok) (tr @ [EvCtx () c])"
    and fail: "\<And>u e. list_all wait_event u \<Longrightarrow> Q (Val (Inl e)) (tr @ u)"
    and good: "\<And>u ev a. list_all wait_event u \<Longrightarrow> ok a ev \<Longrightarrow> Q (Val (Inr a)) (tr @ u @ [ev])"
  shows "wp p Q (tr @ [EvCtx () c])"
proof (rule wp_mono [OF loop])
  fix r t
  assume "poll_result n (tr @ [EvCtx () c]) ok r t"
  then obtain u where u: "t = (tr @ [EvCtx () c]) @ u" "list_all read_only_event u"
    "case r of Crash _ \<Rightarrow> False | Val (Inl _) \<Rightarrow> True | Val (Inr a) \<Rightarrow> u \<noteq> [] \<and> ok a (last u)"
    by (auto simp: poll_result_def)
  from u(2) have w: "list_all wait_event u" by (auto simp: list_all_iff wait_event_def)
  from u(3) consider e where "r = Val (Inl e)" | a where "r = Val (Inr a)" "u \<noteq> []" "ok a (last u)"
    by (auto split: outcome.splits sum.splits)
  then show "Q r t"
  proof cases
    case 1
    then show ?thesis using fail [of "EvCtx () c # u" e] u(1) w by simp
  next
    case (2 a)
    then show ?thesis
      using good [of "EvCtx () c # butlast u" a "last u"] u(1) w by (cases u rule: rev_cases) simp_all
  qed
qed

lemma wp_WaitProcessed:
  assumes fail: "\<And>u e. list_all wait_event u \<Longrightarrow> Q (Val (Inl e)) (tr @ u)"
    and good: "\<And>u v. list_all wait_event u \<Longrightarrow> is_terminal v \<Longrightarrow>
      Q (Val (Inr v)) (tr @ u @ [EvVol (VolGet (LvmNamespace G) vid) (Inr v)])"
  shows "wp (WaitForLVMVolumeProcessed G vid) Q tr"
proof -
  have "wp (processed_loop G ce vid n) Q (tr @ [EvCtx () (n, ce)])" for n ce
  proof (cases "vid = []")
    case True
    then show ?thesis using fail [of "[EvCtx () (n, ce)]"] by (cases n) (simp_all add: wp_simps)
  next
    case False
    show ?thesis by (rule wp_poll, rule processed_loop_wp [OF False]) (use fail good in auto)
  qed
  then show ?thesis by (auto simp: WaitForLVMVolumeProcessed_def)
qed

lemma wp_WaitDestroy:
  assumes fail: "\<And>u e. list_all wait_event u \<Longrightarrow> Q (Val (Inl e)) (tr @ u)"
    and good: "\<And>u ev. list_all wait_event u \<Longrightarrow> gone G vid ev \<Longrightarrow> Q (Val (Inr ())) (tr @ u @ [ev])"
  shows "wp (WaitForLVMVolumeDestroy G vid) Q tr"
proof -
  have "wp (destroy_loop G ce vid n) Q (tr @ [EvCtx () (n, ce)])" for n ce
  proof (cases "vid = []")
    case True
    then show ?thesis using fail [of "[EvCtx () (n, ce)]"] by (cases n) (simp_all add: wp_simps)
  next
    case False
    show ?thesis by (rule wp_poll, rule destroy_loop_wp [OF False]) (use fail good in \<open>auto simp: gone_def\<close>)
  qed
  then show ?thesis by (auto simp: WaitForLVMVolumeDestroy_def)
qed

text \<open>The runs of \<^verbatim>\<open>waitForLVMVolume\<close>: it fails without a change, returns a ready volume, or, for a volume that was not
  ready and carries an error, deletes it and, if asked to schedule again, has seen it gone.\<close>

lemma wp_settle_volume:
  assumes fail: "\<And>u e. list_all wait_event u \<Longrightarrow> Q (Val (Inl (False, e))) (tr @ u)"
    and ready: "State (Status v) = LVMStatusReady \<Longrightarrow> Q (Val (Inr v)) tr"
    and del: "\<And>y rest res. State (Status v) \<noteq> LVMStatusReady \<Longrightarrow> StatusError (Status v) \<noteq> None \<Longrightarrow>
      list_all wait_event rest \<Longrightarrow> (fst res \<longrightarrow> (\<exists>rest' ev. rest = rest' @ [ev] \<and> gone G (Name v) ev)) \<Longrightarrow>
      Q (Val (Inl res)) (tr @ [cs_ok, EvErr (VolDelete (LvmNamespace G) (Name v)) y] @ rest)"
  shows "wp (settle_volume G v) Q tr"
proof (cases "State (Status v) = LVMStatusReady \<or> StatusError (Status v) = None")
  case True
  then show ?thesis using ready fail [of "[]"] by (auto simp: settle_volume_def)
next
  case False
  then have v: "State (Status v) \<noteq> LVMStatusReady" "StatusError (Status v) \<noteq> None" by auto
  have wait: "wp (bindP (WaitForLVMVolumeDestroy G (Name v))
        (\<lambda>r. case r of Inl e \<Rightarrow> Ret (Inl (False, err e)) | Inr _ \<Rightarrow> Ret (Inl (True, m)))) Q
      (tr @ [cs_ok, EvErr (VolDelete (LvmNamespace G) (Name v)) None])" for err m
    unfolding wp_bindP
  proof (rule wp_WaitDestroy, goal_cases)
    case (1 u e)
    then show ?case using del [OF v, of u "(False, err e)" None] by simp
  next
    case (2 u ev)
    then show ?case using del [OF v, of "u @ [ev]" "(True, m)" None] gone_wait_event [of G "Name v" ev] by auto
  qed
  show ?thesis
    using v fail [of "[]"] fail [of "[cs_fail _]"] del [OF v, of "[]"] wait
    by (auto simp: settle_volume_def wp_simps)
qed

lemma wp_waitForLVMVolume:
  assumes fail: "\<And>u e. list_all wait_event u \<Longrightarrow> Q (Val (Inl (False, e))) (tr @ u)"
    and now: "State (Status vol) = LVMStatusReady \<Longrightarrow> Q (Val (Inr vol)) tr"
    and later: "\<And>u v. list_all wait_event u \<Longrightarrow> State (Status v) = LVMStatusReady \<Longrightarrow>
      Q (Val (Inr v)) (tr @ u @ [EvVol (VolGet (LvmNamespace G) (Name vol)) (Inr v)])"
    and del: "\<And>v u y rest res. u = [] \<and> v = vol \<or>
        (\<exists>u0. list_all wait_event u0 \<and> u = u0 @ [EvVol (VolGet (LvmNamespace G) (Name vol)) (Inr v)]) \<Longrightarrow>
      State (Status v) \<noteq> LVMStatusReady \<Longrightarrow> StatusError (Status v) \<noteq> None \<Longrightarrow> list_all wait_event rest \<Longrightarrow>
      (fst res \<longrightarrow> (\<exists>rest' ev. rest = rest' @ [ev] \<and> gone G (Name v) ev)) \<Longrightarrow>
      Q (Val (Inl res)) (tr @ u @ [cs_ok, EvErr (VolDelete (LvmNamespace G) (Name v)) y] @ rest)"
  shows "wp (waitForLVMVolume G vol) Q tr"
proof -
  have settle: "wp (settle_volume G v) Q (tr @ u)"
    if "list_all wait_event u" and "State (Status v) = LVMStatusReady \<Longrightarrow> Q (Val (Inr v)) (tr @ u)"
      and src: "u = [] \<and> v = vol \<or> (\<exists>u0. list_all wait_event u0 \<and>
        u = u0 @ [EvVol (VolGet (LvmNamespace G) (Name vol)) (Inr v)])" for v u
    by (rule wp_settle_volume) (use fail [of "u @ _"] that(1,2) del [OF src] in auto)
  have "wp (bindP (WaitForLVMVolumeProcessed G (Name vol))
      (\<lambda>r. case r of Inl e \<Rightarrow> Ret (Inl (False, e)) | Inr v \<Rightarrow> settle_volume G v)) Q tr"
    unfolding wp_bindP by (rule wp_WaitProcessed) (use fail settle later in auto)
  with settle [of "[]" vol] now show ?thesis
    by (simp add: waitForLVMVolume_def)
qed

lemma runs_finallyP_step:
  assumes "\<And>m tr. m \<in> range k \<Longrightarrow> runs (finallyP m u) tr r \<longleftrightarrow> (\<exists>t. tr = t @ [EvUnit u ()] \<and> runs m t r)"
  shows "(\<exists>y tr'. tr = E y # tr' \<and> runs (finallyP (k y) u) tr' r) \<longleftrightarrow>
    (\<exists>t. tr = t @ [EvUnit u ()] \<and> (\<exists>y tr'. t = E y # tr' \<and> runs (k y) tr' r))"
  using assms by (auto 4 4)

lemma runs_finallyP: "runs (finallyP m u) tr r \<longleftrightarrow> (\<exists>t. tr = t @ [EvUnit u ()] \<and> runs m t r)"
proof (induction m arbitrary: tr)
  case (Ret a)
  then show ?case by auto
next
  case (Panic s)
  then show ?case by auto
qed (unfold runs.simps finallyP.simps, (rule runs_finallyP_step, assumption)+)

lemma no_crash_requests [no_crash_intros]:
  "no_crash (GetLVMVolume G vid)" "no_crash (ProvisionVolume G vol)" "no_crash (waitForLVMVolume G vol)"
  "no_crash (WaitForLVMVolumeDestroy G vid)" "no_crash (getNodeMap G schd re)"
  unfolding no_crash_wp
  by (simp_all add: wp_simps wp_waitForLVMVolume wp_WaitDestroy)
    (simp add: getNodeMap_def getVolumeWeightedMap_def getCapacityWeightedMap_def getSpaceWeightedMap_def wp_simps split_sum_all)

lemma no_crash_CreateLVMVolume: "cv_RequiredBytes req = Some n \<Longrightarrow> no_crash (CreateLVMVolume G req params)"
  unfolding CreateLVMVolume_def create_scheduled_def by (simp, intro no_crash_intros)

section \<open>Creating a volume\<close>

text \<open>What the API server answered last about volumes; a clientset that could not be built counts as an answer.\<close>

definition is_answer :: "event \<Rightarrow> bool" where
  "is_answer ev = (case ev of EvVol _ _ \<Rightarrow> True | EvErr (GetClientset _) (Some _) \<Rightarrow> True | _ \<Rightarrow> False)"

definition last_answer :: "event list \<Rightarrow> event option" where
  "last_answer tr = fold (\<lambda>ev a. if is_answer ev then Some ev else a) tr None"

lemma last_answer_snoc: "last_answer (tr @ [ev]) = (if is_answer ev then Some ev else last_answer tr)"
  by (simp add: last_answer_def)

lemma last_answer_Nil [simp]: "last_answer [] = None"
  by (simp add: last_answer_def)

lemma last_answer_append: "last_answer (tr @ u) = (case last_answer u of None \<Rightarrow> last_answer tr | a \<Rightarrow> a)"
  by (induction u rule: rev_induct) (simp_all add: last_answer_snoc append_assoc [symmetric] del: append_assoc split: option.splits)

lemma last_answer_Cons [simp]: "last_answer (ev # u) =
    (case last_answer u of None \<Rightarrow> (if is_answer ev then Some ev else None) | a \<Rightarrow> a)"
  using last_answer_append [of "[ev]" u] last_answer_snoc [of "[]" ev] by (simp split: option.split)

lemma is_answer_simps [simp]:
  "is_answer (EvVol x y)" "is_answer (cs_fail e)" "\<not> is_answer cs_ok" "\<not> is_answer (EvCtx u c)"
  "\<not> is_answer (EvVols ns ys)" "\<not> is_answer (EvNodes ns zs)" "\<not> is_answer (EvSched a b)"
  "\<not> is_answer (EvErr (VolDelete ns n) z)" "\<not> is_answer (EvUnit w k)" "\<not> is_answer (EvSnaps s t)"
  by (simp_all add: is_answer_def)

lemma gone_is_answer [simp]: "gone G vid ev \<Longrightarrow> is_answer ev"
  by (auto simp: gone_def)

text \<open>The resource that a request creates on a node.\<close>

definition pending_volume :: "CreateVolumeRequest \<Rightarrow> VolumeParams \<Rightarrow> int \<Rightarrow> string \<Rightarrow> LVMVolume" where
  "pending_volume req params n owner =
     zero_LVMVolume\<lparr>Name := ToLower (cv_Name req),
       Spec := \<lparr>OwnerNodeID = owner, VolGroup = [], VgPattern = fst (vp_VgPattern params),
                Capacity = FormatInt (getRoundedCapacity n), Shared = vp_Shared params,
                ThinProvision = vp_ThinProvision params\<rparr>,
       Status := \<lparr>State = LVMStatusPending, StatusError = None\<rparr>\<rparr>"

definition is_create :: "event \<Rightarrow> bool" where
  "is_create ev = (case ev of EvVol (VolCreate _ _) _ \<Rightarrow> True | _ \<Rightarrow> False)"

text \<open>When a change of the resources is justified by the operations before it.\<close>

definition create_ok :: "globals \<Rightarrow> CreateVolumeRequest \<Rightarrow> VolumeParams \<Rightarrow> int \<Rightarrow> event list \<Rightarrow> event \<Rightarrow> bool" where
  "create_ok G req params n pre ev = (case ev of
       EvVol (VolCreate ns w) _ \<Rightarrow>
         ns = LvmNamespace G \<and> list_all (Not \<circ> is_create) pre \<and>
         (\<exists>a. last_answer pre = Some a \<and> gone G (ToLower (cv_Name req)) a) \<and>
         (\<exists>nmap owner rest. EvSched (cv_Accessibility req, nmap) (owner # rest) \<in> set pre \<and> w = pending_volume req params n owner)
     | EvVol (VolUpdate _ _) _ \<Rightarrow> False
     | EvErr (VolDelete ns vid) _ \<Rightarrow>
         ns = LvmNamespace G \<and> (\<exists>x v. last_answer pre = Some (EvVol x (Inr v)) \<and> Name v = vid \<and>
           State (Status v) \<noteq> LVMStatusReady \<and> StatusError (Status v) \<noteq> None)
     | _ \<Rightarrow> True)"

lemma create_ok_wait: "wait_event ev \<Longrightarrow> create_ok G req params n pre ev"
  by (erule wait_event_cases) (simp_all add: create_ok_def)

lemma create_ok_simps [simp]:
  "create_ok G req params n pre (EvErr (GetClientset p) z)" "create_ok G req params n pre (EvVols ns ys)"
  "create_ok G req params n pre (EvNodes ns zs)" "create_ok G req params n pre (EvSched a b)"
  "create_ok G req params n pre (EvVol (VolGet ns vid) y)"
  by (simp_all add: create_ok_def)

lemma wait_not_create: "list_all wait_event u \<Longrightarrow> list_all (Not \<circ> is_create) u"
  by (induction u) (auto simp: is_create_def elim!: wait_event_cases)

lemma each_create_ok_append:
  "each_event (create_ok G req params n) tr \<Longrightarrow> list_all wait_event u \<Longrightarrow> each_event (create_ok G req params n) (tr @ u)"
  unfolding each_event_append by (auto intro!: each_event_trivial simp: list_all_iff create_ok_wait)

text \<open>A returned volume is ready and the last answer of the API server.\<close>

definition created :: "globals \<Rightarrow> CreateVolumeRequest \<Rightarrow> VolumeParams \<Rightarrow> int \<Rightarrow> (gerr + LVMVolume) outcome \<Rightarrow> event list \<Rightarrow> bool" where
  "created G req params n r tr \<longleftrightarrow> each_event (create_ok G req params n) tr \<and> (case r of
       Crash _ \<Rightarrow> False
     | Val (Inl _) \<Rightarrow> True
     | Val (Inr v) \<Rightarrow> State (Status v) = LVMStatusReady \<and> (\<exists>x. last_answer tr = Some (EvVol x (Inr v))))"

lemma wp_getNodeMap:
  assumes "\<And>e e'. Q (Val (Inl e')) (tr @ [cs_fail e])"
    and "\<And>ns y e. Q (Val (Inl e)) (tr @ [cs_ok, EvVols ns y])" and "\<And>ns y e. Q (Val (Inl e)) (tr @ [cs_ok, EvNodes ns y])"
    and "\<And>ns y m. Q (Val (Inr m)) (tr @ [cs_ok, EvVols ns y])" and "\<And>ns y m. Q (Val (Inr m)) (tr @ [cs_ok, EvNodes ns y])"
  shows "wp (getNodeMap G schd re) Q tr"
  using assms by (auto simp: getNodeMap_def getVolumeWeightedMap_def getCapacityWeightedMap_def getSpaceWeightedMap_def
      wp_simps split_sum_all)

lemma wp_waited:
  assumes "each_event (create_ok G req params n) tr" and "last_answer tr = Some (EvVol x (Inr vol))"
    and resched: "\<And>u e v ev. each_event (create_ok G req params n) (tr @ u) \<Longrightarrow> list_all (Not \<circ> is_create) u \<Longrightarrow>
      last_answer (tr @ u) = Some ev \<Longrightarrow> gone G (Name v) ev \<Longrightarrow>
      v = vol \<or> EvVol (VolGet (LvmNamespace G) (Name vol)) (Inr v) \<in> set u \<Longrightarrow> Q (Val (Inl (True, e))) (tr @ u)"
    and fin: "\<And>r u. created G req params n (map_outcome (map_sum snd id) r) (tr @ u) \<Longrightarrow> (\<forall>e. r \<noteq> Val (Inl (True, e))) \<Longrightarrow> Q r (tr @ u)"
  shows "wp (waitForLVMVolume G vol) Q tr"
proof (rule wp_waitForLVMVolume, goal_cases)
  case (1 u e)
  then show ?case
    using assms(1) by (intro fin) (auto simp: created_def each_create_ok_append)
next
  case 2
  then show ?case
    using assms(1,2) fin [of "Val (Inr vol)" "[]"] by (auto simp: created_def)
next
  case (3 u v)
  then show ?case
    using assms(1) by (intro fin) (auto simp: created_def each_create_ok_append last_answer_append)
next
  case (4 v u y rest res)
  then have u: "list_all wait_event u" by auto
  have ans: "\<exists>x. last_answer (tr @ u) = Some (EvVol x (Inr v))"
    using 4(1) assms(2) by (auto simp: last_answer_append)
  have "each_event (create_ok G req params n) ((tr @ u) @ [cs_ok, EvErr (VolDelete (LvmNamespace G) (Name v)) y])"
    using each_create_ok_append [OF assms(1) u] 4(2,3) ans
    unfolding each_event_append [of _ "tr @ u"] by (auto simp: create_ok_def last_answer_append)
  from each_create_ok_append [OF this 4(4)]
  have each: "each_event (create_ok G req params n)
      (tr @ u @ [cs_ok, EvErr (VolDelete (LvmNamespace G) (Name v)) y] @ rest)" by simp
  show ?case
  proof (cases "fst res")
    case True
    then obtain rest' ev where "rest = rest' @ [ev]" "gone G (Name v) ev" using 4(5) by blast
    moreover from this have "last_answer (tr @ u @ [cs_ok, EvErr (VolDelete (LvmNamespace G) (Name v)) y] @ rest) = Some ev"
      by (simp add: last_answer_append last_answer_snoc)
    ultimately have "Q (Val (Inl (True, snd res))) (tr @ u @ [cs_ok, EvErr (VolDelete (LvmNamespace G) (Name v)) y] @ rest)"
      using each 4(1) wait_not_create [OF u] wait_not_create [OF 4(4)]
      by (intro resched [where v = v and ev = ev]) (auto simp: is_create_def)
    with True show ?thesis by (cases res) simp
  next
    case False
    then show ?thesis using each by (cases res) (intro fin, auto simp: created_def)
  qed
qed

lemma build_pending:
  assumes "vol_Build (chain vol_NewBuilder
      [vol_WithName (ToLower (cv_Name req)), vol_WithCapacity (FormatInt (getRoundedCapacity n)),
       vol_WithVgPattern (fst (vp_VgPattern params)), vol_WithOwnerNode owner, vol_WithVolumeStatus LVMStatusPending,
       vol_WithShared (vp_Shared params), vol_WithThinProvision (vp_ThinProvision params)]) = Inr w"
  shows "w = pending_volume req params n owner"
  using assms
  by (auto simp: vol_NewBuilder_def vol_builder_defs vol_Build_def pending_volume_def zero_LVMVolume_def on_object_def
      split: if_splits)

lemma created_Inl [simp]: "created G req params n (Val (Inl e)) tr \<longleftrightarrow> each_event (create_ok G req params n) tr"
  by (simp add: created_def)

text \<open>Creating the built volume and waiting for it, after a node was selected.\<close>

lemma wp_provision_built:
  assumes t: "each_event (create_ok G req params n) t" "last_answer t = Some a" "gone G (ToLower (cv_Name req)) a"
    "list_all (Not \<circ> is_create) t"
    and b: "b owner = vol_Build (chain vol_NewBuilder
      [vol_WithName (ToLower (cv_Name req)), vol_WithCapacity (FormatInt (getRoundedCapacity n)),
       vol_WithVgPattern (fst (vp_VgPattern params)), vol_WithOwnerNode owner, vol_WithVolumeStatus LVMStatusPending,
       vol_WithShared (vp_Shared params), vol_WithThinProvision (vp_ThinProvision params)])"
  shows "wp (case b owner of
        Inl e \<Rightarrow> Ret (Inl (f e))
      | Inr volObj \<Rightarrow> bindP (ProvisionVolume G volObj) (\<lambda>r. case r of
          Inl e \<Rightarrow> Ret (Inl (g e)) | Inr vol \<Rightarrow> bindP (waitForLVMVolume G vol) (\<lambda>r. Ret (map_sum snd id r))))
      (created G req params n) (t @ [EvSched (cv_Accessibility req, nmap) (owner # rest)])"
proof (cases "b owner")
  case (Inl e)
  then show ?thesis using t by (simp add: each_event_snoc)
next
  case (Inr w)
  have finish: "wp (bindP (waitForLVMVolume G vol) (\<lambda>r. Ret (map_sum snd id r))) (created G req params n) t"
    if "each_event (create_ok G req params n) t" "last_answer t = Some (EvVol x (Inr vol))" for t x vol
    unfolding wp_bindP
    by (rule wp_waited [OF that]) (auto split: outcome.splits)
  from Inr b have w: "w = pending_volume req params n owner" by (intro build_pending) simp
  have ok: "each_event (create_ok G req params n) (t @ [EvSched (cv_Accessibility req, nmap) (owner # rest), cs_ok,
      EvVol (VolCreate (LvmNamespace G) w) y])" for y
    using t by (auto simp: each_event_append create_ok_def w last_answer_append is_create_def)
  show ?thesis
    unfolding Inr sum.case wp_bindP [of "ProvisionVolume G w"] wp_ProvisionVolume
    using t ok finish by (auto simp: each_event_append split_sum_all last_answer_append)
qed

lemma wp_create_scheduled:
  assumes each: "each_event (create_ok G req params n) tr" and "last_answer tr = Some a"
    and "gone G (ToLower (cv_Name req)) a" and "list_all (Not \<circ> is_create) tr"
  shows "wp (create_scheduled G req params (ToLower (cv_Name req)) (FormatInt (getRoundedCapacity n)))
    (created G req params n) tr"
proof -
  let ?b = "\<lambda>owner. vol_Build (chain vol_NewBuilder
      [vol_WithName (ToLower (cv_Name req)), vol_WithCapacity (FormatInt (getRoundedCapacity n)),
       vol_WithVgPattern (fst (vp_VgPattern params)), vol_WithOwnerNode owner, vol_WithVolumeStatus LVMStatusPending,
       vol_WithShared (vp_Shared params), vol_WithThinProvision (vp_ThinProvision params)])"
  have sched: "wp (OpSched (cv_Accessibility req, nmap) (\<lambda>selected. case selected of
        [] \<Rightarrow> Ret (Inl e1)
      | owner # _ \<Rightarrow> (case ?b owner of
          Inl e \<Rightarrow> Ret (Inl (f e))
        | Inr volObj \<Rightarrow> bindP (ProvisionVolume G volObj) (\<lambda>r. case r of
            Inl e \<Rightarrow> Ret (Inl (g e)) | Inr vol \<Rightarrow> bindP (waitForLVMVolume G vol) (\<lambda>r. Ret (map_sum snd id r))))))
      (created G req params n) t"
    if t: "each_event (create_ok G req params n) t" "last_answer t = Some a" "list_all (Not \<circ> is_create) t"
    for t nmap e1 and f g :: "gerr \<Rightarrow> gerr"
    using t wp_provision_built [OF t(1,2) assms(3) t(3), of ?b, OF refl]
    by (auto simp: each_event_snoc simp del: chain_Cons split: list.splits)
  show ?thesis
    unfolding create_scheduled_def wp_bindP [of "getNodeMap _ _ _"]
    by (rule wp_getNodeMap)
      (use assms in \<open>auto simp del: wp.simps chain_Cons simp: each_event_append last_answer_append is_create_def wp.simps(1) intro!: sched\<close>)
qed

text \<open>The API server answers a read with an object of the name asked for.\<close>

definition names_ok :: "globals \<Rightarrow> event list \<Rightarrow> bool" where
  "names_ok G tr \<longleftrightarrow> (\<forall>n v. EvVol (VolGet (LvmNamespace G) n) (Inr v) \<in> set tr \<longrightarrow> Name v = n)"

text \<open>What follows when the volume exists: under deletion it is awaited and created again; otherwise the handler
  waits until it is processed, and schedules it again if it failed and is gone.\<close>

lemma wp_schedule_named:
  assumes "each_event (create_ok G req params n) t" "last_answer t = Some a" "gone G (ToLower (cv_Name req)) a"
    "list_all (Not \<circ> is_create) t"
  shows "wp (create_scheduled G req params (ToLower (cv_Name req)) (FormatInt (getRoundedCapacity n)))
    (\<lambda>r t. names_ok G t \<longrightarrow> created G req params n r t) t"
  by (rule wp_mono [OF wp_create_scheduled [OF assms]]) simp

lemma wp_create_after_destroy:
  fixes req
  defines "name \<equiv> ToLower (cv_Name req)"
  shows "wp (bindP (WaitForLVMVolumeDestroy G name) (\<lambda>r. case r of Inl e \<Rightarrow> Ret (Inl e)
      | Inr _ \<Rightarrow> create_scheduled G req params name (FormatInt (getRoundedCapacity n))))
    (\<lambda>r t. names_ok G t \<longrightarrow> created G req params n r t) [cs_ok, EvVol (VolGet (LvmNamespace G) name) (Inr vol)]"
  unfolding wp_bindP
proof (rule wp_WaitDestroy, goal_cases)
  case (1 u e)
  then show ?case using each_create_ok_append [of G req params n "[cs_ok, EvVol (VolGet (LvmNamespace G) name) (Inr vol)]" u] by simp
next
  case (2 u ev)
  then have "list_all wait_event (u @ [ev])" using gone_wait_event [of G name ev] by simp
  with 2 show ?case
    unfolding name_def
    using wait_not_create [of "u @ [ev]"]
      each_create_ok_append [of G req params n "[cs_ok, EvVol (VolGet (LvmNamespace G) (ToLower (cv_Name req))) (Inr vol)]" "u @ [ev]"]
    by (auto simp del: list_all_append intro!: wp_schedule_named simp: last_answer_append last_answer_snoc is_create_def)
qed

lemma wp_create_existing:
  fixes req
  defines "name \<equiv> ToLower (cv_Name req)"
  shows "wp (bindP (waitForLVMVolume G vol) (\<lambda>r. case r of
        Inr vol \<Rightarrow> Ret (Inr vol)
      | Inl (reschedule, e) \<Rightarrow> if \<not> reschedule then Ret (Inl e)
          else create_scheduled G req params name (FormatInt (getRoundedCapacity n))))
    (\<lambda>r t. names_ok G t \<longrightarrow> created G req params n r t) [cs_ok, EvVol (VolGet (LvmNamespace G) name) (Inr vol)]"
  unfolding wp_bindP
proof (rule wp_waited [where x = "VolGet (LvmNamespace G) name" and req = req and params = params and n = n], goal_cases)
  case (3 u e v ev)
  show ?case
  proof (cases "Name v = name")
    case True
    with 3 show ?thesis
      unfolding name_def by (auto intro!: wp_schedule_named simp: is_create_def)
  next
    case False
    with 3(5) have "\<not> names_ok G ([cs_ok, EvVol (VolGet (LvmNamespace G) name) (Inr vol)] @ u)"
      by (simp add: names_ok_def) metis
    then have "wp p (\<lambda>r t. names_ok G t \<longrightarrow> created G req params n r t)
        ([cs_ok, EvVol (VolGet (LvmNamespace G) name) (Inr vol)] @ u)" for p
      unfolding wp_iff_runs by (auto simp: names_ok_def)
    then show ?thesis by simp
  qed
next
  case (4 r u)
  then show ?case
    by (cases r) (auto split: sum.splits prod.splits simp: created_def simp del: append_Cons last_answer_Cons each_event_Cons)
qed simp_all

lemma wp_CreateLVMVolume:
  assumes "cv_RequiredBytes req = Some n"
  shows "wp (CreateLVMVolume G req params) (\<lambda>r t. names_ok G t \<longrightarrow> created G req params n r t) []"
  using assms wp_schedule_named [of G req params n "[cs_fail _]"]
    wp_schedule_named [of G req params n "[cs_ok, EvVol (VolGet (LvmNamespace G) (ToLower (cv_Name req))) (Inl _)]"]
    wp_create_after_destroy [of G req params n] wp_create_existing [of G _ req params n]
  by (auto simp: CreateLVMVolume_def wp_GetLVMVolume Let_def wp_bindP [of "GetLVMVolume _ _"] tryP_def split_sum_all
      gone_def is_create_def)

section \<open>Properties\<close>

text \<open>(C34) Rounding a requested size. A size up to \<^verbatim>\<open>Gi - 1\<close> below the largest \<^verbatim>\<open>int64\<close> is rounded to the next multiple
  of 1 Gi if it exceeds 1 Gi, and of 1 Mi otherwise: the result is at least the request and less than one unit
  above it. For any larger size the addition overflows and the result is negative.\<close>

theorem rounded_capacity_bounds:
  assumes "0 \<le> n" and "n \<le> max_int64"
  shows "let r = getRoundedCapacity n; u = (if Gi < n then Gi else Mi)
    in if n \<le> max_int64 - (Gi - 1) then n \<le> r \<and> r < n + u \<and> u dvd r else r < 0"
proof (cases "n \<le> max_int64 - (Gi - 1)")
  case True
  then show ?thesis
    using getRoundedCapacity_exact [OF assms(1) True] round_up_bounds [of Gi n] round_up_bounds [of Mi n]
    by (simp add: Let_def)
next
  case False
  then show ?thesis
    using getRoundedCapacity_overflow [of n] assms(2) by (simp add: Let_def)
qed

theorem rounded_capacity_bounds_witness:
  "getRoundedCapacity (Gi + 1) = 2 * Gi \<and> getRoundedCapacity max_int64 < 0"
proof
  have "Gi + 1 \<le> getRoundedCapacity (Gi + 1) \<and> getRoundedCapacity (Gi + 1) < Gi + 1 + Gi \<and> Gi dvd getRoundedCapacity (Gi + 1)"
    using rounded_capacity_bounds [of "Gi + 1"] by (simp add: max_int64_def Let_def)
  then show "getRoundedCapacity (Gi + 1) = 2 * Gi" by (auto elim!: dvdE)
  show "getRoundedCapacity max_int64 < 0"
    using rounded_capacity_bounds [of max_int64] by (simp add: max_int64_def Let_def)
qed

text \<open>(C7) Creating a volume resource is safe and its success is real. Provided the API server answers a read with the
  object asked for, in every run of \<^verbatim>\<open>CreateLVMVolume\<close>: a resource is created at most once, only when the last answer
  of the API server was that no volume of this name exists, and it is the pending volume of the rounded size on
  the first node that the scheduler returned; a resource is deleted only when the last answer showed that it is
  not ready and carries an error; nothing is updated; and a volume that is returned is ready and is the last
  answer of the API server.\<close>

theorem create_volume_safe:
  assumes "runs (CreateLVMVolume G req params) tr r" and "names_ok G tr" and "cv_RequiredBytes req = Some n"
  shows "(\<forall>pre ns w y post. tr = pre @ EvVol (VolCreate ns w) y # post \<longrightarrow>
      list_all (Not \<circ> is_create) pre \<and> (\<exists>a. last_answer pre = Some a \<and> gone G (ToLower (cv_Name req)) a) \<and>
      (\<exists>nmap owner rest. EvSched (cv_Accessibility req, nmap) (owner # rest) \<in> set pre \<and> w = pending_volume req params n owner)) \<and>
    (\<forall>pre ns vid y post. tr = pre @ EvErr (VolDelete ns vid) y # post \<longrightarrow>
      (\<exists>x v. last_answer pre = Some (EvVol x (Inr v)) \<and> Name v = vid \<and> State (Status v) \<noteq> LVMStatusReady \<and>
         StatusError (Status v) \<noteq> None)) \<and>
    (\<forall>ns w y. EvVol (VolUpdate ns w) y \<notin> set tr) \<and>
    (\<exists>z. r = Val z \<and> (\<forall>v. z = Inr v \<longrightarrow> State (Status v) = LVMStatusReady \<and> (\<exists>x. last_answer tr = Some (EvVol x (Inr v)))))"
proof -
  have c: "created G req params n r tr"
    using wp_runs [OF wp_CreateLVMVolume [OF assms(3)] assms(1)] assms(2) by simp
  then have each: "create_ok G req params n pre ev" if "tr = pre @ ev # post" for pre ev post
    using that by (auto simp: created_def each_event_iff)
  have "EvVol (VolUpdate ns w) y \<notin> set tr" for ns w y
  proof
    assume "EvVol (VolUpdate ns w) y \<in> set tr"
    then obtain pre post where "tr = pre @ EvVol (VolUpdate ns w) y # post" by (auto dest: split_list)
    from each [OF this] show False by (simp add: create_ok_def)
  qed
  then show ?thesis
    using each c by (auto simp: create_ok_def created_def split: outcome.splits sum.splits) fastforce+
qed

definition ex_req :: CreateVolumeRequest where
  "ex_req = \<lparr>cv_Name = ''PVC-1'', cv_RequiredBytes = Some 1000, cv_Capabilities = Some [], cv_Parameters = Map.empty,
     cv_ContentSource = None, cv_Accessibility = None\<rparr>"

definition ex_params :: VolumeParams where
  "ex_params = \<lparr>vp_VgPattern = (''lvmvg'', \<lambda>s. s = ''lvmvg''), vp_Scheduler = SpaceWeighted, vp_Shared = ''no'',
     vp_ThinProvision = ''no'', vp_PVCName = ''claim'', vp_PVCNamespace = ''default'', vp_PVName = []\<rparr>"

definition ex_not_found :: gerr where
  "ex_not_found = ApiErr ReasonNotFound ''pvc-1''"

definition ex_create_pre :: "event list" where
  "ex_create_pre = [cs_ok, EvVol (VolGet ''openebs'' ''pvc-1'') (Inl ex_not_found), cs_ok, EvNodes ''openebs'' (Inr []),
     EvSched (None, Map.empty) [''node-1''], cs_ok]"

lemma ex_fields [simp]:
  "cv_RequiredBytes ex_req = Some 1000" "cv_Accessibility ex_req = None" "vp_Scheduler ex_params = SpaceWeighted"
  "fst (vp_VgPattern ex_params) = ''lvmvg''" "vp_Shared ex_params = ''no''" "vp_ThinProvision ex_params = ''no''"
  "State (Status ex_ready_vol) = LVMStatusReady"
  by (simp_all add: ex_req_def ex_params_def ex_ready_vol_def)

lemma ex_name [simp]: "ToLower (cv_Name ex_req) = ''pvc-1''"
  unfolding ex_req_def by code_simp

lemma ex_build:
  "vol_Build (chain vol_NewBuilder
      [vol_WithName ''pvc-1'', vol_WithCapacity (FormatInt (getRoundedCapacity 1000)), vol_WithVgPattern ''lvmvg'',
       vol_WithOwnerNode ''node-1'', vol_WithVolumeStatus LVMStatusPending, vol_WithShared ''no'', vol_WithThinProvision ''no'']) =
      Inr (pending_volume ex_req ex_params 1000 ''node-1'')"
  by (simp add: vol_NewBuilder_def vol_builder_defs vol_Build_def pending_volume_def zero_LVMVolume_def on_object_def)

lemma ex_create_vol_run:
  "runs (CreateLVMVolume ex_G ex_req ex_params)
     (ex_create_pre @ [EvVol (VolCreate ''openebs'' (pending_volume ex_req ex_params 1000 ''node-1'')) (Inr ex_ready_vol)])
     (Val (Inr ex_ready_vol))"
proof -
  have get: "runs (GetLVMVolume ex_G ''pvc-1'') [cs_ok, EvVol (VolGet ''openebs'' ''pvc-1'') (Inl ex_not_found)] (Val (Inl ex_not_found))"
    by (simp add: GetLVMVolume_def getP_def vol_kc_Get_def getClientOrCached_def getClientsetForPathOrDirect_def callErr_def
        vol_defaultGet_def)
  have nodes: "runs (getNodeMap ex_G (vp_Scheduler ex_params) (vp_VgPattern ex_params)) [cs_ok, EvNodes ''openebs'' (Inr [])]
      (Val (Inr Map.empty))"
    by (simp add: getNodeMap_def getSpaceWeightedMap_def tryP_def node_kc_List_def with_client_def getClientOrCached_def
        getClientsetForPathOrDirect_def callErr_def node_defaultList_def)
  have sched: "runs (create_scheduled ex_G ex_req ex_params ''pvc-1'' (FormatInt (getRoundedCapacity 1000)))
      ([cs_ok, EvNodes ''openebs'' (Inr [])] @ [EvSched (None, Map.empty) [''node-1''], cs_ok,
        EvVol (VolCreate ''openebs'' (pending_volume ex_req ex_params 1000 ''node-1'')) (Inr ex_ready_vol)]) (Val (Inr ex_ready_vol))"
    unfolding create_scheduled_def
    by (rule runs_bindP_ok [OF nodes])
      (simp add: ex_build ProvisionVolume_def vol_kc_Create_def with_client_def getClientOrCached_def
        getClientsetForPathOrDirect_def callErr_def vol_defaultCreate_def waitForLVMVolume_def settle_volume_def
        del: chain_Cons)
  have "runs (CreateLVMVolume ex_G ex_req ex_params) ([cs_ok, EvVol (VolGet ''openebs'' ''pvc-1'') (Inl ex_not_found)] @
      [cs_ok, EvNodes ''openebs'' (Inr [])] @ [EvSched (None, Map.empty) [''node-1''], cs_ok,
        EvVol (VolCreate ''openebs'' (pending_volume ex_req ex_params 1000 ''node-1'')) (Inr ex_ready_vol)]) (Val (Inr ex_ready_vol))"
    unfolding CreateLVMVolume_def ex_fields option.case Let_def ex_name
    by (rule runs_bindP_ok [OF get]) (use sched in \<open>simp add: ex_not_found_def\<close>)
  then show ?thesis by (simp add: ex_create_pre_def)
qed

theorem create_volume_safe_witness:
  "\<exists>nmap owner rest. EvSched (None, nmap) (owner # rest) \<in> set ex_create_pre \<and>
     pending_volume ex_req ex_params 1000 ''node-1'' = pending_volume ex_req ex_params 1000 owner"
proof -
  have names: "names_ok ex_G (ex_create_pre @ [EvVol (VolCreate ''openebs'' (pending_volume ex_req ex_params 1000 ''node-1''))
      (Inr ex_ready_vol)])"
    by (auto simp: names_ok_def ex_create_pre_def)
  show ?thesis
    using create_volume_safe [OF ex_create_vol_run names ex_fields(1), THEN conjunct1] by (auto simp: ex_fields(2))
qed

text \<open>The response for a volume.\<close>

definition volume_response :: "CreateVolumeRequest \<Rightarrow> int \<Rightarrow> LVMVolume \<Rightarrow> CreateVolumeResponse" where
  "volume_response req n vol =
     \<lparr>VolumeId = ToLower (cv_Name req), CapacityBytes = getRoundedCapacity n,
      VolumeContext = [VolGroupKey \<mapsto> VolGroup (Spec vol), OpenEBSCasTypeKey \<mapsto> LVMCasTypeName],
      ContentSource = cv_ContentSource req, AccessibleTopology = [[LVMTopologyKey \<mapsto> OwnerNodeID (Spec vol)]]\<rparr>"

text \<open>The error with which a request is refused before anything is done.\<close>

definition refusal ::
  "controller \<Rightarrow> ((string \<rightharpoonup> string) \<Rightarrow> (string \<rightharpoonup> string)) \<Rightarrow> (string \<Rightarrow> gerr + (string \<Rightarrow> bool)) \<Rightarrow> CreateVolumeRequest \<Rightarrow> gerr option" where
  "refusal cs ci Compile req = (case validateVolumeCreateReq cs req of
       Inl e \<Rightarrow> Some (StatusErr InvalidArgument [MErr e])
     | Inr _ \<Rightarrow> (case NewVolumeParams ci Compile (cv_Parameters req) of
         Inl e \<Rightarrow> Some (StatusErr InvalidArgument [MStr ''failed to parse csi volume params: '', MErr e])
       | Inr _ \<Rightarrow> if \<exists>s. cv_ContentSource req \<in> {Some (SourceSnapshot s), Some (SourceVolume s)}
           then Some (StatusErr Unimplemented []) else None))"

text \<open>The report to the analytics service, if that is enabled.\<close>

definition provision_report :: "globals \<Rightarrow> CreateVolumeRequest \<Rightarrow> VolumeParams \<Rightarrow> int \<Rightarrow> event list" where
  "provision_report G req params n =
     (if GoogleAnalyticsEnabled G = ''true''
      then [EvUnit (SendEvent (vp_PVCName params) (ToLower (cv_Name req)) (FormatInt (getRoundedCapacity n)) VolumeProvision) ()]
      else [])"

text \<open>How the run of \<^verbatim>\<open>CreateLVMVolume\<close> determines what happens under the protection, and the outcome.\<close>

definition answers ::
  "globals \<Rightarrow> CreateVolumeRequest \<Rightarrow> VolumeParams \<Rightarrow> event list \<Rightarrow> (gerr + CreateVolumeResponse) outcome \<Rightarrow> bool" where
  "answers G req params t r = (case cv_RequiredBytes req of
       None \<Rightarrow> t = [] \<and> r = Crash ''nil pointer dereference''
     | Some n \<Rightarrow> (\<exists>mid z. runs (CreateLVMVolume G req params) mid (Val z) \<and> (case z of
         Inl e \<Rightarrow> t = mid \<and> r = Val (Inl e)
       | Inr vol \<Rightarrow> t = mid @ provision_report G req params n \<and> r = Val (Inr (volume_response req n vol)))))"

lemma create_protected_runs:
  assumes "runs (create_protected G req params (ToLower (cv_Name req))
      (getRoundedCapacity (case cv_RequiredBytes req of None \<Rightarrow> 0 | Some n \<Rightarrow> n))) t r"
  shows "answers G req params t r"
proof (cases "cv_RequiredBytes req")
  case None
  then show ?thesis
    using assms by (simp add: create_protected_def runs_tryP CreateLVMVolume_def answers_def)
next
  case (Some n)
  have no_crash: "\<not> runs (CreateLVMVolume G req params) t (Crash s)" for s
    using no_crash_CreateLVMVolume [of req n G params, THEN no_crashD] Some by auto
  from assms Some consider e where "r = Val (Inl e)" "runs (CreateLVMVolume G req params) t (Val (Inl e))"
    | vol mid where "t = mid @ provision_report G req params n" "runs (CreateLVMVolume G req params) mid (Val (Inr vol))"
        "r = Val (Inr (volume_response req n vol))"
    unfolding create_protected_def runs_tryP
    by (auto simp: runs_bindP response_defs sendEventOrIgnore_def callUnit_def volume_response_def provision_report_def
        no_crash split: if_splits)
  then show ?thesis
  proof cases
    case 1
    then show ?thesis using Some by (auto simp: answers_def intro!: exI [of _ "Inl e"])
  next
    case 2
    then show ?thesis using Some by (auto simp: answers_def intro!: exI [of _ mid] exI [of _ "Inr vol"])
  qed
qed

text \<open>(C10) The handler of \<^verbatim>\<open>CreateVolume\<close>. A request is refused, with nothing done, exactly when it fails the validation,
  its parameters do not parse, or it names a snapshot or a volume as the source of its content. Otherwise the leak
  protection is entered before anything else and, once entered, it is left as the very last operation, also when
  the process crashes, which happens exactly for a request without a capacity range. In between
  \<^verbatim>\<open>CreateLVMVolume\<close> runs; its error is the answer, and after its success there is only the report to the analytics
  service, if that is enabled. The response names the volume, states the rounded size that the resource was asked
  for, and points to the node and the volume group of the volume that \<^verbatim>\<open>CreateLVMVolume\<close> returned.\<close>

theorem create_volume_handler:
  assumes "runs (cs_CreateVolume G cs ci Compile req) tr r"
  shows "case refusal cs ci Compile req of
      Some e \<Rightarrow> tr = [] \<and> r = Val (Inl e)
    | None \<Rightarrow> (\<exists>params y rest. NewVolumeParams ci Compile (cv_Parameters req) = Inr params \<and>
       tr = EvErr (BeginCreateVolume (ToLower (cv_Name req)) (vp_PVCNamespace params) (vp_PVCName params)) y # rest \<and>
       (case y of
          Some e \<Rightarrow> rest = [] \<and> r = Val (Inl e)
        | None \<Rightarrow> (\<exists>t. rest = t @ [EvUnit (FinishCreateVolume (ToLower (cv_Name req))) ()] \<and> answers G req params t r)))"
proof (cases "refusal cs ci Compile req")
  case (Some e)
  then show ?thesis
    using assms by (auto simp: refusal_def cs_CreateVolume_def Let_def split: sum.splits if_splits)
next
  case None
  then obtain params where params: "NewVolumeParams ci Compile (cv_Parameters req) = Inr params" and
    valid: "\<exists>u. validateVolumeCreateReq cs req = Inr u" and
    source: "\<nexists>s. cv_ContentSource req \<in> {Some (SourceSnapshot s), Some (SourceVolume s)}"
    by (auto simp: refusal_def split: sum.splits if_splits)
  let ?body = "create_protected G req params (ToLower (cv_Name req))
      (getRoundedCapacity (case cv_RequiredBytes req of None \<Rightarrow> 0 | Some n \<Rightarrow> n))"
  let ?enter = "BeginCreateVolume (ToLower (cv_Name req)) (vp_PVCNamespace params) (vp_PVCName params)"
  have "runs (tryP (callErr ?enter) (\<lambda>_. finallyP ?body (FinishCreateVolume (ToLower (cv_Name req))))) tr r"
    using assms source params valid
    by (auto simp: cs_CreateVolume_def Let_def split: option.splits VolumeContentSource.splits)
  then obtain y rest where tr: "tr = EvErr ?enter y # rest" and "case y of Some e \<Rightarrow> rest = [] \<and> r = Val (Inl e)
      | None \<Rightarrow> (\<exists>t. rest = t @ [EvUnit (FinishCreateVolume (ToLower (cv_Name req))) ()] \<and> runs ?body t r)"
    by (auto simp: tryP_def callErr_def runs_finallyP split: option.splits)
  then show ?thesis
    using params None by (cases y) (auto dest!: create_protected_runs)
qed

definition ex_cs :: controller where
  "ex_cs = \<lparr>cs_capabilities = newControllerCapabilities, cs_indexedLabel = [], cs_k8sIndexers = []\<rparr>"

theorem create_volume_handler_witness:
  "answers ex_G (ex_req\<lparr>cv_RequiredBytes := None\<rparr>)
     \<lparr>vp_VgPattern = ([], \<lambda>_. True), vp_Scheduler = SpaceWeighted, vp_Shared = ''no'', vp_ThinProvision = ''no'',
       vp_PVCName = [], vp_PVCNamespace = [], vp_PVName = []\<rparr> [] (Crash ''nil pointer dereference'')"
proof -
  let ?req = "ex_req\<lparr>cv_RequiredBytes := None\<rparr>"
  have params: "NewVolumeParams id (\<lambda>_. Inr (\<lambda>_. True)) (cv_Parameters ?req) =
      Inr \<lparr>vp_VgPattern = ([], \<lambda>_. True), vp_Scheduler = SpaceWeighted, vp_Shared = ''no'', vp_ThinProvision = ''no'',
        vp_PVCName = [], vp_PVCNamespace = [], vp_PVName = []\<rparr>"
    by (simp add: NewVolumeParams_def ex_req_def entry_def stringParams_def string_param_def)
  have "runs (cs_CreateVolume ex_G ex_cs id (\<lambda>_. Inr (\<lambda>_. True)) ?req)
      [EvErr (BeginCreateVolume ''pvc-1'' [] []) None, EvUnit (FinishCreateVolume ''pvc-1'') ()] (Crash ''nil pointer dereference'')"
    using ex_name params
    by (simp add: cs_CreateVolume_def validateVolumeCreateReq_def validateRequest_def ex_cs_def newControllerCapabilities_def
        ex_req_def tryP_def callErr_def create_protected_def CreateLVMVolume_def Let_def)
  moreover have "refusal ex_cs id (\<lambda>_. Inr (\<lambda>_. True)) ?req = None"
    using params by (simp add: refusal_def validateVolumeCreateReq_def validateRequest_def ex_cs_def newControllerCapabilities_def
        ex_req_def)
  ultimately show ?thesis using create_volume_handler [of ex_G ex_cs id "\<lambda>_. Inr (\<lambda>_. True)" ?req] params by fastforce
qed

section \<open>Deleting a volume\<close>

definition no_snapshots :: "globals \<Rightarrow> string \<Rightarrow> event" where
  "no_snapshots G vid = EvSnaps (LvmNamespace G, LVMVolKey, vid) (Inr [])"

definition delete_ok :: "globals \<Rightarrow> string \<Rightarrow> event list \<Rightarrow> event \<Rightarrow> bool" where
  "delete_ok G vid pre ev \<longleftrightarrow> (\<forall>ns n y. ev = EvErr (VolDelete ns n) y \<longrightarrow>
     ns = LvmNamespace G \<and> n = vid \<and> no_snapshots G vid \<in> set pre \<and>
     (\<exists>v. last_answer pre = Some (EvVol (VolGet (LvmNamespace G) vid) (Inr v)) \<and> DeletionTimestamp v = None))"

lemma delete_ok_simps [simp]:
  "delete_ok G vid pre (EvErr (GetClientset p) z)" "delete_ok G vid pre (EvSnaps x ys)" "delete_ok G vid pre (EvVol a b)"
  "delete_ok G vid pre (EvUnit u w)" "delete_ok G vid pre (EvCtx c d)"
  by (simp_all add: delete_ok_def)

lemma delete_ok_wait: "wait_event ev \<Longrightarrow> delete_ok G vid pre ev"
  by (erule wait_event_cases) simp_all

lemma each_delete_ok_append:
  "each_event (delete_ok G vid) tr \<Longrightarrow> list_all wait_event u \<Longrightarrow> each_event (delete_ok G vid) (tr @ u)"
  unfolding each_event_append by (auto intro!: each_event_trivial simp: list_all_iff delete_ok_wait)

definition deleted :: "globals \<Rightarrow> string \<Rightarrow> (gerr + unit) outcome \<Rightarrow> event list \<Rightarrow> bool" where
  "deleted G vid r tr \<longleftrightarrow> each_event (delete_ok G vid) tr \<and> (\<exists>z. r = Val z \<and> (z = Inr () \<longrightarrow>
     no_snapshots G vid \<in> set tr \<and> (\<exists>a. last_answer tr = Some a \<and> gone G vid a)))"

lemma deleted_Inl [simp]: "deleted G vid (Val (Inl e)) tr \<longleftrightarrow> each_event (delete_ok G vid) tr"
  by (simp add: deleted_def)

lemma wp_delete_wait:
  assumes "each_event (delete_ok G vid) tr" and "no_snapshots G vid \<in> set tr"
  shows "wp (tryP (WaitForLVMVolumeDestroy G vid) (\<lambda>_.
    bindP (sendEventOrIgnore G pvc vid cap method) (\<lambda>_. Ret (Inr ())))) (deleted G vid) tr"
  unfolding tryP_def wp_bindP [of "WaitForLVMVolumeDestroy G vid"]
proof (rule wp_WaitDestroy, goal_cases)
  case (1 u e)
  then show ?case using each_delete_ok_append [OF assms(1)] by simp
next
  case (2 u ev)
  then have "each_event (delete_ok G vid) (tr @ u @ [ev])"
    using each_delete_ok_append [OF assms(1), of "u @ [ev]"] gone_wait_event [of G vid ev] by simp
  then show ?case
    using assms(2) 2 by (auto simp: sendEventOrIgnore_def wp_simps deleted_def each_event_append last_answer_append last_answer_snoc)
qed

lemma wp_cs_DeleteVolume: "wp (cs_DeleteVolume G cs reqId) (deleted G (ToLower reqId)) []"
proof -
  let ?vid = "ToLower reqId"
  have del: "wp (cs_deleteVolume G ?vid) (deleted G ?vid) [cs_ok, no_snapshots G ?vid]" if "?vid \<noteq> []"
    using that wp_delete_wait [of G ?vid]
    by (auto simp: cs_deleteVolume_def no_snapshots_def wp_GetLVMVolume wp_bindP [of "GetLVMVolume _ _"] wp_bindP [of "lvm_DeleteVolume _ _"]
        wp_lvm_DeleteVolume split_sum_all delete_ok_def deleted_def gone_def)
  have "tryP (cs_deleteVolume G ?vid) (\<lambda>_. Ret (Inr (dvr_Build NewDeleteVolumeResponseBuilder))) = cs_deleteVolume G ?vid"
    unfolding tryP_def by (rule trans [OF arg_cong [where f = "bindP _"] bindP_Ret]) (auto split: sum.splits)
  then show ?thesis
    using del
    by (auto simp: cs_DeleteVolume_def validateDeleteVolumeReq_def wp_simps Let_def no_snapshots_def split_sum_all
        split: sum.split)
qed

text \<open>(C8) Deleting a volume. In every run of the \<^verbatim>\<open>DeleteVolume\<close> handler the resource is deleted only after the API server
  listed no snapshot of the volume and last showed the volume as not under deletion; success is reported only
  after that empty list and when the last answer of the API server is that the volume does not exist; the
  handler never crashes.\<close>

theorem delete_volume_safe:
  assumes "runs (cs_DeleteVolume G cs reqId) tr r"
  shows "(\<forall>pre ns n y post. tr = pre @ EvErr (VolDelete ns n) y # post \<longrightarrow>
      n = ToLower reqId \<and> no_snapshots G n \<in> set pre \<and>
      (\<exists>v. last_answer pre = Some (EvVol (VolGet (LvmNamespace G) n) (Inr v)) \<and> DeletionTimestamp v = None)) \<and>
    (\<exists>z. r = Val z \<and> (z = Inr () \<longrightarrow> no_snapshots G (ToLower reqId) \<in> set tr \<and>
      (\<exists>a. last_answer tr = Some a \<and> gone G (ToLower reqId) a)))"
proof -
  have "deleted G (ToLower reqId) r tr" by (rule wp_runs [OF wp_cs_DeleteVolume assms])
  then show ?thesis by (fastforce simp: deleted_def each_event_iff delete_ok_def)
qed

theorem delete_volume_safe_witness:
  "\<exists>a. last_answer [cs_ok, no_snapshots ex_G ''pvc-1'', cs_ok, EvVol (VolGet ''openebs'' ''pvc-1'') (Inl ex_not_found)] = Some a \<and>
     gone ex_G ''pvc-1'' a"
proof -
  have name: "ToLower ''PVC-1'' = ''pvc-1''" by code_simp
  have "runs (cs_DeleteVolume ex_G ex_cs ''PVC-1'')
      [cs_ok, no_snapshots ex_G ''pvc-1'', cs_ok, EvVol (VolGet ''openebs'' ''pvc-1'') (Inl ex_not_found)] (Val (Inr ()))"
    by (simp add: cs_DeleteVolume_def validateDeleteVolumeReq_def name tryP_def GetSnapshotForVolume_def snap_kc_List_def
        snap_defaultList_def with_client_def getClientOrCached_def getClientsetForPathOrDirect_def callErr_def no_snapshots_def
        validateRequest_def ex_cs_def newControllerCapabilities_def cs_deleteVolume_def GetLVMVolume_def getP_def vol_kc_Get_def
        vol_defaultGet_def ex_not_found_def dvr_Build_def Let_def)
  from delete_volume_safe [OF this] show ?thesis by (simp add: name)
qed

text \<open>(C9) Expanding a volume. The only change that a run of the handler makes is to raise the capacity of the volume
  that the API server last returned, from a smaller parsable value to the rounded size, and only after the API
  server listed no snapshot of the volume. Success is reported with the rounded size after an acknowledged
  write, or with the present capacity when that is large enough already, so that repeating a request does
  nothing; the capacity never shrinks.\<close>

theorem expand_volume_runs:
  fixes required reqId
  defines "new \<equiv> getRoundedCapacity (case required of None \<Rightarrow> 0 | Some n \<Rightarrow> n)"
  assumes "runs (cs_ControllerExpandVolume G reqId required) tr r"
  shows "(\<exists>e. r = Val (Inl e)) \<and> (\<forall>ns w y. EvVol (VolUpdate ns w) y \<notin> set tr) \<or>
    (\<exists>v old. ParseInt (Capacity (Spec v)) = (old, None) \<and>
      (let seen = [cs_ok, no_snapshots G (ToLower reqId), cs_ok, EvVol (VolGet (LvmNamespace G) (ToLower reqId)) (Inr v)];
           w = v\<lparr>Spec := (Spec v)\<lparr>Capacity := FormatInt new\<rparr>\<rparr>
       in if new \<le> old then tr = seen \<and> r = Val (Inr \<lparr>ev_CapacityBytes = old, NodeExpansionRequired = False\<rparr>)
          else \<exists>y. tr = seen @ [cs_ok, EvVol (VolUpdate (LvmNamespace G) w) y] \<and> (case y of
              Inr _ \<Rightarrow> r = Val (Inr \<lparr>ev_CapacityBytes = new, NodeExpansionRequired = True\<rparr>)
            | Inl e \<Rightarrow> (\<exists>m. r = Val (Inl (StatusErr Internal m))))))"
    (is "?P r tr")
proof -
  have "wp (cs_ControllerExpandVolume G reqId required) ?P []"
    unfolding cs_ControllerExpandVolume_def Let_def new_def [symmetric] no_snapshots_def
    by (simp add: wp_simps split_sum_all response_defs split: prod.split option.split) fastforce
  from wp_runs [OF this assms(2)] show ?thesis .
qed

theorem expand_volume_runs_witness:
  "\<exists>v. [cs_ok, no_snapshots ex_G ''pvc-1'', cs_ok, EvVol (VolGet ''openebs'' ''pvc-1'') (Inr ex_ready_vol)] =
     [cs_ok, no_snapshots ex_G ''pvc-1'', cs_ok, EvVol (VolGet ''openebs'' ''pvc-1'') (Inr v)] \<and>
     ParseInt (Capacity (Spec v)) = (2 ^ 30, None)"
proof -
  have name: "ToLower ''PVC-1'' = ''pvc-1''" by code_simp
  have cap: "ParseInt (Capacity (Spec ex_ready_vol)) = (2 ^ 30, None)"
    by (simp add: ex_ready_vol_def) code_simp
  have "runs (cs_ControllerExpandVolume ex_G ''PVC-1'' None)
      [cs_ok, no_snapshots ex_G ''pvc-1'', cs_ok, EvVol (VolGet ''openebs'' ''pvc-1'') (Inr ex_ready_vol)]
      (Val (Inr \<lparr>ev_CapacityBytes = 2 ^ 30, NodeExpansionRequired = False\<rparr>))"
    using cap
    by (simp add: cs_ControllerExpandVolume_def name GetSnapshotForVolume_def snap_kc_List_def snap_defaultList_def
        with_client_def getClientOrCached_def getClientsetForPathOrDirect_def callErr_def no_snapshots_def GetLVMVolume_def
        getP_def vol_kc_Get_def vol_defaultGet_def response_defs Let_def getRoundedCapacity_def mul64_def quot64_def sub64_def
        add64_def wrap64_def)
  from expand_volume_runs [OF this] show ?thesis
    by (auto simp: name Let_def split: if_splits)
qed

end
