(* ===== verification/Csi_Snapshots.thy ===== *)
theory Csi_Snapshots
  imports Csi_Controller
begin

text \<open>
  Properties of the snapshot and capacity requests of \<open>Csi_Controller\<close>: the size and the identity of a snapshot, what a
  snapshot request writes, and the capacity reported for a topology segment.
\<close>

section \<open>Snapshots\<close>

lemma round_up_mono: "0 < (u :: int) \<Longrightarrow> a \<le> b \<Longrightarrow> (a + u - 1) div u * u \<le> (b + u - 1) div u * u"
  by (simp add: zdiv_mono1)

lemma getRoundedCapacity_mono:
  assumes "0 \<le> a" and "a \<le> b" and "b \<le> max_int64 - (Gi - 1)"
  shows "getRoundedCapacity a \<le> getRoundedCapacity b"
proof -
  have a: "getRoundedCapacity a = (let u = if Gi < a then Gi else Mi in (a + u - 1) div u * u)"
    and b: "getRoundedCapacity b = (let u = if Gi < b then Gi else Mi in (b + u - 1) div u * u)"
    using assms by (simp_all add: getRoundedCapacity_exact)
  show ?thesis
  proof (cases "a \<le> Gi \<and> Gi < b")
    case True
    have "(a + Mi - 1) div Mi * Mi \<le> (Gi + Mi - 1) div Mi * Mi" using True by (intro round_up_mono) auto
    also have "\<dots> \<le> Gi" by simp
    also have "\<dots> \<le> (b + Gi - 1) div Gi * Gi" using round_up_bounds(1) [of Gi b] True by simp
    finally show ?thesis using True by (simp add: a b Let_def)
  next
    case False
    then show ?thesis
      using assms(2) round_up_mono [of Gi a b] round_up_mono [of Mi a b] by (auto simp: a b Let_def)
  qed
qed

lemma percent_of:
  assumes "0 \<le> capacity" and "capacity < 2 ^ 53" and "0 \<le> p" and "p \<le> 100"
  shows "\<exists>s. int64_of_float oor (float_mul (float_of_int capacity) (float_div_const (Fin p) 100)) = s \<and> 0 \<le> s \<and> s \<le> capacity"
proof -
  obtain x where x: "round64 (p / 100) = Fin x" "0 \<le> x" "x \<le> 1"
    using round64_le_int [of "p / 100" 1] assms by auto
  have "0 \<le> of_int capacity * x" "of_int capacity * x \<le> of_int capacity"
    using x assms(1) by (simp_all add: mult_left_le)
  then obtain y where y: "round64 (of_int capacity * x) = Fin y" "0 \<le> y" "y \<le> of_int capacity"
    using round64_le_int [of "of_int capacity * x" capacity] assms(2) by auto
  then have t: "0 \<le> trunc_rat y" "trunc_rat y \<le> capacity" by (simp_all add: trunc_rat_def floor_le_iff)
  then have "in_int64 (trunc_rat y)" using assms(2) by (simp add: in_int64_def min_int64_def max_int64_def)
  with t show ?thesis
    using float_of_int_exact [OF assms(1,2)] x y by (simp add: int64_of_float_def)
qed

lemma NewSnapshotParams_cases:
  assumes "NewSnapshotParams ci quantity m = Inr params" and "sp_SnapSize params \<noteq> NaN"
  obtains "params = \<lparr>sp_SnapSize = Fin 0, AbsSnapSize = False\<rparr>"
    | p where "1 \<le> p" "p \<le> 100" "params = \<lparr>sp_SnapSize = Fin p, AbsSnapSize = False\<rparr>"
    | sz s where "quantity sz = Inr s" "1 \<le> s" "params = \<lparr>sp_SnapSize = float_of_int s, AbsSnapSize = True\<rparr>"
proof -
  have range: "\<exists>p. f = Fin p \<and> 1 \<le> p \<and> p \<le> 100" if "f \<noteq> NaN" "\<not> float_less f (Fin 1)" "\<not> float_less (Fin 100) f" for f
    using that by (cases f) (auto simp: not_less)
  from assms that show ?thesis
    by (auto simp: NewSnapshotParams_def Let_def not_less split: option.splits if_splits prod.splits sum.splits dest!: range)
qed

text \<open>An absolute size that is not rounded beyond the range of \<^verbatim>\<open>int64\<close> is positive again as an integer.\<close>

lemma absolute_size:
  assumes "1 \<le> s" and "float_less (float_of_int s) (Fin (2 ^ 63))"
  shows "1 \<le> int64_of_float oor (float_of_int s)"
proof (cases "s < 2 ^ 53")
  case True
  with assms(1) show ?thesis
    by (simp add: float_of_int_exact int64_of_float_def trunc_rat_def in_int64_def min_int64_def max_int64_def)
next
  case False
  then obtain q where q: "float_of_int s = Fin q" "2 ^ 53 \<le> q" "q < 2 ^ 63"
    using assms(2) float_of_int_large [of s] by auto
  from q(2) have "of_int 1 \<le> q" by (rule order_trans [rotated]) simp
  then have "1 \<le> trunc_rat q" "trunc_rat q < 2 ^ 63"
    using q(3) by (auto simp: trunc_rat_def le_floor_iff floor_less_iff)
  then show ?thesis by (simp add: q(1) int64_of_float_def in_int64_def min_int64_def max_int64_def)
qed

text \<open>(C36) The size of a snapshot is never negative and never exceeds the rounded capacity of its volume, for a volume
  of less than \<open>2\<^sup>5\<^sup>3\<close> bytes and every parameter that the code accepts, a percentage or an absolute size, whose value
  as a floating point number is less than \<open>2\<^sup>6\<^sup>3\<close>. This leaves out only a percentage that is not a number, which
  \<^verbatim>\<open>NewSnapshotParams\<close> lets pass, and absolute sizes so close to the largest \<^verbatim>\<open>int64\<close> that they are rounded beyond it,
  for which the conversion back is implementation defined.\<close>

theorem snap_size_bounded:
  assumes "NewSnapshotParams ci quantity m = Inr params" and "float_less (sp_SnapSize params) (Fin (2 ^ 63))"
    and "0 \<le> capacity" and "capacity < 2 ^ 53"
  shows "0 \<le> getSnapSize oor params capacity \<and> getSnapSize oor params capacity \<le> getRoundedCapacity capacity"
proof -
  have fits: "0 \<le> getRoundedCapacity s \<and> getRoundedCapacity s \<le> getRoundedCapacity capacity" if "0 \<le> s" "s \<le> capacity" for s
    using that assms(4) getRoundedCapacity_mono [of s capacity] getRoundedCapacity_mono [of 0 s]
    by (simp add: max_int64_def getRoundedCapacity_exact [of 0])
  have "sp_SnapSize params \<noteq> NaN" using assms(2) by auto
  with assms(1) show ?thesis
  proof (cases rule: NewSnapshotParams_cases)
    case 1
    then show ?thesis using percent_of [OF assms(3,4), of 0 oor] fits by (auto simp: getSnapSize_def Let_def)
  next
    case (2 p)
    then show ?thesis using percent_of [OF assms(3,4), of p oor] fits by (auto simp: getSnapSize_def Let_def)
  next
    case (3 sz s)
    then have "1 \<le> int64_of_float oor (sp_SnapSize params)"
      using absolute_size [OF 3(2), of oor] assms(2) by simp
    with 3 show ?thesis using fits assms(3) by (auto simp: getSnapSize_def Let_def)
  qed
qed

text \<open>The witness reads plain decimal numbers, of which the parser of quantities accepts more.\<close>

definition ex_quantity :: "string \<Rightarrow> gerr + int" where
  "ex_quantity s = (case ParseInt s of (n, None) \<Rightarrow> Inr n | (_, Some ne) \<Rightarrow> Inl (NumErr ne s))"

theorem snap_size_bounded_witness:
  "getSnapSize (\<lambda>_. 0) \<lparr>sp_SnapSize = float_of_int 5000, AbsSnapSize = True\<rparr> 1000 \<le> getRoundedCapacity 1000"
proof -
  have "\<not> HasSuffix ''5000'' ''%''" "ParseInt ''5000'' = (5000, None)" by code_simp+
  then have "NewSnapshotParams (\<lambda>m. m) ex_quantity [''snapsize'' \<mapsto> ''5000''] =
      Inr \<lparr>sp_SnapSize = float_of_int 5000, AbsSnapSize = True\<rparr>"
    by (simp add: NewSnapshotParams_def ex_quantity_def)
  from snap_size_bounded [OF this, of 1000 "\<lambda>_. 0"] show ?thesis by (simp add: float_of_int_exact)
qed

text \<open>The resource that a snapshot request creates.\<close>

definition snapshot_of :: "string \<Rightarrow> LVMVolume \<Rightarrow> int \<Rightarrow> LVMSnapshot" where
  "snapshot_of name v sz =
     zero_LVMSnapshot\<lparr>Name := name, Labels := [LVMVolKey \<mapsto> Name v],
       snap_Spec := \<lparr>snap_OwnerNodeID = OwnerNodeID (Spec v), snap_VolGroup = VolGroup (Spec v),
         SnapSize = (if 0 < sz then FormatInt sz else if ThinProvision (Spec v) \<noteq> YES then Capacity (Spec v) else [])\<rparr>,
       snap_Status := \<lparr>snap_State = LVMStatusPending\<rparr>\<rparr>"

lemma build_snapshot_cases:
  assumes "build_snapshot name v sz = Inr s"
  shows "s\<lparr>snap_Status := (snap_Status s)\<lparr>snap_State := LVMStatusPending\<rparr>\<rparr> = snapshot_of name v sz"
proof -
  define b where "b = snap_Build (chain snap_NewBuilder [snap_WithName name, snap_WithLabels [(LVMVolKey, Name v)],
      snap_WithOwnerNode (OwnerNodeID (Spec v)), snap_WithVolGroup (VolGroup (Spec v))])"
  have fail: "snap_Build (chain (snap_BuildFrom None) [snap_WithSnapSize c]) \<noteq> Inr s" for c
    by (simp add: snap_BuildFrom_def snap_WithSnapSize_def snap_Build_def)
  have again: "snap_Build (chain (snap_BuildFrom (Some s0)) [snap_WithSnapSize c]) = Inr s \<Longrightarrow>
      s = s0\<lparr>snap_Spec := (snap_Spec s0)\<lparr>SnapSize := c\<rparr>\<rparr>" for s0 c
    by (simp add: snap_BuildFrom_def snap_WithSnapSize_def snap_Build_def split: if_splits)
  have first: "b = Inr s0 \<Longrightarrow> s0 = zero_LVMSnapshot\<lparr>Name := name, Labels := [LVMVolKey \<mapsto> Name v],
      snap_Spec := \<lparr>snap_OwnerNodeID = OwnerNodeID (Spec v), snap_VolGroup = VolGroup (Spec v), SnapSize = []\<rparr>\<rparr>" for s0
    unfolding b_def snap_Build_def snap_NewBuilder_def snap_builder_defs
    by (cases "name = []"; cases "VolGroup (Spec v) = []") (simp_all add: zero_LVMSnapshot_def merge_labels_def on_object_def)
  have parts: "(if 0 < sz then snap_Build (chain (snap_BuildFrom (case b of Inl _ \<Rightarrow> None | Inr s \<Rightarrow> Some s)) [snap_WithSnapSize (FormatInt sz)])
      else if ThinProvision (Spec v) \<noteq> YES
        then snap_Build (chain (snap_BuildFrom (case b of Inl _ \<Rightarrow> None | Inr s \<Rightarrow> Some s)) [snap_WithSnapSize (Capacity (Spec v))])
        else b) = Inr s"
    using assms by (simp only: build_snapshot_def Let_def b_def)
  show ?thesis
  proof (cases b)
    case (Inl e)
    with parts fail show ?thesis by (simp split: if_splits del: chain_Cons)
  next
    case (Inr s0)
    with parts first [OF Inr] show ?thesis
      by (auto simp: snapshot_of_def zero_LVMSnapshot_def split: if_splits simp del: chain_Cons dest!: again)
  qed
qed

lemma wp_GetLVMSnapshotStatus [wp_simps]:
  "wp (GetLVMSnapshotStatus G sid) Q tr \<longleftrightarrow>
     (if sid = [] then Q (Crash ''nil pointer dereference'') tr
      else (\<forall>e. Q (Crash ''nil pointer dereference'') (tr @ [cs_fail e])) \<and>
        (\<forall>e. Q (Val (Inl e)) (tr @ [cs_ok, EvSnap (SnapGet (LvmNamespace G) sid) (Inl e)])) \<and>
        (\<forall>s. Q (Val (Inr (snap_State (snap_Status s)))) (tr @ [cs_ok, EvSnap (SnapGet (LvmNamespace G) sid) (Inr s)])))"
  by (auto simp: GetLVMSnapshotStatus_def snap_kc_defs wp_simps getClientOrCached_def getClientsetForPathOrDirect_def
      split_sum_all)

text \<open>Every operation counts as a change, except getting a client, reading a volume or a snapshot, and reading the
  time.\<close>

definition is_change :: "event \<Rightarrow> bool" where
  "is_change ev = (case ev of EvErr (GetClientset _) _ \<Rightarrow> False | EvVol (VolGet _ _) _ \<Rightarrow> False | EvSnap (SnapGet _ _) _ \<Rightarrow> False
     | EvNow _ _ \<Rightarrow> False | _ \<Rightarrow> True)"

text \<open>What a run of \<^verbatim>\<open>CreateSnapshot\<close> has done when it ends.\<close>

definition snapshot_done ::
  "globals \<Rightarrow> ((string \<rightharpoonup> string) \<Rightarrow> (string \<rightharpoonup> string)) \<Rightarrow> (string \<Rightarrow> gerr + int) \<Rightarrow> (f64 \<Rightarrow> int) \<Rightarrow> CreateSnapshotRequest \<Rightarrow>
     (gerr + SnapshotResponse) outcome \<Rightarrow> event list \<Rightarrow> bool" where
  "snapshot_done G ci quantity oor req r tr \<longleftrightarrow>
     (filter is_change tr = [] \<or>
      (\<exists>v params y pre post. NewSnapshotParams ci quantity (sr_Parameters req) = Inr params \<and>
         EvVol (VolGet (LvmNamespace G) (sr_SourceVolumeId req)) (Inr v) \<in> set pre \<and>
         tr = pre @ EvSnap (SnapCreate (LvmNamespace G) (snapshot_of (sr_Name req) v
           (getSnapSize oor params (fst (ParseInt (Capacity (Spec v))))))) y # post \<and>
         filter is_change (pre @ post) = [] \<and> (isl y \<longrightarrow> (\<exists>e. r = Val (Inl e))))) \<and>
     (\<forall>resp. r = Val (Inr resp) \<longrightarrow> SnapshotId resp = sr_SourceVolumeId req @ ''@'' @ sr_Name req \<and> sr_Name req \<noteq> [] \<and>
        (ReadyToUse resp \<longrightarrow> (\<exists>s. last tr = EvSnap (SnapGet (LvmNamespace G) (sr_Name req)) (Inr s) \<and>
           snap_State (snap_Status s) = LVMStatusReady)))"

lemma wp_snapshot_volume:
  assumes "filter is_change pre = []" and "EvVol (VolGet (LvmNamespace G) (sr_SourceVolumeId req)) (Inr v) \<in> set pre"
    and "sr_Name req \<noteq> []"
  shows "wp (snapshot_volume G ci quantity oor req now v) (snapshot_done G ci quantity oor req) pre"
proof (cases "NewSnapshotParams ci quantity (sr_Parameters req)")
  case (Inl e)
  then show ?thesis using assms by (simp add: snapshot_volume_def snapshot_done_def Let_def)
next
  case (Inr params)
  let ?sz = "getSnapSize oor params (fst (ParseInt (Capacity (Spec v))))"
  let ?create = "EvSnap (SnapCreate (LvmNamespace G) (snapshot_of (sr_Name req) v ?sz))"
  have ended: "snapshot_done G ci quantity oor req r (pre @ cs_ok # ?create y # post)"
    if "isl y \<longrightarrow> (\<exists>e. r = Val (Inl e))" and "filter is_change post = []"
      and "\<And>resp. r = Val (Inr resp) \<Longrightarrow> SnapshotId resp = sr_SourceVolumeId req @ ''@'' @ sr_Name req \<and>
        (ReadyToUse resp \<longrightarrow> (\<exists>s. last post = EvSnap (SnapGet (LvmNamespace G) (sr_Name req)) (Inr s) \<and> post \<noteq> [] \<and>
           snap_State (snap_Status s) = LVMStatusReady))" for r y post
    unfolding snapshot_done_def
    using that assms Inr
    by (intro conjI disjI2 exI [of _ v] exI [of _ params] exI [of _ y] exI [of _ "pre @ [cs_ok]"] exI [of _ post])
      (auto simp: is_change_def)
  have idle: "snapshot_done G ci quantity oor req (Val (Inl e)) (pre @ [cs_fail e'])"
    "snapshot_done G ci quantity oor req (Val (Inl e)) pre" for e e'
    using assms(1) by (simp_all add: snapshot_done_def is_change_def)
  show ?thesis
  proof (cases "build_snapshot (sr_Name req) v ?sz")
    case (Inl e)
    then show ?thesis using Inr by (simp add: snapshot_volume_def Let_def idle(2))
  next
    case (Inr s)
    then show ?thesis
      using \<open>NewSnapshotParams ci quantity (sr_Parameters req) = Inr params\<close> build_snapshot_cases [OF Inr] idle assms(3)
      by (auto simp: snapshot_volume_def Let_def wp_simps snapshot_response_def response_defs is_change_def intro!: ended)
  qed
qed

lemma wp_cs_CreateSnapshot: "wp (cs_CreateSnapshot G ci quantity oor req) (snapshot_done G ci quantity oor req) []"
proof -
  let ?Q = "snapshot_done G ci quantity oor req"
  have rest: "wp (bindP (GetLVMSnapshotStatus G (sr_Name req)) (\<lambda>r. case r of
        Inr state \<Rightarrow> Ret (Inr (snapshot_response req now state))
      | Inl _ \<Rightarrow> bindP (GetLVMVolume G (sr_SourceVolumeId req)) (\<lambda>r. case r of
          Inl e \<Rightarrow> Ret (Inl (f e)) | Inr vol \<Rightarrow> snapshot_volume G ci quantity oor req now vol))) ?Q tr"
    if "filter is_change tr = []" and "sr_Name req \<noteq> []" for tr now and f :: "gerr \<Rightarrow> gerr"
    using that
    by (auto simp: wp_bindP [of "GetLVMSnapshotStatus _ _"] wp_bindP [of "GetLVMVolume _ _"] wp_GetLVMSnapshotStatus
        wp_GetLVMVolume split_sum_all is_change_def snapshot_done_def [of _ _ _ _ _ "Crash _"]
        snapshot_done_def [of _ _ _ _ _ "Val (Inl _)"] snapshot_done_def [of _ _ _ _ _ "Val (Inr _)"]
        snapshot_response_def response_defs intro!: wp_snapshot_volume)
  have end1: "?Q (Val (Inl e)) tr" if "filter is_change tr = []" for e tr
    using that by (simp add: snapshot_done_def)
  show ?thesis
    unfolding cs_CreateSnapshot_def tryP_def wp_bindP [of "validateSnapshotRequest _ _"] validateSnapshotRequest_def Let_def
    by (auto simp: wp_if wp_bindP [of "GetLVMSnapshot _ _"] wp_GetLVMSnapshot split_sum_all is_change_def
        intro!: end1 rest)
qed

section \<open>Properties of snapshot requests\<close>

text \<open>(C35) A snapshot request. In every run of \<^verbatim>\<open>CreateSnapshot\<close>, crashing ones included, all that may be changed is that
  one new snapshot resource is created, for the volume it read under the requested source name: labelled with that
  volume, on the node and in the volume group of that volume, pending, and with the size that the parameters give,
  or with the capacity of a thick volume. Apart from that the run only reads: no other resource is written or
  deleted, no command runs, nothing is mounted. If the write fails, an error is returned. A response identifies the
  snapshot by source and name and says that it is ready only if the last answer of the API server shows that.\<close>

theorem create_snapshot_runs:
  assumes "runs (cs_CreateSnapshot G ci quantity oor req) tr r"
  shows "(filter is_change tr = [] \<or>
      (\<exists>v params y pre post. NewSnapshotParams ci quantity (sr_Parameters req) = Inr params \<and>
         EvVol (VolGet (LvmNamespace G) (sr_SourceVolumeId req)) (Inr v) \<in> set pre \<and>
         tr = pre @ EvSnap (SnapCreate (LvmNamespace G) (snapshot_of (sr_Name req) v
           (getSnapSize oor params (fst (ParseInt (Capacity (Spec v))))))) y # post \<and>
         filter is_change (pre @ post) = [] \<and> (isl y \<longrightarrow> (\<exists>e. r = Val (Inl e))))) \<and>
     (\<forall>resp. r = Val (Inr resp) \<longrightarrow> SnapshotId resp = sr_SourceVolumeId req @ ''@'' @ sr_Name req \<and> sr_Name req \<noteq> [] \<and>
        (ReadyToUse resp \<longrightarrow> (\<exists>s. last tr = EvSnap (SnapGet (LvmNamespace G) (sr_Name req)) (Inr s) \<and>
           snap_State (snap_Status s) = LVMStatusReady)))"
  using wp_runs [OF wp_cs_CreateSnapshot assms] unfolding snapshot_done_def .

definition ex_snap_req :: CreateSnapshotRequest where
  "ex_snap_req = \<lparr>sr_Name = ''snap'', sr_SourceVolumeId = ''pvc-1'', sr_Parameters = Map.empty\<rparr>"

definition ex_ready_snap :: LVMSnapshot where
  "ex_ready_snap = zero_LVMSnapshot\<lparr>Name := ''snap'', Labels := [LVMVolKey \<mapsto> ''pvc-1''], snap_Status := \<lparr>snap_State = LVMStatusReady\<rparr>\<rparr>"

definition ex_snap :: LVMSnapshot where
  "ex_snap = snapshot_of ''snap'' ex_ready_vol 0"

definition ex_snap_trace :: "event list" where
  "ex_snap_trace = [cs_ok, EvSnap (SnapGet ''openebs'' ''snap'') (Inl ex_not_found), EvNow () 7,
     cs_ok, EvSnap (SnapGet ''openebs'' ''snap'') (Inl ex_not_found), cs_ok, EvVol (VolGet ''openebs'' ''pvc-1'') (Inr ex_ready_vol),
     cs_ok, EvSnap (SnapCreate ''openebs'' ex_snap) (Inr ex_snap), cs_ok, EvSnap (SnapGet ''openebs'' ''snap'') (Inr ex_ready_snap)]"

lemma ex_snap_size: "getSnapSize oor \<lparr>sp_SnapSize = Fin 0, AbsSnapSize = False\<rparr> (fst (ParseInt ''1073741824'')) = 0"
proof -
  have "ParseInt ''1073741824'' = (1073741824, None)" by code_simp
  then show ?thesis
    by (simp add: getSnapSize_def Let_def float_of_int_exact round64_def int64_of_float_def trunc_rat_def in_int64_def
        min_int64_def max_int64_def getRoundedCapacity_exact)
qed

lemma ex_build_snapshot:
  "\<exists>s. build_snapshot ''snap'' ex_ready_vol 0 = Inr s \<and> s\<lparr>snap_Status := (snap_Status s)\<lparr>snap_State := LVMStatusPending\<rparr>\<rparr> = ex_snap"
proof -
  have "\<exists>s. build_snapshot ''snap'' ex_ready_vol 0 = Inr s"
    by (simp add: build_snapshot_def ex_ready_vol_def snap_Build_def snap_NewBuilder_def snap_builder_defs snap_BuildFrom_def
        snap_WithSnapSize_def on_object_def Let_def)
  with build_snapshot_cases show ?thesis by (auto simp: ex_snap_def)
qed

lemma ex_snap_run: "runs (cs_CreateSnapshot ex_G id ex_quantity (\<lambda>_. 0) ex_snap_req) ex_snap_trace
    (Val (Inr (snapshot_response ex_snap_req 7 LVMStatusReady)))"
proof -
  have low: "ToLower ''snap'' = ''snap''" "ToLower ''pvc-1'' = ''pvc-1''" by code_simp+
  obtain s where s: "build_snapshot ''snap'' ex_ready_vol 0 = Inr s"
    "s\<lparr>snap_Status := (snap_Status s)\<lparr>snap_State := LVMStatusPending\<rparr>\<rparr> = ex_snap"
    using ex_build_snapshot by blast
  have cap: "Capacity (Spec ex_ready_vol) = ''1073741824''" by (simp add: ex_ready_vol_def)
  have sn: "Name ex_snap = ''snap''" by (simp add: ex_snap_def snapshot_of_def)
  show ?thesis
    by (simp add: cs_CreateSnapshot_def validateSnapshotRequest_def ex_snap_req_def low tryP_def GetLVMSnapshot_def getP_def
        snap_kc_defs getClientOrCached_def getClientsetForPathOrDirect_def callErr_def Let_def ex_not_found_def
        ex_snap_trace_def ex_ready_snap_def GetLVMSnapshotStatus_def GetLVMVolume_def vol_kc_defs snapshot_volume_def
        NewSnapshotParams_def cap ex_snap_size s ProvisionSnapshot_def with_client_def)
qed

theorem create_snapshot_runs_witness:
  "filter is_change ex_snap_trace = [EvSnap (SnapCreate ''openebs'' ex_snap) (Inr ex_snap)] \<and>
   (\<exists>v y pre post. EvVol (VolGet ''openebs'' ''pvc-1'') (Inr v) \<in> set pre \<and>
     ex_snap_trace = pre @ EvSnap (SnapCreate ''openebs'' (snapshot_of ''snap'' v
       (getSnapSize (\<lambda>_. 0) \<lparr>sp_SnapSize = Fin 0, AbsSnapSize = False\<rparr> (fst (ParseInt (Capacity (Spec v))))))) y # post \<and>
     filter is_change (pre @ post) = [])"
proof -
  have writes: "filter is_change ex_snap_trace = [EvSnap (SnapCreate ''openebs'' ex_snap) (Inr ex_snap)]"
    by (simp add: ex_snap_trace_def is_change_def)
  moreover have "NewSnapshotParams id ex_quantity (sr_Parameters ex_snap_req) = Inr \<lparr>sp_SnapSize = Fin 0, AbsSnapSize = False\<rparr>"
    by (simp add: NewSnapshotParams_def ex_snap_req_def)
  moreover have "sr_Name ex_snap_req = ''snap''" "sr_SourceVolumeId ex_snap_req = ''pvc-1''"
    by (simp_all add: ex_snap_req_def)
  ultimately show ?thesis using create_snapshot_runs [OF ex_snap_run, THEN conjunct1] by auto
qed

text \<open>(C37) The identifier of a snapshot, returned by \<^verbatim>\<open>CreateSnapshot\<close> and given back to \<^verbatim>\<open>DeleteSnapshot\<close>, makes the latter
  delete the snapshot resource of exactly that name, and nothing else, when neither name contains the separator;
  its result is that of the deletion. With a separator in one of the names every such deletion is refused.\<close>

theorem snapshot_id_roundtrip:
  assumes "runs (cs_CreateSnapshot G ci quantity oor req) tr (Val (Inr resp))"
    and "runs (cs_DeleteSnapshot G (SnapshotId resp)) tr' r"
  shows "if CHR ''@'' \<notin> set (sr_SourceVolumeId req) \<union> set (sr_Name req)
    then (\<exists>e m. tr' = [cs_fail e] \<and> r = Val (Inl m)) \<or>
      (\<exists>y. tr' = [cs_ok, EvErr (SnapDelete (LvmNamespace G) (sr_Name req)) y] \<and> (\<exists>z. r = Val z \<and> (isl z \<longleftrightarrow> y \<noteq> None)))
    else tr' = [] \<and> (\<exists>m. r = Val (Inl m))"
proof -
  have id: "SnapshotId resp = sr_SourceVolumeId req @ CHR ''@'' # sr_Name req" and name: "sr_Name req \<noteq> []"
    using wp_runs [OF wp_cs_CreateSnapshot assms(1)] by (simp_all add: snapshot_done_def)
  show ?thesis
  proof (cases "CHR ''@'' \<notin> set (sr_SourceVolumeId req) \<union> set (sr_Name req)")
    case True
    then have "Split CHR ''@'' (SnapshotId resp) = [sr_SourceVolumeId req, sr_Name req]"
      by (simp add: id Split_append_sep Split_no_sep)
    then have "wp (cs_DeleteSnapshot G (SnapshotId resp)) (\<lambda>r tr'. (\<exists>e m. tr' = [cs_fail e] \<and> r = Val (Inl m)) \<or>
        (\<exists>y. tr' = [cs_ok, EvErr (SnapDelete (LvmNamespace G) (sr_Name req)) y] \<and> (\<exists>z. r = Val z \<and> (isl z \<longleftrightarrow> y \<noteq> None)))) []"
      using name by (simp add: cs_DeleteSnapshot_def wp_simps)
    from wp_runs [OF this assms(2)] True show ?thesis by simp
  next
    case False
    then have "length (Split CHR ''@'' (SnapshotId resp)) \<noteq> 2"
      by (auto simp: id length_Split count_list_0_iff)
    then have "wp (cs_DeleteSnapshot G (SnapshotId resp)) (\<lambda>r tr'. tr' = [] \<and> (\<exists>m. r = Val (Inl m))) []"
      by (auto simp: cs_DeleteSnapshot_def split: list.splits)
    from wp_runs [OF this assms(2)] False show ?thesis by auto
  qed
qed

theorem snapshot_id_roundtrip_witness:
  "\<exists>y. [cs_ok, EvErr (SnapDelete ''openebs'' ''snap'') None] = [cs_ok, EvErr (SnapDelete ''openebs'' ''snap'') y] \<and>
     (\<exists>z. Val (Inr ()) = Val z \<and> (isl z \<longleftrightarrow> y \<noteq> None))"
proof -
  have split: "Split CHR ''@'' ''pvc-1@snap'' = [''pvc-1'', ''snap'']" by code_simp
  have "runs (cs_DeleteSnapshot ex_G (SnapshotId (snapshot_response ex_snap_req 7 LVMStatusReady)))
      [cs_ok, EvErr (SnapDelete ''openebs'' ''snap'') None] (Val (Inr ()))"
    by (simp add: snapshot_response_def response_defs ex_snap_req_def cs_DeleteSnapshot_def split lvm_DeleteSnapshot_def snap_kc_Delete_def
        snap_defaultDel_def with_client_def getClientOrCached_def getClientsetForPathOrDirect_def callErr_def)
  from snapshot_id_roundtrip [OF ex_snap_run this] show ?thesis
    by (auto simp: ex_snap_req_def)
qed

section \<open>Capacity\<close>

text \<open>What an index over a label holds for a value.\<close>

definition indexed :: "string \<Rightarrow> string \<Rightarrow> (gerr + string \<times> (string \<rightharpoonup> string)) \<Rightarrow> bool" where
  "indexed label val node = (case LabelIndexFunc label node of Inl _ \<Rightarrow> False | Inr vs \<Rightarrow> val \<in> set vs)"

lemma filterNodes_filter:
  assumes "\<forall>node \<in> set nodes. \<not> isl node" and "\<And>name lbls. Inr (name, lbls) \<in> set nodes \<Longrightarrow> selects segs lbls \<Longrightarrow> P (Inr (name, lbls))"
  shows "filterNodes selects segs (filter P nodes) = filterNodes selects segs nodes"
  using assms
proof (induction nodes)
  case (Cons node nodes)
  then obtain name lbls where node: "node = Inr (name, lbls)" by (cases node) auto
  with Cons show ?case
    by (cases "filterNodes selects segs nodes") (auto simp: map_sum.id)
qed simp

text \<open>(C39) Selecting nodes by a topology segment gives the same nodes with and without the label index: if a selector
  only matches nodes that carry the wanted labels, the cache lists \<open>nodes\<close>, and a lookup in the index returns those
  of them that \<^verbatim>\<open>LabelIndexFunc\<close> files under the value, then every run returns what a scan of all nodes selects,
  except for an error of the index itself.\<close>

theorem topology_index_sound:
  assumes "runs (filterNodesByTopology cs selects segs) tr r" and "segs \<noteq> Map.empty"
    and "\<forall>s lbls. selects s lbls \<longrightarrow> s \<subseteq>\<^sub>m lbls" and "\<forall>node \<in> set nodes. \<not> isl node"
    and "\<forall>y. EvK8sNodes ListK8sNodes y \<in> set tr \<longrightarrow> y = Inr nodes"
    and "\<forall>name val vs. EvK8sNodes (K8sNodesByIndex name val) (Inr vs) \<in> set tr \<longrightarrow> vs = filter (indexed (cs_indexedLabel cs) val) nodes"
  shows "r = Val (filterNodes selects segs nodes) \<or>
    (\<exists>e m name val. EvK8sNodes (K8sNodesByIndex name val) (Inl e) \<in> set tr \<and> r = Val (Inl (WrapErr e m)))"
proof -
  have index: "filterNodes selects segs (filter (indexed (cs_indexedLabel cs) val) nodes) = filterNodes selects segs nodes"
    if "segs (cs_indexedLabel cs) = Some val" for val
  proof (rule filterNodes_filter [OF assms(4)])
    fix name lbls
    assume "selects segs lbls"
    with assms(3) have "segs \<subseteq>\<^sub>m lbls" by blast
    with that have "lbls (cs_indexedLabel cs) = Some val" by (auto simp: map_le_def dom_def)
    then show "indexed (cs_indexedLabel cs) val (Inr (name, lbls))" by (simp add: indexed_def LabelIndexFunc_def)
  qed
  from assms(1,2) consider
      (scan) y where "tr = [EvK8sNodes ListK8sNodes y]" "r = Val (case y of Inl e \<Rightarrow> Inl e | Inr vs \<Rightarrow> filterNodes selects segs vs)"
    | (lookup) val y m where "segs (cs_indexedLabel cs) = Some val"
        "tr = [EvK8sNodes (K8sNodesByIndex (LabelIndexName (cs_indexedLabel cs)) val) y]"
        "r = Val (case y of Inl e \<Rightarrow> Inl (WrapErr e m) | Inr vs \<Rightarrow> filterNodes selects segs vs)"
    by (auto simp: filterNodesByTopology_def Let_def split: if_splits option.splits)
  then show ?thesis
  proof cases
    case scan
    then show ?thesis using assms(5) by simp
  next
    case (lookup val y m)
    then show ?thesis using assms(6) index [OF lookup(1)] by (cases y) auto
  qed
qed

definition ex_k8s_nodes :: "(gerr + string \<times> (string \<rightharpoonup> string)) list" where
  "ex_k8s_nodes = [Inr (''node-1'', [''zone'' \<mapsto> ''a'']), Inr (''node-2'', [''zone'' \<mapsto> ''b''])]"

definition ex_selects :: "segments \<Rightarrow> (string \<rightharpoonup> string) \<Rightarrow> bool" where
  "ex_selects s lbls \<longleftrightarrow> s \<subseteq>\<^sub>m lbls"

theorem topology_index_sound_witness:
  "filterNodes ex_selects [''zone'' \<mapsto> ''a''] ex_k8s_nodes = Inr [''node-1'']"
proof -
  let ?cs = "ex_cs\<lparr>cs_indexedLabel := ''zone'', cs_k8sIndexers := [''l:zone'']\<rparr>"
  have sel: "ex_selects [''zone'' \<mapsto> ''a''] [''zone'' \<mapsto> v] \<longleftrightarrow> v = ''a''" for v
    by (auto simp: ex_selects_def map_le_def)
  have run: "runs (filterNodesByTopology ?cs ex_selects [''zone'' \<mapsto> ''a''])
      [EvK8sNodes (K8sNodesByIndex ''l:zone'' ''a'') (Inr [Inr (''node-1'', [''zone'' \<mapsto> ''a''])])] (Val (Inr [''node-1'']))"
    by (simp add: filterNodesByTopology_def Let_def LabelIndexName_def sel)
  have filt: "filter (indexed ''zone'' ''a'') ex_k8s_nodes = [Inr (''node-1'', [''zone'' \<mapsto> ''a''])]"
    by (simp add: ex_k8s_nodes_def indexed_def LabelIndexFunc_def)
  have "Val (Inr [''node-1'']) = Val (filterNodes ex_selects [''zone'' \<mapsto> ''a''] ex_k8s_nodes) \<or>
      (\<exists>e m name val. EvK8sNodes (K8sNodesByIndex name val) (Inl e) \<in>
         set [EvK8sNodes (K8sNodesByIndex ''l:zone'' ''a'') (Inr [Inr (''node-1'', [''zone'' \<mapsto> ''a''])])] \<and>
       Val (Inr [''node-1'']) = Val (Inl (WrapErr e m)))"
    by (rule topology_index_sound [OF run]) (auto simp: ex_selects_def filt, auto simp: ex_k8s_nodes_def)
  then show ?thesis by auto
qed

lemma Max_insert_Max:
  assumes "finite A" and "finite B"
  shows "Max (insert (Max (insert m A)) B) = (Max (insert m (A \<union> B)) :: int)"
proof (cases "B = {}")
  case False
  then show ?thesis using assms Max_Un [of "insert m A" B] by simp
qed simp

lemma runs_capacity_loop:
  assumes "runs (capacity_loop G re names m0) tr r"
  shows "r = Val (Max (insert m0 {vg_Free vg |k node vg. EvNodeKey k (Inr (Some node)) \<in> set tr \<and>
      vg \<in> set (VolumeGroups node) \<and> MatchString re (vg_Name vg)})) \<and>
    list_all2 (\<lambda>ev name. \<exists>y. ev = EvNodeKey (LvmNamespace G @ ''/'' @ name) y) tr names"
  using assms
proof (induction names arbitrary: m0 tr)
  case (Cons name names)
  let ?F = "\<lambda>tr. {vg_Free vg |k node vg. EvNodeKey k (Inr (Some node)) \<in> set tr \<and> vg \<in> set (VolumeGroups node) \<and>
      MatchString re (vg_Name vg)}"
  from Cons(2) obtain y t where tr: "tr = EvNodeKey (LvmNamespace G @ ''/'' @ name) y # t"
    and "runs (case y of Inl _ \<Rightarrow> capacity_loop G re names m0 | Inr None \<Rightarrow> capacity_loop G re names m0
      | Inr (Some node) \<Rightarrow> capacity_loop G re names (max_free re (VolumeGroups node) m0)) t r"
    by (simp only: capacity_loop.simps runs.simps) blast
  then have run: "runs (capacity_loop G re names (case y of Inr (Some node) \<Rightarrow> max_free re (VolumeGroups node) m0 | _ \<Rightarrow> m0)) t r"
    by (auto split: sum.splits option.splits)
  define N where "N = (case y of Inr (Some node) \<Rightarrow> vg_Free ` {vg \<in> set (VolumeGroups node). MatchString re (vg_Name vg)} | _ \<Rightarrow> {})"
  have m: "(case y of Inr (Some node) \<Rightarrow> max_free re (VolumeGroups node) m0 | _ \<Rightarrow> m0) = Max (insert m0 N)"
    by (auto simp: N_def max_free_Max split: sum.splits option.splits)
  have F: "?F tr = N \<union> ?F t"
    by (auto simp: tr N_def split: sum.splits option.splits)
  have fin: "finite (?F t)" for t
  proof (rule finite_subset)
    show "?F t \<subseteq> (\<Union>ev \<in> set t. case ev of EvNodeKey k (Inr (Some node)) \<Rightarrow> vg_Free ` set (VolumeGroups node) | _ \<Rightarrow> {})"
      by force
    show "finite (\<Union>ev \<in> set t. case ev of EvNodeKey k (Inr (Some node)) \<Rightarrow> vg_Free ` set (VolumeGroups node) | _ \<Rightarrow> {})"
      by (intro finite_UN_I) (auto split: event.splits sum.splits option.splits)
  qed
  have "finite N" by (auto simp: N_def split: sum.splits option.splits)
  with fin [of t] have "Max (insert (Max (insert m0 N)) (?F t)) = Max (insert m0 (N \<union> ?F t))"
    by (intro Max_insert_Max)
  with Cons(1) [OF run [unfolded m]] have "r = Val (Max (insert m0 (?F tr)))" by (simp only: F)
  moreover from Cons(1) [OF run] have "list_all2 (\<lambda>ev name. \<exists>y. ev = EvNodeKey (LvmNamespace G @ ''/'' @ name) y) tr (name # names)"
    by (simp add: tr)
  ultimately show ?case by blast
qed simp

text \<open>(C38) The reported capacity. A successful \<^verbatim>\<open>GetCapacity\<close> looks up exactly the nodes that the topology filter returned, in
  their order, under their key in the namespace of the driver, and reports the largest free size of a matching
  volume group that the cache holds for one of them, or 0: the largest volume that fits into one group, not a
  sum. A failing lookup counts as a node without volume groups.\<close>

theorem get_capacity_max:
  assumes "runs (cs_GetCapacity G cs ci Compile selects topology parameters) tr (Val (Inr c))"
  shows "\<exists>tr1 tr2 names params. tr = tr1 @ tr2 \<and>
    runs (filterNodesByTopology cs selects (case topology of None \<Rightarrow> Map.empty | Some t \<Rightarrow> t)) tr1 (Val (Inr names)) \<and>
    NewVolumeParams ci Compile parameters = Inr params \<and>
    list_all2 (\<lambda>ev name. \<exists>y. ev = EvNodeKey (LvmNamespace G @ ''/'' @ name) y) tr2 names \<and>
    c = Max (insert 0 {vg_Free vg |k node vg. EvNodeKey k (Inr (Some node)) \<in> set tr2 \<and> vg \<in> set (VolumeGroups node) \<and>
      MatchString (vp_VgPattern params) (vg_Name vg)})"
proof -
  from assms obtain tr1 tr2 names where 1: "tr = tr1 @ tr2"
    "runs (filterNodesByTopology cs selects (case topology of None \<Rightarrow> Map.empty | Some t \<Rightarrow> t)) tr1 (Val (Inr names))"
    and 2: "runs (case NewVolumeParams ci Compile parameters of
        Inl e \<Rightarrow> Ret (Inl (StatusErr InvalidArgument [MStr ''failed to parse csi volume params: '', MErr e]))
      | Inr params \<Rightarrow> bindP (capacity_loop G (vp_VgPattern params) names 0) (\<lambda>c. Ret (Inr c))) tr2 (Val (Inr c))"
    by (auto simp: cs_GetCapacity_def Let_def runs_bindP runs_case_sum)
  from 2 obtain params where 3: "NewVolumeParams ci Compile parameters = Inr params"
    "runs (capacity_loop G (vp_VgPattern params) names 0) tr2 (Val c)"
    by (auto simp: runs_bindP split: sum.splits)
  from runs_capacity_loop [OF 3(2)] 1 3(1) show ?thesis by blast
qed

theorem get_capacity_max_witness:
  "Max (insert 0 {vg_Free vg |k node vg.
     EvNodeKey k (Inr (Some node)) \<in> set [EvNodeKey ''openebs/node-1'' (Inr (Some (hd ex_nodes)))] \<and>
     vg \<in> set (VolumeGroups node)}) = (7 :: int)"
proof -
  have "runs (cs_GetCapacity ex_G ex_cs id (\<lambda>_. Inr (\<lambda>_. True)) ex_selects None Map.empty)
      [EvK8sKeys () [''node-1''], EvNodeKey ''openebs/node-1'' (Inr (Some (hd ex_nodes)))] (Val (Inr 7))"
    by (simp add: cs_GetCapacity_def filterNodesByTopology_def NewVolumeParams_def Let_def stringParams_def string_param_def
        ex_nodes_def zero_LVMNode_def zero_VolumeGroup_def max_free_def MatchString_def)
  from get_capacity_max [OF this] obtain tr1 tr2 names params where
    1: "[EvK8sKeys () [''node-1''], EvNodeKey ''openebs/node-1'' (Inr (Some (hd ex_nodes)))] = tr1 @ tr2"
    and 2: "runs (filterNodesByTopology ex_cs ex_selects Map.empty) tr1 (Val (Inr names))"
    and 3: "NewVolumeParams id (\<lambda>_. Inr (\<lambda>_. True)) Map.empty = Inr params"
    and 4: "7 = Max (insert 0 {vg_Free vg |k node vg. EvNodeKey k (Inr (Some node)) \<in> set tr2 \<and> vg \<in> set (VolumeGroups node) \<and>
      MatchString (vp_VgPattern params) (vg_Name vg)})" by auto
  from 1 2 have "tr2 = [EvNodeKey ''openebs/node-1'' (Inr (Some (hd ex_nodes)))]"
    by (auto simp: filterNodesByTopology_def Let_def)
  moreover from 3 have "MatchString (vp_VgPattern params) n" for n
    by (auto simp: NewVolumeParams_def Let_def stringParams_def string_param_def MatchString_def)
  ultimately show ?thesis using 4 by simp
qed

end
