(* ===== verification/Io_Limiter.thy ===== *)
theory Io_Limiter
  imports Lvm_Report Frames "HOL-Library.AList"
begin

text \<open>
  \<^verbatim>\<open>src/pkg/lvm/iolimiter.go\<close>: the limits on operations and bytes per second that the driver applies to a pod,
  given per volume group (or prefix of its name) and per gigabyte. The package variables are the record
  \<open>io_limits\<close>; a Go map is an association list with distinct keys, whose iteration order comes from the
  environment. A \<^verbatim>\<open>uint64\<close> is a natural number with the wrap-around written out.

  Also \<^verbatim>\<open>src/pkg/driver/config/config.go\<close>, whose options it reads.
\<close>

section \<open>Definitions\<close>

record Config =
  cfg_DriverName :: string
  cfg_PluginType :: string
  cfg_Version :: string
  cfg_Endpoint :: string
  cfg_NodeID :: string
  cfg_SetIOLimits :: bool
  cfg_ContainerRuntime :: string
  cfg_RIopsLimitPerGB :: "string list option"
  cfg_WIopsLimitPerGB :: "string list option"
  cfg_RBpsLimitPerGB :: "string list option"
  cfg_WBpsLimitPerGB :: "string list option"
  cfg_ListenAddress :: string
  cfg_MetricsPath :: string
  cfg_DisableExporterMetrics :: bool
  cfg_KubeAPIQPS :: int
  cfg_KubeAPIBurst :: int
  cfg_NodeControllerPollingInterval :: int

type_synonym rate_map = "(string \<times> nat) list"

record io_limits =
  io_set :: bool
  ioLimitsEnabled :: bool
  io_containerRuntime :: string
  riopsPerGB :: rate_map
  wiopsPerGB :: rate_map
  rbpsPerGB :: rate_map
  wbpsPerGB :: rate_map

text \<open>The variables at the start of the process; an absent Go map reads like an empty one.\<close>

definition io_init :: io_limits where
  "io_init = \<lparr>io_set = False, ioLimitsEnabled = False, io_containerRuntime = [],
     riopsPerGB = [], wiopsPerGB = [], rbpsPerGB = [], wbpsPerGB = []\<rparr>"

text \<open>The loop of \<^verbatim>\<open>extractRateValues\<close>; without a separator \<^verbatim>\<open>parts[1]\<close> is out of range.\<close>

fun extract_loop :: "rate_map \<Rightarrow> string list \<Rightarrow> (gerr + rate_map) outcome" where
  "extract_loop rate [] = Val (Inr rate)"
| "extract_loop rate (kv # kvs) =
     (case Split CHR '':'' kv of
        key # val # _ \<Rightarrow>
          (case ParseUint val of
             (_, Some ne) \<Rightarrow> Val (Inl (NumErr ne val))
           | (value, None) \<Rightarrow> extract_loop (AList.update key value rate) kvs)
      | _ \<Rightarrow> Crash ''index out of range'')"

definition extractRateValues :: "string list option \<Rightarrow> (gerr + rate_map) outcome" where
  "extractRateValues rateVals = (case rateVals of None \<Rightarrow> Val (Inr []) | Some kvs \<Rightarrow> extract_loop [] kvs)"

text \<open>An error leaves the map empty; a crash goes through.\<close>

definition rates_or_empty :: "(gerr + rate_map) outcome \<Rightarrow> (rate_map \<Rightarrow> 'a outcome) \<Rightarrow> 'a outcome" where
  "rates_or_empty r k = (case r of
       Crash s \<Rightarrow> Crash s
     | Val (Inl _) \<Rightarrow> k []
     | Val (Inr m) \<Rightarrow> k m)"

definition setValues :: "Config \<Rightarrow> io_limits \<Rightarrow> io_limits outcome" where
  "setValues config st =
     rates_or_empty (extractRateValues (cfg_RIopsLimitPerGB config)) (\<lambda>riops.
     rates_or_empty (extractRateValues (cfg_WIopsLimitPerGB config)) (\<lambda>wiops.
     rates_or_empty (extractRateValues (cfg_RBpsLimitPerGB config)) (\<lambda>rbps.
     rates_or_empty (extractRateValues (cfg_WBpsLimitPerGB config)) (\<lambda>wbps.
       Val (st\<lparr>riopsPerGB := riops, wiopsPerGB := wiops, rbpsPerGB := rbps, wbpsPerGB := wbps\<rparr>)))))"

definition SetIORateLimits :: "Config \<Rightarrow> io_limits \<Rightarrow> io_limits outcome" where
  "SetIORateLimits config st =
     (if io_set st then Val st
      else case setValues config (st\<lparr>ioLimitsEnabled := True, io_containerRuntime := cfg_ContainerRuntime config\<rparr>) of
          Crash s \<Rightarrow> Crash s
        | Val st' \<Rightarrow> Val (st'\<lparr>io_set := True\<rparr>))"

text \<open>The loop over the keys in the order they come: the first prefix of the name counts.\<close>

definition prefix_rate :: "string \<Rightarrow> rate_map \<Rightarrow> string list \<Rightarrow> nat" where
  "prefix_rate vgName rateMap keys =
     (case find (\<lambda>k. HasPrefix vgName k) keys of
        None \<Rightarrow> 0
      | Some k \<Rightarrow> (case map_of rateMap k of None \<Rightarrow> 0 | Some v \<Rightarrow> v))"

definition getRatePerGB :: "string \<Rightarrow> rate_map \<Rightarrow> nat prog" where
  "getRatePerGB vgName rateMap =
     (case map_of rateMap vgName of
        Some v \<Rightarrow> Ret v
      | None \<Rightarrow> OpOrder () (\<lambda>pref. Ret (prefix_rate vgName rateMap (map_order (pref 0) (map fst rateMap)))))"

definition GetRIopsPerGB :: "io_limits \<Rightarrow> string \<Rightarrow> nat prog" where
  "GetRIopsPerGB st vgName = getRatePerGB vgName (riopsPerGB st)"

definition GetWIopsPerGB :: "io_limits \<Rightarrow> string \<Rightarrow> nat prog" where
  "GetWIopsPerGB st vgName = getRatePerGB vgName (wiopsPerGB st)"

definition GetRBpsPerGB :: "io_limits \<Rightarrow> string \<Rightarrow> nat prog" where
  "GetRBpsPerGB st vgName = getRatePerGB vgName (rbpsPerGB st)"

definition GetWBpsPerGB :: "io_limits \<Rightarrow> string \<Rightarrow> nat prog" where
  "GetWBpsPerGB st vgName = getRatePerGB vgName (wbpsPerGB st)"

definition getContainerRuntime :: "io_limits \<Rightarrow> string" where
  "getContainerRuntime st = io_containerRuntime st"

section \<open>The rates of a configuration\<close>

text \<open>An entry \<^verbatim>\<open>key:value\<close>, with anything after a second separator ignored.\<close>

fun entry_ok :: "string \<Rightarrow> (string \<times> nat) option" where
  "entry_ok kv = (case Split CHR '':'' kv of
       key # val # _ \<Rightarrow> (case ParseUint val of (n, None) \<Rightarrow> Some (key, n) | _ \<Rightarrow> None)
     | _ \<Rightarrow> None)"

lemma extract_loop_ok:
  assumes "extract_loop rate kvs = Val (Inr m)"
  shows "list_all (\<lambda>kv. entry_ok kv \<noteq> None) kvs \<and> map_of m = map_of rate ++ map_of (rev (map (the \<circ> entry_ok) kvs))"
  using assms
proof (induction rate kvs rule: extract_loop.induct)
  case (2 rate kv kvs)
  from 2(2) obtain key val rest n where split: "Split CHR '':'' kv = key # val # rest" and n: "ParseUint val = (n, None)"
    and rec: "extract_loop (AList.update key n rate) kvs = Val (Inr m)"
    by (auto split: list.splits prod.splits option.splits)
  from 2(1) [OF split refl n [symmetric] refl rec] split n show ?case
    by (simp add: update_conv map_add_def fun_eq_iff split: option.splits)
qed simp

lemma distinct_extract_loop:
  "distinct (map fst rate) \<Longrightarrow> extract_loop rate kvs = Val (Inr m) \<Longrightarrow> distinct (map fst m)"
proof (induction rate kvs rule: extract_loop.induct)
  case (2 rate kv kvs)
  from 2(3) obtain key val rest n where split: "Split CHR '':'' kv = key # val # rest" and n: "ParseUint val = (n, None)"
    and rec: "extract_loop (AList.update key n rate) kvs = Val (Inr m)"
    by (auto split: list.splits prod.splits option.splits)
  from 2(1) [OF split refl n [symmetric] refl _ rec] 2(2) show ?case by (simp add: distinct_update)
qed simp

text \<open>An entry as the configuration writes it.\<close>

definition rate_entry :: "string \<times> nat \<Rightarrow> string" where
  "rate_entry p = fst p @ '':'' @ format_nat (snd p)"

lemma digit_char_no_colon: "d < 10 \<Longrightarrow> digit_char d \<noteq> CHR '':''"
  using digit_val_digit_char [of d] by (auto simp: digit_val_def)

lemma format_nat_no_colon: "CHR '':'' \<notin> set (format_nat n)"
proof (induction n rule: format_nat.induct)
  case (1 n)
  then show ?case by (subst format_nat.simps) (auto simp: digit_char_no_colon [symmetric] dest: sym)
qed

lemma Split_rate_entry: "CHR '':'' \<notin> set (fst p) \<Longrightarrow> Split CHR '':'' (rate_entry p) = [fst p, format_nat (snd p)]"
  by (simp add: rate_entry_def Split_append_sep Split_no_sep format_nat_no_colon)

lemma extract_loop_entries:
  assumes "\<forall>p \<in> set ps. CHR '':'' \<notin> set (fst p) \<and> snd p < 2 ^ 64"
  shows "\<exists>m. extract_loop rate (map rate_entry ps) = Val (Inr m) \<and> map_of m = map_of rate ++ map_of (rev ps)"
  using assms
proof (induction ps arbitrary: rate)
  case (Cons p ps)
  then obtain m where "extract_loop (AList.update (fst p) (snd p) rate) (map rate_entry ps) = Val (Inr m)"
    "map_of m = map_of (AList.update (fst p) (snd p) rate) ++ map_of (rev ps)"
    by (meson list.set_intros(2))
  with Cons.prems show ?case
    by (auto simp: Split_rate_entry update_conv map_add_def fun_eq_iff split: option.splits)
qed simp

section \<open>The results of a lookup\<close>

lemma prefix_rate_none: "\<not> (\<exists>k \<in> set keys. HasPrefix vg k) \<Longrightarrow> prefix_rate vg m keys = 0"
  by (simp add: prefix_rate_def find_None_iff [THEN iffD2])

lemma prefix_rate_some:
  assumes "\<exists>k \<in> set keys. HasPrefix vg k" and "set keys = fst ` set m"
  shows "\<exists>k. map_of m k = Some (prefix_rate vg m keys) \<and> HasPrefix vg k"
proof (cases "find (\<lambda>k. HasPrefix vg k) keys")
  case None
  with assms(1) show ?thesis by (simp add: find_None_iff)
next
  case (Some k)
  then have k: "HasPrefix vg k" "k \<in> fst ` set m"
    using assms(2) by (auto simp: find_Some_iff dest!: nth_mem)
  then obtain v where "map_of m k = Some v" by (meson map_of_eq_None_iff not_None_eq)
  with Some k show ?thesis by (auto simp: prefix_rate_def)
qed

lemma prefix_rate_first: "map_of m k = Some v \<Longrightarrow> HasPrefix vg k \<Longrightarrow> prefix_rate vg m (map_order [k] (map fst m)) = v"
  using map_of_SomeD [of m k v] by (force simp: prefix_rate_def map_order_def)

section \<open>Properties\<close>

text \<open>(C30) Writing rates as \<^verbatim>\<open>key:value\<close> entries and reading them back gives the same rates, for every list of
  \<^verbatim>\<open>uint64\<close> rates with distinct keys that do not contain the separator.\<close>

theorem rates_roundtrip:
  assumes "distinct (map fst ps)" and "\<forall>p \<in> set ps. CHR '':'' \<notin> set (fst p) \<and> snd p < 2 ^ 64"
  shows "\<exists>m. extractRateValues (Some (map rate_entry ps)) = Val (Inr m) \<and> map_of m = map_of ps \<and> distinct (map fst m)"
proof -
  from extract_loop_entries [OF assms(2), of "[]"] obtain m where
    m: "extract_loop [] (map rate_entry ps) = Val (Inr m)" "map_of m = map_of (rev ps)" by auto
  moreover have "map_of (rev ps) = map_of ps"
    using assms(1) by (subst map_of_inject_set) (simp_all add: rev_map [symmetric])
  ultimately show ?thesis
    using distinct_extract_loop [OF _ m(1)] by (simp add: extractRateValues_def)
qed

theorem rates_roundtrip_witness:
  "\<exists>m. extractRateValues (Some [''vg1:100'', ''vg2:200'']) = Val (Inr m) \<and> map_of m = map_of [(''vg1'', 100), (''vg2'', 200)]"
proof -
  have "map rate_entry [(''vg1'', 100), (''vg2'', 200)] = [''vg1:100'', ''vg2:200'']" by code_simp
  with rates_roundtrip [of "[(''vg1'', 100), (''vg2'', 200)]"] show ?thesis by auto
qed

text \<open>An entry without a colon - the form \<^verbatim>\<open>vg1-prefix=100\<close> that the comments of the configuration document -
  is not an error but a crash of the process, whatever follows it.\<close>

theorem rates_documented_form_crashes:
  assumes "CHR '':'' \<notin> set kv"
  shows "extractRateValues (Some (kv # kvs)) = Crash ''index out of range''"
  using assms by (simp add: extractRateValues_def Split_no_sep)

theorem rates_documented_form_crashes_witness:
  "extractRateValues (Some [''vg1-prefix=100'', ''vg2-prefix=200'']) = Crash ''index out of range''"
  by (rule rates_documented_form_crashes) simp

text \<open>(C29) The rates that a lookup can return, over all iteration orders of the Go map: the rate of the exact name
  if there is one; otherwise the rate of any entry whose key is a prefix of the name, and 0 if there is
  none. So the result is determined exactly when the matching prefixes agree on the rate.\<close>

theorem rate_lookup:
  "{v. \<exists>tr. runs (getRatePerGB vg m) tr (Val v)} =
     (case map_of m vg of
        Some v \<Rightarrow> {v}
      | None \<Rightarrow>
          (let rates = {v. \<exists>k. map_of m k = Some v \<and> HasPrefix vg k} in if rates = {} then {0} else rates))"
proof (cases "map_of m vg")
  case None
  have ex: "{v. \<exists>k. map_of m k = Some v \<and> HasPrefix vg k} = {} \<longleftrightarrow> \<not> (\<exists>k \<in> fst ` set m. HasPrefix vg k)"
    by (fastforce dest: map_of_SomeD weak_map_of_SomeI)
  have results: "{v. \<exists>tr. runs (getRatePerGB vg m) tr (Val v)} =
      range (\<lambda>pref :: nat \<Rightarrow> string list. prefix_rate vg m (map_order (pref 0) (map fst m)))"
    using None by (auto simp: getRatePerGB_def image_iff)
  show ?thesis
  proof (cases "\<exists>k \<in> fst ` set m. HasPrefix vg k")
    case True
    then have "\<exists>k. map_of m k = Some (prefix_rate vg m (map_order pref (map fst m))) \<and> HasPrefix vg k" for pref
      by (intro prefix_rate_some) simp_all
    moreover have "v \<in> range (\<lambda>pref :: nat \<Rightarrow> string list. prefix_rate vg m (map_order (pref 0) (map fst m)))"
      if "map_of m k = Some v" "HasPrefix vg k" for k v
      using prefix_rate_first [OF that] by (intro range_eqI [of _ _ "\<lambda>_. [k]"]) simp
    ultimately have "range (\<lambda>pref :: nat \<Rightarrow> string list. prefix_rate vg m (map_order (pref 0) (map fst m))) =
        {v. \<exists>k. map_of m k = Some v \<and> HasPrefix vg k}"
      by fast
    with results None True ex show ?thesis by (auto simp: Let_def)
  next
    case False
    then have "prefix_rate vg m (map_order pref (map fst m)) = 0" for pref
      by (intro prefix_rate_none) simp
    with results None False ex show ?thesis by (auto simp: Let_def)
  qed
qed (auto simp: getRatePerGB_def)

end
