(* ===== verification/Mount.thy ===== *)
theory Mount
  imports Io_Limiter
begin

text \<open>
  \<^verbatim>\<open>src/pkg/lvm/mount.go\<close>: mounting a logical volume as a file system or as a block device, unmounting it, and
  applying the limits of \<open>Io_Limiter\<close> to the pod. The mount table and the file system are operations of the
  environment; \<open>oor\<close> gives the result of converting a float out of range to \<^verbatim>\<open>uint64\<close>.
\<close>

section \<open>Definitions\<close>

record MountInfo =
  FSType :: string
  AccessModes :: "string list"
  MountPath :: string
  MountOptions :: "string list"

record PodLVInfo =
  UID :: string
  LVGroup :: string

definition FormatAndMountVol :: "string \<Rightarrow> MountInfo \<Rightarrow> (gerr + unit) prog" where
  "FormatAndMountVol devicePath mountInfo =
     callErr (FormatAndMount devicePath (MountPath mountInfo) (FSType mountInfo) (MountOptions mountInfo))"

text \<open>A failure to remove the mount path after a successful unmount is only logged.\<close>

definition UmountVolume :: "LVMVolume \<Rightarrow> string \<Rightarrow> (gerr + unit) prog" where
  "UmountVolume vol targetPath =
     OpDev targetPath (\<lambda>r. case r of
         Inl e \<Rightarrow> Ret (Inl e)
       | Inr (dev, ref) \<Rightarrow>
           if dev = [] \<or> ref = 0 then Ret (Inr ())
           else OpBool (PathExists targetPath) (\<lambda>r. case r of
               Inl pathErr \<Rightarrow> Ret (Inl (NewErr [MStr ''error checking if path exists: '', MErr pathErr]))
             | Inr pathExists \<Rightarrow>
                 if \<not> pathExists then Ret (Inr ())
                 else tryP (callErr (Unmount targetPath)) (\<lambda>_.
                   bindP (callErr (RemovePath targetPath)) (\<lambda>_. Ret (Inr ())))))"

definition verifyMountRequest :: "globals \<Rightarrow> LVMVolume \<Rightarrow> string \<Rightarrow> (gerr + bool) prog" where
  "verifyMountRequest G vol mountpath =
     (if mountpath = [] then Ret (Inl (StatusErr InvalidArgument [MStr ''verifyMount: mount path missing in request'']))
      else if OwnerNodeID (Spec vol) \<noteq> [] \<and> OwnerNodeID (Spec vol) \<noteq> NodeID G
        then Ret (Inl (StatusErr Internal [MStr ''verifyMount: volume is owned by different node'']))
      else if Finalizers vol = None
        then Ret (Inl (StatusErr Internal [MStr ''verifyMount: volume is not ready to be mounted'']))
      else case GetVolumeDevPath vol of
          Inl e \<Rightarrow> Ret (Inl (StatusErr Internal [MStr ''verifyMount: GetVolumePath failed '', MErr e]))
        | Inr devicePath \<Rightarrow>
            OpStrs (GetMounts devicePath) (\<lambda>r. case r of
                Inl e \<Rightarrow> Ret (Inl (StatusErr Internal [MStr ''verifyMount: Getmounts failed '', MErr e]))
              | Inr currentMounts \<Rightarrow>
                  if currentMounts = [] then Ret (Inr False)
                  else if mountpath \<in> set currentMounts then Ret (Inr True)
                  else if Shared (Spec vol) \<noteq> ''yes''
                    then Ret (Inl (StatusErr Internal
                      [MStr ''verifyMount: device already mounted at '', MStr (Join '' '' currentMounts)]))
                  else Ret (Inr False)))"

text \<open>The capacity in units of \<^verbatim>\<open>1024 * 1024 * 1024\<close> bytes, rounded up, by way of a floating point division.\<close>

definition capacity_GB :: "(f64 \<Rightarrow> int) \<Rightarrow> nat \<Rightarrow> nat" where
  "capacity_GB oor capacityBytes =
     nat (uint64_of_float oor (float_ceil (float_div_const (float_of_int (int capacityBytes)) (1024 * 1024 * 1024))))"

definition mul_u64 :: "nat \<Rightarrow> nat \<Rightarrow> nat" where
  "mul_u64 a b = (a * b) mod 2 ^ 64"

definition setIOLimits ::
  "io_limits \<Rightarrow> (f64 \<Rightarrow> int) \<Rightarrow> LVMVolume \<Rightarrow> PodLVInfo option \<Rightarrow> string \<Rightarrow> (gerr + unit) prog" where
  "setIOLimits st oor vol podLVInfo devicePath = (case podLVInfo of
       None \<Rightarrow> Ret (Inl (NewErr [MStr ''PodLVInfo is missing. Skipping setting IOLimits'']))
     | Some pod \<Rightarrow>
         (case ParseUint (Capacity (Spec vol)) of
            (_, Some ne) \<Rightarrow> Ret (Inl (NumErr ne (Capacity (Spec vol))))
          | (capacityBytes, None) \<Rightarrow>
              (let capacityGB = capacity_GB oor capacityBytes in
               bindP (GetRIopsPerGB st (LVGroup pod)) (\<lambda>riops.
               bindP (GetWIopsPerGB st (LVGroup pod)) (\<lambda>wiops.
               bindP (GetRBpsPerGB st (LVGroup pod)) (\<lambda>rbps.
               bindP (GetWBpsPerGB st (LVGroup pod)) (\<lambda>wbps.
                 callErr (SetIOLimits
                   \<lparr>io_DeviceName = devicePath, io_PodUid = UID pod, io_ContainerRuntime = getContainerRuntime st,
                    io_Riops = mul_u64 riops capacityGB, io_Wiops = mul_u64 wiops capacityGB,
                    io_Rbps = mul_u64 rbps capacityGB, io_Wbps = mul_u64 wbps capacityGB\<rparr>))))))))"

text \<open>The block that \<^verbatim>\<open>MountVolume\<close> and \<^verbatim>\<open>MountBlock\<close> end with: an error is only logged.\<close>

definition apply_io_limits ::
  "io_limits \<Rightarrow> (f64 \<Rightarrow> int) \<Rightarrow> LVMVolume \<Rightarrow> PodLVInfo option \<Rightarrow> string \<Rightarrow> (gerr + unit) prog" where
  "apply_io_limits st oor vol podLVInfo devicePath =
     (if ioLimitsEnabled st \<and> podLVInfo \<noteq> None
      then bindP (setIOLimits st oor vol podLVInfo devicePath) (\<lambda>_. Ret (Inr ()))
      else Ret (Inr ()))"

definition MountVolume ::
  "globals \<Rightarrow> io_limits \<Rightarrow> (f64 \<Rightarrow> int) \<Rightarrow> LVMVolume \<Rightarrow> MountInfo \<Rightarrow> PodLVInfo option \<Rightarrow> (gerr + unit) prog" where
  "MountVolume G st oor vol mount podLVInfo =
     (let volume = VolGroup (Spec vol) @ ''/'' @ Name vol in
      tryP (verifyMountRequest G vol (MountPath mount)) (\<lambda>mounted.
        if mounted then Ret (Inr ())
        else
          let devicePath = DevPath @ volume in
          bindP (FormatAndMountVol devicePath mount) (\<lambda>r. case r of
              Inl e \<Rightarrow> Ret (Inl (StatusErr Internal [MStr ''failed to format and mount the volume error: '', MErr e]))
            | Inr _ \<Rightarrow> apply_io_limits st oor vol podLVInfo devicePath)))"

definition MountFilesystem ::
  "globals \<Rightarrow> io_limits \<Rightarrow> (f64 \<Rightarrow> int) \<Rightarrow> LVMVolume \<Rightarrow> MountInfo \<Rightarrow> PodLVInfo option \<Rightarrow> (gerr + unit) prog" where
  "MountFilesystem G st oor vol mount podinfo =
     bindP (callErr (MkdirAll (MountPath mount))) (\<lambda>r. case r of
         Inl e \<Rightarrow> Ret (Inl (StatusErr Internal
           [MStr ''Could not create dir {'', MStr (MountPath mount), MStr ''}, err: '', MErr e]))
       | Inr _ \<Rightarrow> MountVolume G st oor vol mount podinfo)"

text \<open>The deferred function of \<^verbatim>\<open>makeFile\<close> reads the name of the file also when it could not be opened, which
  dereferences a nil pointer.\<close>

definition makeFile :: "string \<Rightarrow> (gerr + unit) prog" where
  "makeFile pathname =
     bindP (callErr (OpenCreate pathname)) (\<lambda>r. case r of
         Inl _ \<Rightarrow> Panic ''nil pointer dereference''
       | Inr _ \<Rightarrow> Ret (Inr ()))"

definition MountBlock ::
  "io_limits \<Rightarrow> (f64 \<Rightarrow> int) \<Rightarrow> LVMVolume \<Rightarrow> MountInfo \<Rightarrow> PodLVInfo option \<Rightarrow> (gerr + unit) prog" where
  "MountBlock st oor vol mountinfo podLVInfo =
     (let target = MountPath mountinfo;
          devicePath = DevPath @ VolGroup (Spec vol) @ ''/'' @ Name vol
      in bindP (makeFile target) (\<lambda>r. case r of
          Inl e \<Rightarrow> Ret (Inl (StatusErr Internal [MStr ''Could not create target file '', MStr target, MStr '': '', MErr e]))
        | Inr _ \<Rightarrow>
            bindP (callErr (BindMount devicePath target [] [''bind''])) (\<lambda>r. case r of
                Inl e \<Rightarrow>
                  bindP (callErr (RemovePath target)) (\<lambda>r. case r of
                      Inl removeErr \<Rightarrow> Ret (Inl (StatusErr Internal
                        [MStr ''Could not remove mount target '', MStr target, MStr '': '', MErr removeErr]))
                    | Inr _ \<Rightarrow> Ret (Inl (StatusErr Internal [MStr ''mount failed at '', MStr target, MStr '' err : '', MErr e])))
              | Inr _ \<Rightarrow> apply_io_limits st oor vol podLVInfo devicePath)))"

section \<open>The capacity in gigabytes\<close>

lemma pow2_powi: "pow2 e = 2 powi e"
  by (simp add: pow2_def power_int_def power_one_over inverse_eq_divide)

lemma pow2_less: "pow2 a < pow2 b \<Longrightarrow> a < b"
  using pow2_mono [of b a] by linarith

text \<open>A rational with a significand below \<open>2\<^sup>5\<^sup>3\<close> is a floating point number.\<close>

lemma round64_dyadic:
  assumes "0 < i" and "i < 2 ^ 53" and "k \<le> 1022"
  shows "round64 (of_int i / 2 ^ k) = Fin (of_int i / 2 ^ k)"
proof -
  define q :: rat where "q = of_int i / 2 ^ k"
  define e where "e = ilog2 q - 52"
  have qpow: "q = of_int i * pow2 (- int k)"
    by (simp add: q_def pow2_powi power_int_minus divide_inverse)
  have pos: "0 < q" using assms(1) by (simp add: q_def)
  note bounds = ilog2_bounds [OF pos]
  have "pow2 (- int k) \<le> q" using assms(1) by (simp add: qpow)
  then have lo: "- int k \<le> ilog2 q" using bounds(2) pow2_less [of "- int k" "ilog2 q + 1"] by linarith
  have "(of_int i :: rat) < 2 ^ 53" using assms(2) by (metis of_int_less_iff of_int_numeral of_int_power)
  then have "q < pow2 53 * pow2 (- int k)" by (simp add: qpow pow2_powi)
  also have "\<dots> = pow2 (53 - int k)" using power_int_add [of "2 :: rat" 53 "- int k"] by (simp only: pow2_powi) simp
  finally have hi: "ilog2 q < 53 - int k" using bounds(1) pow2_less [of "ilog2 q" "53 - int k"] by linarith
  have ulp: "ulp q = pow2 e" using lo assms(3) pos by (simp add: ulp_def e_def)
  have "q / pow2 e = of_int i * pow2 (- int k - e)"
    by (simp add: qpow pow2_powi power_int_diff)
  also have "\<dots> = of_int (i * 2 ^ nat (- int k - e))"
    using hi by (simp add: pow2_def e_def)
  finally have "of_int (round_half_even (q / ulp q)) * ulp q = q"
    using ulp by (metis nonzero_eq_divide_eq pow2_nonneg(2) round_half_even_int)
  moreover have "q < 2 ^ 1024"
  proof -
    have "q \<le> of_int i" using assms(1) by (simp add: q_def divide_le_eq)
    also have "\<dots> < 2 ^ 53" by fact
    finally show ?thesis by (rule less_trans) simp
  qed
  ultimately show ?thesis
    using pos by (simp add: round64_def q_def [symmetric] Let_def not_le)
qed

lemma capacity_GB_exact:
  assumes "c < 2 ^ 53"
  shows "capacity_GB oor c = (c + (2 ^ 30 - 1)) div 2 ^ 30"
proof (cases "c = 0")
  case True
  then show ?thesis
    by (simp add: capacity_GB_def float_of_int_def round64_def uint64_of_float_def trunc_rat_def)
next
  case False
  define g where "g = (c + (2 ^ 30 - 1)) div 2 ^ 30"
  have c: "int c < 2 ^ 53" "0 < int c" using assms False by (simp_all add: nat_less_iff)
  then have "float_div_const (float_of_int (int c)) (1024 * 1024 * 1024) = Fin (of_int (int c) / 2 ^ 30)"
    using round64_dyadic [of "int c" 30] by (simp add: float_of_int_exact)
  moreover have "\<lceil>of_int (int c) / (2 ^ 30 :: rat)\<rceil> = int g"
  proof (rule ceiling_unique)
    have "int g * 2 ^ 30 < int c + 2 ^ 30" unfolding g_def by (simp add: zdiv_int)
    then have "of_int (int g * 2 ^ 30) < (of_int (int c + 2 ^ 30) :: rat)" by (rule of_int_less_iff [THEN iffD2])
    then show "of_int (int g) - 1 < of_int (int c) / (2 ^ 30 :: rat)"
      by (simp add: field_simps)
  next
    have "int c \<le> int g * 2 ^ 30" unfolding g_def by (simp add: zdiv_int)
    then have "(of_int (int c) :: rat) \<le> of_int (int g * 2 ^ 30)" by (rule of_int_le_iff [THEN iffD2])
    then show "of_int (int c) / (2 ^ 30 :: rat) \<le> of_int (int g)"
      by (simp add: field_simps)
  qed
  moreover have "int g < 2 ^ 64" using c by (simp add: g_def)
  ultimately have "capacity_GB oor c = g"
    by (simp add: capacity_GB_def uint64_of_float_def trunc_rat_def)
  then show ?thesis by (simp only: g_def)
qed

section \<open>Rules\<close>

definition io_event :: "event \<Rightarrow> bool" where
  "io_event ev = (case ev of EvOrder _ _ \<Rightarrow> True | EvErr (SetIOLimits _) _ \<Rightarrow> True | _ \<Rightarrow> False)"

lemma only_getRatePerGB: "only io_event (getRatePerGB vg m)"
  unfolding getRatePerGB_def by (intro only_intros) (simp_all add: io_event_def)

lemma only_setIOLimits: "only io_event (setIOLimits st oor vol pod dev)"
  unfolding setIOLimits_def GetRIopsPerGB_def GetWIopsPerGB_def GetRBpsPerGB_def GetWBpsPerGB_def
  by (intro only_intros only_getRatePerGB) (simp add: io_event_def)

lemma setIOLimits_no_crash: "no_crash (setIOLimits st oor vol pod dev)"
  unfolding setIOLimits_def GetRIopsPerGB_def GetWIopsPerGB_def GetRBpsPerGB_def GetWBpsPerGB_def getRatePerGB_def
  by (intro no_crash_intros)

text \<open>Applying the limits always succeeds for the caller and touches nothing else.\<close>

lemma wp_apply_io_limits:
  assumes "\<And>u. list_all io_event u \<Longrightarrow> Q (Val (Inr ())) (tr @ u)"
  shows "wp (apply_io_limits st oor vol pod dev) Q tr"
proof -
  have "wp (setIOLimits st oor vol pod dev) (\<lambda>r t. \<exists>x u. r = Val x \<and> t = tr @ u \<and> list_all io_event u) tr"
    unfolding wp_iff_runs using only_runs [OF only_setIOLimits] no_crashD [OF setIOLimits_no_crash] by blast
  then have "wp (bindP (setIOLimits st oor vol pod dev) (\<lambda>_. Ret (Inr ()))) Q tr"
    unfolding wp_bindP by (rule wp_mono) (use assms in auto)
  then show ?thesis
    using assms [of "[]"] by (simp add: apply_io_limits_def)
qed

lemma wp_verifyMountRequest:
  assumes "\<And>e. Q (Val (Inl e)) tr"
    and "\<And>y e. Q (Val (Inl e)) (tr @ [EvStrs (GetMounts (dev_of vol)) y])"
    and "\<And>ms. path \<in> set ms \<Longrightarrow> Q (Val (Inr True)) (tr @ [EvStrs (GetMounts (dev_of vol)) (Inr ms)])"
    and "\<And>ms. path \<noteq> [] \<Longrightarrow> OwnerNodeID (Spec vol) \<in> {[], NodeID G} \<Longrightarrow> Finalizers vol \<noteq> None \<Longrightarrow>
      path \<notin> set ms \<Longrightarrow> ms = [] \<or> Shared (Spec vol) = ''yes'' \<Longrightarrow>
      Q (Val (Inr False)) (tr @ [EvStrs (GetMounts (dev_of vol)) (Inr ms)])"
  shows "wp (verifyMountRequest G vol path) Q tr"
proof -
  have ans: "wp (case y of
        Inl e \<Rightarrow> Ret (Inl (f e))
      | Inr ms \<Rightarrow> if ms = [] then Ret (Inr False) else if path \<in> set ms then Ret (Inr True)
          else if Shared (Spec vol) \<noteq> ''yes'' then Ret (Inl (g ms)) else Ret (Inr False)) Q
      (tr @ [EvStrs (GetMounts (dev_of vol)) y])"
    if "path \<noteq> []" "OwnerNodeID (Spec vol) \<in> {[], NodeID G}" "Finalizers vol \<noteq> None"
    for y and f :: "gerr \<Rightarrow> gerr" and g :: "string list \<Rightarrow> gerr"
  proof (cases y)
    case (Inr ms)
    with that assms(2) [of _ y] assms(3) [of ms] assms(4) [of ms] show ?thesis
      by (cases "ms = []") simp_all
  qed (simp add: assms(2))
  show ?thesis
    unfolding verifyMountRequest_def using assms(1) ans
    by (simp add: GetVolumeDevPath_eq)
qed

lemma wp_setIOLimits_request:
  assumes "runs (setIOLimits st oor vol (Some pod) dev) tr r" and "EvErr (SetIOLimits req) y \<in> set tr"
    and "ParseUint (Capacity (Spec vol)) = (c, None)"
  shows "\<exists>ri wi rb wb. req = \<lparr>io_DeviceName = dev, io_PodUid = UID pod, io_ContainerRuntime = io_containerRuntime st,
      io_Riops = mul_u64 ri (capacity_GB oor c), io_Wiops = mul_u64 wi (capacity_GB oor c),
      io_Rbps = mul_u64 rb (capacity_GB oor c), io_Wbps = mul_u64 wb (capacity_GB oor c)\<rparr> \<and>
    (\<exists>t. runs (getRatePerGB (LVGroup pod) (riopsPerGB st)) t (Val ri)) \<and>
    (\<exists>t. runs (getRatePerGB (LVGroup pod) (wiopsPerGB st)) t (Val wi)) \<and>
    (\<exists>t. runs (getRatePerGB (LVGroup pod) (rbpsPerGB st)) t (Val rb)) \<and>
    (\<exists>t. runs (getRatePerGB (LVGroup pod) (wbpsPerGB st)) t (Val wb))"
proof -
  have rate: "EvErr x y \<notin> set t" if "runs (getRatePerGB vg m) t z" for vg m t z x y
    using that by (auto simp: getRatePerGB_def split: option.splits)
  have no: "\<not> runs (getRatePerGB vg m) t (Crash s)" for vg m t s
    by (auto simp: getRatePerGB_def split: option.splits)
  show ?thesis
    using assms
    by (auto simp: setIOLimits_def GetRIopsPerGB_def GetWIopsPerGB_def GetRBpsPerGB_def GetWBpsPerGB_def Let_def
        runs_bindP callErr_def getContainerRuntime_def no) (use rate in \<open>blast+\<close>)
qed

text \<open>What the rules say of a run that mounts.\<close>

definition may_mount :: "globals \<Rightarrow> LVMVolume \<Rightarrow> string \<Rightarrow> string list \<Rightarrow> bool" where
  "may_mount G vol path ms \<longleftrightarrow> path \<noteq> [] \<and> OwnerNodeID (Spec vol) \<in> {[], NodeID G} \<and> Finalizers vol \<noteq> None \<and>
     path \<notin> set ms \<and> (ms = [] \<or> Shared (Spec vol) = ''yes'')"

section \<open>Properties\<close>

text \<open>A run of \<^verbatim>\<open>MountVolume\<close> never crashes, and formats or mounts a device at most once, only after the mount
  table of this volume's device was read, only if the request names a path, the volume belongs to this node (or to
  no node) and has finalizers, the path is not mounted yet, and the device is mounted nowhere or is shared. It
  reports success exactly if the path was mounted already or that one mount succeeded; an error of the I/O limits
  is never reported.\<close>

theorem mount_volume_runs:
  assumes "runs (MountVolume G st oor vol mount pod) tr r"
  shows "(\<exists>e. r = Val (Inl e) \<and> list_all (\<lambda>ev. \<exists>y. ev = EvStrs (GetMounts (dev_of vol)) y) tr) \<or>
    (\<exists>ms. MountPath mount \<in> set ms \<and> r = Val (Inr ()) \<and> tr = [EvStrs (GetMounts (dev_of vol)) (Inr ms)]) \<or>
    (\<exists>ms y u. may_mount G vol (MountPath mount) ms \<and> list_all io_event u \<and>
      tr = EvStrs (GetMounts (dev_of vol)) (Inr ms) #
        EvErr (FormatAndMount (DevPath @ VolGroup (Spec vol) @ ''/'' @ Name vol) (MountPath mount) (FSType mount)
          (MountOptions mount)) y # u \<and>
      (case y of None \<Rightarrow> r = Val (Inr ()) | Some e \<Rightarrow> u = [] \<and> r = Val (Inl (StatusErr Internal
        [MStr ''failed to format and mount the volume error: '', MErr e]))))"
    (is "?P r tr")
proof -
  have "wp (MountVolume G st oor vol mount pod) ?P []"
    unfolding MountVolume_def Let_def tryP_def wp_bindP
    apply (rule wp_verifyMountRequest)
       apply simp_all
    subgoal for ms
      by (auto simp: FormatAndMountVol_def callErr_def wp_simps may_mount_def intro!: wp_apply_io_limits split: option.splits)
    done
  from wp_runs [OF this assms] show ?thesis by simp
qed

definition ex_mount :: MountInfo where
  "ex_mount = \<lparr>FSType = ''ext4'', AccessModes = [], MountPath = ''/mnt/a'', MountOptions = [''rw'']\<rparr>"

definition ex_pod :: PodLVInfo where
  "ex_pod = \<lparr>UID = ''pod-1'', LVGroup = ''lvmvg''\<rparr>"

definition ex_limits :: io_limits where
  "ex_limits = io_init\<lparr>ioLimitsEnabled := True, io_containerRuntime := ''containerd'', riopsPerGB := [(''lvmvg'', 100)],
     wiopsPerGB := [(''lvmvg'', 50)], rbpsPerGB := [(''lvmvg'', 10)], wbpsPerGB := [(''lvmvg'', 5)]\<rparr>"

definition ex_mount_run :: "event list" where
  "ex_mount_run = [EvStrs (GetMounts (dev_of ex_ready_vol)) (Inr []),
     EvErr (FormatAndMount ''/dev/lvmvg/pvc-1'' ''/mnt/a'' ''ext4'' [''rw'']) None]"

lemma ex_mount_runs: "runs (MountVolume ex_G io_init oor ex_ready_vol ex_mount (Some ex_pod)) ex_mount_run (Val (Inr ()))"
  by (simp add: MountVolume_def Let_def tryP_def verifyMountRequest_def ex_ready_vol_def ex_mount_def ex_G_def
      GetVolumeDevPath_eq FormatAndMountVol_def callErr_def apply_io_limits_def io_init_def ex_mount_run_def
      zero_LVMVolume_def)

theorem mount_volume_runs_witness: "\<exists>ms. may_mount ex_G ex_ready_vol ''/mnt/a'' ms"
  using mount_volume_runs [OF ex_mount_runs [of "\<lambda>_. 0"]] by (auto simp: ex_mount_run_def ex_mount_def)

text \<open>(C32) The limits that a pod gets for a volume below 8 PiB: the request to the kernel names the device, the
  pod and the runtime, and each of the four limits is the rate per gigabyte that a lookup for the volume group
  returned, times the capacity in units of \<open>2\<^sup>3\<^sup>0\<close> bytes rounded up, in 64-bit arithmetic. The capacity is
  computed in floating point; below \<open>2\<^sup>5\<^sup>3\<close> bytes the result is exact.\<close>

theorem io_limits_scaled:
  assumes "runs (setIOLimits st oor vol (Some pod) dev) tr r" and "EvErr (SetIOLimits req) y \<in> set tr"
    and "ParseUint (Capacity (Spec vol)) = (c, None)" and "c < 2 ^ 53"
  shows "\<exists>ri wi rb wb. (let gb = (c + (2 ^ 30 - 1)) div 2 ^ 30 in
      req = \<lparr>io_DeviceName = dev, io_PodUid = UID pod, io_ContainerRuntime = io_containerRuntime st,
        io_Riops = ri * gb mod 2 ^ 64, io_Wiops = wi * gb mod 2 ^ 64,
        io_Rbps = rb * gb mod 2 ^ 64, io_Wbps = wb * gb mod 2 ^ 64\<rparr>) \<and>
    (\<exists>t. runs (getRatePerGB (LVGroup pod) (riopsPerGB st)) t (Val ri)) \<and>
    (\<exists>t. runs (getRatePerGB (LVGroup pod) (wiopsPerGB st)) t (Val wi)) \<and>
    (\<exists>t. runs (getRatePerGB (LVGroup pod) (rbpsPerGB st)) t (Val rb)) \<and>
    (\<exists>t. runs (getRatePerGB (LVGroup pod) (wbpsPerGB st)) t (Val wb))"
  using wp_setIOLimits_request [OF assms(1-3)] unfolding capacity_GB_exact [OF assms(4)] mul_u64_def Let_def .

definition ex_request :: IOLimitRequest where
  "ex_request = \<lparr>io_DeviceName = ''/dev/lvmvg/pvc-1'', io_PodUid = ''pod-1'', io_ContainerRuntime = ''containerd'',
     io_Riops = 100, io_Wiops = 50, io_Rbps = 10, io_Wbps = 5\<rparr>"

theorem io_limits_scaled_witness: "\<exists>ri. 100 = ri * 1 mod 2 ^ 64 \<and> (\<exists>t. runs (getRatePerGB ''lvmvg'' [(''lvmvg'', 100)]) t (Val ri))"
proof -
  have cap: "ParseUint (Capacity (Spec ex_ready_vol)) = (2 ^ 30, None)"
    by (simp add: ex_ready_vol_def zero_LVMVolume_def) code_simp
  have gb: "capacity_GB (\<lambda>_. 0) (2 ^ 30) = 1" using capacity_GB_exact [of "2 ^ 30"] by simp
  have "runs (setIOLimits ex_limits (\<lambda>_. 0) ex_ready_vol (Some ex_pod) ''/dev/lvmvg/pvc-1'')
      [EvErr (SetIOLimits ex_request) None] (Val (Inr ()))"
    using cap gb
    by (simp add: setIOLimits_def Let_def GetRIopsPerGB_def GetWIopsPerGB_def GetRBpsPerGB_def GetWBpsPerGB_def getRatePerGB_def
        ex_limits_def ex_pod_def callErr_def mul_u64_def ex_request_def getContainerRuntime_def)
  from io_limits_scaled [OF this _ cap, of ex_request None]
  show ?thesis by (auto simp: ex_request_def ex_limits_def ex_pod_def)
qed

text \<open>(C33) A block volume is published without the checks of a file system mount: whatever the owner of the
  volume, its finalizers and the mount table, \<^verbatim>\<open>MountBlock\<close> creates the target and bind-mounts the device, removes the
  target again if that fails, and succeeds exactly if the bind mount does. When the target cannot be created,
  the process crashes instead of returning the error that the code prepares for this case.\<close>

theorem mount_block_runs:
  assumes "runs (MountBlock st oor vol mount pod) tr r"
  shows "\<exists>y rest. tr = EvErr (OpenCreate (MountPath mount)) y # rest \<and> (case y of
      Some _ \<Rightarrow> rest = [] \<and> r = Crash ''nil pointer dereference''
    | None \<Rightarrow> (\<exists>z rest'. rest = EvErr (BindMount (DevPath @ VolGroup (Spec vol) @ ''/'' @ Name vol) (MountPath mount) [] [''bind'']) z #
          rest' \<and> (case z of
            None \<Rightarrow> list_all io_event rest' \<and> r = Val (Inr ())
          | Some e \<Rightarrow> (\<exists>x e'. rest' = [EvErr (RemovePath (MountPath mount)) x] \<and> r = Val (Inl (StatusErr Internal e'))))))"
    (is "?P r tr")
proof -
  have "wp (MountBlock st oor vol mount pod) ?P []"
    by (auto simp: MountBlock_def Let_def makeFile_def callErr_def wp_simps split: option.splits intro!: wp_apply_io_limits)
  from wp_runs [OF this assms] show ?thesis by simp
qed

theorem mount_block_runs_witness:
  "runs (MountBlock io_init (\<lambda>_. 0) ex_ready_vol ex_mount None) [EvErr (OpenCreate ''/mnt/a'') (Some (NewErr []))]
     (Crash ''nil pointer dereference'')"
proof -
  have "\<exists>r. runs (MountBlock io_init (\<lambda>_. 0) ex_ready_vol ex_mount None) [EvErr (OpenCreate ''/mnt/a'') (Some (NewErr []))] r"
    by (simp add: MountBlock_def Let_def makeFile_def callErr_def ex_mount_def)
  then obtain r where r: "runs (MountBlock io_init (\<lambda>_. 0) ex_ready_vol ex_mount None)
      [EvErr (OpenCreate ''/mnt/a'') (Some (NewErr []))] r" ..
  from mount_block_runs [OF r] r show ?thesis by simp
qed

end
