(* ===== verification/Csi_Node.thy ===== *)
theory Csi_Node
  imports Mount
begin

text \<open>
  \<^verbatim>\<open>src/pkg/driver/agent.go\<close>: the node service of the CSI driver, which publishes, unpublishes and expands
  volumes on its node. The handlers carry the prefix \<open>ns_\<close>; \<open>node_id\<close> is the field \<^verbatim>\<open>NodeID\<close> of the configuration
  and \<open>env\<close> is \<^verbatim>\<open>os.Getenv\<close>. The file systems' mount table and counters are operations of the environment.
\<close>

section \<open>Definitions\<close>

definition GetVolAndMountInfo ::
  "globals \<Rightarrow> NodePublishRequest \<Rightarrow> (gerr + LVMVolume \<times> MountInfo) prog" where
  "GetVolAndMountInfo G req =
     (let mountinfo = \<lparr>FSType = GetFsType (np_Capability req), AccessModes = [],
            MountPath = np_TargetPath req,
            MountOptions = GetMountFlags (np_Capability req) @ (if np_Readonly req then [''ro''] else [])\<rparr>;
          volName = ToLower (np_VolumeId req)
      in tryP (getP (vol_kc_Get (kc_for (LvmNamespace G)) volName)) (\<lambda>vol. Ret (Inr (vol, mountinfo))))"

definition getPodLVInfo :: "NodePublishRequest \<Rightarrow> gerr + PodLVInfo" where
  "getPodLVInfo req =
     (case np_VolumeContext req ''csi.storage.k8s.io/pod.uid'' of
        None \<Rightarrow> Inl (NewErr [MStr ''csi.storage.k8s.io/pod.uid key missing in VolumeContext''])
      | Some uid \<Rightarrow>
          (case np_VolumeContext req ''openebs.io/volgroup'' of
             None \<Rightarrow> Inl (NewErr [MStr ''openebs.io/volgroup key missing in VolumeContext''])
           | Some vg \<Rightarrow> Inr \<lparr>UID = uid, LVGroup = vg\<rparr>))"

definition validateNodePublishReq :: "NodePublishRequest \<Rightarrow> gerr + unit" where
  "validateNodePublishReq req =
     (if np_Capability req = None then Inl (StatusErr InvalidArgument [MStr ''Volume capability missing in request''])
      else if np_VolumeId req = [] then Inl (StatusErr InvalidArgument [MStr ''Volume ID missing in request''])
      else Inr ())"

definition validateNodeUnpublishReq :: "string \<Rightarrow> string \<Rightarrow> gerr + unit" where
  "validateNodeUnpublishReq volumeID targetPath =
     (if volumeID = [] then Inl (StatusErr InvalidArgument [MStr ''Volume ID missing in request''])
      else if targetPath = [] then Inl (StatusErr InvalidArgument [MStr ''Target path missing in request''])
      else Inr ())"

text \<open>The error of \<^verbatim>\<open>getPodLVInfo\<close> is logged and stays in the variable \<^verbatim>\<open>err\<close>; it is returned unless one of the
  two mount functions assigns the variable again.\<close>

definition ns_NodePublishVolume ::
  "globals \<Rightarrow> io_limits \<Rightarrow> (f64 \<Rightarrow> int) \<Rightarrow> NodePublishRequest \<Rightarrow> (gerr + unit) prog" where
  "ns_NodePublishVolume G st oor req =
     (case validateNodePublishReq req of
        Inl e \<Rightarrow> Ret (Inl e)
      | Inr _ \<Rightarrow>
          bindP (GetVolAndMountInfo G req) (\<lambda>r. case r of
              Inl e \<Rightarrow> Ret (Inl (StatusErr Internal [MErr e]))
            | Inr (vol, mountInfo) \<Rightarrow>
                (let info = getPodLVInfo req;
                     podLVinfo = (case info of Inl _ \<Rightarrow> None | Inr p \<Rightarrow> Some p);
                     err = map_sum (\<lambda>e. e) (\<lambda>_. ()) info
                 in case Option.bind (np_Capability req) vc_AccessType of
                      Some AccessBlock \<Rightarrow> MountBlock st oor vol mountInfo podLVinfo
                    | Some (AccessMount _ _) \<Rightarrow> MountFilesystem G st oor vol mountInfo podLVinfo
                    | None \<Rightarrow> Ret err)))"

definition ns_NodeUnpublishVolume :: "globals \<Rightarrow> string \<Rightarrow> string \<Rightarrow> (gerr + unit) prog" where
  "ns_NodeUnpublishVolume G volumeID targetPath =
     (case validateNodeUnpublishReq volumeID targetPath of
        Inl e \<Rightarrow> Ret (Inl e)
      | Inr _ \<Rightarrow>
          bindP (GetLVMVolume G volumeID) (\<lambda>r. case r of
              Inl e \<Rightarrow> Ret (Inl (StatusErr Internal
                [MStr ''not able to get the LVMVolume '', MStr volumeID, MStr '' err : '', MErr e]))
            | Inr vol \<Rightarrow>
                bindP (UmountVolume vol targetPath) (\<lambda>r. case r of
                    Inl e \<Rightarrow> Ret (Inl (StatusErr Internal
                      [MStr ''unable to umount the volume '', MStr volumeID, MStr '' err : '', MErr e]))
                  | Inr _ \<Rightarrow> Ret (Inr ()))))"

record NodeGetInfoResponse =
  ni_NodeId :: string
  ni_Segments :: segments

text \<open>The loop over the keys that the environment variable \<^verbatim>\<open>ALLOWED_TOPOLOGIES\<close> lists.\<close>

fun add_topologies :: "(string \<rightharpoonup> string) \<Rightarrow> segments \<Rightarrow> string list \<Rightarrow> segments" where
  "add_topologies labels topology [] = topology"
| "add_topologies labels topology (key # keys) =
     (if key \<noteq> []
      then (case labels key of
          Some v \<Rightarrow> add_topologies labels (topology(key \<mapsto> v)) keys
        | None \<Rightarrow> add_topologies labels topology keys)
      else add_topologies labels topology keys)"

definition ns_NodeGetInfo :: "(string \<Rightarrow> string) \<Rightarrow> string \<Rightarrow> (gerr + NodeGetInfoResponse) prog" where
  "ns_NodeGetInfo env node_id =
     OpLabels node_id (\<lambda>r. case r of
         Inl e \<Rightarrow> Ret (Inl e)
       | Inr labels \<Rightarrow>
           (let allowedKeys = Split CHR '','' (env ''ALLOWED_TOPOLOGIES'') in
            Ret (Inr \<lparr>ni_NodeId = node_id,
              ni_Segments = add_topologies labels [LVMTopologyKey \<mapsto> node_id] allowedKeys\<rparr>)))"

datatype NodeRpcType = NODE_RPC_GET_VOLUME_STATS | NODE_RPC_EXPAND_VOLUME

definition ns_NodeGetCapabilities :: "gerr + NodeRpcType list" where
  "ns_NodeGetCapabilities = Inr [NODE_RPC_GET_VOLUME_STATS, NODE_RPC_EXPAND_VOLUME]"

definition ns_NodeStageVolume :: "gerr + unit" where
  "ns_NodeStageVolume = Inl (StatusErr Unimplemented [])"

definition ns_NodeUnstageVolume :: "gerr + unit" where
  "ns_NodeUnstageVolume = Inl (StatusErr Unimplemented [])"

definition is_block :: "VolumeCapability option \<Rightarrow> bool" where
  "is_block c = (Option.bind c vc_AccessType = Some AccessBlock)"

definition expand_err :: "code \<Rightarrow> string \<Rightarrow> gerr \<Rightarrow> gerr" where
  "expand_err c vid e = StatusErr c
     [MStr ''failed to handle NodeExpandVolume Request for '', MStr vid, MStr '', {'', MErr e, MStr ''}'']"

definition ns_NodeExpandVolume :: "globals \<Rightarrow> NodeExpandRequest \<Rightarrow> (gerr + int) prog" where
  "ns_NodeExpandVolume G req =
     (let volumeID = ne_VolumeId req in
      if ne_VolumePath req = [] \<or> volumeID = []
      then Ret (Inl (StatusErr InvalidArgument [MStr ''path not provided for NodeExpandVolume Request '', MStr volumeID]))
      else bindP (GetLVMVolume G volumeID) (\<lambda>r. case r of
          Inl e \<Rightarrow> Ret (Inl (expand_err NotFound volumeID e))
        | Inr vol \<Rightarrow>
            (let isBlockMode = is_block (ne_Capability req);
                 fsType = GetFsType (ne_Capability req);
                 resizeFS = \<not> (isBlockMode \<or> fsType = ''btrfs'');
                 response = Ret (Inr (case ne_RequiredBytes req of None \<Rightarrow> 0 | Some n \<Rightarrow> n))
             in bindP (ResizeLVMVolume vol resizeFS) (\<lambda>r. case r of
                    Inl e \<Rightarrow> Ret (Inl (expand_err Internal volumeID e))
                  | Inr _ \<Rightarrow>
                      if fsType = ''btrfs''
                      then bindP (callErr (ResizeBTRFS (ne_VolumePath req))) (\<lambda>r. case r of
                          Inl e \<Rightarrow> Ret (Inl (expand_err Internal volumeID e))
                        | Inr _ \<Rightarrow> response)
                      else response))))"

datatype UsageUnit = UNIT_BYTES | UNIT_INODES

record VolumeUsage =
  us_Unit :: UsageUnit
  us_Total :: int
  us_Used :: int
  us_Available :: int

text \<open>The counters are \<^verbatim>\<open>uint64\<close>: a difference wraps around before it is converted to \<^verbatim>\<open>int64\<close>.\<close>

definition sub_u64 :: "int \<Rightarrow> int \<Rightarrow> int" where
  "sub_u64 a b = (a - b) mod 2 ^ 64"

definition volume_usage :: "Statfs_t \<Rightarrow> VolumeUsage list" where
  "volume_usage sfs =
     [\<lparr>us_Unit = UNIT_BYTES,
       us_Total = mul64 (wrap64 (Blocks sfs)) (wrap64 (Bsize sfs)),
       us_Used = mul64 (wrap64 (sub_u64 (Blocks sfs) (Bfree sfs))) (wrap64 (Bsize sfs)),
       us_Available = mul64 (wrap64 (Bavail sfs)) (wrap64 (Bsize sfs))\<rparr>,
      \<lparr>us_Unit = UNIT_INODES,
       us_Total = wrap64 (Files sfs),
       us_Used = wrap64 (sub_u64 (Files sfs) (Ffree sfs)),
       us_Available = wrap64 (Ffree sfs)\<rparr>]"

text \<open>\<^verbatim>\<open>IsMountPath\<close> answers with a truth value; an error in reading the mount table makes it false.\<close>

definition ns_NodeGetVolumeStats :: "string \<Rightarrow> string \<Rightarrow> (gerr + VolumeUsage list) prog" where
  "ns_NodeGetVolumeStats volID path =
     (if volID = [] then Ret (Inl (StatusErr InvalidArgument [MStr ''volume id is not provided'']))
      else if path = [] then Ret (Inl (StatusErr InvalidArgument [MStr ''path is not provided'']))
      else OpBool (IsMountPath path) (\<lambda>r.
        if r \<noteq> Inr True then Ret (Inl (StatusErr NotFound [MStr ''path is not a mount path'']))
        else OpStatfs path (\<lambda>r. case r of
            Inl e \<Rightarrow> Ret (Inl (StatusErr Internal [MStr ''statfs on '', MStr path, MStr '' failed: '', MErr e]))
          | Inr sfs \<Rightarrow> Ret (Inr (volume_usage sfs)))))"

section \<open>Rules\<close>

lemma wp_GetVolAndMountInfo:
  assumes "np_VolumeId req \<noteq> []"
    and "\<And>e t. list_all (\<lambda>ev. (\<exists>y. ev = EvErr (GetClientset []) y) \<or>
        (\<exists>e. ev = EvVol (VolGet (LvmNamespace G) (ToLower (np_VolumeId req))) (Inl e))) t \<Longrightarrow> Q (Val (Inl e)) (tr @ t)"
    and "\<And>vol. Q (Val (Inr (vol, \<lparr>FSType = GetFsType (np_Capability req), AccessModes = [], MountPath = np_TargetPath req,
        MountOptions = GetMountFlags (np_Capability req) @ (if np_Readonly req then [''ro''] else [])\<rparr>)))
      (tr @ [cs_ok, EvVol (VolGet (LvmNamespace G) (ToLower (np_VolumeId req))) (Inr vol)])"
  shows "wp (GetVolAndMountInfo G req) Q tr"
  using assms
  by (auto simp: GetVolAndMountInfo_def Let_def wp_tryP GetLVMVolume_def [symmetric] wp_GetLVMVolume split_sum_all)

lemma add_topologies_eq:
  "add_topologies labels topology keys k =
    (if k \<noteq> [] \<and> k \<in> set keys \<and> labels k \<noteq> None then labels k else topology k)"
  by (induction keys arbitrary: topology) (auto split: option.splits)

lemma wrap64_sub_u64: "0 \<le> b \<Longrightarrow> b \<le> a \<Longrightarrow> a < 2 ^ 63 \<Longrightarrow> wrap64 (sub_u64 a b) = a - b"
  by (simp add: sub_u64_def mod_pos_pos_trivial wrap64_id in_int64_def min_int64_def max_int64_def)

lemma mul64_exact:
  assumes "0 \<le> a" and "0 \<le> b" and "a * b < 2 ^ 63"
  shows "mul64 a b = a * b"
proof -
  from assms have "0 \<le> a * b" by simp
  with assms(3) have "in_int64 (a * b)" unfolding in_int64_def min_int64_def max_int64_def by linarith
  then show ?thesis by (simp add: mul64_def wrap64_id)
qed

lemmas get_defs = tryP_def getP_def vol_kc_Get_def vol_defaultGet_def getClientOrCached_def
  getClientsetForPathOrDirect_def callErr_def GetLVMVolume_def

section \<open>Properties\<close>

text \<open>(C13) Publishing a volume with a file system. Every run ends in one of three ways. It returns an error and has
  formatted or mounted nothing. Or it has read the volume, created the target directory and looked the device of
  that volume up in the mount table, which showed the target as mounted, and succeeds without mounting. Or, after
  the same three operations, it makes exactly one mount, of the device of the volume it read at the requested path
  with the requested file system and flags, and with \<^verbatim>\<open>ro\<close> for a read-only request, and reports success exactly if
  that mount succeeded. The mount is made only if the path is not empty and not mounted, the volume belongs to this
  node or to no node, it has finalizers, and its device is mounted nowhere else or it is marked as shared.\<close>

theorem node_publish_filesystem:
  assumes "runs (ns_NodePublishVolume G st oor req) tr r"
    and "np_Capability req = Some c" and "vc_AccessType c = Some (AccessMount fs flags)"
  shows "(\<exists>e. r = Val (Inl e)) \<and> (\<forall>d p f m y. EvErr (FormatAndMount d p f m) y \<notin> set tr) \<or>
    (\<exists>vol ms u. tr = [cs_ok, EvVol (VolGet (LvmNamespace G) (ToLower (np_VolumeId req))) (Inr vol),
        EvErr (MkdirAll (np_TargetPath req)) None, EvStrs (GetMounts (dev_of vol)) (Inr ms)] @ u \<and>
      (np_TargetPath req \<in> set ms \<and> u = [] \<and> r = Val (Inr ()) \<or>
       may_mount G vol (np_TargetPath req) ms \<and>
       (\<exists>y v. u = EvErr (FormatAndMount (DevPath @ VolGroup (Spec vol) @ ''/'' @ Name vol) (np_TargetPath req) fs
            (flags @ (if np_Readonly req then [''ro''] else []))) y # v \<and> list_all io_event v \<and>
          (r = Val (Inr ()) \<longleftrightarrow> y = None))))"
  (is "?P r tr")
proof (cases "np_VolumeId req = []")
  case True
  with assms show ?thesis by (simp add: ns_NodePublishVolume_def validateNodePublishReq_def)
next
  case False
  let ?get = "\<lambda>vol. [cs_ok, EvVol (VolGet (LvmNamespace G) (ToLower (np_VolumeId req))) (Inr vol)]"
  let ?info = "\<lparr>FSType = fs, AccessModes = [], MountPath = np_TargetPath req,
    MountOptions = flags @ (if np_Readonly req then [''ro''] else [])\<rparr>"
  have mnt: "wp (MountVolume G st oor vol ?info pod) ?P (?get vol @ [EvErr (MkdirAll (np_TargetPath req)) None])"
    for vol pod
    unfolding wp_iff_runs
  proof (intro allI impI, drule mount_volume_runs, elim disjE exE conjE, goal_cases)
    case (1 t r e)
    then show ?case by (auto simp: list_all_iff)
  next
    case (2 t r ms)
    then show ?case by simp
  next
    case (3 t r ms y u)
    then show ?case by (cases y) auto
  qed
  have fs: "wp (MountFilesystem G st oor vol ?info pod) ?P (?get vol)" for vol pod
    unfolding MountFilesystem_def using mnt [of vol pod]
    by (auto simp: wp_simps split_option_all)
  have "wp (ns_NodePublishVolume G st oor req) ?P []"
    unfolding ns_NodePublishVolume_def Let_def
    using assms(2,3) False fs
    by (auto simp: validateNodePublishReq_def wp_bindP GetFsType_def GetMountFlags_def list_all_iff
        intro!: wp_GetVolAndMountInfo [OF False])
  from wp_runs [OF this assms(1)] show ?thesis .
qed

definition ex_publish_req :: NodePublishRequest where
  "ex_publish_req = \<lparr>np_VolumeId = ''PVC-1'', np_TargetPath = ''/t'',
     np_Capability = Some \<lparr>vc_AccessMode = Some SINGLE_NODE_WRITER, vc_AccessType = Some (AccessMount ''ext4'' [''noatime''])\<rparr>,
     np_Readonly = True, np_VolumeContext = Map.empty\<rparr>"

definition ex_publish_run :: "event list" where
  "ex_publish_run = [cs_ok, EvVol (VolGet ''openebs'' ''pvc-1'') (Inr ex_ready_vol), EvErr (MkdirAll ''/t'') None,
     EvStrs (GetMounts (dev_of ex_ready_vol)) (Inr []),
     EvErr (FormatAndMount ''/dev/lvmvg/pvc-1'' ''/t'' ''ext4'' [''noatime'', ''ro'']) None]"

lemma ex_publish_runs: "runs (ns_NodePublishVolume ex_G io_init oor ex_publish_req) ex_publish_run (Val (Inr ()))"
proof -
  have "ToLower ''PVC-1'' = ''pvc-1''" by code_simp
  then show ?thesis
    by (simp add: ns_NodePublishVolume_def ex_publish_req_def validateNodePublishReq_def GetVolAndMountInfo_def
        ex_publish_run_def MountFilesystem_def MountVolume_def verifyMountRequest_def get_defs Let_def
        GetFsType_def GetMountFlags_def getPodLVInfo_def GetVolumeDevPath_eq FormatAndMountVol_def apply_io_limits_def
        io_init_def ex_ready_vol_def zero_LVMVolume_def)
qed

theorem node_publish_filesystem_witness: "may_mount ex_G ex_ready_vol ''/t'' []"
  using node_publish_filesystem [OF ex_publish_runs [of "\<lambda>_. 0"],
    of "the (np_Capability ex_publish_req)" "''ext4''" "[''noatime'']"]
  by (simp add: ex_publish_run_def ex_publish_req_def)

text \<open>(C14) Expanding a volume on its node succeeds only if the logical volume was brought to the capacity its resource
  asks for before anything else was resized: LVM resizes the file system itself unless the volume is a block
  device or has a \<^verbatim>\<open>btrfs\<close>, for which the resize of the mounted file system follows the extension and is the last
  step. The answer is the size that was requested, 0 without a capacity range. The handler never crashes.\<close>

theorem node_expand_order:
  assumes "runs (ns_NodeExpandVolume G req) tr r"
  shows "(\<exists>e. r = Val (Inl e)) \<or>
    (\<exists>vol d. let btrfs = (GetFsType (ne_Capability req) = ''btrfs'') in
       tr = [cs_ok, EvVol (VolGet (LvmNamespace G) (ne_VolumeId req)) (Inr vol)] @ d @
         (if btrfs then [EvErr (ResizeBTRFS (ne_VolumePath req)) None] else []) \<and>
       runs (ResizeLVMVolume vol (\<not> (is_block (ne_Capability req) \<or> btrfs))) d (Val (Inr ())) \<and>
       r = Val (Inr (case ne_RequiredBytes req of None \<Rightarrow> 0 | Some n \<Rightarrow> n)))"
  (is "?P r tr")
proof -
  have nc: "no_crash (ResizeLVMVolume vol b)" for vol b
    unfolding ResizeLVMVolume_def getLVSize_def RunCommandSplit_def by (intro no_crash_intros)
  have rz: "wp (ResizeLVMVolume vol b) (\<lambda>r t. \<exists>x d. r = Val x \<and> t = tr @ d \<and> runs (ResizeLVMVolume vol b) d (Val x)) tr"
    for vol b tr
    unfolding wp_iff_runs using no_crashD [OF nc] by blast
  have "wp (ns_NodeExpandVolume G req) ?P []"
    unfolding ns_NodeExpandVolume_def Let_def
    by (auto simp: wp_simps split_sum_all split_option_all intro!: wp_mono [OF rz] split: sum.splits)
  from wp_runs [OF this assms] show ?thesis .
qed

theorem node_expand_order_witness: "\<exists>vol d. runs (ResizeLVMVolume vol False) d (Val (Inr ()))"
proof -
  let ?req = "\<lparr>ne_VolumeId = ''pvc-1'', ne_VolumePath = ''/t'', ne_Capability =
    Some \<lparr>vc_AccessMode = None, vc_AccessType = Some (AccessMount ''btrfs'' [])\<rparr>, ne_RequiredBytes = Some 1073741824\<rparr>"
  let ?tr = "[cs_ok, EvVol (VolGet ''openebs'' ''pvc-1'') (Inr ex_ready_vol),
      EvExec (RunSplit LVList [''lvmvg/pvc-1'', ''--noheadings'', ''-o'', ''lv_size'', ''--units'', ''b'', ''--nosuffix''])
        ('' 1073741824'', None), EvErr (ResizeBTRFS ''/t'') None]"
  have "TrimSpace '' 1073741824'' = ''1073741824''" "ParseUint ''1073741824'' = (1073741824, None)"
    by code_simp+
  then have 1: "runs (ns_NodeExpandVolume ex_G ?req) ?tr (Val (Inr 1073741824))"
    by (simp add: ns_NodeExpandVolume_def get_defs Let_def ResizeLVMVolume_def getLVSize_def RunCommandSplit_def
        GetFsType_def is_block_def ex_ready_vol_def)
  from node_expand_order [OF 1] show ?thesis
    by (auto simp: GetFsType_def Let_def simp del: append_Cons append_Nil)
qed

text \<open>The topology that a node reports: its identifier under the driver's own key, and the value of every
  label of the node whose key \<^verbatim>\<open>ALLOWED_TOPOLOGIES\<close> lists. A listed label with the driver's own key replaces the
  identifier, and nothing else is reported.\<close>

theorem node_topology:
  "runs (ns_NodeGetInfo env node_id) [EvLabels node_id (Inr labels)]
     (Val (Inr \<lparr>ni_NodeId = node_id, ni_Segments = (\<lambda>k.
        if k \<noteq> [] \<and> k \<in> set (Split CHR '','' (env ''ALLOWED_TOPOLOGIES'')) \<and> labels k \<noteq> None then labels k
        else if k = LVMTopologyKey then Some node_id else None)\<rparr>))"
  by (simp add: ns_NodeGetInfo_def Let_def add_topologies_eq fun_eq_iff)

text \<open>The usage that \<^verbatim>\<open>NodeGetVolumeStats\<close> reports for a file system with consistent counters whose size fits
  into 63 bits: no operation overflows; used and free space add up to the total, and what is used and what is
  available together never exceed it. The same holds of the inodes.\<close>

theorem volume_usage_exact:
  assumes "0 \<le> Bavail sfs" "Bavail sfs \<le> Bfree sfs" "Bfree sfs \<le> Blocks sfs" "Blocks sfs < 2 ^ 63"
    and "0 < Bsize sfs" "Bsize sfs < 2 ^ 63" "Blocks sfs * Bsize sfs < 2 ^ 63"
    and "0 \<le> Ffree sfs" "Ffree sfs \<le> Files sfs" "Files sfs < 2 ^ 63"
  shows "\<exists>b i. volume_usage sfs = [b, i] \<and>
    us_Total b = Blocks sfs * Bsize sfs \<and> us_Used b + Bfree sfs * Bsize sfs = us_Total b \<and>
    0 \<le> us_Used b \<and> 0 \<le> us_Available b \<and> us_Used b + us_Available b \<le> us_Total b \<and>
    us_Total i = Files sfs \<and> us_Used i + us_Available i = us_Total i \<and> 0 \<le> us_Used i \<and> 0 \<le> us_Available i"
proof -
  have small: "x * Bsize sfs < 2 ^ 63" if "x \<le> Blocks sfs" for x
    using mult_right_mono [OF that, of "Bsize sfs"] assms by linarith
  have id: "wrap64 x = x" if "0 \<le> x" "x < 2 ^ 63" for x
    using that by (simp add: wrap64_id in_int64_def min_int64_def max_int64_def)
  have "mul64 (wrap64 (Blocks sfs)) (wrap64 (Bsize sfs)) = Blocks sfs * Bsize sfs"
    "mul64 (wrap64 (Bavail sfs)) (wrap64 (Bsize sfs)) = Bavail sfs * Bsize sfs"
    "mul64 (wrap64 (sub_u64 (Blocks sfs) (Bfree sfs))) (wrap64 (Bsize sfs)) = (Blocks sfs - Bfree sfs) * Bsize sfs"
    using assms by (simp_all only: id wrap64_sub_u64) (auto intro!: mul64_exact small simp del: power_numeral simp: id wrap64_sub_u64)
  moreover have "Bavail sfs * Bsize sfs \<le> Bfree sfs * Bsize sfs"
    using assms by (intro mult_right_mono) auto
  ultimately show ?thesis
    using assms by (simp add: volume_usage_def id wrap64_sub_u64 left_diff_distrib mult_right_mono)
qed

theorem volume_usage_exact_witness:
  "map us_Used (volume_usage \<lparr>Blocks = 100, Bfree = 60, Bavail = 50, Files = 10, Ffree = 4, Bsize = 4096\<rparr>) = [163840, 6]"
proof -
  let ?sfs = "\<lparr>Blocks = 100, Bfree = 60, Bavail = 50, Files = 10, Ffree = 4, Bsize = 4096\<rparr>"
  have "\<exists>b i. volume_usage ?sfs = [b, i] \<and> us_Total b = Blocks ?sfs * Bsize ?sfs \<and>
      us_Used b + Bfree ?sfs * Bsize ?sfs = us_Total b \<and> 0 \<le> us_Used b \<and> 0 \<le> us_Available b \<and>
      us_Used b + us_Available b \<le> us_Total b \<and> us_Total i = Files ?sfs \<and> us_Used i + us_Available i = us_Total i \<and>
      0 \<le> us_Used i \<and> 0 \<le> us_Available i"
    by (rule volume_usage_exact) simp_all
  then show ?thesis by (auto simp: volume_usage_def wrap64_def)
qed

end
