(* ===== verification/Driver.thy ===== *)
theory Driver
  imports Csi_Node
begin

text \<open>
  The shell around the services: \<^verbatim>\<open>src/pkg/driver/{driver,identity,grpc}.go\<close>, \<^verbatim>\<open>src/pkg/version/version.go\<close> and \<^verbatim>\<open>src/cmd/main.go\<close>. The
  variables of the package \<^verbatim>\<open>version\<close>, which the linker sets, are the record \<open>build_info\<close>; \<open>env\<close> is \<^verbatim>\<open>os.Getenv\<close>;
  \<open>is_not_exist\<close> is \<^verbatim>\<open>os.IsNotExist\<close>. A fatal log entry ends the process, which is a crash here.
\<close>

section \<open>Version\<close>

record build_info =
  GitCommit :: string
  Version :: string
  VersionMeta :: string

abbreviation "versionFile \<equiv> ''/src/github.com/openebs/lvm-localpv/VERSION''"
abbreviation "buildMetaFile \<equiv> ''/src/github.com/openebs/lvm-localpv/BUILDMETA''"

text \<open>\<^verbatim>\<open>filepath.Join\<close> of one non-empty element, which cleans it lexically.\<close>

definition clean_step :: "bool \<Rightarrow> string list \<Rightarrow> string \<Rightarrow> string list" where
  "clean_step rooted out seg =
     (if seg = [] \<or> seg = ''.'' then out
      else if seg = ''..'' then
        (if out \<noteq> [] \<and> last out \<noteq> ''..'' then butlast out else if rooted then out else out @ [''..''])
      else out @ [seg])"

definition filepath_Clean :: "string \<Rightarrow> string" where
  "filepath_Clean path =
     (let rooted = HasPrefix path ''/'';
          body = Join ''/'' (foldl (clean_step rooted) [] (Split CHR ''/'' path))
      in if rooted then ''/'' @ body else if body = [] then ''.'' else body)"

definition version_Get :: "(string \<Rightarrow> string) \<Rightarrow> build_info \<Rightarrow> string prog" where
  "version_Get env b =
     (if Version b \<noteq> [] then Ret (Version b)
      else OpStr (ReadFile (filepath_Clean (env ''GOPATH'' @ versionFile))) (\<lambda>r. case r of
          Inl _ \<Rightarrow> Ret []
        | Inr vBytes \<Rightarrow> Ret (TrimSpace vBytes)))"

definition version_Current :: "(string \<Rightarrow> string) \<Rightarrow> build_info \<Rightarrow> string prog" where
  "version_Current env b = version_Get env b"

definition GetBuildMeta :: "(string \<Rightarrow> string) \<Rightarrow> build_info \<Rightarrow> string prog" where
  "GetBuildMeta env b =
     (if VersionMeta b \<noteq> [] then Ret (''-'' @ VersionMeta b)
      else OpStr (ReadFile (filepath_Clean (env ''GOPATH'' @ buildMetaFile))) (\<lambda>r. case r of
          Inl _ \<Rightarrow> Ret []
        | Inr vBytes \<Rightarrow> Ret (''-'' @ TrimSpace vBytes)))"

definition GetGitCommit :: "build_info \<Rightarrow> string prog" where
  "GetGitCommit b =
     (if GitCommit b \<noteq> [] then Ret (GitCommit b)
      else OpStr GitRevParse (\<lambda>r. case r of
          Inl _ \<Rightarrow> Ret []
        | Inr out \<Rightarrow> Ret (TrimSpace out)))"

text \<open>The slice \<^verbatim>\<open>[0:7]\<close> of a shorter string panics.\<close>

definition commit_prefix :: "string \<Rightarrow> string prog" where
  "commit_prefix s = (if length s < 7 then Panic ''slice bounds out of range'' else Ret (take 7 s))"

definition version_Verbose :: "(string \<Rightarrow> string) \<Rightarrow> build_info \<Rightarrow> string prog" where
  "version_Verbose env b =
     bindP (version_Get env b) (\<lambda>v. bindP (GetGitCommit b) (\<lambda>c. bindP (commit_prefix c) (\<lambda>p.
       Ret (Join ''-'' [v, p]))))"

definition GetVersionDetails :: "(string \<Rightarrow> string) \<Rightarrow> build_info \<Rightarrow> string prog" where
  "GetVersionDetails env b =
     bindP (version_Get env b) (\<lambda>v. bindP (GetGitCommit b) (\<lambda>c. bindP (commit_prefix c) (\<lambda>p.
       Ret (''lvm-'' @ Join ''-'' [v, p]))))"

section \<open>Identity service\<close>

definition id_GetPluginInfo ::
  "(string \<Rightarrow> string) \<Rightarrow> build_info \<Rightarrow> Config \<Rightarrow> (gerr + string \<times> string) prog" where
  "id_GetPluginInfo env b cfg =
     (if cfg_DriverName cfg = [] then Ret (Inl (StatusErr Unavailable [MStr ''missing driver name'']))
      else if cfg_Version cfg = [] then Ret (Inl (StatusErr Unavailable [MStr ''missing driver version'']))
      else bindP (version_Current env b) (\<lambda>v. Ret (Inr (cfg_DriverName cfg, v))))"

definition id_Probe :: "gerr + unit" where
  "id_Probe = Inr ()"

datatype PluginService = CONTROLLER_SERVICE | VOLUME_ACCESSIBILITY_CONSTRAINTS

definition id_GetPluginCapabilities :: "gerr + PluginService list" where
  "id_GetPluginCapabilities = Inr [CONTROLLER_SERVICE, VOLUME_ACCESSIBILITY_CONSTRAINTS]"

section \<open>Driver\<close>

text \<open>Which of the three servers the driver has.\<close>

record CSIDriver =
  drv_config :: Config
  drv_ids :: bool
  drv_ns :: bool
  drv_cs :: bool
  drv_cap :: "AccessMode list"

definition GetVolumeCapabilityAccessModes :: "AccessMode list" where
  "GetVolumeCapabilityAccessModes = [SINGLE_NODE_WRITER]"

definition driver_New :: "Config \<Rightarrow> CSIDriver" where
  "driver_New config =
     \<lparr>drv_config = config, drv_ids = True, drv_ns = (cfg_PluginType config = ''agent''),
      drv_cs = (cfg_PluginType config = ''controller''), drv_cap = GetVolumeCapabilityAccessModes\<rparr>"

section \<open>Server\<close>

definition invalid_endpoint :: "string \<Rightarrow> gerr" where
  "invalid_endpoint ep = NewErr [MStr ''Invalid endpoint: '', MStr ep]"

definition parseEndpoint :: "string \<Rightarrow> (gerr + string \<times> string) outcome" where
  "parseEndpoint ep =
     (if HasPrefix (ToLower ep) ''unix://'' \<or> HasPrefix (ToLower ep) ''tcp://''
      then (case SplitN2 ''://'' ep of
          proto # addr # _ \<Rightarrow> if addr \<noteq> [] then Val (Inr (proto, addr)) else Val (Inl (invalid_endpoint ep))
        | _ \<Rightarrow> Crash ''index out of range'')
      else Val (Inl (invalid_endpoint ep)))"

definition isInfotrmativeLog :: "string \<Rightarrow> bool" where
  "isInfotrmativeLog info =
     list_all (\<lambda>msg. \<not> Contains info msg) [''NodeGetVolumeStats'', ''NodeGetCapabilities'']"

text \<open>The first part of \<^verbatim>\<open>serve\<close>, up to the network and address that it listens on.\<close>

definition listen_address :: "(gerr \<Rightarrow> bool) \<Rightarrow> string \<Rightarrow> (string \<times> string) prog" where
  "listen_address is_not_exist endpoint =
     (case parseEndpoint endpoint of
        Crash s \<Rightarrow> Panic s
      | Val (Inl e) \<Rightarrow> Panic ''fatal: invalid endpoint''
      | Val (Inr (proto, addr)) \<Rightarrow>
          if proto = ''unix'' then
            bindP (callErr (RemovePath (''/'' @ addr))) (\<lambda>r. case r of
                Inl e \<Rightarrow> if is_not_exist e then Ret (proto, ''/'' @ addr) else Panic ''fatal: failed to remove the socket''
              | Inr _ \<Rightarrow> Ret (proto, ''/'' @ addr))
          else Ret (proto, addr))"

section \<open>Command\<close>

text \<open>The configuration before the command line is read: \<^verbatim>\<open>config.Default\<close> with the defaults of the flags.\<close>

definition flag_defaults :: "string \<Rightarrow> Config" where
  "flag_defaults nodeID =
     \<lparr>cfg_DriverName = ''local.csi.openebs.io'', cfg_PluginType = ''csi-plugin'', cfg_Version = [],
      cfg_Endpoint = ''unix://csi/csi.sock'', cfg_NodeID = nodeID, cfg_SetIOLimits = False,
      cfg_ContainerRuntime = ''containerd'', cfg_RIopsLimitPerGB = Some [], cfg_WIopsLimitPerGB = Some [],
      cfg_RBpsLimitPerGB = Some [], cfg_WBpsLimitPerGB = Some [], cfg_ListenAddress = [],
      cfg_MetricsPath = ''/metrics'', cfg_DisableExporterMetrics = True, cfg_KubeAPIQPS = 0, cfg_KubeAPIBurst = 0,
      cfg_NodeControllerPollingInterval = 60\<rparr>"

text \<open>What \<^verbatim>\<open>run\<close> does before it starts the server. Logging the limits dereferences the four lists.\<close>

definition cmd_run ::
  "(string \<Rightarrow> string) \<Rightarrow> build_info \<Rightarrow> io_limits \<Rightarrow> Config \<Rightarrow> (CSIDriver \<times> io_limits) prog" where
  "cmd_run env b st config =
     bindP (if cfg_Version config = []
            then bindP (version_Current env b) (\<lambda>v. Ret (config\<lparr>cfg_Version := v\<rparr>)) else Ret config) (\<lambda>config.
     bindP (version_Current env b) (\<lambda>_. bindP (GetGitCommit b) (\<lambda>_.
       if cfg_RIopsLimitPerGB config = None \<or> cfg_WIopsLimitPerGB config = None \<or>
          cfg_RBpsLimitPerGB config = None \<or> cfg_WBpsLimitPerGB config = None
       then Panic ''nil pointer dereference''
       else if cfg_SetIOLimits config
       then (case SetIORateLimits config st of
           Crash s \<Rightarrow> Panic s
         | Val st' \<Rightarrow> Ret (driver_New config, st'))
       else Ret (driver_New config, st))))"

section \<open>Laws\<close>

text \<open>Version details need a commit of at least seven characters: without one set by the linker, a failing
  \<^verbatim>\<open>git\<close> crashes the process.\<close>

lemma version_details_crash:
  "runs (GetVersionDetails env \<lparr>GitCommit = [], Version = c # v, VersionMeta = m\<rparr>) [EvStr GitRevParse (Inl e)]
    (Crash ''slice bounds out of range'')"
  by (simp add: GetVersionDetails_def version_Get_def GetGitCommit_def commit_prefix_def)

lemma SplitN2_scheme:
  "CHR '':'' \<notin> set p \<Longrightarrow> SplitN2 ''://'' (p @ ''://'' @ a) = [p, a]"
proof (induction p)
  case (Cons c p)
  have "\<not> HasPrefix ((c # p) @ ''://'' @ a) ''://''" using Cons.prems by (auto simp: HasPrefix_def)
  with Cons show ?case by simp
qed (simp add: HasPrefix_def)

text \<open>An endpoint that is written as a scheme and an address is read back.\<close>

lemma parseEndpoint_roundtrip:
  assumes "proto \<in> {''unix'', ''tcp''}" and "a \<noteq> []"
  shows "parseEndpoint (proto @ ''://'' @ a) = Val (Inr (proto, a))"
proof -
  have "CHR '':'' \<notin> set proto" using assms(1) by auto
  moreover have "HasPrefix (ToLower (proto @ ''://'' @ a)) ''unix://'' \<or> HasPrefix (ToLower (proto @ ''://'' @ a)) ''tcp://''"
    using assms(1) by (auto simp: ToLower_def HasPrefix_def lower_char_def)
  ultimately show ?thesis using assms(2) SplitN2_scheme [of proto a] by (simp add: parseEndpoint_def)
qed

text \<open>A scheme in upper case is accepted, but the server then does not treat it as a socket: it neither removes a
  stale file nor makes the path absolute.\<close>

lemma listen_upper_case:
  "listen_address f ''UNIX://csi.sock'' = Ret (''UNIX'', ''csi.sock'')"
proof -
  have "parseEndpoint ''UNIX://csi.sock'' = Val (Inr (''UNIX'', ''csi.sock''))" by code_simp
  then show ?thesis by (simp add: listen_address_def)
qed

text \<open>The index into the parts of an endpoint is never out of range.\<close>

lemma SplitN2_two: "Contains s ''://'' \<Longrightarrow> \<exists>a b. SplitN2 ''://'' s = [a, b]"
  by (induction "''://''" s rule: SplitN2.induct) (auto split: if_splits)

lemma lower_char_fixed:
  assumes "lower_char c = d" and "(of_char d :: nat) < 97"
  shows "c = d"
proof (cases "65 \<le> (of_char c :: nat) \<and> (of_char c :: nat) \<le> 90")
  case True
  then have "of_char (lower_char c) = (of_char c + 32 :: nat)" by (simp add: lower_char_def)
  with True assms show ?thesis by simp
qed (use assms(1) in \<open>auto simp: lower_char_def Let_def split: if_splits\<close>)

lemma Contains_append: "Contains (p @ q @ s) q"
proof (induction p)
  case Nil
  have "HasPrefix (q @ s) q" by simp
  then show ?case by (cases "q @ s") (simp_all add: HasPrefix_def)
qed simp

lemma parseEndpoint_total: "\<exists>x. parseEndpoint ep = Val x"
proof -
  have sep: "Contains ep ''://''" if "HasPrefix (ToLower ep) (p @ ''://'')" for p
  proof -
    from that obtain t where "map lower_char ep = p @ ''://'' @ t" by (auto simp: HasPrefix_iff ToLower_def)
    then obtain a c1 c2 c3 b where ep: "ep = a @ c1 # c2 # c3 # b" "lower_char c1 = CHR '':''" "lower_char c2 = CHR ''/''"
        "lower_char c3 = CHR ''/''"
      by (auto simp: map_eq_append_conv map_eq_Cons_conv)
    then have "c1 = CHR '':''" "c2 = CHR ''/''" "c3 = CHR ''/''" by (auto dest!: lower_char_fixed)
    then show ?thesis using Contains_append [of a "''://''" b] ep(1) by simp
  qed
  from sep [of "''unix''"] sep [of "''tcp''"] show ?thesis
    using SplitN2_two [of ep] by (auto simp: parseEndpoint_def)
qed

text \<open>The identity service of a driver that the command started with a linked version always answers.\<close>

lemma started_driver_identifies:
  assumes "runs (cmd_run env b st config) tr (Val (d, st'))" and "Version b \<noteq> []" and "cfg_DriverName config \<noteq> []"
  shows "runs (id_GetPluginInfo env b (drv_config d)) [] (Val (Inr (cfg_DriverName config, Version b)))"
proof -
  have "drv_config d = (if cfg_Version config = [] then config\<lparr>cfg_Version := Version b\<rparr> else config)"
    using assms(1,2)
    by (auto simp: cmd_run_def version_Current_def version_Get_def runs_bindP driver_New_def split: if_splits outcome.splits)
  with assms(2,3) show ?thesis
    by (simp add: id_GetPluginInfo_def version_Current_def version_Get_def)
qed

end
