(* ===== verification/Metrics.thy ===== *)
theory Metrics
  imports Io_Limiter
begin

text \<open>
  \<^verbatim>\<open>src/pkg/collector\<close>: the collectors that turn what LVM reports into Prometheus metrics. The Prometheus client
  library is a parameter: \<open>must\<close> is \<^verbatim>\<open>MustNewConstMetric\<close>, and \<open>must_ok\<close> states what its documentation says of it.
  \<open>approx\<close> is \<^verbatim>\<open>AsApproximateFloat64\<close> of the Kubernetes quantities. A collector is a record of descriptions, as in
  the source; what is sent to the channel is the list of metrics.
\<close>

section \<open>Descriptions and metrics\<close>

text \<open>The arguments of \<^verbatim>\<open>NewDesc\<close>, with the three arguments of \<^verbatim>\<open>BuildFQName\<close> as the name.\<close>

record Desc =
  fqName :: "string \<times> string \<times> string"
  desc_help :: string
  variableLabels :: "string list"

definition NewDesc :: "string \<times> string \<times> string \<Rightarrow> string \<Rightarrow> string list \<Rightarrow> Desc" where
  "NewDesc name help labels = \<lparr>fqName = name, desc_help = help, variableLabels = labels\<rparr>"

type_synonym 'm must = "Desc \<Rightarrow> f64 \<Rightarrow> string list \<Rightarrow> 'm outcome"

text \<open>It panics exactly when the number of label values is not that of the description.\<close>

definition must_ok :: "'m must \<Rightarrow> bool" where
  "must_ok must \<longleftrightarrow> (\<forall>d v ls. (\<exists>m. must d v ls = Val m) \<longleftrightarrow> length ls = length (variableLabels d))"

definition emit :: "'m must \<Rightarrow> Desc \<Rightarrow> f64 \<Rightarrow> string list \<Rightarrow> 'm prog" where
  "emit must d v ls = (case must d v ls of Val m \<Rightarrow> Ret m | Crash s \<Rightarrow> Panic s)"

text \<open>Sending several metrics, one after the other.\<close>

primrec emit_all :: "'m must \<Rightarrow> (Desc \<times> f64 \<times> string list) list \<Rightarrow> 'm list prog" where
  "emit_all must [] = Ret []"
| "emit_all must (x # xs) = (case x of (d, v, ls) \<Rightarrow>
     bindP (emit must d v ls) (\<lambda>m. bindP (emit_all must xs) (\<lambda>ms. Ret (m # ms))))"

definition coll_contains :: "string list \<Rightarrow> string \<Rightarrow> bool" where
  "coll_contains ls item = list_ex (\<lambda>e. e = item) ls"

section \<open>Physical volumes\<close>

record pvCollector =
  pvSizeMetric :: Desc
  pvFreeMetric :: Desc
  pvUsedMetric :: Desc
  pvDeviceSizeMetric :: Desc
  pvMetadataSizeMetric :: Desc
  pvMetadataFreeMetric :: Desc

definition NewPvCollector :: pvCollector where
  "NewPvCollector = \<lparr>
     pvSizeMetric = NewDesc (''lvm'', ''pv'', ''total_size_bytes'')
       ''LVM PV total size in bytes''
       [''name'', ''allocatable'', ''vg'', ''missing'', ''in_use''],
     pvFreeMetric = NewDesc (''lvm'', ''pv'', ''free_size_bytes'')
       ''LVM PV free size in bytes''
       [''name'', ''allocatable'', ''vg'', ''missing'', ''in_use''],
     pvUsedMetric = NewDesc (''lvm'', ''pv'', ''used_size_bytes'')
       ''LVM PV used size in bytes''
       [''name'', ''allocatable'', ''vg'', ''missing'', ''in_use''],
     pvDeviceSizeMetric = NewDesc (''lvm'', ''pv'', ''device_size_bytes'')
       ''LVM PV underlying device size in bytes''
       [''name'', ''allocatable'', ''vg'', ''missing'', ''in_use''],
     pvMetadataSizeMetric = NewDesc (''lvm'', ''pv'', ''mda_total_size_bytes'')
       ''LVM PV device smallest metadata area size in bytes''
       [''name'', ''allocatable'', ''vg'', ''missing'', ''in_use''],
     pvMetadataFreeMetric = NewDesc (''lvm'', ''pv'', ''mda_free_size_bytes'')
       ''LVM PV device free metadata area space in bytes''
       [''name'', ''allocatable'', ''vg'', ''missing'', ''in_use'']\<rparr>"

definition pv_Describe :: "pvCollector \<Rightarrow> Desc list" where
  "pv_Describe c =
     [pvSizeMetric c, pvFreeMetric c, pvUsedMetric c,
      pvDeviceSizeMetric c, pvMetadataSizeMetric c, pvMetadataFreeMetric c]"

definition pv_metrics :: "(int \<Rightarrow> f64) \<Rightarrow> pvCollector \<Rightarrow> PhysicalVolume \<Rightarrow> (Desc \<times> f64 \<times> string list) list" where
  "pv_metrics approx c pv =
     (let labels = [pv_Name pv, pv_Allocatable pv, pv_VGName pv, pv_Missing pv, pv_InUse pv] in
      [(pvSizeMetric c, approx (pv_Size pv), labels),
       (pvFreeMetric c, approx (pv_Free pv), labels),
       (pvUsedMetric c, approx (pv_Used pv), labels),
       (pvDeviceSizeMetric c, approx (pv_DeviceSize pv), labels),
       (pvMetadataSizeMetric c, approx (pv_MetadataSize pv), labels),
       (pvMetadataFreeMetric c, approx (pv_MetadataFree pv), labels)])"

definition pv_Collect :: "'m must \<Rightarrow> (int \<Rightarrow> f64) \<Rightarrow> pvCollector \<Rightarrow> 'm list prog" where
  "pv_Collect must approx c =
     bindP (ListLVMPhysicalVolume) (\<lambda>r. case r of
         Inl _ \<Rightarrow> Ret []
       | Inr pvs \<Rightarrow> emit_all must (concat (map (pv_metrics approx c) pvs)))"

section \<open>Volume groups\<close>

record vgCollector =
  vgSizeMetric :: Desc
  vgFreeMetric :: Desc
  vgLvCountMetric :: Desc
  vgPvCountMetric :: Desc
  vgMaxLvMetric :: Desc
  vgMaxPvMetric :: Desc
  vgSnapCountMetric :: Desc
  vgMissingPvCountMetric :: Desc
  vgMetadataCountMetric :: Desc
  vgMetadataUsedCountMetric :: Desc
  vgMetadataFreeMetric :: Desc
  vgMetadataSizeMetric :: Desc
  vgPermissionsMetric :: Desc
  vgAllocationPolicyMetric :: Desc

definition NewVgCollector :: vgCollector where
  "NewVgCollector = \<lparr>
     vgSizeMetric = NewDesc (''lvm'', ''vg'', ''total_size_bytes'')
       ''LVM VG total size in bytes''
       [''name''],
     vgFreeMetric = NewDesc (''lvm'', ''vg'', ''free_size_bytes'')
       ''LVM VG free size in bytes''
       [''name''],
     vgLvCountMetric = NewDesc (''lvm'', ''vg'', ''lv_count'')
       ''Number of LVs in VG''
       [''name''],
     vgPvCountMetric = NewDesc (''lvm'', ''vg'', ''pv_count'')
       ''Number of PVs in VG''
       [''name''],
     vgMaxLvMetric = NewDesc (''lvm'', ''vg'', ''max_lv_count'')
       ''LMaximum number of LVs allowed in VG or 0 if unlimited''
       [''name''],
     vgMaxPvMetric = NewDesc (''lvm'', ''vg'', ''max_pv_count'')
       ''Maximum number of PVs allowed in VG or 0 if unlimited''
       [''name''],
     vgSnapCountMetric = NewDesc (''lvm'', ''vg'', ''snap_count'')
       ''Number of snapshots in VG''
       [''name''],
     vgMissingPvCountMetric = NewDesc (''lvm'', ''vg'', ''missing_pv_count'')
       ''Number of PVs in VG which are missing''
       [''name''],
     vgMetadataCountMetric = NewDesc (''lvm'', ''vg'', ''mda_count'')
       ''Number of metadata areas on this VG''
       [''name''],
     vgMetadataUsedCountMetric = NewDesc (''lvm'', ''vg'', ''mda_used_count'')
       ''Number of metadata areas in use on this VG''
       [''name''],
     vgMetadataFreeMetric = NewDesc (''lvm'', ''vg'', ''mda_free_size_bytes'')
       ''Free metadata area space for this VG in bytes''
       [''name''],
     vgMetadataSizeMetric = NewDesc (''lvm'', ''vg'', ''mda_total_size_bytes'')
       ''Size of smallest metadata area for this VG in bytes''
       [''name''],
     vgPermissionsMetric = NewDesc (''lvm'', ''vg'', ''permission'')
       ''VG permissions: [-1: undefined], [0: writeable], [1: read-only]''
       [''name''],
     vgAllocationPolicyMetric = NewDesc (''lvm'', ''vg'', ''allocation_policy'')
       ''VG allocation policy: [-1: undefined], [0: normal], [1: contiguous], [2: cling], [3: anywhere], [4: inherited]''
       [''name'']\<rparr>"

definition vg_Describe :: "vgCollector \<Rightarrow> Desc list" where
  "vg_Describe c =
     [vgFreeMetric c, vgSizeMetric c, vgLvCountMetric c,
      vgPvCountMetric c, vgMaxLvMetric c, vgMaxPvMetric c,
      vgSnapCountMetric c, vgMissingPvCountMetric c, vgMetadataCountMetric c,
      vgMetadataUsedCountMetric c, vgMetadataFreeMetric c, vgMetadataSizeMetric c,
      vgPermissionsMetric c, vgAllocationPolicyMetric c]"

definition vg_metrics :: "(int \<Rightarrow> f64) \<Rightarrow> vgCollector \<Rightarrow> VolumeGroup \<Rightarrow> (Desc \<times> f64 \<times> string list) list" where
  "vg_metrics approx c vg =
     [(vgFreeMetric c, approx (vg_Free vg), [vg_Name vg]),
      (vgSizeMetric c, approx (vg_Size vg), [vg_Name vg]),
      (vgLvCountMetric c, float_of_int (vg_LVCount vg), [vg_Name vg]),
      (vgPvCountMetric c, float_of_int (vg_PVCount vg), [vg_Name vg]),
      (vgMaxLvMetric c, float_of_int (vg_MaxLV vg), [vg_Name vg]),
      (vgMaxPvMetric c, float_of_int (vg_MaxPV vg), [vg_Name vg]),
      (vgSnapCountMetric c, float_of_int (vg_SnapCount vg), [vg_Name vg]),
      (vgMissingPvCountMetric c, float_of_int (vg_MissingPVCount vg), [vg_Name vg]),
      (vgMetadataCountMetric c, float_of_int (vg_MetadataCount vg), [vg_Name vg]),
      (vgMetadataUsedCountMetric c, float_of_int (vg_MetadataUsedCount vg), [vg_Name vg]),
      (vgMetadataFreeMetric c, approx (vg_MetadataFree vg), [vg_Name vg]),
      (vgMetadataSizeMetric c, approx (vg_MetadataSize vg), [vg_Name vg]),
      (vgPermissionsMetric c, float_of_int (vg_Permission vg), [vg_Name vg]),
      (vgAllocationPolicyMetric c, float_of_int (vg_AllocationPolicy vg), [vg_Name vg])]"

definition vg_Collect :: "'m must \<Rightarrow> (int \<Rightarrow> f64) \<Rightarrow> vgCollector \<Rightarrow> 'm list prog" where
  "vg_Collect must approx c =
     bindP (ListLVMVolumeGroup False) (\<lambda>r. case r of
         Inl _ \<Rightarrow> Ret []
       | Inr vgs \<Rightarrow> emit_all must (concat (map (vg_metrics approx c) vgs)))"

section \<open>Logical volumes\<close>

record lvCollector =
  lvSizeMetric :: Desc
  lvTotalSizeMetric :: Desc
  lvUsedSizePercentMetric :: Desc
  lvPermissionMetric :: Desc
  lvBehaviourWhenFullMetric :: Desc
  lvHealthStatusMetric :: Desc
  lvRaidSyncActionMetric :: Desc
  lvMetadataSizeMetric :: Desc
  lvMetadataUsedPercentMetric :: Desc
  lvSnapshotUsedPercentMetric :: Desc
  lvRiopsLimitMetric :: Desc
  lvWiopsLimitMetric :: Desc
  lvRbpsLimitMetric :: Desc
  lvWbpsLimitMetric :: Desc

definition NewLvCollector :: lvCollector where
  "NewLvCollector = \<lparr>
     lvSizeMetric = NewDesc (''openebs'', ''size_of'', ''volume'')
       ''LVM LV total size in bytes''
       [''volumename'', ''device''],
     lvTotalSizeMetric = NewDesc (''lvm'', ''lv'', ''total_size_bytes'')
       ''LVM LV total size in bytes with the required labels''
       [''name'', ''path'', ''dm_path'', ''vg'', ''device'', ''host'', ''segtype'', ''pool'', ''active_status''],
     lvUsedSizePercentMetric = NewDesc (''lvm'', ''lv'', ''used_percent'')
       ''LVM LV used size in percentage''
       [''name'', ''path'', ''dm_path'', ''vg'', ''device'', ''host'', ''segtype'', ''pool'', ''active_status''],
     lvPermissionMetric = NewDesc (''lvm'', ''lv'', ''permission'')
       ''LV permissions: [-1: undefined], [0: unknown], [1: writeable], [2: read-only], [3: read-only-override]''
       [''name'', ''path'', ''dm_path'', ''vg'', ''device'', ''host'', ''segtype'', ''pool'', ''active_status''],
     lvBehaviourWhenFullMetric = NewDesc (''lvm'', ''lv'', ''when_full'')
       ''For thin pools, behavior when full: [-1: undefined], [0: error], [1: queue]''
       [''name'', ''path'', ''dm_path'', ''vg'', ''device'', ''host'', ''segtype'', ''pool'', ''active_status''],
     lvHealthStatusMetric = NewDesc (''lvm'', ''lv'', ''health_status'')
       ''LV health status: [-1: undefined], [0: \"\"], [1: partial], [2: refresh needed], [3: mismatches exist]''
       [''name'', ''path'', ''dm_path'', ''vg'', ''device'', ''host'', ''segtype'', ''pool'', ''active_status''],
     lvRaidSyncActionMetric = NewDesc (''lvm'', ''lv'', ''raid_sync_action'')
       ''For LV RAID, the current synchronization action being performed: [-1: undefined], [0: idle], [1: frozen], [2: resync], [3: recover], [4: check], [5: repair]''
       [''name'', ''path'', ''dm_path'', ''vg'', ''device'', ''host'', ''segtype'', ''pool'', ''active_status''],
     lvMetadataSizeMetric = NewDesc (''lvm'', ''lv'', ''mda_total_size_bytes'')
       ''LVM LV metadata size in bytes''
       [''name'', ''path'', ''dm_path'', ''vg'', ''device'', ''host'', ''segtype'', ''pool'', ''active_status''],
     lvMetadataUsedPercentMetric = NewDesc (''lvm'', ''lv'', ''mda_used_percent'')
       ''LVM LV metadata used size in percentage''
       [''name'', ''path'', ''dm_path'', ''vg'', ''device'', ''host'', ''segtype'', ''pool'', ''active_status''],
     lvSnapshotUsedPercentMetric = NewDesc (''lvm'', ''lv'', ''snap_percent'')
       ''LVM LV snap used size in percentage''
       [''name'', ''path'', ''dm_path'', ''vg'', ''device'', ''host'', ''segtype'', ''pool'', ''active_status''],
     lvRiopsLimitMetric = NewDesc (''openebs'', ''lv'', ''riops_limit'')
       ''LVM LV riops cgroup limit, 0 means without limit''
       [''name'', ''path'', ''dm_path'', ''vg'', ''device'', ''host'', ''segtype'', ''pool'', ''active_status''],
     lvWiopsLimitMetric = NewDesc (''openebs'', ''lv'', ''wiops_limit'')
       ''LVM LV wiops cgroup limit, 0 means without limit''
       [''name'', ''path'', ''dm_path'', ''vg'', ''device'', ''host'', ''segtype'', ''pool'', ''active_status''],
     lvRbpsLimitMetric = NewDesc (''openebs'', ''lv'', ''rbps_limit'')
       ''LVM LV rbps cgroup limit, 0 means without limit''
       [''name'', ''path'', ''dm_path'', ''vg'', ''device'', ''host'', ''segtype'', ''pool'', ''active_status''],
     lvWbpsLimitMetric = NewDesc (''openebs'', ''lv'', ''wbps_limit'')
       ''LVM LV wbps cgroup limit, 0 means without limit''
       [''name'', ''path'', ''dm_path'', ''vg'', ''device'', ''host'', ''segtype'', ''pool'', ''active_status'']\<rparr>"

definition lv_Describe :: "lvCollector \<Rightarrow> Desc list" where
  "lv_Describe c =
     [lvSizeMetric c, lvTotalSizeMetric c, lvUsedSizePercentMetric c,
      lvPermissionMetric c, lvBehaviourWhenFullMetric c, lvHealthStatusMetric c,
      lvRaidSyncActionMetric c, lvMetadataSizeMetric c, lvMetadataUsedPercentMetric c,
      lvSnapshotUsedPercentMetric c]"

definition lv_labels :: "LogicalVolume \<Rightarrow> string list" where
  "lv_labels lv =
     [lv_Name lv, lv_Path lv, lv_DMPath lv, lv_VGName lv, lv_Device lv, lv_Host lv, lv_SegType lv, lv_PoolName lv,
      lv_ActiveStatus lv]"

definition lv_metrics :: "lvCollector \<Rightarrow> LogicalVolume \<Rightarrow> (Desc \<times> f64 \<times> string list) list" where
  "lv_metrics c lv =
     [(lvSizeMetric c, float_of_int (lv_Size lv), [lv_Name lv, lv_Device lv]),
      (lvTotalSizeMetric c, float_of_int (lv_Size lv), lv_labels lv),
      (lvUsedSizePercentMetric c, lv_UsedSizePercent lv, lv_labels lv),
      (lvPermissionMetric c, float_of_int (lv_Permission lv), lv_labels lv),
      (lvBehaviourWhenFullMetric c, float_of_int (lv_BehaviourWhenFull lv), lv_labels lv),
      (lvHealthStatusMetric c, float_of_int (lv_HealthStatus lv), lv_labels lv),
      (lvRaidSyncActionMetric c, float_of_int (lv_RaidSyncAction lv), lv_labels lv),
      (lvMetadataSizeMetric c, float_of_int (lv_MetadataSize lv), lv_labels lv),
      (lvMetadataUsedPercentMetric c, lv_MetadataUsedPercent lv, lv_labels lv),
      (lvSnapshotUsedPercentMetric c, lv_SnapshotUsedPercent lv, lv_labels lv)]"

text \<open>The limit that a metric shows: the rate per gigabyte times the size in gigabytes, rounded down.\<close>

definition limit_value :: "nat \<Rightarrow> LogicalVolume \<Rightarrow> f64" where
  "limit_value rate lv = float_mul (float_of_int (int rate)) (float_of_int (lv_Size lv div 2 ^ 30))"

definition lv_emit :: "'m must \<Rightarrow> io_limits \<Rightarrow> lvCollector \<Rightarrow> LogicalVolume \<Rightarrow> 'm list prog" where
  "lv_emit must st c lv =
     bindP (emit_all must (lv_metrics c lv)) (\<lambda>ms.
     bindP (GetRIopsPerGB st (lv_VGName lv)) (\<lambda>ri.
     bindP (emit must (lvRiopsLimitMetric c) (limit_value ri lv) (lv_labels lv)) (\<lambda>m1.
     bindP (GetWIopsPerGB st (lv_VGName lv)) (\<lambda>wi.
     bindP (emit must (lvWiopsLimitMetric c) (limit_value wi lv) (lv_labels lv)) (\<lambda>m2.
     bindP (GetRBpsPerGB st (lv_VGName lv)) (\<lambda>rb.
     bindP (emit must (lvRbpsLimitMetric c) (limit_value rb lv) (lv_labels lv)) (\<lambda>m3.
     bindP (GetWBpsPerGB st (lv_VGName lv)) (\<lambda>wb.
     bindP (emit must (lvWbpsLimitMetric c) (limit_value wb lv) (lv_labels lv)) (\<lambda>m4.
       Ret (ms @ [m1, m2, m3, m4]))))))))))"

fun lv_loop :: "'m must \<Rightarrow> io_limits \<Rightarrow> lvCollector \<Rightarrow> string list \<Rightarrow> LogicalVolume list \<Rightarrow> 'm list prog" where
  "lv_loop must st c lvIDS [] = Ret []"
| "lv_loop must st c lvIDS (lv # lvs) =
     (if coll_contains lvIDS (lv_UUID lv) then lv_loop must st c lvIDS lvs
      else bindP (lv_emit must st c lv) (\<lambda>ms.
        bindP (lv_loop must st c (lvIDS @ [lv_UUID lv]) lvs) (\<lambda>ms'. Ret (ms @ ms'))))"

definition lv_Collect :: "'m must \<Rightarrow> io_limits \<Rightarrow> lvCollector \<Rightarrow> 'm list prog" where
  "lv_Collect must st c =
     bindP ListLVMLogicalVolume (\<lambda>r. case r of
         Inl _ \<Rightarrow> Ret []
       | Inr lvList \<Rightarrow> lv_loop must st c [] lvList)"

section \<open>What is collected\<close>

definition labelled :: "Desc \<times> f64 \<times> string list \<Rightarrow> bool" where
  "labelled = (\<lambda>(d, v, ls). length ls = length (variableLabels d))"

lemma emit_run: "must_ok must \<Longrightarrow> labelled (d, v, ls) \<Longrightarrow> \<exists>m. must d v ls = Val m \<and> emit must d v ls = Ret m"
proof -
  assume "must_ok must" "labelled (d, v, ls)"
  then have "\<exists>m. must d v ls = Val m" unfolding must_ok_def labelled_def prod.case by simp
  then obtain m where "must d v ls = Val m" ..
  then show ?thesis by (simp add: emit_def)
qed

lemma emit_all_run:
  "must_ok must \<Longrightarrow> list_all labelled xs \<Longrightarrow>
    \<exists>ms. emit_all must xs = Ret ms \<and> list_all2 (\<lambda>(d, v, ls) m. must d v ls = Val m) xs ms"
proof (induction xs)
  case (Cons x xs)
  obtain d v ls where x: "x = (d, v, ls)" by (cases x)
  from Cons obtain ms where "emit_all must xs = Ret ms" "list_all2 (\<lambda>(d, v, ls) m. must d v ls = Val m) xs ms" by auto
  with emit_run [of must d v ls] Cons.prems x show ?case by auto
qed simp

lemma labels_match:
  "list_all labelled (pv_metrics approx NewPvCollector pv)" "list_all labelled (vg_metrics approx NewVgCollector vg)"
  "list_all labelled (lv_metrics NewLvCollector lv)" "labelled (lvRiopsLimitMetric NewLvCollector, v, lv_labels lv)"
  "labelled (lvWiopsLimitMetric NewLvCollector, v, lv_labels lv)" "labelled (lvRbpsLimitMetric NewLvCollector, v, lv_labels lv)"
  "labelled (lvWbpsLimitMetric NewLvCollector, v, lv_labels lv)"
  by (simp_all add: labelled_def pv_metrics_def vg_metrics_def lv_metrics_def lv_labels_def NewPvCollector_def
      NewVgCollector_def NewLvCollector_def NewDesc_def Let_def)

text \<open>The volumes that \<open>lv_loop\<close> reports: the first of each identifier.\<close>

fun first_of_each :: "string list \<Rightarrow> LogicalVolume list \<Rightarrow> LogicalVolume list" where
  "first_of_each seen [] = []"
| "first_of_each seen (lv # lvs) =
     (if lv_UUID lv \<in> set seen then first_of_each seen lvs else lv # first_of_each (seen @ [lv_UUID lv]) lvs)"

lemma first_of_each_distinct:
  "distinct (map lv_UUID (first_of_each seen lvs)) \<and> set (map lv_UUID (first_of_each seen lvs)) = lv_UUID ` set lvs - set seen"
  by (induction seen lvs rule: first_of_each.induct) auto

lemma rate_runs: "no_crash (getRatePerGB vg m)"
  unfolding getRatePerGB_def by (intro no_crash_intros)

lemma lv_emit_count:
  assumes "must_ok must"
  shows "wp (lv_emit must st NewLvCollector lv) (\<lambda>r t. \<exists>ms. r = Val ms \<and> length ms = 14) tr"
proof -
  obtain ms where ms: "emit_all must (lv_metrics NewLvCollector lv) = Ret ms"
      "list_all2 (\<lambda>(d, v, ls) m. must d v ls = Val m) (lv_metrics NewLvCollector lv) ms"
    using emit_all_run [OF assms labels_match(3)] by blast
  have len: "length ms = 10" using list_all2_lengthD [OF ms(2)] by (simp add: lv_metrics_def)
  have rate: "wp (bindP (getRatePerGB vg m) f) Q t" if "\<And>x t. wp (f x) Q t" for vg m f Q and t :: "event list"
    unfolding wp_bindP wp_iff_runs [of "getRatePerGB vg m"] using that no_crashD [OF rate_runs] by fastforce
  have lim: "wp (bindP (emit must d v ls) f) Q t" if "labelled (d, v, ls)" "\<And>x. wp (f x) Q t" for d v ls f Q and t :: "event list"
    using emit_run [OF assms that(1)] that(2) by auto
  show ?thesis
    unfolding lv_emit_def ms(1) bindP.simps GetRIopsPerGB_def GetWIopsPerGB_def GetRBpsPerGB_def GetWBpsPerGB_def
    by (intro rate lim labels_match) (simp add: len)
qed

text \<open>A collection never panics and reports every logical volume once, with all its metrics, also when LVM lists
  it several times.\<close>

lemma lv_loop_count:
  assumes "must_ok must"
  shows "wp (lv_loop must st NewLvCollector seen lvs)
    (\<lambda>r t. \<exists>ms. r = Val ms \<and> length ms = 14 * length (first_of_each seen lvs)) tr"
proof (induction seen lvs arbitrary: tr rule: first_of_each.induct)
  case (2 seen lv lvs)
  show ?case
  proof (cases "lv_UUID lv \<in> set seen")
    case True
    with 2(1) show ?thesis by (simp add: coll_contains_def list_ex_iff)
  next
    case False
    have "wp (bindP (lv_loop must st NewLvCollector (seen @ [lv_UUID lv]) lvs) (\<lambda>ms'. Ret (ms @ ms')))
        (\<lambda>r t. \<exists>ms. r = Val ms \<and> length ms = 14 * length (first_of_each seen (lv # lvs))) t"
      if "length ms = 14" for ms t
      unfolding wp_bindP by (rule wp_mono [OF 2(2) [OF False]]) (use that False in auto)
    with False show ?thesis
      by (simp add: coll_contains_def list_ex_iff wp_bindP [of "lv_emit _ _ _ _"])
        (rule wp_mono [OF lv_emit_count [OF assms]], auto)
  qed
qed simp

text \<open>The limit that is reported for a volume and the one that is applied to it differ by the rounding: here the
  size is rounded down to gigabytes, there it is rounded up.\<close>

lemma limit_value_exact:
  assumes "int rate * (lv_Size lv div 2 ^ 30) < 2 ^ 53" and "int rate < 2 ^ 53" and "0 \<le> lv_Size lv" and "lv_Size lv < 2 ^ 63"
  shows "limit_value rate lv = Fin (of_int (int rate * (lv_Size lv div 2 ^ 30)))"
proof -
  define gb where "gb = lv_Size lv div 2 ^ 30"
  have gb: "0 \<le> gb" "gb < 2 ^ 53" using assms(3,4) by (auto simp: gb_def)
  have "float_of_int (int rate * gb) = Fin (of_int (int rate * gb))"
    using assms(1) gb by (intro float_of_int_exact) (auto simp: gb_def)
  then have "round64 (of_int (int rate) * of_int gb) = Fin (of_int (int rate * gb))"
    by (simp add: float_of_int_def)
  moreover have "float_of_int (int rate) = Fin (of_int (int rate))" using assms(2) by (intro float_of_int_exact) auto
  moreover have "float_of_int gb = Fin (of_int gb)" using gb by (intro float_of_int_exact)
  ultimately show ?thesis by (simp only: limit_value_def gb_def [symmetric] float_mul.simps)
qed

end
