(* ===== verification/Spec2Isabelle.thy ===== *)
theory Spec2Isabelle
  imports Lifecycle Snap_Controller Node_Controller Csi_Snapshots Driver Metrics
begin

text \<open>
  A verification development of the OpenEBS LVM LocalPV CSI driver (sources under \<^verbatim>\<open>src/\<close>).

  The driver has a controller side, which answers the CSI controller requests by writing custom
  resources (\<^verbatim>\<open>LVMVolume\<close>, \<^verbatim>\<open>LVMSnapshot\<close>) to the Kubernetes API server, and a node side, which watches these
  resources, runs the LVM commands they ask for, publishes the volume groups of the node in an
  \<^verbatim>\<open>LVMNode\<close> resource, and mounts volumes. The resources are the only channel between the sides.

  \<^bold>\<open>Library.\<close>
  \<^item> \<open>Go_Prelude\<close>: the Go arithmetic (64 bit wrap-around), \<^verbatim>\<open>strings\<close> and \<^verbatim>\<open>strconv\<close> functions in use.
  \<^item> \<open>Go_Float\<close>: \<^verbatim>\<open>float64\<close> as rationals with rounding to nearest even, and \<^verbatim>\<open>strconv.ParseFloat\<close>.
  \<^item> \<open>Go_Json\<close>: the part of \<^verbatim>\<open>encoding/json\<close> that reads the reports of LVM.
  \<^item> \<open>Api_Types\<close>, \<open>Csi_Types\<close>: the resources, the CSI messages, errors as values.
  \<^item> \<open>Effects\<close>: programs as trees of operations on the environment, their \<open>runs\<close> and a precondition
    calculus \<open>wp\<close>. A theorem about all \<open>runs\<close> holds for every answer of the API server and of the commands.
  \<^item> \<open>Frames\<close>: which operations a program performs (\<open>only\<close>) and that it does not crash (\<open>no_crash\<close>).

  \<^bold>\<open>Resources and commands.\<close>
  \<^item> \<open>Builders\<close>: \<^verbatim>\<open>pkg/builder/*/{volume,build,node}.go\<close>. Locale \<open>object_builder\<close>: no recorded error is lost.
  \<^item> \<open>Kubeclient\<close>: \<^verbatim>\<open>pkg/builder/*/kubernetes.go\<close>. Locale \<open>kube_client\<close>: what a client sends.
  \<^item> \<open>Lvm_Volume\<close>: \<^verbatim>\<open>pkg/lvm/volume.go\<close>, with the termination and the results of the waiting loops.
  \<^item> \<open>Lvm_Command\<close>: the commands of \<^verbatim>\<open>pkg/lvm/lvm_util.go\<close>: what runs, in which order, and what a
    reported success means.
  \<^item> \<open>Lvm_Report\<close>: the reports of \<^verbatim>\<open>vgs\<close>, \<^verbatim>\<open>lvs\<close> and \<^verbatim>\<open>pvs\<close> in the same file. Locale \<open>report_decoder\<close>: the result has
    one object per entry, whatever the iteration order of the maps.

  \<^bold>\<open>Node side.\<close>
  \<^item> \<open>Reconcile\<close>: the work queues and the worker loop that \<^verbatim>\<open>pkg/mgmt/*\<close> share. Locale \<open>reconciler\<close>: the protocol of a
    round; every item that is taken is given back.
  \<^item> \<open>Vol_Controller\<close>, \<open>Snap_Controller\<close>, \<open>Node_Controller\<close>: \<^verbatim>\<open>pkg/mgmt/{volume,snapshot,lvmnode}\<close>: the event handlers and
    the reconciliations, with the order of LVM commands and writes.
  \<^item> \<open>Lifecycle\<close>: an abstract state machine of a volume, the proof that every operation of a reconciliation
    refines it, also when device checks fail, and the controller in its surroundings (superseded versions,
    interruptions, lost answers, other clients), with what then holds of the logical volumes and where the known
    leaks are.
  \<^item> \<open>Io_Limiter\<close>, \<open>Mount\<close>: \<^verbatim>\<open>pkg/lvm/{iolimiter,mount}.go\<close>: the limits of a pod, mounting and unmounting.
  \<^item> \<open>Csi_Node\<close>: \<^verbatim>\<open>pkg/driver/agent.go\<close>: the handlers of the node service.
  \<^item> \<open>Metrics\<close>: \<^verbatim>\<open>pkg/collector\<close>: the metrics of volumes and groups; a collection never panics on its labels.

  \<^bold>\<open>Controller side.\<close>
  \<^item> \<open>Params\<close>, \<open>Sched_Helper\<close>, \<open>Responses\<close>: \<^verbatim>\<open>pkg/driver/{params,schd_helper}.go\<close> and \<^verbatim>\<open>pkg/response\<close>.
  \<^item> \<open>Csi_Controller\<close>, \<open>Csi_Snapshots\<close>: \<^verbatim>\<open>pkg/driver/controller.go\<close>: when a volume is created, deleted and expanded,
    snapshots, capacity and topology.
  \<^item> \<open>Driver\<close>: \<^verbatim>\<open>pkg/driver/{driver,identity,grpc}.go\<close>, \<^verbatim>\<open>pkg/version\<close> and what \<^verbatim>\<open>cmd/main.go\<close> does before it serves.

  This theory adds the properties that span components: the well-formedness of all stored volumes, and the
  balance of the three work queues.

  \<^bold>\<open>Bounds.\<close> The waiting loops and the worker loops recurse over the number of polls or rounds before their
  context ends, which the environment chooses, so the theorems hold for every such number. The JSON reader
  recurses with fuel, two units per byte of the input and two more; \<open>json_fuel_enough\<close> shows that more fuel never changes
  the result.

  \<^bold>\<open>Parameters.\<close> Code outside \<^verbatim>\<open>src/\<close> is an argument of the definitions that use it: the key functions of the
  cache, the regular expression compiler, the case-insensitive map, the resource quantities, the label
  selectors, the conversion of floats out of range, and the constructor of Prometheus metrics. The API
  server, LVM, the mount table and the scheduler of \<^verbatim>\<open>lib-csi\<close> are operations of the environment. Hypotheses
  about them (\<open>key_ok\<close>, \<open>names_ok\<close>, \<open>honest\<close>, \<open>echoes\<close>, \<open>must_ok\<close>) state documented behaviour.

  \<^bold>\<open>Not modelled.\<close> Logging, and \<^verbatim>\<open>logGRPC\<close>, which only logs around the handler; the generated clientsets,
  informers, listers and deep copies, which have no logic of their own in a model with immutable values; the
  start of threads, informers and network servers (\<^verbatim>\<open>start.go\<close>, \<^verbatim>\<open>builder.go\<close> of \<^verbatim>\<open>pkg/mgmt\<close>, \<^verbatim>\<open>NewController\<close>, \<^verbatim>\<open>NewNode\<close>, the HTTP
  server of the metrics); and \<^verbatim>\<open>pkg/equality\<close>, a table for a comparison function of a library. The text of
  library errors is opaque. Strings are byte strings and case mapping is that of ASCII. Except in
  the last part of \<open>Lifecycle\<close>, which lets reconciliations work from superseded versions of a resource, a property
  follows one reconciliation from the object that it was given. A later resource of the same name, and the state
  that a command leaves when it is killed halfway, are not considered.
\<close>

section \<open>The type of stored volumes\<close>

text \<open>What a stored volume resource always satisfies: it has a name and one of the three states; a failed volume says
  why; and a ready one that is not being deleted has the finalizer without which the node agent refuses to mount it.\<close>

definition wf_volume :: "LVMVolume \<Rightarrow> bool" where
  "wf_volume v \<longleftrightarrow> Name v \<noteq> [] \<and> State (Status v) \<in> {LVMStatusPending, LVMStatusReady, LVMStatusFailed} \<and>
     (State (Status v) = LVMStatusFailed \<longrightarrow> StatusError (Status v) \<noteq> None) \<and>
     (State (Status v) = LVMStatusReady \<and> DeletionTimestamp v = None \<longrightarrow> Finalizers v \<noteq> None)"

text \<open>The API server answers an update with the object that it stored.\<close>

definition echoes :: "event list \<Rightarrow> bool" where
  "echoes tr = (\<forall>ns w v. EvVol (VolUpdate ns w) (Inr v) \<in> set tr \<longrightarrow> v = w)"

lemma echoes_append [simp]: "echoes (a @ b) \<longleftrightarrow> echoes a \<and> echoes b"
  by (auto simp: echoes_def)

lemma search_wf:
  "searching vol tr \<Longrightarrow> echoes tr \<Longrightarrow> wf_volume vol \<Longrightarrow> \<not> is_terminal vol \<Longrightarrow>
    wf_volume (acked vol tr) \<and> \<not> is_terminal (acked vol tr)"
proof (induction tr rule: rev_induct)
  case (snoc ev tr)
  then have IH: "wf_volume (acked vol tr) \<and> \<not> is_terminal (acked vol tr)" and ev: "search_event vol tr ev"
    by (simp_all add: each_event_snoc)
  show ?case
  proof (cases "\<exists>ns w v. ev = EvVol (VolUpdate ns w) (Inr v)")
    case True
    with snoc.prems(2) obtain ns w where e: "ev = EvVol (VolUpdate ns w) (Inr w)" by (auto simp: echoes_def)
    with ev obtain g where "w = (acked vol tr)\<lparr>Spec := (Spec (acked vol tr))\<lparr>VolGroup := g\<rparr>\<rparr>"
      by (auto simp: search_event_def)
    with IH e show ?thesis by (auto simp: wf_volume_def is_terminal_def)
  next
    case False
    then have "acked (acked vol tr) [ev] = acked vol tr"
      by (cases "(acked vol tr, [ev])" rule: acked.cases) auto
    with IH show ?thesis by simp
  qed
qed simp

lemma provisioned_searching:
  assumes "provisioned G vol r tr" and tr: "tr = pre @ ev # post"
  shows "searching vol pre"
proof (cases "searching vol tr")
  case False
  with assms(1) obtain pre' w y where mark: "tr = pre' @ [cs_ok, EvVol (VolUpdate (LvmNamespace G) w) y]" "searching vol pre'"
    unfolding provisioned_def by blast
  then have "butlast tr = pre' @ [cs_ok]" by (simp add: butlast_append)
  moreover have "butlast tr = pre @ butlast (ev # post)" using tr by (simp add: butlast_append)
  ultimately have "searching vol (pre @ butlast (ev # post))" using mark(2) by (metis each_event_snoc search_event_simps(1))
  then show ?thesis by (simp add: each_event_append)
qed (simp add: tr each_event_append)

lemma sync_wf:
  assumes "runs (syncVol G Compile vol) tr r" and "wf_volume vol" and "echoes tr"
    and w: "EvVol (VolUpdate ns w) y \<in> set tr"
  shows "wf_volume w"
  using assms(1)
proof (cases rule: syncVol_cases)
  case provision
  from w obtain pre post where tr: "tr = pre @ EvVol (VolUpdate ns w) y # post" by (auto simp: in_set_conv_decomp)
  have vol: "\<not> is_terminal vol" using provision(1) by (simp add: to_provision_def)
  from provision(2) tr show ?thesis
  proof (cases rule: provisioned_event)
    case search
    have "echoes pre" using assms(3) tr by simp
    then have "wf_volume (acked vol pre)" using search_wf [OF provisioned_searching [OF provision(2) tr] _ assms(2) vol] by simp
    moreover from search obtain g where "w = (acked vol pre)\<lparr>Spec := (Spec (acked vol pre))\<lparr>VolGroup := g\<rparr>\<rparr>"
      by (auto simp: search_event_def)
    ultimately show ?thesis by (simp add: wf_volume_def)
  next
    case (mark pre' w' y')
    have "echoes pre'" using assms(3) tr mark(1) by simp
    then have "wf_volume (acked vol pre')" using search_wf [OF mark(4) _ assms(2) vol] by simp
    moreover have "marks G (acked vol pre') pre' w" using mark(3,5) by simp
    ultimately show ?thesis by (auto simp: marks_def wf_volume_def vol_info_def)
  qed
next
  case (delete x d u)
  have "EvVol (VolUpdate ns w) y \<notin> set d"
    using only_runs [OF only_DestroyVolume delete(3)] by (auto simp: list_all_iff destroy_event_def)
  with delete w have "w = vol\<lparr>Finalizers := None\<rparr>" by (auto simp: unfinalize_def split: sum.splits)
  with assms(2) delete(1) show ?thesis by (simp add: wf_volume_def vol_isDeletionCandidate_def)
qed (use w in simp)

lemma create_wf:
  assumes "runs (CreateLVMVolume G req params) tr r" and "cv_RequiredBytes req = Some n" and "cv_Name req \<noteq> []"
    and "names_ok G tr" and "EvVol (VolCreate ns w) y \<in> set tr"
  shows "wf_volume w"
proof -
  from wp_runs [OF wp_CreateLVMVolume [OF assms(2)] assms(1)] assms(4)
  have "each_event (create_ok G req params n) tr" by (simp add: created_def)
  moreover from assms(5) obtain pre post where "tr = pre @ EvVol (VolCreate ns w) y # post" by (auto simp: in_set_conv_decomp)
  ultimately have "create_ok G req params n pre (EvVol (VolCreate ns w) y)" by (simp add: each_event_append)
  then obtain owner where "w = pending_volume req params n owner" by (auto simp: create_ok_def)
  with assms(3) show ?thesis by (simp add: wf_volume_def pending_volume_def)
qed

text \<open>The only volume that an expansion writes is one that it read, with another capacity.\<close>

definition resize_event :: "event list \<Rightarrow> event \<Rightarrow> bool" where
  "resize_event pre ev = (case ev of
       EvVol (VolUpdate _ w) _ \<Rightarrow> (\<exists>ns n v c. EvVol (VolGet ns n) (Inr v) \<in> set pre \<and> w = v\<lparr>Spec := (Spec v)\<lparr>Capacity := c\<rparr>\<rparr>)
     | _ \<Rightarrow> True)"

lemma resize_event_simps [simp]:
  "resize_event pre (EvErr a b)" "resize_event pre (EvSnaps c d)" "resize_event pre (EvVol (VolGet ns n) y)"
  by (simp_all add: resize_event_def)

lemma resize_event_update:
  "EvVol (VolGet ns n) (Inr v) \<in> set pre \<Longrightarrow>
    resize_event pre (EvVol (VolUpdate ns' (v\<lparr>Spec := (Spec v)\<lparr>Capacity := c\<rparr>\<rparr>)) y)"
  by (auto simp: resize_event_def)

lemma expand_resizes:
  assumes "runs (cs_ControllerExpandVolume G reqId required) tr r"
  shows "each_event resize_event tr"
proof -
  have resize: "wp (bindP (ResizeVolume G v n) (\<lambda>r. case r of Inl e \<Rightarrow> Ret (Inl (f e)) | Inr _ \<Rightarrow> Ret (Inr x))) (\<lambda>_. each_event resize_event)
      [cs_ok, EvSnaps a b, cs_ok, EvVol (VolGet ns vid) (Inr v)]" for v n f x a b ns vid
    by (simp add: wp_bindP wp_ResizeVolume Let_def resize_event_update)
  have "wp (cs_ControllerExpandVolume G reqId required) (\<lambda>_. each_event resize_event) []"
    unfolding cs_ControllerExpandVolume_def Let_def
    using resize
    by (auto simp: wp_bindP [of "GetSnapshotForVolume _ _"] wp_bindP [of "GetLVMVolume _ _"] wp_GetSnapshotForVolume
        wp_GetLVMVolume split_sum_all split: prod.split option.split)
  from wp_runs [OF this assms] show ?thesis .
qed

lemma expand_wf:
  assumes "runs (cs_ControllerExpandVolume G reqId required) tr r"
    and "EvVol (VolUpdate ns w) y \<in> set tr"
    and "\<And>ns n v. EvVol (VolGet ns n) (Inr v) \<in> set tr \<Longrightarrow> wf_volume v"
  shows "wf_volume w"
proof -
  from assms(2) obtain pre post where tr: "tr = pre @ EvVol (VolUpdate ns w) y # post" by (auto simp: in_set_conv_decomp)
  with expand_resizes [OF assms(1)] have "resize_event pre (EvVol (VolUpdate ns w) y)" by (simp add: each_event_append)
  then obtain ns n v c where v: "EvVol (VolGet ns n) (Inr v) \<in> set pre" and w: "w = v\<lparr>Spec := (Spec v)\<lparr>Capacity := c\<rparr>\<rparr>"
    by (auto simp: resize_event_def)
  from v tr have "EvVol (VolGet ns n) (Inr v) \<in> set tr" by simp
  then have "wf_volume v" by (rule assms(3))
  with w show ?thesis by (simp add: wf_volume_def)
qed

section \<open>Properties across components\<close>

text \<open>(C11) Every volume resource that the driver stores is well-formed. What the node agent writes during a
  reconciliation is well-formed if the resource that it read is and the API server answers an update with what it
  stored; the resource that the controller creates is well-formed, and so is the one it writes to expand a volume,
  if the one it read was. So the branch of the controller for a failed volume without an error is never taken.\<close>

theorem volumes_well_formed:
  "(runs (syncVol G Compile vol) t1 r1 \<and> wf_volume vol \<and> echoes t1 \<and> EvVol (VolUpdate ns w) y \<in> set t1 \<longrightarrow> wf_volume w) \<and>
   (runs (CreateLVMVolume G req params) t2 r2 \<and> cv_RequiredBytes req = Some n \<and> cv_Name req \<noteq> [] \<and> names_ok G t2 \<and>
      EvVol (VolCreate ns w) y \<in> set t2 \<longrightarrow> wf_volume w) \<and>
   (runs (cs_ControllerExpandVolume G reqId required) t3 r3 \<and>
      (\<forall>ns n v. EvVol (VolGet ns n) (Inr v) \<in> set t3 \<longrightarrow> wf_volume v) \<and>
      EvVol (VolUpdate ns w) y \<in> set t3 \<longrightarrow> wf_volume w) \<and>
   (wf_volume v \<and> is_terminal v \<longrightarrow>
      \<not> runs (settle_volume G v) t4 (Val (Inl (False, StatusErr Aborted [MStr ''failed lvmvol must have error set'']))))"
proof -
  have "\<not> runs (settle_volume G v) t4 (Val (Inl (False, StatusErr Aborted [MStr ''failed lvmvol must have error set''])))"
    if "wf_volume v" "is_terminal v"
    using that
    by (auto simp: settle_volume_def wf_volume_def is_terminal_def runs_bindP runs_case_sum)
  moreover have "runs (syncVol G Compile vol) t1 r1 \<and> wf_volume vol \<and> echoes t1 \<and> EvVol (VolUpdate ns w) y \<in> set t1 \<longrightarrow> wf_volume w"
    using sync_wf by blast
  moreover have "runs (CreateLVMVolume G req params) t2 r2 \<and> cv_RequiredBytes req = Some n \<and> cv_Name req \<noteq> [] \<and> names_ok G t2 \<and>
      EvVol (VolCreate ns w) y \<in> set t2 \<longrightarrow> wf_volume w"
    using create_wf by blast
  moreover have "runs (cs_ControllerExpandVolume G reqId required) t3 r3 \<and>
      (\<forall>ns n v. EvVol (VolGet ns n) (Inr v) \<in> set t3 \<longrightarrow> wf_volume v) \<and> EvVol (VolUpdate ns w) y \<in> set t3 \<longrightarrow> wf_volume w"
    using expand_wf by blast
  ultimately show ?thesis by (intro conjI) simp_all
qed

theorem volumes_well_formed_witness: "wf_volume (vol_info ex_G ex_pending_vol LVMStatusReady)"
proof -
  let ?w = "vol_info ex_G ex_pending_vol LVMStatusReady"
  have "EvVol (VolUpdate ''openebs'' ?w) (Inr ?w) \<in> set ex_create_run" "echoes ex_create_run"
    by (simp_all add: ex_create_run_def echoes_def)
  moreover have "wf_volume ex_pending_vol"
    by (simp add: wf_volume_def ex_pending_vol_def ex_ready_vol_def)
  ultimately show ?thesis
    using volumes_well_formed [THEN conjunct1, of ex_G "\<lambda>_. Inr (\<lambda>_. True)" ex_pending_vol ex_create_run "Val (Inr ())"
        "''openebs''" ?w "Inr ?w"] ex_create_runs by blast
qed

text \<open>(C12) The three reconcilers keep the contract of their work queues: for any number of rounds and whatever the
  handlers do, also when one crashes, a worker gives back exactly the items that it took, in the order in which it
  took them. So no key is blocked, and none is given back that was not taken.\<close>

theorem workers_balanced:
  assumes "runs (vol_runWorker G KF Compile n) tr r \<or> runs (snap_runWorker G KF n) tr r \<or>
    runs (node_runWorker KF ownerRef n) tr r"
  shows "given_back tr = taken tr"
  using assms
  by (auto simp: vol_runWorker_def snap_runWorker_def node_runWorker_def
      dest: vol_rec.worker_balanced snap_rec.worker_balanced node_rec.worker_balanced)

theorem workers_balanced_witness:
  "given_back [EvWq () (Some WqOther), EvUnit (WqForget WqOther) (), EvUnit (WqDone WqOther) (), EvWq () None] = [WqOther]"
proof -
  let ?tr = "[EvWq () (Some WqOther), EvUnit (WqForget WqOther) (), EvUnit (WqDone WqOther) (), EvWq () None]"
  have "runs (snap_runWorker ex_G slash_keys 2) ?tr (Val False)"
    by (simp add: snap_runWorker_def snap_processNextWorkItem_def process_next_def process_item_def callUnit_def
        numeral_2_eq_2)
  then have "given_back ?tr = taken ?tr" by (intro workers_balanced) blast
  then show ?thesis by simp
qed

end
